(* ===== verification/Prelude.thy ===== *)
theory Prelude
  imports Main "HOL-Library.Word" "HOL-Library.Monad_Syntax"
begin

text \<open>
  Shared vocabulary of the development.

  \<^item> Code that can stop the thread that runs it (a failed \<open>assert\<close>, a dereference of a
    NULL pointer, a blocking call that is never woken) is modelled in the option monad with the
    state passed explicitly: \<open>Some (result, state')\<close> is a normal return, \<open>None\<close> says
    that the call does not return.
  \<^item> \<open>steps\<close> is the reflexive transitive closure of a step relation and the locale
    \<open>transition_system\<close> turns the usual pair of facts (the start state satisfies the
    invariant, every step keeps it) into a fact about every reachable state.
  \<^item> the named collections \<open>wifi_simps\<close>, \<open>dev_simps\<close> and \<open>pool_simps\<close> are
    filled by the component theories with the unfolding equations of their small operations.
\<close>

unbundle bit_operations_syntax

named_theorems wifi_simps "unfolding equations of the connection manager's small operations"
named_theorems dev_simps "unfolding equations of the WLAN device's small operations"
named_theorems pool_simps "unfolding equations of the object pool's small operations"

type_synonym u8 = "8 word"
type_synonym u16 = "16 word"
type_synonym u32 = "32 word"

text \<open>\<open>assert(b)\<close>: returns when \<open>b\<close> holds, otherwise the program stops.\<close>

definition assert_that :: "bool \<Rightarrow> unit option" where
  "assert_that b = (if b then Some () else None)"

lemma assert_that_simps [simp]:
  "assert_that True = Some ()"
  "assert_that False = None"
  "assert_that b = Some u \<longleftrightarrow> b"
  "assert_that b = None \<longleftrightarrow> \<not> b"
  by (auto simp: assert_that_def)

lemma bind_assert_that [simp]:
  "Option.bind (assert_that b) f = (if b then f () else None)"
  by (simp add: assert_that_def)

lemmas bind_Some_iff = Option.bind_eq_Some_conv

subsection \<open>Postconditions of partial operations\<close>

text \<open>\<open>post m Q\<close>: if \<open>m\<close> returns, its result satisfies \<open>Q\<close>. The equations push a
  postcondition through the option monad, so that a chain of operations is proved step by step.\<close>

definition post :: "'a option \<Rightarrow> ('a \<Rightarrow> bool) \<Rightarrow> bool" where
  "post m Q \<longleftrightarrow> (\<forall>x. m = Some x \<longrightarrow> Q x)"

lemma post_simps [simp]:
  "post None Q" "post (Some x) Q = Q x"
  "post (Option.bind n f) Q = post n (\<lambda>x. post (f x) Q)"
  "post (map_option g k) Q = post k (\<lambda>x. Q (g x))"
  "post (if b then m else m') Q = ((b \<longrightarrow> post m Q) \<and> (\<not> b \<longrightarrow> post m' Q))"
  by (auto simp: post_def bind_Some_iff)

lemma postD: "post m Q \<Longrightarrow> m = Some x \<Longrightarrow> Q x"
  by (simp add: post_def)

lemma post_pairD: "post m (\<lambda>(r, u). Q r u) \<Longrightarrow> m = Some (r, u) \<Longrightarrow> Q r u"
  by (simp add: post_def)

lemma post_mono: "post m P \<Longrightarrow> (\<And>x. P x \<Longrightarrow> Q x) \<Longrightarrow> post m Q"
  by (simp add: post_def)

lemma post_any: "(\<And>x. Q x) \<Longrightarrow> post m Q" by (simp add: post_def)

lemma post_if: "(b \<Longrightarrow> post m Q) \<Longrightarrow> (\<not> b \<Longrightarrow> post m' Q) \<Longrightarrow> post (if b then m else m') Q"
  by simp

subsection \<open>Step relations\<close>

inductive steps :: "('s \<Rightarrow> 's \<Rightarrow> bool) \<Rightarrow> 's \<Rightarrow> 's \<Rightarrow> bool" for R where
  steps_refl [simp, intro]: "steps R s s"
| steps_step: "steps R s t \<Longrightarrow> R t u \<Longrightarrow> steps R s u"

lemma steps_one [intro]: "R s t \<Longrightarrow> steps R s t"
  by (blast intro: steps_step)

lemma steps_trans: "steps R t u \<Longrightarrow> steps R s t \<Longrightarrow> steps R s u"
  by (induction rule: steps.induct) (auto intro: steps_step)

lemma steps_preserve:
  assumes "steps R s t" and "P s" and "\<And>x y. R x y \<Longrightarrow> P x \<Longrightarrow> P y"
  shows "P t"
  using assms by (induction rule: steps.induct) auto

lemma steps_frame:
  assumes "steps R s t" and "\<And>x y. R x y \<Longrightarrow> f y = f x"
  shows "f t = f s"
  using assms by (induction rule: steps.induct) auto

locale transition_system =
  fixes start :: "'s \<Rightarrow> bool"
    and step :: "'s \<Rightarrow> 's \<Rightarrow> bool"
    and inv :: "'s \<Rightarrow> bool"
  assumes start_inv: "start s \<Longrightarrow> inv s"
    and step_inv: "step s t \<Longrightarrow> inv s \<Longrightarrow> inv t"
begin

lemma reachable_inv: "start s \<Longrightarrow> steps step s t \<Longrightarrow> inv t"
  by (erule steps_preserve) (auto intro: start_inv step_inv)

lemma steps_inv: "inv s \<Longrightarrow> steps step s t \<Longrightarrow> inv t"
  by (erule steps_preserve) (auto intro: step_inv)

end

subsection \<open>Writing into a block of memory\<close>

text \<open>
  \<open>write_at off xs mem\<close> is \<open>memcpy(mem + off, xs, length xs)\<close>; a copy that does not fit
  into the block is an out-of-bounds write and does not return normally.
\<close>

definition write_at :: "nat \<Rightarrow> 'a list \<Rightarrow> 'a list \<Rightarrow> 'a list option" where
  "write_at off xs mem =
     (if off + length xs \<le> length mem
      then Some (take off mem @ xs @ drop (off + length xs) mem) else None)"

definition read_at :: "nat \<Rightarrow> nat \<Rightarrow> 'a list \<Rightarrow> 'a list option" where
  "read_at off n mem = (if off + n \<le> length mem then Some (take n (drop off mem)) else None)"

lemma write_at_Some: "off + length xs \<le> length mem \<Longrightarrow>
    write_at off xs mem = Some (take off mem @ xs @ drop (off + length xs) mem)"
  by (simp add: write_at_def)

lemma length_write_at: "write_at off xs mem = Some mem' \<Longrightarrow> length mem' = length mem"
  by (auto simp: write_at_def split: if_splits)

lemma read_at_write_at_same:
  "write_at off xs mem = Some mem' \<Longrightarrow> n = length xs \<Longrightarrow> read_at off n mem' = Some xs"
  by (auto simp: write_at_def read_at_def split: if_splits)

lemma read_at_write_at_before:
  assumes "write_at off xs mem = Some mem'" and "o' + n \<le> off"
  shows "read_at o' n mem' = read_at o' n mem"
  using assms by (auto simp: write_at_def read_at_def drop_take split: if_splits)

end
