(* ===== verification/MsgQueue.thy ===== *)
theory MsgQueue
  imports Prelude
begin

text \<open>
  POSIX message queues (\<open>mq_open\<close>, \<open>mq_send\<close>, \<open>mq_receive\<close>, \<open>mq_getattr\<close>)
  as the connection manager (\<open>src/slwificonn.c\<close>) and the WLAN device
  (\<open>src/drivers/network/wlan/cc3220sf/cc3220sf.c\<close>) use them: a bounded FIFO of messages of one
  priority. \<open>mq_send\<close> on a full queue blocks, unless the queue is non-blocking, where it fails
  and leaves the queue as it was. The locale \<open>bounded_fifo\<close> states the contract the clients
  rely on and is interpreted on the model of the queue.
\<close>

record 'a mq =
  mq_maxmsg :: nat
  mq_msgs :: "'a list"

definition mq_open :: "nat \<Rightarrow> 'a mq" where
  "mq_open n = \<lparr>mq_maxmsg = n, mq_msgs = []\<rparr>"

definition mq_curmsgs :: "'a mq \<Rightarrow> nat" where
  "mq_curmsgs q = length (mq_msgs q)"

definition mq_full :: "'a mq \<Rightarrow> bool" where
  "mq_full q \<longleftrightarrow> mq_maxmsg q \<le> length (mq_msgs q)"

definition mq_send :: "'a \<Rightarrow> 'a mq \<Rightarrow> 'a mq option" where
  "mq_send m q = (if mq_full q then None else Some (q\<lparr>mq_msgs := mq_msgs q @ [m]\<rparr>))"

definition mq_send_nonblock :: "'a \<Rightarrow> 'a mq \<Rightarrow> 'a mq" where
  "mq_send_nonblock m q = (case mq_send m q of None \<Rightarrow> q | Some q' \<Rightarrow> q')"

definition mq_receive :: "'a mq \<Rightarrow> ('a \<times> 'a mq) option" where
  "mq_receive q = (case mq_msgs q of [] \<Rightarrow> None | m # ms \<Rightarrow> Some (m, q\<lparr>mq_msgs := ms\<rparr>))"

definition mq_ok :: "'a mq \<Rightarrow> bool" where
  "mq_ok q \<longleftrightarrow> length (mq_msgs q) \<le> mq_maxmsg q"

locale bounded_fifo =
  fixes send :: "'a \<Rightarrow> 'q \<Rightarrow> 'q option"
    and recv :: "'q \<Rightarrow> ('a \<times> 'q) option"
    and msgs :: "'q \<Rightarrow> 'a list"
    and cap :: "'q \<Rightarrow> nat"
  assumes send_None: "send m q = None \<longleftrightarrow> cap q \<le> length (msgs q)"
    and send_Some: "send m q = Some q' \<Longrightarrow> msgs q' = msgs q @ [m]"
    and send_cap: "send m q = Some q' \<Longrightarrow> cap q' = cap q"
    and recv_None: "recv q = None \<longleftrightarrow> msgs q = []"
    and recv_Some: "recv q = Some (m, q') \<Longrightarrow> msgs q = m # msgs q'"
    and recv_cap: "recv q = Some (m, q') \<Longrightarrow> cap q' = cap q"
begin

lemma send_bounded:
  "send m q = Some q' \<Longrightarrow> length (msgs q') \<le> cap q'"
  using send_None [of m q] send_Some [of m q q'] send_cap [of m q q'] by fastforce

lemma recv_length: "recv q = Some (m, q') \<Longrightarrow> length (msgs q) = Suc (length (msgs q'))"
  by (simp add: recv_Some)

text \<open>A message sent to an empty queue is the next one received; a message sent behind others
  does not change which one is received next.\<close>

lemma recv_after_send_empty:
  assumes "send m q = Some q'" and "msgs q = []"
  shows "\<exists>q''. recv q' = Some (m, q'') \<and> msgs q'' = []"
proof -
  have q': "msgs q' = [m]" using send_Some [OF assms(1)] assms(2) by simp
  then obtain x q'' where r: "recv q' = Some (x, q'')"
    using recv_None [of q'] by (cases "recv q'") auto
  with recv_Some [OF r] q' show ?thesis by auto
qed

lemma recv_after_send:
  assumes "send m q = Some q'" and "recv q = Some (x, r)"
  shows "\<exists>r'. recv q' = Some (x, r') \<and> msgs r' = msgs r @ [m]"
proof -
  have q': "msgs q' = x # msgs r @ [m]"
    using send_Some [OF assms(1)] recv_Some [OF assms(2)] by simp
  then obtain y r' where r': "recv q' = Some (y, r')"
    using recv_None [of q'] by (cases "recv q'") auto
  with recv_Some [OF r'] q' show ?thesis by auto
qed

end

interpretation mqi: bounded_fifo mq_send mq_receive mq_msgs mq_maxmsg
  by unfold_locales
    (auto simp: mq_send_def mq_receive_def mq_full_def split: if_splits list.splits)

lemma mq_ok_open [simp]: "mq_ok (mq_open n)"
  by (simp add: mq_ok_def mq_open_def)

lemma mq_ok_send: "mq_send m q = Some q' \<Longrightarrow> mq_ok q'"
  unfolding mq_ok_def by (rule mqi.send_bounded)

lemma mq_ok_send_nonblock: "mq_ok q \<Longrightarrow> mq_ok (mq_send_nonblock m q)"
  by (auto simp: mq_send_nonblock_def split: option.splits intro: mq_ok_send)

lemma mq_ok_receive: "mq_receive q = Some (m, q') \<Longrightarrow> mq_ok q \<Longrightarrow> mq_ok q'"
  unfolding mq_ok_def using mqi.recv_length mqi.recv_cap by fastforce

end
