(* ===== verification/WifiTypes.thy ===== *)
theory WifiTypes
  imports MsgQueue
begin

text \<open>
  The connection manager \<open>SlWifiConn\<close> (\<open>src/slwificonn.c\<close>, \<open>src/slwificonn.h\<close>):
  its states, events and context, the interface to the SimpleLink SDK it calls, and the operations
  on its lock, timer and queues that everything else is built from.

  The SDK is not part of the repository, so it is a parameter: the record \<open>sdk\<close> holds the
  values of the constants the code names and, for each SDK call whose result the code looks at, a
  function from the history of all calls made so far to that result. Results may therefore depend
  on everything that happened before; nothing is assumed about them except where a theorem says so.
\<close>

subsection \<open>States, events and settings\<close>

datatype slstate =
    SLWIFICONN_STATE_OFF | SLWIFICONN_STATE_IDLE | SLWIFICONN_STATE_WAIT_FOR_CONN
  | SLWIFICONN_STATE_WAIT_FOR_IP | SLWIFICONN_STATE_CONNECTED | SLWIFICONN_STATE_PROVISIONING
  | SLWIFICONN_STATE_PROV_STOPPING | SLWIFICONN_STATE_EXT_PROVISIONING | SLWIFICONN_STATE_MAX

datatype slevent =
    SLWIFICONN_EVENT_ENABLE | SLWIFICONN_EVENT_DISABLE | SLWIFICONN_EVENT_CONNECTED
  | SLWIFICONN_EVENT_DISCONNECT | SLWIFICONN_EVENT_IP_ACQUIRED | SLWIFICONN_EVENT_IP_LOST
  | SLWIFICONN_EVENT_PROV_SUCCESS | SLWIFICONN_EVENT_PROV_STOPPED
  | SLWIFICONN_EVENT_PROV_EXT_CONFIG_READY | SLWIFICONN_EVENT_PROV_CLOUD_CONFIRM_READY
  | SLWIFICONN_EVENT_ENABLE_PROVISIONING | SLWIFICONN_EVENT_ADD_PROFILE
  | SLWIFICONN_EVENT_EXT_PROV_COMPLETED | SLWIFICONN_EVENT_TIMEOUT | SLWIFICONN_EVENT_ERROR
  | SLWIFICONN_EVENT_RESET_REQUEST | SLWIFICONN_EVENT_DESTROY | SLWIFICONN_EVENT_MAX

datatype prov_mode = WifiProvMode_OFF | WifiProvMode_ONE_SHOT | WifiProvMode_ON

datatype prov_status = WifiProvStatus_SUCCEED | WifiProvStatus_FAILED | WifiProvStatus_STOPPED

datatype app_event =
    WifiConnEvent_POWERED_UP | WifiConnEvent_POWERED_DOWN
  | WifiConnEvent_PROVISIONING_STARTED u8 | WifiConnEvent_PROVISIONING_STOPPED prov_status
  | WifiConnEvent_EXTERNAL_PROVISIONING_START_REQ | WifiConnEvent_EXTERNAL_PROVISIONING_STOP_REQ
  | WifiConnEvent_CLOUD_CONFIRMATION_START_REQ | WifiConnEvent_CLOUD_CONFIRMATION_STOP_REQ
  | WifiConnEvent_STATS_PAUSE | WifiConnEvent_STATS_RESUME
  | WifiConnEvent_STATS_RESULT "u8 list" int int

datatype netif_event = SLNETIF_DISCONNECT | SLNETIF_MAC_CONNECT | SLNETIF_IP_AQUIRED

record settings =
  connectTimeout :: u16
  ipTimeout :: u16
  reconnectTimeout :: u16
  provisioningTimeout :: u16
  idleMinInterval :: u16
  idleMaxInterval :: u16
  provisioningAP_ssid :: "string option"
  provisioningAP_secType :: u8
  provisioningAP_password :: "string option"
  provisioningSC_key :: "string option"

text \<open>
  A profile is one block from \<open>malloc\<close>: the struct and, behind it, the bytes of the SSID, key,
  user and anonymous user (\<open>p_tail\<close>; \<open>None\<close> is a byte that was never written). The
  pointers of the struct into that tail are kept as offsets.
\<close>

record profile =
  p_ssidLen :: u8
  p_bSetBssid :: bool
  p_bssid :: "u8 list"
  p_secType :: int
  p_KeyLen :: u8
  p_UserLen :: u8
  p_AnonUserLen :: u8
  p_priority :: u8
  p_tail :: "u8 option list"

type_synonym deferred = "slevent \<times> profile option"

subsection \<open>The calls out of the module\<close>

datatype sl_call =
    C_sl_Stop | C_sl_Start | C_sleep nat | C_sl_WlanDisconnect | C_sl_WlanConnect profile
  | C_sl_WlanProfileAdd profile | C_sl_WlanProfileAdd_direct | C_sl_WlanProfileDel_all
  | C_sl_WlanProfileGet nat | C_sl_WlanPolicyGet
  | C_sl_WlanPolicySet_conn u8 bool | C_sl_WlanPolicySet_PM_LOW_LATENCY | C_sl_WlanSetMode int
  | C_sl_WlanSet_AP_SSID string | C_sl_WlanSet_AP_SECURITY u8 | C_sl_WlanSet_AP_PASSWORD string
  | C_sl_WlanProvisioning_start u8 int u16 "string option" u8 | C_sl_WlanProvisioning_stop
  | C_sl_NetCfgGet_sta_addr_mode | C_malloc | C_uninitialised_local
  | C_sl_DeviceStatStart | C_sl_DeviceStatGet | C_sl_DeviceStatStop
  | C_register_handlers | C_unregister_handlers
  | C_NotifyNetIf netif_event | C_NotifyWifiApp app_event

subsection \<open>The module's context\<close>

text \<open>
  \<open>SlWifiConn_t\<close> and the module's globals in one record. \<open>w_initialized\<close> is
  \<open>g_ctx != NULL\<close>; \<open>w_smReg\<close> says which entries of \<open>g_fWifiSM\<close> are set (each
  entry has only one possible value); \<open>w_csLock\<close> is the value of the semaphore
  \<open>g_csLock\<close>; \<open>w_timer\<close> is the time in seconds the timer was last set to, 0 when it is
  disarmed; \<open>w_log\<close> is the history of the calls made, newest first.
\<close>

record wifi =
  w_initialized :: bool
  w_state :: slstate
  w_eventQ :: "slevent mq"
  w_DeferredEventQ :: "deferred mq"
  w_timer :: u32
  w_hasAppCB :: bool
  w_role :: u8
  w_provMode :: prov_mode
  w_provCmd :: u8
  w_provFlags :: u8
  w_bDeleteAllProfiles :: bool
  w_idleInterval :: u16
  w_connectionSSID :: "u8 list"
  w_connectionBSSID :: "u8 list"
  w_IpAcquiredV4 :: "u32 \<times> u32 \<times> u32"
  w_IpAcquiredV6 :: "u8 list"
  w_pNonPersistentProfile :: "profile option"
  w_bWlanConnectUsed :: bool
  w_disabledPolicy :: u8
  w_enabledPolicy :: u8
  w_bStatsEnabled :: bool
  w_statsInterval :: u16
  w_fatalErrorCount :: u8
  w_recoveryDelayLevel :: u8
  w_settings :: settings
  w_smReg :: "slstate \<Rightarrow> bool"
  w_enterProvReg :: bool
  w_provStatusReg :: bool
  w_hasNetIfCB :: bool
  w_ifId :: u16
  w_profileCount :: int
  w_csLock :: nat
  w_log :: "sl_call list"

record sdk =
  ROLE_STA :: int
  ROLE_AP :: int
  SL_RET_CODE_PROVISIONING_IN_PROGRESS :: int
  SL_RET_OBJ_NOT_SET :: int
  SLNETERR_API_ABORTED :: int
  SLNETERR_RET_CODE_DEV_ALREADY_STARTED :: int
  SLNETERR_BSD_EINVAL :: int
  SLNETERR_BSD_ENOMEM :: int
  SLNETERR_BSD_CONNECTION_PENDING :: int
  SLNETERR_WLAN_INVALID_ROLE :: int
  SLNETERR_RET_CODE_MALLOC_ERROR :: int
  SLNETERR_RET_CODE_INVALID_INPUT :: int
  SL_WLAN_SEC_TYPE_OPEN :: int
  SL_WLAN_SEC_TYPE_WPA_ENT :: int
  PROV_START_MODE_APSC_EXTERNAL_CONFIGURATION :: u8
  PROV_FLAG_EXTERNAL_CONFIRMATION :: u8
  SL_WLAN_CONNECTION_POLICY :: "bool \<Rightarrow> bool \<Rightarrow> bool \<Rightarrow> bool \<Rightarrow> u8"
  WIFI_STATS :: bool
  sl_Stop_ret :: "sl_call list \<Rightarrow> int"
  sl_Start_ret :: "sl_call list \<Rightarrow> int"
  sl_WlanDisconnect_ret :: "sl_call list \<Rightarrow> int"
  sl_WlanConnect_ret :: "sl_call list \<Rightarrow> int"
  sl_WlanProfileAdd_ret :: "sl_call list \<Rightarrow> int"
  sl_WlanProfileDel_ret :: "sl_call list \<Rightarrow> int"
  sl_WlanProfileGet_ret :: "sl_call list \<Rightarrow> int"
  sl_WlanPolicyGet_ret :: "sl_call list \<Rightarrow> int \<times> u8"
  sl_WlanPolicySet_ret :: "sl_call list \<Rightarrow> int"
  sl_WlanProvisioning_ret :: "sl_call list \<Rightarrow> int"
  sl_NetCfgGet_ret :: "sl_call list \<Rightarrow> int \<times> bool \<times> u32"
  sl_DeviceStatStart_ret :: "sl_call list \<Rightarrow> int"
  sl_DeviceStatGet_ret :: "sl_call list \<Rightarrow> int \<times> int \<times> int"
  malloc_ok :: "sl_call list \<Rightarrow> bool"
  uninitialised_local :: "sl_call list \<Rightarrow> int"
  interference :: "sl_call list \<Rightarrow> wifi \<Rightarrow> wifi"

text \<open>The start value of \<open>g_settings\<close>.\<close>

definition g_settings_default :: "sdk \<Rightarrow> settings" where
  "g_settings_default E = \<lparr>connectTimeout = 3, ipTimeout = 6, reconnectTimeout = 60,
     provisioningTimeout = 300, idleMinInterval = 20, idleMaxInterval = 120,
     provisioningAP_ssid = None, provisioningAP_secType = word_of_int (SL_WLAN_SEC_TYPE_OPEN E),
     provisioningAP_password = None, provisioningSC_key = None\<rparr>"

definition g_recoveryDelays :: "u8 list" where
  "g_recoveryDelays = [2, 5, 10, 20, 30]"

definition MAX_RECOVERY_LEVEL :: nat where
  "MAX_RECOVERY_LEVEL = length g_recoveryDelays - 1"

abbreviation SLWIFICONN_PROV_CMD_EXTERNAL_CONFIGURATION :: u8 where
  "SLWIFICONN_PROV_CMD_EXTERNAL_CONFIGURATION \<equiv> 10"

subsection \<open>Calls, lock, timer, queues and state\<close>

definition call :: "sl_call \<Rightarrow> wifi \<Rightarrow> wifi" where
  "call c s = s\<lparr>w_log := c # w_log s\<rparr>"

text \<open>\<open>sem_wait\<close> and \<open>sem_post\<close> on \<open>g_csLock\<close>; waiting on 0 blocks.\<close>

definition CRITICAL_SECTION_ENTER :: "wifi \<Rightarrow> wifi option" where
  "CRITICAL_SECTION_ENTER s =
     (case w_csLock s of 0 \<Rightarrow> None | Suc n \<Rightarrow> Some (s\<lparr>w_csLock := n\<rparr>))"

definition CRITICAL_SECTION_EXIT :: "wifi \<Rightarrow> wifi" where
  "CRITICAL_SECTION_EXIT s = s\<lparr>w_csLock := Suc (w_csLock s)\<rparr>"

definition StartAsyncEvtTimer :: "u32 \<Rightarrow> wifi \<Rightarrow> wifi" where
  "StartAsyncEvtTimer duration s = s\<lparr>w_timer := duration\<rparr>"

definition StopAsyncEvtTimer :: "wifi \<Rightarrow> wifi" where
  "StopAsyncEvtTimer s = s\<lparr>w_timer := 0\<rparr>"

definition SetState :: "slstate \<Rightarrow> wifi \<Rightarrow> wifi" where
  "SetState st s = (if st \<noteq> SLWIFICONN_STATE_MAX then s\<lparr>w_state := st\<rparr> else s)"

text \<open>\<open>SignalEvent\<close> is \<open>None\<close> while the event queue is full: \<open>mq_send\<close> blocks.\<close>

definition SignalEvent :: "sdk \<Rightarrow> slevent \<Rightarrow> wifi \<Rightarrow> (int \<times> wifi) option" where
  "SignalEvent E event s =
     (if \<not> w_initialized s then Some (SLNETERR_API_ABORTED E, s)
      else if event \<noteq> SLWIFICONN_EVENT_MAX
           then do { q \<leftarrow> mq_send event (w_eventQ s); Some (0, s\<lparr>w_eventQ := q\<rparr>) }
           else Some (SLNETERR_BSD_EINVAL E, s))"

text \<open>
  Both notifications release the lock around the callback. The callback, and any other thread that
  gets the lock meanwhile, may call the module's API: that is \<open>interference\<close>, a parameter; the
  hypothesis \<open>interf_api\<close> of theory \<open>WifiApi\<close> says that it only acts through the API.
\<close>

definition notify_window :: "sdk \<Rightarrow> sl_call \<Rightarrow> wifi \<Rightarrow> wifi option" where
  "notify_window E c s =
     (let s1 = call c (CRITICAL_SECTION_EXIT s)
      in CRITICAL_SECTION_ENTER (interference E (w_log s1) s1))"

definition NotifyNetIf :: "sdk \<Rightarrow> netif_event \<Rightarrow> wifi \<Rightarrow> wifi option" where
  "NotifyNetIf E ev s =
     (if w_hasNetIfCB s then notify_window E (C_NotifyNetIf ev) s else Some s)"

definition NotifyWifiApp :: "sdk \<Rightarrow> app_event \<Rightarrow> wifi \<Rightarrow> wifi option" where
  "NotifyWifiApp E ev s =
     (if w_hasAppCB s then notify_window E (C_NotifyWifiApp ev) s else Some s)"

definition NotifyProvisioningStatus :: "sdk \<Rightarrow> prov_status \<Rightarrow> wifi \<Rightarrow> wifi option" where
  "NotifyProvisioningStatus E status s =
     NotifyWifiApp E (WifiConnEvent_PROVISIONING_STOPPED status) s"

declare call_def [wifi_simps] CRITICAL_SECTION_EXIT_def [wifi_simps]
  StartAsyncEvtTimer_def [wifi_simps] StopAsyncEvtTimer_def [wifi_simps] SetState_def [wifi_simps]

end
