(* ===== verification/WifiOps.thy ===== *)
theory WifiOps
  imports WifiTypes
begin

text \<open>
  The operations of the connection manager below its state handlers (\<open>src/slwificonn.c\<close>):
  deferred events, the non-persistent profile, connection policies, the reset of the network
  processor with its backoff, role changes, and the functions that enter a state.
\<close>

subsection \<open>Deferred events\<close>

definition DeferredEvent_enqueue :: "slevent \<Rightarrow> profile option \<Rightarrow> wifi \<Rightarrow> (int \<times> wifi) option" where
  "DeferredEvent_enqueue event pParams s = do {
     q \<leftarrow> mq_send (event, pParams) (w_DeferredEventQ s);
     Some (0, s\<lparr>w_DeferredEventQ := q\<rparr>) }"

definition DeferredEvent_dequeue :: "wifi \<Rightarrow> int \<times> deferred option \<times> wifi" where
  "DeferredEvent_dequeue s =
     (case mq_receive (w_DeferredEventQ s) of
        Some (m, q) \<Rightarrow> (int (mq_curmsgs (w_DeferredEventQ s)) - 1, Some m, s\<lparr>w_DeferredEventQ := q\<rparr>)
      | None \<Rightarrow> (-1, None, s))"

definition sl_WlanProfileAdd_deferred :: "slevent \<Rightarrow> profile option \<Rightarrow> wifi \<Rightarrow> wifi" where
  "sl_WlanProfileAdd_deferred event pParams s =
     (if event = SLWIFICONN_EVENT_ADD_PROFILE
      then (case pParams of Some pProf \<Rightarrow> call (C_sl_WlanProfileAdd pProf) s | None \<Rightarrow> s)
      else s)"

lemma SignalEvent_deferredQ:
  "SignalEvent E ev s = Some (r, s') \<Longrightarrow> w_DeferredEventQ s' = w_DeferredEventQ s"
  by (auto simp: SignalEvent_def bind_Some_iff split: if_splits)

function DeferredEvent_loop :: "sdk \<Rightarrow> int \<Rightarrow> wifi \<Rightarrow> (int \<times> wifi) option" where
  "DeferredEvent_loop E retVal s =
     (case DeferredEvent_dequeue s of
        (_, None, _) \<Rightarrow> Some (retVal, s)
      | (_, Some (event, pParams), s1) \<Rightarrow>
          (case SignalEvent E event (sl_WlanProfileAdd_deferred event pParams s1) of
             None \<Rightarrow> None
           | Some (r, s2) \<Rightarrow> if r = 0 then DeferredEvent_loop E r s2 else None))"
  by pat_completeness auto
termination
  by (relation "measure (\<lambda>(E, r, s). length (mq_msgs (w_DeferredEventQ s)))")
    (auto simp: DeferredEvent_dequeue_def sl_WlanProfileAdd_deferred_def call_def
      dest!: SignalEvent_deferredQ mqi.recv_length split: option.splits if_splits)

declare DeferredEvent_loop.simps [simp del]

definition DeferredEvent_process :: "sdk \<Rightarrow> wifi \<Rightarrow> (int \<times> wifi) option" where
  "DeferredEvent_process E s = DeferredEvent_loop E (SL_RET_OBJ_NOT_SET E) s"

subsection \<open>The network processor\<close>

definition NonPersistentProfile_process :: "sdk \<Rightarrow> bool \<Rightarrow> wifi \<Rightarrow> int \<times> wifi" where
  "NonPersistentProfile_process E bWlanDisconnect s =
     (if bWlanDisconnect
      then (sl_WlanDisconnect_ret E (w_log s),
            (call C_sl_WlanDisconnect s)\<lparr>w_bWlanConnectUsed := False\<rparr>)
      else (case w_pNonPersistentProfile s of
              None \<Rightarrow> (0, s)
            | Some pProf \<Rightarrow>
                (sl_WlanConnect_ret E (w_log s),
                 (call (C_sl_WlanConnect pProf) s)\<lparr>w_bWlanConnectUsed := True\<rparr>)))"

definition InitNWPConnPolicy :: "sdk \<Rightarrow> wifi \<Rightarrow> int \<times> wifi" where
  "InitNWPConnPolicy E s =
     (let (retVal, policy) = sl_WlanPolicyGet_ret E (w_log s);
          s1 = call C_sl_WlanPolicyGet s
      in (retVal,
          if retVal = 0
          then s1\<lparr>w_enabledPolicy := (policy OR SL_WLAN_CONNECTION_POLICY E True False False False)
                      AND NOT (SL_WLAN_CONNECTION_POLICY E False False False True),
                  w_disabledPolicy := policy
                      AND NOT (SL_WLAN_CONNECTION_POLICY E True True False True)\<rparr>
          else s1))"

definition SuspendNWP :: "sdk \<Rightarrow> bool \<Rightarrow> wifi \<Rightarrow> (int \<times> wifi) option" where
  "SuspendNWP E bNotify s =
     (let retVal = sl_WlanPolicySet_ret E (w_log s);
          s1 = call (C_sl_WlanPolicySet_conn (w_disabledPolicy s) True) s
      in if retVal = 0 \<and> bNotify
         then do { s2 \<leftarrow> NotifyWifiApp E WifiConnEvent_POWERED_DOWN s1; Some (retVal, s2) }
         else Some (retVal, s1))"

definition ResumeNWP :: "sdk \<Rightarrow> bool \<Rightarrow> wifi \<Rightarrow> (int \<times> wifi) option" where
  "ResumeNWP E bNotify s =
     (let retVal = sl_WlanPolicySet_ret E (w_log s);
          s1 = call (C_sl_WlanPolicySet_conn (w_enabledPolicy s) True) s
      in if retVal \<ge> 0 \<and> bNotify
         then do { s2 \<leftarrow> NotifyWifiApp E WifiConnEvent_POWERED_UP s1; Some (retVal, s2) }
         else Some (retVal, s1))"

text \<open>The error counters and the delay of \<open>ResetNWP\<close>, before it stops the processor; an index
  beyond the table of delays would read out of bounds.\<close>

definition ResetNWP_backoff :: "wifi \<Rightarrow> (nat \<times> wifi) option" where
  "ResetNWP_backoff s =
     (let level = (if unat (w_recoveryDelayLevel s) < MAX_RECOVERY_LEVEL
                   then w_recoveryDelayLevel s + 1 else w_recoveryDelayLevel s);
          s1 = s\<lparr>w_fatalErrorCount := w_fatalErrorCount s + 1, w_recoveryDelayLevel := level\<rparr>
      in if unat level < length g_recoveryDelays
         then Some (unat (g_recoveryDelays ! unat level), s1) else None)"

definition ResetNWP :: "sdk \<Rightarrow> wifi \<Rightarrow> (int \<times> wifi) option" where
  "ResetNWP E s = do {
     (recoveryDelay, s1) \<leftarrow> ResetNWP_backoff s;
     _ \<leftarrow> assert_that (sl_Stop_ret E (w_log s1) = 0);
     let s2 = call (C_sleep recoveryDelay) (call C_sl_Stop s1);
     let retVal = sl_Start_ret E (w_log s2);
     _ \<leftarrow> assert_that (retVal \<ge> 0);
     let s3 = call (C_sleep 2) ((call C_sl_Start s2)\<lparr>w_role := word_of_int retVal\<rparr>);
     let s4 = call C_sl_WlanPolicySet_PM_LOW_LATENCY (snd (InitNWPConnPolicy E s3));
     (_, s5) \<leftarrow> (if w_state s4 = SLWIFICONN_STATE_OFF \<or> w_state s4 = SLWIFICONN_STATE_IDLE
                 then SuspendNWP E False s4 else ResumeNWP E False s4);
     Some (retVal, s5) }"

definition ResetNWPProfileForProvisioning :: "sdk \<Rightarrow> wifi \<Rightarrow> int \<times> wifi" where
  "ResetNWPProfileForProvisioning E s =
     (let s1 = call (C_sleep 2) (call C_sl_Stop s);
          retVal = sl_Start_ret E (w_log s1);
          s2 = call C_sl_Start s1
      in if retVal < 0 then (retVal, s2)
         else
           let s3 = call (C_sleep 1) (call C_sl_Stop (call (C_sl_WlanSetMode (ROLE_AP E)) s2));
               (retVal', s4) = (if ROLE_AP E \<noteq> retVal
                                then (sl_Start_ret E (w_log s3), call C_sl_Start s3)
                                else (retVal, s2))
           in if ROLE_AP E \<noteq> retVal' then (-1, s4)
              else (0, call (C_sleep 1) (call C_sl_Stop
                     (call (C_sl_WlanPolicySet_conn (SL_WLAN_CONNECTION_POLICY E True False False False) False)
                       (call C_sl_WlanProfileDel_all s4)))))"

definition SetRole :: "sdk \<Rightarrow> int \<Rightarrow> wifi \<Rightarrow> (int \<times> wifi) option" where
  "SetRole E role s =
     (if role \<noteq> uint (w_role s)
      then do {
        (r, s1) \<leftarrow> ResetNWP E (call (C_sl_WlanSetMode role) s);
        let s2 = s1\<lparr>w_role := word_of_int r\<rparr>;
        _ \<leftarrow> assert_that (role = uint (w_role s2));
        Some (0, s2) }
      else Some (0, s))"

definition Deinit :: "wifi \<Rightarrow> wifi" where
  "Deinit s = CRITICAL_SECTION_EXIT ((call C_sl_Stop (call C_unregister_handlers s))
     \<lparr>w_initialized := False\<rparr>)"

definition SetApParams :: "sdk \<Rightarrow> wifi \<Rightarrow> (int \<times> wifi) option" where
  "SetApParams E s = do {
     let g = w_settings s;
     let s1 = (case provisioningAP_ssid g of
                 Some ssid \<Rightarrow> call (C_sl_WlanSet_AP_SSID ssid) s | None \<Rightarrow> s);
     let s2 = call (C_sl_WlanSet_AP_SECURITY (provisioningAP_secType g)) s1;
     s3 \<leftarrow> (if uint (provisioningAP_secType g) \<noteq> SL_WLAN_SEC_TYPE_OPEN E
            then (case provisioningAP_password g of
                    None \<Rightarrow> None
                  | Some pw \<Rightarrow> Some (call (C_sl_WlanSet_AP_PASSWORD pw) s2))
            else Some s2);
     s4 \<leftarrow> (if ROLE_AP E = uint (w_role s3)
            then do { (r, s') \<leftarrow> ResetNWP E s3; Some (s'\<lparr>w_role := word_of_int r\<rparr>) }
            else Some s3);
     Some (0, s4) }"

subsection \<open>Entering a state\<close>

definition EnterIDLE :: "sdk \<Rightarrow> wifi \<Rightarrow> wifi option" where
  "EnterIDLE E s = do {
     (_, s1) \<leftarrow> SuspendNWP E True s;
     let s2 = StartAsyncEvtTimer (ucast (w_idleInterval s1)) s1;
     let s3 = s2\<lparr>w_idleInterval := w_idleInterval s2 * 2\<rparr>;
     let s4 = (if w_idleInterval s3 > idleMaxInterval (w_settings s3)
               then s3\<lparr>w_idleInterval := idleMaxInterval (w_settings s3)\<rparr> else s3);
     Some (SetState SLWIFICONN_STATE_IDLE s4) }"

definition EnterWAIT_FOR_CONN :: "sdk \<Rightarrow> u16 \<Rightarrow> bool \<Rightarrow> wifi \<Rightarrow> wifi option" where
  "EnterWAIT_FOR_CONN E timeout bWlanDisconnect s = do {
     (_, s1) \<leftarrow> DeferredEvent_process E s;
     let s2 = snd (NonPersistentProfile_process E bWlanDisconnect s1);
     Some (SetState SLWIFICONN_STATE_WAIT_FOR_CONN (StartAsyncEvtTimer (ucast timeout) s2)) }"

text \<open>\<open>EnterCONNECTED\<close> clears the error counters, then tells the network interface.\<close>

definition clear_errors :: "wifi \<Rightarrow> wifi" where
  "clear_errors s =
     (if w_fatalErrorCount s > 0
      then s\<lparr>w_fatalErrorCount := 0, w_recoveryDelayLevel := 0\<rparr> else s)"

definition EnterCONNECTED :: "sdk \<Rightarrow> bool \<Rightarrow> wifi \<Rightarrow> wifi option" where
  "EnterCONNECTED E bNotify s = do {
     let s1 = clear_errors (StopAsyncEvtTimer s);
     s2 \<leftarrow> (if bNotify then NotifyNetIf E SLNETIF_IP_AQUIRED s1 else Some s1);
     let s3 = s2\<lparr>w_idleInterval := idleMinInterval (w_settings s2)\<rparr>;
     let s4 = (if WIFI_STATS E \<and> w_bStatsEnabled s3 \<and> w_statsInterval s3 > 0
               then StartAsyncEvtTimer (ucast (w_statsInterval s3)) s3 else s3);
     Some (SetState SLWIFICONN_STATE_CONNECTED s4) }"

definition EnterWAIT_FOR_IP :: "sdk \<Rightarrow> wifi \<Rightarrow> wifi option" where
  "EnterWAIT_FOR_IP E s = do {
     s1 \<leftarrow> NotifyNetIf E SLNETIF_MAC_CONNECT s;
     let (retVal, is_static, ip) = sl_NetCfgGet_ret E (w_log s1);
     let s2 = call C_sl_NetCfgGet_sta_addr_mode s1;
     if retVal = 0 \<and> is_static \<and> ip = 0
     then EnterCONNECTED E False s2
     else Some (SetState SLWIFICONN_STATE_WAIT_FOR_IP
                  (StartAsyncEvtTimer (ucast (ipTimeout (w_settings s2))) s2)) }"

text \<open>
  \<open>EnterPROVISIONING\<close> returns its local \<open>retVal\<close>, which the branch for the external
  configuration never sets: the result is then an indeterminate value.
\<close>

definition EnterPROVISIONING :: "sdk \<Rightarrow> wifi \<Rightarrow> (int \<times> wifi) option" where
  "EnterPROVISIONING E s = do {
     let provisioningCmd = w_provCmd s;
     (retVal, s1) \<leftarrow>
       (if w_provCmd s = SLWIFICONN_PROV_CMD_EXTERNAL_CONFIGURATION
        then do {
          s' \<leftarrow> NotifyWifiApp E WifiConnEvent_EXTERNAL_PROVISIONING_START_REQ s;
          Some (uninitialised_local E (w_log s'), SetState SLWIFICONN_STATE_EXT_PROVISIONING s') }
        else do {
          (r0, s') \<leftarrow> SetApParams E s;
          if r0 = 0 then do {
            let g = w_settings s';
            let r = sl_WlanProvisioning_ret E (w_log s');
            let s'' = call (C_sl_WlanProvisioning_start provisioningCmd (ROLE_STA E)
                         (provisioningTimeout g) (provisioningSC_key g) (w_provFlags s')) s';
            _ \<leftarrow> assert_that (r = 0);
            let s3 = SetState SLWIFICONN_STATE_PROVISIONING s'';
            Some (r, if w_provMode s3 = WifiProvMode_ONE_SHOT
                     then s3\<lparr>w_provMode := WifiProvMode_OFF\<rparr> else s3) }
          else Some (r0, s') });
     Some (retVal, StartAsyncEvtTimer (ucast (provisioningTimeout (w_settings s1))) s1) }"

definition EnterPROV_STOPPING :: "sdk \<Rightarrow> slevent \<Rightarrow> profile option \<Rightarrow> wifi \<Rightarrow> (int \<times> wifi) option" where
  "EnterPROV_STOPPING E eventId pParams s = do {
     let s1 = StopAsyncEvtTimer s;
     (r, s2) \<leftarrow> (if eventId \<noteq> SLWIFICONN_EVENT_MAX
                 then DeferredEvent_enqueue eventId pParams s1 else Some (0, s1));
     _ \<leftarrow> assert_that (r = 0);
     let retVal = sl_WlanProvisioning_ret E (w_log s2);
     Some (retVal, SetState SLWIFICONN_STATE_PROV_STOPPING (call C_sl_WlanProvisioning_stop s2)) }"

end
