(* ===== verification/WifiSM.thy ===== *)
theory WifiSM
  imports WifiOps
begin

text \<open>
  The state handlers \<open>smState_*\<close> of the connection manager, the dispatcher \<open>ProcessEvent\<close>
  and one iteration of the thread \<open>SlWifiConn_process\<close> (\<open>src/slwificonn.c\<close>). A handler
  returns the code's return value (negative: the event is not supported in this state) and the new
  context; \<open>None\<close> says that the thread does not get past the handler.
\<close>

definition smState_OFF :: "sdk \<Rightarrow> slevent \<Rightarrow> wifi \<Rightarrow> (int \<times> wifi) option" where
  "smState_OFF E event s =
     (case event of
        SLWIFICONN_EVENT_ENABLE \<Rightarrow> do {
          let s1 = s\<lparr>w_idleInterval := idleMinInterval (w_settings s)\<rparr>;
          (retVal, s2) \<leftarrow>
            (if w_bDeleteAllProfiles s1
             then do {
               let r = sl_WlanProfileDel_ret E (w_log s1);
               let s' = call C_sl_WlanProfileDel_all s1;
               _ \<leftarrow> assert_that (r = 0);
               Some (r, s'\<lparr>w_bDeleteAllProfiles := False\<rparr>) }
             else Some (0, s1));
          (_, s3) \<leftarrow> ResumeNWP E True s2;
          s4 \<leftarrow> EnterWAIT_FOR_CONN E (connectTimeout (w_settings s3)) False s3;
          Some (retVal, s4) }
      | SLWIFICONN_EVENT_DISABLE \<Rightarrow> Some (0, s)
      | SLWIFICONN_EVENT_ENABLE_PROVISIONING \<Rightarrow> Some (0, s)
      | SLWIFICONN_EVENT_ADD_PROFILE \<Rightarrow> Some (0, s)
      | SLWIFICONN_EVENT_DISCONNECT \<Rightarrow> Some (0, s)
      | SLWIFICONN_EVENT_CONNECTED \<Rightarrow> Some (0, s)
      | _ \<Rightarrow> Some (-1, s))"

definition smState_IDLE :: "sdk \<Rightarrow> slevent \<Rightarrow> wifi \<Rightarrow> (int \<times> wifi) option" where
  "smState_IDLE E event s =
     (if event = SLWIFICONN_EVENT_ENABLE_PROVISIONING \<or> event = SLWIFICONN_EVENT_ADD_PROFILE \<or>
         event = SLWIFICONN_EVENT_TIMEOUT
      then do {
        (_, s1) \<leftarrow> ResumeNWP E True s;
        s2 \<leftarrow> EnterWAIT_FOR_CONN E (connectTimeout (w_settings s1)) False s1;
        Some (0, s2) }
      else if event = SLWIFICONN_EVENT_CONNECTED
      then (let s1 = StopAsyncEvtTimer s;
                s2 = StartAsyncEvtTimer (ucast (ipTimeout (w_settings s1))) s1
            in Some (0, SetState SLWIFICONN_STATE_WAIT_FOR_IP s2))
      else Some (-1, s))"

definition smState_WAIT_FOR_CONN :: "sdk \<Rightarrow> slevent \<Rightarrow> wifi \<Rightarrow> (int \<times> wifi) option" where
  "smState_WAIT_FOR_CONN E event s =
     (case event of
        SLWIFICONN_EVENT_ADD_PROFILE \<Rightarrow> do {
          s1 \<leftarrow> EnterWAIT_FOR_CONN E (connectTimeout (w_settings s)) False s; Some (0, s1) }
      | SLWIFICONN_EVENT_CONNECTED \<Rightarrow> do { s1 \<leftarrow> EnterWAIT_FOR_IP E s; Some (0, s1) }
      | SLWIFICONN_EVENT_IP_ACQUIRED \<Rightarrow> do { s1 \<leftarrow> EnterCONNECTED E True s; Some (0, s1) }
      | SLWIFICONN_EVENT_TIMEOUT \<Rightarrow>
          (if w_bWlanConnectUsed s
           then do { s1 \<leftarrow> EnterWAIT_FOR_CONN E (connectTimeout (w_settings s)) True s; Some (0, s1) }
           else if w_provMode s \<noteq> WifiProvMode_OFF
           then do {
             _ \<leftarrow> assert_that (w_enterProvReg s);
             (retVal, s1) \<leftarrow> EnterPROVISIONING E s;
             if retVal = 0
             then do {
               s2 \<leftarrow> NotifyWifiApp E (WifiConnEvent_PROVISIONING_STARTED (w_provCmd s1)) s1;
               Some (retVal, s2) }
             else Some (retVal, s1) }
           else do { s1 \<leftarrow> EnterIDLE E s; Some (0, s1) })
      | _ \<Rightarrow> Some (-1, s))"

definition smState_WAIT_FOR_IP :: "sdk \<Rightarrow> slevent \<Rightarrow> wifi \<Rightarrow> (int \<times> wifi) option" where
  "smState_WAIT_FOR_IP E event s =
     (case event of
        SLWIFICONN_EVENT_ADD_PROFILE \<Rightarrow> Some (0, s)
      | SLWIFICONN_EVENT_IP_ACQUIRED \<Rightarrow> do { s1 \<leftarrow> EnterCONNECTED E True s; Some (0, s1) }
      | SLWIFICONN_EVENT_TIMEOUT \<Rightarrow> do {
          s1 \<leftarrow> NotifyNetIf E SLNETIF_DISCONNECT (call C_sl_WlanDisconnect s);
          s2 \<leftarrow> EnterWAIT_FOR_CONN E (reconnectTimeout (w_settings s1)) False s1; Some (0, s2) }
      | SLWIFICONN_EVENT_DISCONNECT \<Rightarrow> do {
          s1 \<leftarrow> NotifyNetIf E SLNETIF_DISCONNECT s;
          s2 \<leftarrow> EnterWAIT_FOR_CONN E (reconnectTimeout (w_settings s1)) False s1; Some (0, s2) }
      | _ \<Rightarrow> Some (-1, s))"

subsection \<open>Statistics (\<open>WIFI_STATS\<close> builds)\<close>

definition restart_stats_timer :: "wifi \<Rightarrow> wifi" where
  "restart_stats_timer s =
     (if w_bStatsEnabled s then StartAsyncEvtTimer (ucast (w_statsInterval s)) s else s)"

definition CollectAndNotifyStats :: "sdk \<Rightarrow> wifi \<Rightarrow> (int \<times> wifi) option" where
  "CollectAndNotifyStats E s =
     (if w_state s \<noteq> SLWIFICONN_STATE_CONNECTED then Some (-1, restart_stats_timer s)
      else do {
        s0 \<leftarrow> NotifyWifiApp E WifiConnEvent_STATS_PAUSE s;
        let s1 = call (C_sleep 1) s0;
        if w_state s1 \<noteq> SLWIFICONN_STATE_CONNECTED
        then do { s2 \<leftarrow> NotifyWifiApp E WifiConnEvent_STATS_RESUME s1;
                  Some (-1, restart_stats_timer s2) }
        else do {
          let ret = sl_DeviceStatStart_ret E (w_log s1);
          let s2 = call C_sl_DeviceStatStart s1;
          if ret < 0
          then do { s3 \<leftarrow> NotifyWifiApp E WifiConnEvent_STATS_RESUME s2;
                    Some (ret, restart_stats_timer s3) }
          else do {
            let s3 = call (C_sleep 5) s2;
            let (ret2, mgmt, data) = sl_DeviceStatGet_ret E (w_log s3);
            let s4 = call C_sl_DeviceStatStop (call C_sl_DeviceStatGet s3);
            s5 \<leftarrow> NotifyWifiApp E WifiConnEvent_STATS_RESUME s4;
            s6 \<leftarrow> (if ret2 \<ge> 0 \<and> w_state s5 = SLWIFICONN_STATE_CONNECTED
                   then NotifyWifiApp E
                          (WifiConnEvent_STATS_RESULT (w_connectionBSSID s5) mgmt data) s5
                   else Some s5);
            Some (0, if w_bStatsEnabled s6 \<and> w_state s6 = SLWIFICONN_STATE_CONNECTED
                     then StartAsyncEvtTimer (ucast (w_statsInterval s6)) s6 else s6) } } })"

definition stats_stop_timer :: "sdk \<Rightarrow> wifi \<Rightarrow> wifi" where
  "stats_stop_timer E s = (if WIFI_STATS E then StopAsyncEvtTimer s else s)"

definition smState_CONNECTED :: "sdk \<Rightarrow> slevent \<Rightarrow> wifi \<Rightarrow> (int \<times> wifi) option" where
  "smState_CONNECTED E event s =
     (case event of
        SLWIFICONN_EVENT_IP_ACQUIRED \<Rightarrow> Some (0, s)
      | SLWIFICONN_EVENT_ADD_PROFILE \<Rightarrow> Some (0, s)
      | SLWIFICONN_EVENT_DISCONNECT \<Rightarrow> do {
          s1 \<leftarrow> NotifyNetIf E SLNETIF_DISCONNECT (stats_stop_timer E s);
          s2 \<leftarrow> EnterWAIT_FOR_CONN E (reconnectTimeout (w_settings s1)) False s1; Some (0, s2) }
      | SLWIFICONN_EVENT_IP_LOST \<Rightarrow>
          (let s1 = stats_stop_timer E s;
               s2 = StartAsyncEvtTimer (ucast (ipTimeout (w_settings s1))) s1
           in Some (0, SetState SLWIFICONN_STATE_WAIT_FOR_IP s2))
      | SLWIFICONN_EVENT_RESET_REQUEST \<Rightarrow> do {
          s1 \<leftarrow> NotifyNetIf E SLNETIF_DISCONNECT (stats_stop_timer E s);
          (retVal, s2) \<leftarrow> ResetNWP E s1;
          _ \<leftarrow> assert_that (retVal = 0 \<or> retVal = SL_RET_CODE_PROVISIONING_IN_PROGRESS E);
          s3 \<leftarrow> EnterWAIT_FOR_CONN E (reconnectTimeout (w_settings s2)) False s2;
          Some (retVal, s3) }
      | SLWIFICONN_EVENT_TIMEOUT \<Rightarrow>
          (if WIFI_STATS E
           then (if w_bStatsEnabled s
                 then do { (_, s1) \<leftarrow> CollectAndNotifyStats E s; Some (0, s1) }
                 else Some (0, s))
           else Some (-1, s))
      | _ \<Rightarrow> Some (-1, s))"

subsection \<open>Provisioning states\<close>

definition smState_PROVISIONING :: "sdk \<Rightarrow> slevent \<Rightarrow> wifi \<Rightarrow> (int \<times> wifi) option" where
  "smState_PROVISIONING E event s =
     (case event of
        SLWIFICONN_EVENT_PROV_SUCCESS \<Rightarrow>
          Some (0, SetState SLWIFICONN_STATE_PROV_STOPPING (StopAsyncEvtTimer s))
      | SLWIFICONN_EVENT_DISABLE \<Rightarrow> do {
          (_, s1) \<leftarrow> EnterPROV_STOPPING E SLWIFICONN_EVENT_DISABLE None s; Some (0, s1) }
      | SLWIFICONN_EVENT_ADD_PROFILE \<Rightarrow> do {
          (_, s1) \<leftarrow> EnterPROV_STOPPING E SLWIFICONN_EVENT_MAX None s; Some (0, s1) }
      | SLWIFICONN_EVENT_TIMEOUT \<Rightarrow> do {
          (_, s1) \<leftarrow> EnterPROV_STOPPING E SLWIFICONN_EVENT_TIMEOUT None s; Some (0, s1) }
      | SLWIFICONN_EVENT_ERROR \<Rightarrow> do {
          let s0 = (if w_provMode s = WifiProvMode_OFF
                    then s\<lparr>w_provMode := WifiProvMode_ONE_SHOT\<rparr> else s);
          (_, s1) \<leftarrow> EnterPROV_STOPPING E SLWIFICONN_EVENT_ERROR None s0; Some (0, s1) }
      | SLWIFICONN_EVENT_PROV_STOPPED \<Rightarrow> do {
          s1 \<leftarrow> NotifyProvisioningStatus E WifiProvStatus_FAILED (StopAsyncEvtTimer s);
          s2 \<leftarrow> EnterIDLE E s1; Some (0, s2) }
      | SLWIFICONN_EVENT_PROV_EXT_CONFIG_READY \<Rightarrow> do {
          s1 \<leftarrow> NotifyWifiApp E WifiConnEvent_EXTERNAL_PROVISIONING_START_REQ s;
          Some (0, SetState SLWIFICONN_STATE_EXT_PROVISIONING s1) }
      | SLWIFICONN_EVENT_PROV_CLOUD_CONFIRM_READY \<Rightarrow> do {
          s1 \<leftarrow> NotifyWifiApp E WifiConnEvent_CLOUD_CONFIRMATION_START_REQ s;
          Some (0, SetState SLWIFICONN_STATE_EXT_PROVISIONING s1) }
      | _ \<Rightarrow> Some (-1, s))"

definition smState_EXT_PROVISIONING :: "sdk \<Rightarrow> slevent \<Rightarrow> wifi \<Rightarrow> (int \<times> wifi) option" where
  "smState_EXT_PROVISIONING E event s =
     (if event = SLWIFICONN_EVENT_EXT_PROV_COMPLETED \<or> event = SLWIFICONN_EVENT_ADD_PROFILE
      then do {
        (_, s1) \<leftarrow> EnterPROV_STOPPING E SLWIFICONN_EVENT_EXT_PROV_COMPLETED None s; Some (0, s1) }
      else if event = SLWIFICONN_EVENT_TIMEOUT
      then do {
        s1 \<leftarrow> NotifyWifiApp E (if w_provFlags s = PROV_FLAG_EXTERNAL_CONFIRMATION E
                 then WifiConnEvent_CLOUD_CONFIRMATION_STOP_REQ
                 else WifiConnEvent_EXTERNAL_PROVISIONING_STOP_REQ) s;
        s2 \<leftarrow> NotifyProvisioningStatus E WifiProvStatus_FAILED s1;
        (_, s3) \<leftarrow> EnterPROV_STOPPING E SLWIFICONN_EVENT_TIMEOUT None s2; Some (0, s3) }
      else if event = SLWIFICONN_EVENT_RESET_REQUEST
      then do {
        s1 \<leftarrow> NotifyWifiApp E WifiConnEvent_EXTERNAL_PROVISIONING_STOP_REQ s;
        (retVal, s2) \<leftarrow> ResetNWP E s1;
        _ \<leftarrow> assert_that (retVal = 0 \<or> retVal = SL_RET_CODE_PROVISIONING_IN_PROGRESS E);
        Some (retVal, SetState SLWIFICONN_STATE_PROVISIONING s2) }
      else Some (-1, s))"

definition smState_PROV_STOPPING :: "sdk \<Rightarrow> slevent \<Rightarrow> wifi \<Rightarrow> (int \<times> wifi) option" where
  "smState_PROV_STOPPING E event s =
     (case event of
        SLWIFICONN_EVENT_CONNECTED \<Rightarrow> do {
          s1 \<leftarrow> NotifyProvisioningStatus E WifiProvStatus_SUCCEED s;
          s2 \<leftarrow> NotifyNetIf E SLNETIF_MAC_CONNECT s1;
          s3 \<leftarrow> EnterCONNECTED E True s2; Some (0, s3) }
      | SLWIFICONN_EVENT_PROV_STOPPED \<Rightarrow> do {
          s1 \<leftarrow> NotifyProvisioningStatus E WifiProvStatus_STOPPED s;
          (r, s2) \<leftarrow> DeferredEvent_process E s1;
          if r = SL_RET_OBJ_NOT_SET E
          then do { s3 \<leftarrow> EnterWAIT_FOR_CONN E (connectTimeout (w_settings s2)) False s2; Some (0, s3) }
          else Some (0, s2) }
      | SLWIFICONN_EVENT_EXT_PROV_COMPLETED \<Rightarrow> do {
          (_, s1) \<leftarrow> SetRole E (ROLE_STA E) s;
          s2 \<leftarrow> EnterWAIT_FOR_CONN E (connectTimeout (w_settings s1)) False s1; Some (0, s2) }
      | SLWIFICONN_EVENT_ADD_PROFILE \<Rightarrow> do {
          s2 \<leftarrow> EnterWAIT_FOR_CONN E (connectTimeout (w_settings s)) False s; Some (0, s2) }
      | SLWIFICONN_EVENT_ERROR \<Rightarrow> do { (_, s1) \<leftarrow> EnterPROVISIONING E s; Some (0, s1) }
      | SLWIFICONN_EVENT_TIMEOUT \<Rightarrow> do { s1 \<leftarrow> EnterIDLE E s; Some (0, s1) }
      | _ \<Rightarrow> Some (-1, s))"

subsection \<open>Dispatch\<close>

fun sm_handler :: "sdk \<Rightarrow> slstate \<Rightarrow> slevent \<Rightarrow> wifi \<Rightarrow> (int \<times> wifi) option" where
  "sm_handler E SLWIFICONN_STATE_OFF = smState_OFF E"
| "sm_handler E SLWIFICONN_STATE_IDLE = smState_IDLE E"
| "sm_handler E SLWIFICONN_STATE_WAIT_FOR_CONN = smState_WAIT_FOR_CONN E"
| "sm_handler E SLWIFICONN_STATE_WAIT_FOR_IP = smState_WAIT_FOR_IP E"
| "sm_handler E SLWIFICONN_STATE_CONNECTED = smState_CONNECTED E"
| "sm_handler E SLWIFICONN_STATE_PROVISIONING = smState_PROVISIONING E"
| "sm_handler E SLWIFICONN_STATE_PROV_STOPPING = smState_PROV_STOPPING E"
| "sm_handler E SLWIFICONN_STATE_EXT_PROVISIONING = smState_EXT_PROVISIONING E"
| "sm_handler E SLWIFICONN_STATE_MAX = (\<lambda>_ _. None)"

definition global_disable :: "sdk \<Rightarrow> wifi \<Rightarrow> wifi option" where
  "global_disable E s = do {
     (_, s1) \<leftarrow> SuspendNWP E True s;
     s2 \<leftarrow> (if w_state s1 = SLWIFICONN_STATE_WAIT_FOR_IP \<or> w_state s1 = SLWIFICONN_STATE_CONNECTED
            then NotifyNetIf E SLNETIF_DISCONNECT (call C_sl_WlanDisconnect s1) else Some s1);
     Some (SetState SLWIFICONN_STATE_OFF s2) }"

definition ProcessEvent :: "sdk \<Rightarrow> slevent \<Rightarrow> wifi \<Rightarrow> (int \<times> wifi) option" where
  "ProcessEvent E event s = do {
     _ \<leftarrow> assert_that (w_smReg s (w_state s));
     (retVal, s1) \<leftarrow> sm_handler E (w_state s) event s;
     if retVal < 0
     then (if event = SLWIFICONN_EVENT_DISABLE
           then do { s2 \<leftarrow> global_disable E s1; Some (retVal, s2) }
           else Some (-1, s1))
     else Some (retVal, s1) }"

text \<open>
  One iteration of the thread: wait for an event, take the lock, process the event or, on DESTROY,
  leave the loop and free the module. The first component says whether the loop was left.
\<close>

definition SlWifiConn_process_iter :: "sdk \<Rightarrow> wifi \<Rightarrow> (bool \<times> wifi) option" where
  "SlWifiConn_process_iter E s =
     (if \<not> w_initialized s then None
      else do {
        (event, q) \<leftarrow> mq_receive (w_eventQ s);
        s1 \<leftarrow> CRITICAL_SECTION_ENTER (s\<lparr>w_eventQ := q\<rparr>);
        if event = SLWIFICONN_EVENT_DESTROY then Some (True, Deinit s1)
        else do {
          (_, s2) \<leftarrow> ProcessEvent E event s1;
          Some (False, CRITICAL_SECTION_EXIT s2) } })"

end
