(* ===== verification/WifiApi.thy ===== *)
theory WifiApi
  imports WifiSM
begin

text \<open>
  The calls into the connection manager (\<open>src/slwificonn.c\<close>): the handlers of SimpleLink
  events, the API of \<open>src/slwificonn.h\<close>, and the step relations built from them.
  \<open>api_step\<close> is one API call or one event handler; \<open>wifi_step\<close> adds the iterations of
  the module's thread.
\<close>

subsection \<open>SimpleLink event handlers\<close>

datatype sl_prov_status =
    SL_WLAN_PROVISIONING_GENERAL_ERROR | SL_WLAN_PROVISIONING_ERROR_ABORT
  | SL_WLAN_PROVISIONING_ERROR_ABORT_INVALID_PARAM
  | SL_WLAN_PROVISIONING_ERROR_ABORT_HTTP_SERVER_DISABLED
  | SL_WLAN_PROVISIONING_ERROR_ABORT_PROFILE_LIST_FULL
  | SL_WLAN_PROVISIONING_ERROR_ABORT_PROVISIONING_ALREADY_STARTED
  | SL_WLAN_PROVISIONING_CONFIRMATION_STATUS_FAIL_NETWORK_NOT_FOUND
  | SL_WLAN_PROVISIONING_CONFIRMATION_STATUS_FAIL_CONNECTION_FAILED
  | SL_WLAN_PROVISIONING_CONFIRMATION_STATUS_CONNECTION_SUCCESS_IP_NOT_ACQUIRED
  | SL_WLAN_PROVISIONING_CONFIRMATION_STATUS_SUCCESS_FEEDBACK_FAILED
  | SL_WLAN_PROVISIONING_CONFIRMATION_STATUS_SUCCESS
  | SL_WLAN_PROVISIONING_CONFIRMATION_IP_ACQUIRED
  | SL_WLAN_PROVISIONING_CONFIRMATION_WLAN_CONNECT
  | SL_WLAN_PROVISIONING_AUTO_STARTED | SL_WLAN_PROVISIONING_STOPPED
  | SL_WLAN_PROVISIONING_SMART_CONFIG_SYNCED | SL_WLAN_PROVISIONING_SMART_CONFIG_SYNC_TIMEOUT
  | SL_WLAN_PROVISIONING_EXTERNAL_CONFIGURATION_READY | SL_WLAN_PROVISIONING_OTHER nat

text \<open>The event that a provisioning status raises; the role and connection status are read from
  the status event (\<open>is_connected\<close>: \<open>WlanStatus == SL_WLAN_STATUS_CONNECTED\<close>).\<close>

fun prov_status_event :: "sdk \<Rightarrow> u8 \<Rightarrow> sl_prov_status \<Rightarrow> int \<Rightarrow> bool \<Rightarrow> slevent option" where
  "prov_status_event E flags SL_WLAN_PROVISIONING_GENERAL_ERROR _ _ = Some SLWIFICONN_EVENT_ERROR"
| "prov_status_event E flags SL_WLAN_PROVISIONING_ERROR_ABORT _ _ = Some SLWIFICONN_EVENT_ERROR"
| "prov_status_event E flags SL_WLAN_PROVISIONING_ERROR_ABORT_INVALID_PARAM _ _ =
     Some SLWIFICONN_EVENT_ERROR"
| "prov_status_event E flags SL_WLAN_PROVISIONING_ERROR_ABORT_HTTP_SERVER_DISABLED _ _ =
     Some SLWIFICONN_EVENT_ERROR"
| "prov_status_event E flags SL_WLAN_PROVISIONING_ERROR_ABORT_PROFILE_LIST_FULL _ _ =
     Some SLWIFICONN_EVENT_ERROR"
| "prov_status_event E flags SL_WLAN_PROVISIONING_ERROR_ABORT_PROVISIONING_ALREADY_STARTED _ _ =
     Some SLWIFICONN_EVENT_ERROR"
| "prov_status_event E flags SL_WLAN_PROVISIONING_CONFIRMATION_STATUS_SUCCESS _ _ =
     Some SLWIFICONN_EVENT_PROV_SUCCESS"
| "prov_status_event E flags SL_WLAN_PROVISIONING_CONFIRMATION_IP_ACQUIRED _ _ =
     (if flags = PROV_FLAG_EXTERNAL_CONFIRMATION E
      then Some SLWIFICONN_EVENT_PROV_CLOUD_CONFIRM_READY else None)"
| "prov_status_event E flags SL_WLAN_PROVISIONING_STOPPED provRole is_connected =
     (if ROLE_STA E = provRole
      then (if is_connected then Some SLWIFICONN_EVENT_CONNECTED
            else Some SLWIFICONN_EVENT_PROV_STOPPED)
      else Some SLWIFICONN_EVENT_PROV_STOPPED)"
| "prov_status_event E flags SL_WLAN_PROVISIONING_EXTERNAL_CONFIGURATION_READY _ _ =
     Some SLWIFICONN_EVENT_PROV_EXT_CONFIG_READY"
| "prov_status_event E flags _ _ _ = None"

definition signal_opt :: "sdk \<Rightarrow> slevent option \<Rightarrow> wifi \<Rightarrow> wifi option" where
  "signal_opt E ev s = (case ev of None \<Rightarrow> Some s | Some e \<Rightarrow> map_option snd (SignalEvent E e s))"

definition SLProvisioningStatusHandler ::
    "sdk \<Rightarrow> sl_prov_status \<Rightarrow> int \<Rightarrow> bool \<Rightarrow> wifi \<Rightarrow> wifi option" where
  "SLProvisioningStatusHandler E st provRole is_connected s =
     (if st = SL_WLAN_PROVISIONING_CONFIRMATION_IP_ACQUIRED \<and> \<not> w_initialized s then None
      else signal_opt E (prov_status_event E (w_provFlags s) st provRole is_connected) s)"

datatype sl_wlan_event =
    SL_WLAN_EVENT_CONNECT "u8 list" "u8 list"
  | SL_WLAN_EVENT_DISCONNECT u8
  | SL_WLAN_EVENT_PROVISIONING_STATUS sl_prov_status int bool
  | SL_WLAN_EVENT_STA_ADDED | SL_WLAN_EVENT_STA_REMOVED
  | SL_WLAN_EVENT_PROVISIONING_PROFILE_ADDED | SL_WLAN_EVENT_LINK_QUALITY_TRIGGER
  | SL_WLAN_EVENT_OTHER nat

text \<open>The handlers read \<open>g_ctx\<close> without a check, so an event before the initialisation would
  dereference NULL; the SSID is copied into a buffer of \<open>MAX_SSID_LEN + 1\<close> bytes.\<close>

definition store_connection :: "u8 list \<Rightarrow> u8 list \<Rightarrow> wifi \<Rightarrow> wifi option" where
  "store_connection ssid bssid s = do {
     b \<leftarrow> write_at 0 (take 6 bssid) (w_connectionBSSID s);
     n1 \<leftarrow> write_at 0 ssid (w_connectionSSID s);
     n2 \<leftarrow> write_at (length ssid) [0] n1;
     Some (s\<lparr>w_connectionBSSID := b, w_connectionSSID := n2\<rparr>) }"

definition SLWlanEventHandler :: "sdk \<Rightarrow> sl_wlan_event \<Rightarrow> wifi \<Rightarrow> wifi option" where
  "SLWlanEventHandler E ev s =
     (case ev of
        SL_WLAN_EVENT_CONNECT ssid bssid \<Rightarrow>
          (if w_initialized s
           then do { s1 \<leftarrow> store_connection ssid bssid s;
                     signal_opt E (Some SLWIFICONN_EVENT_CONNECTED) s1 }
           else None)
      | SL_WLAN_EVENT_DISCONNECT reason \<Rightarrow> signal_opt E (Some SLWIFICONN_EVENT_DISCONNECT) s
      | SL_WLAN_EVENT_PROVISIONING_STATUS st provRole is_connected \<Rightarrow>
          (if w_provStatusReg s
           then SLProvisioningStatusHandler E st provRole is_connected s else Some s)
      | _ \<Rightarrow> Some s)"

datatype sl_netapp_event =
    SL_NETAPP_EVENT_IPV4_ACQUIRED u32 u32 u32 | SL_NETAPP_EVENT_IPV6_ACQUIRED "u8 list"
  | SL_NETAPP_EVENT_IPV4_LOST | SL_NETAPP_EVENT_NO_IPV4_COLLISION_DETECTED
  | SL_NETAPP_EVENT_IPV6_LOST | SL_NETAPP_EVENT_NO_GLOBAL_IPV6_COLLISION_DETECTED
  | SL_NETAPP_EVENT_NO_LOCAL_IPV6_COLLISION_DETECTED
  | SL_NETAPP_EVENT_DHCPV4_LEASED | SL_NETAPP_EVENT_DHCPV4_RELEASED | SL_NETAPP_EVENT_OTHER nat

definition SLNetAppEventHandler :: "sdk \<Rightarrow> sl_netapp_event \<Rightarrow> wifi \<Rightarrow> wifi option" where
  "SLNetAppEventHandler E ev s =
     (if \<not> w_initialized s then None
      else if uint (w_role s) \<noteq> ROLE_STA E then Some s
      else let lost4 = signal_opt E (Some SLWIFICONN_EVENT_IP_LOST) (s\<lparr>w_IpAcquiredV4 := (0, 0, 0)\<rparr>);
               lost6 = signal_opt E (Some SLWIFICONN_EVENT_IP_LOST)
                         (s\<lparr>w_IpAcquiredV6 := map (\<lambda>_. 0) (w_IpAcquiredV6 s)\<rparr>)
           in (case ev of
                 SL_NETAPP_EVENT_IPV4_ACQUIRED ip gw dns \<Rightarrow>
                   signal_opt E (Some SLWIFICONN_EVENT_IP_ACQUIRED) (s\<lparr>w_IpAcquiredV4 := (ip, gw, dns)\<rparr>)
               | SL_NETAPP_EVENT_IPV6_ACQUIRED d \<Rightarrow>
                   signal_opt E (Some SLWIFICONN_EVENT_IP_ACQUIRED) (s\<lparr>w_IpAcquiredV6 := d\<rparr>)
               | SL_NETAPP_EVENT_IPV4_LOST \<Rightarrow> lost4
               | SL_NETAPP_EVENT_NO_IPV4_COLLISION_DETECTED \<Rightarrow> lost4
               | SL_NETAPP_EVENT_IPV6_LOST \<Rightarrow> lost6
               | SL_NETAPP_EVENT_NO_GLOBAL_IPV6_COLLISION_DETECTED \<Rightarrow> lost6
               | SL_NETAPP_EVENT_NO_LOCAL_IPV6_COLLISION_DETECTED \<Rightarrow> lost6
               | _ \<Rightarrow> Some s))"

datatype sl_general_event = SL_DEVICE_EVENT_RESET_REQUEST | SL_DEVICE_EVENT_OTHER nat

definition SLGeneralEventHandler :: "sdk \<Rightarrow> sl_general_event \<Rightarrow> wifi \<Rightarrow> wifi option" where
  "SLGeneralEventHandler E ev s =
     (case ev of SL_DEVICE_EVENT_RESET_REQUEST \<Rightarrow> signal_opt E (Some SLWIFICONN_EVENT_RESET_REQUEST) s
      | SL_DEVICE_EVENT_OTHER _ \<Rightarrow> Some s)"

text \<open>The timer expires once (its interval is 0) and raises TIMEOUT.\<close>

definition AsyncEvtTimerHandler :: "sdk \<Rightarrow> wifi \<Rightarrow> wifi option" where
  "AsyncEvtTimerHandler E s = signal_opt E (Some SLWIFICONN_EVENT_TIMEOUT) s"

subsection \<open>Initialisation and destruction\<close>

fun count_profiles :: "sdk \<Rightarrow> nat \<Rightarrow> nat \<Rightarrow> wifi \<Rightarrow> wifi" where
  "count_profiles E 0 i s = s"
| "count_profiles E (Suc n) i s =
     (let status = sl_WlanProfileGet_ret E (w_log s); s1 = call (C_sl_WlanProfileGet i) s
      in count_profiles E n (Suc i)
           (if status \<ge> 0 then s1\<lparr>w_profileCount := w_profileCount s1 + 1\<rparr> else s1))"

text \<open>\<open>calloc\<close> clears the context; the module's other globals keep their values.\<close>

definition calloc_ctx :: "sdk \<Rightarrow> bool \<Rightarrow> wifi \<Rightarrow> wifi" where
  "calloc_ctx E fWifiAppCB s = s\<lparr>w_initialized := True, w_state := SLWIFICONN_STATE_OFF,
     w_eventQ := mq_open 10, w_DeferredEventQ := mq_open 3, w_timer := 0, w_hasAppCB := fWifiAppCB,
     w_role := 0, w_provMode := WifiProvMode_OFF, w_provCmd := 0, w_provFlags := 0,
     w_bDeleteAllProfiles := False, w_idleInterval := 0, w_connectionSSID := replicate 33 0,
     w_connectionBSSID := replicate 6 0, w_IpAcquiredV4 := (0, 0, 0),
     w_IpAcquiredV6 := map (\<lambda>_. 0) (w_IpAcquiredV6 s), w_pNonPersistentProfile := None,
     w_bWlanConnectUsed := False, w_disabledPolicy := 0, w_enabledPolicy := 0,
     w_bStatsEnabled := False, w_statsInterval := (if WIFI_STATS E then 10 else 0),
     w_fatalErrorCount := 0, w_recoveryDelayLevel := 0\<rparr>"

definition register_states :: "(slstate \<Rightarrow> bool) \<Rightarrow> slstate set \<Rightarrow> slstate \<Rightarrow> bool" where
  "register_states reg sts = (\<lambda>st. st \<in> sts \<or> reg st)"

definition init_role :: "sdk \<Rightarrow> wifi \<Rightarrow> (int \<times> wifi) option" where
  "init_role E s =
     (let retVal = sl_Start_ret E (w_log s); s1 = call C_sl_Start s
      in if retVal = SL_RET_CODE_PROVISIONING_IN_PROGRESS E
         then (let r = sl_WlanProvisioning_ret E (w_log s1);
                   s2 = call C_sl_WlanProvisioning_stop s1;
                   (r', s3) = (if r = 0 then InitNWPConnPolicy E s2 else (r, s2))
               in Some (r', s3\<lparr>w_role := word_of_int (ROLE_STA E)\<rparr>))
         else (let (r, s3) = InitNWPConnPolicy E (s1\<lparr>w_role := word_of_int retVal\<rparr>)
               in if r = 0
                  then do {
                    (_, s4) \<leftarrow> (if uint (w_role s3) \<noteq> ROLE_STA E
                                then SetRole E (ROLE_STA E) s3 else Some (0, s3));
                    Some (0, s4) }
                  else Some (r, s3)))"

text \<open>\<open>SlWifiConn_init\<close> allocates the context, registers the event handlers and the handlers of
  the five basic states (\<open>init_context\<close>), and then starts the network processor
  (\<open>init_nwp\<close>); on an error of the processor the context is freed again.\<close>

definition init_context :: "sdk \<Rightarrow> bool \<Rightarrow> wifi \<Rightarrow> wifi" where
  "init_context E fWifiAppCB s =
     (let s1 = call C_register_handlers (calloc_ctx E fWifiAppCB s)
      in s1\<lparr>w_smReg := register_states (w_smReg s1)
               {SLWIFICONN_STATE_OFF, SLWIFICONN_STATE_IDLE, SLWIFICONN_STATE_WAIT_FOR_CONN,
                SLWIFICONN_STATE_WAIT_FOR_IP, SLWIFICONN_STATE_CONNECTED},
             w_state := SLWIFICONN_STATE_OFF\<rparr>)"

definition init_nwp :: "sdk \<Rightarrow> bool \<Rightarrow> wifi \<Rightarrow> (int \<times> wifi) option" where
  "init_nwp E deleteProfiles s2 = do {
     (retVal, s3) \<leftarrow> init_role E s2;
     let s4 = (if deleteProfiles
               then call C_sl_Start (snd (ResetNWPProfileForProvisioning E s3)) else s3);
     let s5 = count_profiles E 8 0 (s4\<lparr>w_profileCount := 0\<rparr>);
     let s6 = (call C_sl_WlanPolicySet_PM_LOW_LATENCY s5)
                \<lparr>w_fatalErrorCount := 0, w_recoveryDelayLevel := 0\<rparr>;
     (_, s7) \<leftarrow> SuspendNWP E False s6;
     Some (retVal, if retVal < 0 then Deinit s7 else CRITICAL_SECTION_EXIT s7) }"

definition SlWifiConn_init :: "sdk \<Rightarrow> bool \<Rightarrow> bool \<Rightarrow> wifi \<Rightarrow> (int \<times> wifi) option" where
  "SlWifiConn_init E fWifiAppCB deleteProfiles s0 =
     (if w_initialized s0 then Some (SLNETERR_RET_CODE_DEV_ALREADY_STARTED E, s0)
      else do {
        s \<leftarrow> CRITICAL_SECTION_ENTER (s0\<lparr>w_csLock := 1\<rparr>);
        if \<not> malloc_ok E (w_log s)
        then Some (SLNETERR_RET_CODE_MALLOC_ERROR E, CRITICAL_SECTION_EXIT (call C_malloc s))
        else init_nwp E deleteProfiles (init_context E fWifiAppCB (call C_malloc s)) })"

definition SlWifiConn_deinit :: "sdk \<Rightarrow> wifi \<Rightarrow> (int \<times> wifi) option" where
  "SlWifiConn_deinit E s =
     (if \<not> w_initialized s then Some (SLNETERR_API_ABORTED E, s)
      else if w_state s = SLWIFICONN_STATE_OFF
           then do { (_, s1) \<leftarrow> SignalEvent E SLWIFICONN_EVENT_DESTROY s; Some (0, s1) }
           else Some (SLNETERR_BSD_CONNECTION_PENDING E, s))"

subsection \<open>The API\<close>

definition SlWifiConn_setDeleteAllProfiles :: "wifi \<Rightarrow> wifi" where
  "SlWifiConn_setDeleteAllProfiles s =
     (if w_initialized s then s\<lparr>w_bDeleteAllProfiles := True\<rparr> else s)"

definition SlWifiConn_enable :: "sdk \<Rightarrow> wifi \<Rightarrow> (int \<times> wifi) option" where
  "SlWifiConn_enable E s =
     (if \<not> w_initialized s then Some (SLNETERR_API_ABORTED E, s)
      else if uint (w_role s) \<noteq> ROLE_STA E then Some (SLNETERR_WLAN_INVALID_ROLE E, s)
      else SignalEvent E SLWIFICONN_EVENT_ENABLE s)"

definition SlWifiConn_disable :: "sdk \<Rightarrow> wifi \<Rightarrow> (int \<times> wifi) option" where
  "SlWifiConn_disable E s =
     (if \<not> w_initialized s then Some (SLNETERR_API_ABORTED E, s)
      else SignalEvent E SLWIFICONN_EVENT_DISABLE s)"

definition SlWifiConn_externalProvsioningCompleted :: "sdk \<Rightarrow> wifi \<Rightarrow> (int \<times> wifi) option" where
  "SlWifiConn_externalProvsioningCompleted E s =
     (if \<not> w_initialized s then Some (SLNETERR_API_ABORTED E, s)
      else SignalEvent E SLWIFICONN_EVENT_EXT_PROV_COMPLETED s)"

definition SlWifiConn_requestReset :: "sdk \<Rightarrow> wifi \<Rightarrow> (int \<times> wifi) option" where
  "SlWifiConn_requestReset E s =
     (if \<not> w_initialized s then Some (SLNETERR_API_ABORTED E, s)
      else SignalEvent E SLWIFICONN_EVENT_RESET_REQUEST s)"

fun prov_mode_of :: "nat \<Rightarrow> prov_mode" where
  "prov_mode_of n = (if n = 0 then WifiProvMode_OFF
     else if n = 1 then WifiProvMode_ONE_SHOT else WifiProvMode_ON)"

text \<open>The flags are \<open>SLWIFICONN_PROV_FLAG_EXTERNAL_CONFIRMATION\<close> (bit 0) and
  \<open>SLWIFICONN_PROV_FLAG_FORCE_PROVISIONING\<close> (bit 1).\<close>

definition SlWifiConn_enableProvisioning ::
    "sdk \<Rightarrow> nat \<Rightarrow> u8 \<Rightarrow> u32 \<Rightarrow> wifi \<Rightarrow> (int \<times> wifi) option" where
  "SlWifiConn_enableProvisioning E mode command flags s =
     (if \<not> w_initialized s then Some (SLNETERR_API_ABORTED E, s)
      else if mode > 2 \<or> (command > PROV_START_MODE_APSC_EXTERNAL_CONFIGURATION E \<and>
                          command \<noteq> SLWIFICONN_PROV_CMD_EXTERNAL_CONFIGURATION)
      then Some (SLNETERR_BSD_EINVAL E, s)
      else do {
        s1 \<leftarrow> CRITICAL_SECTION_ENTER s;
        let s2 = s1\<lparr>w_smReg := register_states (w_smReg s1)
                {SLWIFICONN_STATE_PROVISIONING, SLWIFICONN_STATE_PROV_STOPPING,
                 SLWIFICONN_STATE_EXT_PROVISIONING},
              w_enterProvReg := True, w_provStatusReg := True,
              w_provCmd := command, w_provMode := prov_mode_of mode\<rparr>;
        let s3 = (if bit flags 1 then s2\<lparr>w_bDeleteAllProfiles := True\<rparr> else s2);
        let s4 = (if bit flags 0
                  then s3\<lparr>w_provFlags := PROV_FLAG_EXTERNAL_CONFIRMATION E\<rparr> else s3);
        (_, s5) \<leftarrow> SignalEvent E SLWIFICONN_EVENT_ENABLE_PROVISIONING s4;
        Some (0, CRITICAL_SECTION_EXIT s5) })"

text \<open>
  The security parameters of \<open>addProfile\<close>: type, key, and for enterprise networks the user and
  the anonymous user. \<open>pack_profile\<close> is the block built by \<open>addProfile\<close>: \<open>ssidLen\<close>
  is stored in one byte, and the offsets of key, user and anonymous user are computed from the
  stored lengths (the macros \<open>PROFILE_*\<close>).
\<close>

record sec_params =
  sec_type :: int
  sec_key :: "u8 list"

record sec_ext =
  ext_user :: "u8 list"
  ext_anon :: "u8 list"

definition PROFILE_PASSWORD :: "profile \<Rightarrow> nat" where
  "PROFILE_PASSWORD p = unat (p_ssidLen p)"

definition PROFILE_USER :: "profile \<Rightarrow> nat" where
  "PROFILE_USER p = PROFILE_PASSWORD p + unat (p_KeyLen p)"

definition PROFILE_ANON_USER :: "profile \<Rightarrow> nat" where
  "PROFILE_ANON_USER p = PROFILE_USER p + unat (p_UserLen p)"

definition profile_tail_len :: "u8 list \<Rightarrow> sec_params option \<Rightarrow> sec_ext option \<Rightarrow> nat" where
  "profile_tail_len ssid sec ext = length ssid +
     (case sec of None \<Rightarrow> 0 | Some sp \<Rightarrow> length (sec_key sp) +
        (case ext of None \<Rightarrow> 0 | Some x \<Rightarrow> length (ext_user x) + length (ext_anon x)))"

definition copy_bytes :: "nat \<Rightarrow> u8 list \<Rightarrow> profile \<Rightarrow> profile option" where
  "copy_bytes off bs p = do {
     t \<leftarrow> write_at off (map Some bs) (p_tail p); Some (p\<lparr>p_tail := t\<rparr>) }"

definition pack_profile :: "sdk \<Rightarrow> u8 list \<Rightarrow> u8 list option \<Rightarrow> sec_params option \<Rightarrow>
    sec_ext option \<Rightarrow> int \<Rightarrow> profile option" where
  "pack_profile E ssid mac sec ext prio = do {
     let p0 = \<lparr>p_ssidLen = word_of_nat (length ssid), p_bSetBssid = (mac \<noteq> None),
               p_bssid = (case mac of Some m \<Rightarrow> take 6 m | None \<Rightarrow> []),
               p_secType = SL_WLAN_SEC_TYPE_OPEN E, p_KeyLen = 0, p_UserLen = 0, p_AnonUserLen = 0,
               p_priority = word_of_int prio, p_tail = replicate (profile_tail_len ssid sec ext) None\<rparr>;
     p1 \<leftarrow> copy_bytes 0 ssid p0;
     (case sec of
        None \<Rightarrow> Some p1
      | Some sp \<Rightarrow> do {
          let p2 = p1\<lparr>p_secType := sec_type sp, p_KeyLen := word_of_nat (length (sec_key sp))\<rparr>;
          p3 \<leftarrow> copy_bytes (PROFILE_PASSWORD p2) (sec_key sp) p2;
          (case ext of
             None \<Rightarrow> Some p3
           | Some x \<Rightarrow> do {
               _ \<leftarrow> assert_that (sec_type sp = SL_WLAN_SEC_TYPE_WPA_ENT E);
               let p4 = p3\<lparr>p_UserLen := word_of_nat (length (ext_user x)),
                           p_AnonUserLen := word_of_nat (length (ext_anon x))\<rparr>;
               p5 \<leftarrow> copy_bytes (PROFILE_USER p4) (ext_user x) p4;
               copy_bytes (PROFILE_ANON_USER p5) (ext_anon x) p5 }) }) }"

text \<open>\<open>addProfile\<close> with its two calls that may block, \<open>enqueue\<close> and \<open>signal\<close>, as
  arguments: a call that blocks has no result, but the state it was called in says who holds the lock.\<close>

definition SlWifiConn_addProfile_via ::
    "(slevent \<Rightarrow> profile option \<Rightarrow> wifi \<Rightarrow> (int \<times> wifi) option) \<Rightarrow>
     (sdk \<Rightarrow> slevent \<Rightarrow> wifi \<Rightarrow> (int \<times> wifi) option) \<Rightarrow> sdk \<Rightarrow> u8 list \<Rightarrow> u8 list option \<Rightarrow>
     sec_params option \<Rightarrow> sec_ext option \<Rightarrow> int \<Rightarrow> u32 \<Rightarrow> wifi \<Rightarrow> (int \<times> wifi) option" where
  "SlWifiConn_addProfile_via enqueue signal E ssid mac sec ext prio flags s =
     (if \<not> w_initialized s then Some (SLNETERR_API_ABORTED E, s)
      else do {
        s1 \<leftarrow> CRITICAL_SECTION_ENTER s;
        let bNonPersistent = bit flags 0;
        let (retVal, s2) = (if \<not> bNonPersistent
              then (sl_WlanProfileAdd_ret E (w_log s1), call C_sl_WlanProfileAdd_direct s1)
              else (0, s1));
        if retVal = SL_RET_CODE_PROVISIONING_IN_PROGRESS E \<or> bNonPersistent
        then (if \<not> malloc_ok E (w_log s2)
              then Some (SLNETERR_BSD_ENOMEM E, CRITICAL_SECTION_EXIT (call C_malloc s2))
              else do {
                let s3 = call C_malloc s2;
                pProf \<leftarrow> pack_profile E ssid mac sec ext prio;
                (r, s4) \<leftarrow> (if bNonPersistent
                            then Some (retVal, s3\<lparr>w_pNonPersistentProfile := Some pProf\<rparr>)
                            else enqueue SLWIFICONN_EVENT_ADD_PROFILE (Some pProf) s3);
                s5 \<leftarrow> (if r \<ge> 0 then map_option snd (signal E SLWIFICONN_EVENT_ADD_PROFILE s4)
                       else Some s4);
                Some (r, CRITICAL_SECTION_EXIT s5) })
        else do {
          s5 \<leftarrow> (if retVal \<ge> 0 then map_option snd (signal E SLWIFICONN_EVENT_ADD_PROFILE s2)
                 else Some s2);
          Some (retVal, CRITICAL_SECTION_EXIT s5) } })"

definition SlWifiConn_addProfile :: "sdk \<Rightarrow> u8 list \<Rightarrow> u8 list option \<Rightarrow> sec_params option \<Rightarrow>
    sec_ext option \<Rightarrow> int \<Rightarrow> u32 \<Rightarrow> wifi \<Rightarrow> (int \<times> wifi) option" where
  "SlWifiConn_addProfile = SlWifiConn_addProfile_via DeferredEvent_enqueue SignalEvent"

definition SlWifiConn_registerNetIFCallback :: "bool \<Rightarrow> u16 \<Rightarrow> wifi \<Rightarrow> int \<times> wifi" where
  "SlWifiConn_registerNetIFCallback fNetIfCB ifId s =
     (0, s\<lparr>w_hasNetIfCB := fNetIfCB, w_ifId := ifId\<rparr>)"

definition SlWifiConn_getConfiguration :: "sdk \<Rightarrow> bool \<Rightarrow> wifi \<Rightarrow> int \<times> settings option" where
  "SlWifiConn_getConfiguration E non_null s =
     (if \<not> non_null then (SLNETERR_RET_CODE_INVALID_INPUT E, None) else (0, Some (w_settings s)))"

definition SlWifiConn_setConfiguration :: "sdk \<Rightarrow> settings option \<Rightarrow> wifi \<Rightarrow> int \<times> wifi" where
  "SlWifiConn_setConfiguration E pSettings s =
     (case pSettings of
        None \<Rightarrow> (SLNETERR_RET_CODE_INVALID_INPUT E, s)
      | Some g \<Rightarrow> if provisioningTimeout g < 30 then (SLNETERR_RET_CODE_INVALID_INPUT E, s)
                  else (0, s\<lparr>w_settings := g\<rparr>))"

definition SlWifiConn_setRole :: "sdk \<Rightarrow> int \<Rightarrow> wifi \<Rightarrow> (int \<times> wifi) option" where
  "SlWifiConn_setRole E role s =
     (if \<not> w_initialized s then Some (SLNETERR_API_ABORTED E, s)
      else do {
        s1 \<leftarrow> CRITICAL_SECTION_ENTER s;
        if w_state s1 = SLWIFICONN_STATE_OFF \<or> w_state s1 = SLWIFICONN_STATE_EXT_PROVISIONING
        then do {
          (r, s2) \<leftarrow> SetRole E role s1;
          Some (0, CRITICAL_SECTION_EXIT (s2\<lparr>w_role := word_of_int r\<rparr>)) }
        else Some (SLNETERR_BSD_CONNECTION_PENDING E, CRITICAL_SECTION_EXIT s1) })"

definition SlWifiConn_reset :: "sdk \<Rightarrow> wifi \<Rightarrow> (int \<times> wifi) option" where
  "SlWifiConn_reset E s =
     (if \<not> w_initialized s then Some (SLNETERR_API_ABORTED E, s)
      else do {
        s1 \<leftarrow> CRITICAL_SECTION_ENTER s;
        (retVal, s2) \<leftarrow> (if w_state s1 = SLWIFICONN_STATE_OFF then ResetNWP E s1
                         else Some (SLNETERR_BSD_CONNECTION_PENDING E, s1));
        Some (retVal, CRITICAL_SECTION_EXIT s2) })"

definition SlWifiConn_getProfileCount :: "wifi \<Rightarrow> int" where
  "SlWifiConn_getProfileCount s = w_profileCount s"

definition SlWifiConn_enableStats :: "sdk \<Rightarrow> u16 \<Rightarrow> wifi \<Rightarrow> (int \<times> wifi) option" where
  "SlWifiConn_enableStats E interval s =
     (if \<not> w_initialized s then Some (SLNETERR_API_ABORTED E, s)
      else if interval < 10 then Some (SLNETERR_RET_CODE_INVALID_INPUT E, s)
      else do {
        s1 \<leftarrow> CRITICAL_SECTION_ENTER s;
        let s2 = s1\<lparr>w_statsInterval := interval, w_bStatsEnabled := True\<rparr>;
        let s3 = (if w_state s2 = SLWIFICONN_STATE_CONNECTED
                  then StartAsyncEvtTimer (ucast interval) s2 else s2);
        Some (0, CRITICAL_SECTION_EXIT s3) })"

definition SlWifiConn_disableStats :: "sdk \<Rightarrow> wifi \<Rightarrow> (int \<times> wifi) option" where
  "SlWifiConn_disableStats E s =
     (if \<not> w_initialized s then Some (SLNETERR_API_ABORTED E, s)
      else do {
        s1 \<leftarrow> CRITICAL_SECTION_ENTER s;
        let s2 = s1\<lparr>w_bStatsEnabled := False\<rparr>;
        let s3 = (if w_state s2 = SLWIFICONN_STATE_CONNECTED then StopAsyncEvtTimer s2 else s2);
        Some (0, CRITICAL_SECTION_EXIT s3) })"

subsection \<open>The module as a step relation\<close>

text \<open>Everything another thread, the timer or the SimpleLink driver can do to the module; the
  settings, profile and callback arguments are those of the API. The timer only fires while it is
  armed, and then disarms itself (its interval is 0).\<close>

datatype wifi_input =
    In_enable | In_disable | In_enableProvisioning nat u8 u32
  | In_addProfile "u8 list" "u8 list option" "sec_params option" "sec_ext option" int u32
  | In_extProvCompleted | In_requestReset | In_setDeleteAllProfiles
  | In_registerNetIFCallback bool u16 | In_setConfiguration "settings option"
  | In_setRole int | In_reset | In_enableStats u16 | In_disableStats | In_deinit
  | In_wlan sl_wlan_event | In_netapp sl_netapp_event | In_general sl_general_event | In_timer

fun wifi_input_run :: "sdk \<Rightarrow> wifi_input \<Rightarrow> wifi \<Rightarrow> wifi option" where
  "wifi_input_run E In_enable s = map_option snd (SlWifiConn_enable E s)"
| "wifi_input_run E In_disable s = map_option snd (SlWifiConn_disable E s)"
| "wifi_input_run E (In_enableProvisioning mode cmd flags) s =
     map_option snd (SlWifiConn_enableProvisioning E mode cmd flags s)"
| "wifi_input_run E (In_addProfile ssid mac sec ext prio flags) s =
     map_option snd (SlWifiConn_addProfile E ssid mac sec ext prio flags s)"
| "wifi_input_run E In_extProvCompleted s =
     map_option snd (SlWifiConn_externalProvsioningCompleted E s)"
| "wifi_input_run E In_requestReset s = map_option snd (SlWifiConn_requestReset E s)"
| "wifi_input_run E In_setDeleteAllProfiles s = Some (SlWifiConn_setDeleteAllProfiles s)"
| "wifi_input_run E (In_registerNetIFCallback cb ifid) s =
     Some (snd (SlWifiConn_registerNetIFCallback cb ifid s))"
| "wifi_input_run E (In_setConfiguration g) s = Some (snd (SlWifiConn_setConfiguration E g s))"
| "wifi_input_run E (In_setRole role) s = map_option snd (SlWifiConn_setRole E role s)"
| "wifi_input_run E In_reset s = map_option snd (SlWifiConn_reset E s)"
| "wifi_input_run E (In_enableStats iv) s = map_option snd (SlWifiConn_enableStats E iv s)"
| "wifi_input_run E In_disableStats s = map_option snd (SlWifiConn_disableStats E s)"
| "wifi_input_run E In_deinit s = map_option snd (SlWifiConn_deinit E s)"
| "wifi_input_run E (In_wlan ev) s = SLWlanEventHandler E ev s"
| "wifi_input_run E (In_netapp ev) s = SLNetAppEventHandler E ev s"
| "wifi_input_run E (In_general ev) s = SLGeneralEventHandler E ev s"
| "wifi_input_run E In_timer s =
     (if w_timer s = 0 then None else AsyncEvtTimerHandler E (s\<lparr>w_timer := 0\<rparr>))"

inductive api_step :: "sdk \<Rightarrow> wifi \<Rightarrow> wifi \<Rightarrow> bool" for E where
  api_input: "wifi_input_run E i s = Some s' \<Longrightarrow> api_step E s s'"

text \<open>What happens while a notification has released the lock is a sequence of such calls.\<close>

definition interf_api :: "sdk \<Rightarrow> bool" where
  "interf_api E \<longleftrightarrow> (\<forall>h s. steps (api_step E) s (interference E h s))"

inductive wifi_step :: "sdk \<Rightarrow> wifi \<Rightarrow> wifi \<Rightarrow> bool" for E where
  step_init: "SlWifiConn_init E cb del s = Some (r, s') \<Longrightarrow> wifi_step E s s'"
| step_api: "api_step E s s' \<Longrightarrow> wifi_step E s s'"
| step_thread: "SlWifiConn_process_iter E s = Some (b, s') \<Longrightarrow> wifi_step E s s'"

inductive_cases api_stepE: "api_step E s s'"
inductive_cases wifi_stepE: "wifi_step E s s'"

text \<open>When the program is loaded the module is not initialised and no handler is registered.\<close>

definition wifi_start :: "wifi \<Rightarrow> bool" where
  "wifi_start s \<longleftrightarrow> \<not> w_initialized s \<and> w_smReg s = (\<lambda>_. False) \<and> \<not> w_enterProvReg s \<and>
     \<not> w_provStatusReg s"

end
