(* ===== verification/WifiInv.thy ===== *)
theory WifiInv
  imports WifiApi
begin

text \<open>
  The invariant of the connection manager and its preservation: first by the API calls and event
  handlers, hence by whatever they do while a notification has released the lock, then by every
  state handler and by the thread. \<open>wifi_step\<close> is the module as a step relation; the locale
  \<open>transition_system\<close> gives the invariant for every reachable state.
\<close>

definition prov_states :: "slstate set" where
  "prov_states = {SLWIFICONN_STATE_PROVISIONING, SLWIFICONN_STATE_PROV_STOPPING,
                  SLWIFICONN_STATE_EXT_PROVISIONING}"

definition base_states :: "slstate set" where
  "base_states = {SLWIFICONN_STATE_OFF, SLWIFICONN_STATE_IDLE, SLWIFICONN_STATE_WAIT_FOR_CONN,
                  SLWIFICONN_STATE_WAIT_FOR_IP, SLWIFICONN_STATE_CONNECTED}"

definition reg_ok :: "wifi \<Rightarrow> bool" where
  "reg_ok s \<longleftrightarrow> (w_enterProvReg s \<longrightarrow> (\<forall>st\<in>prov_states. w_smReg s st))"

definition wifi_ok :: "wifi \<Rightarrow> bool" where
  "wifi_ok s \<longleftrightarrow> w_initialized s \<and> w_state s \<noteq> SLWIFICONN_STATE_MAX \<and>
     mq_ok (w_eventQ s) \<and> mq_maxmsg (w_eventQ s) = 10 \<and>
     mq_ok (w_DeferredEventQ s) \<and> mq_maxmsg (w_DeferredEventQ s) = 3 \<and>
     unat (w_recoveryDelayLevel s) \<le> MAX_RECOVERY_LEVEL \<and>
     (\<forall>st\<in>base_states. w_smReg s st) \<and>
     reg_ok s \<and>
     (w_provMode s \<noteq> WifiProvMode_OFF \<longrightarrow> w_enterProvReg s) \<and>
     (w_state s \<in> prov_states \<longrightarrow> w_enterProvReg s) \<and>
     length (w_connectionSSID s) = 33 \<and> length (w_connectionBSSID s) = 6"

text \<open>
  \<open>keeps\<close> relates the contexts before and after an operation that runs under the lock;
  \<open>frame\<close> adds that the state is the same.
\<close>

definition keeps :: "wifi \<Rightarrow> wifi \<Rightarrow> bool" where
  "keeps s s' \<longleftrightarrow> (wifi_ok s \<longrightarrow> wifi_ok s') \<and> (reg_ok s \<longrightarrow> reg_ok s') \<and>
     w_csLock s' = w_csLock s \<and> w_initialized s' = w_initialized s \<and>
     (w_enterProvReg s \<longrightarrow> w_enterProvReg s')"

definition frame :: "wifi \<Rightarrow> wifi \<Rightarrow> bool" where
  "frame s s' \<longleftrightarrow> keeps s s' \<and> w_state s' = w_state s"

lemma keeps_refl [simp]: "keeps s s" by (simp add: keeps_def)

lemma keeps_trans: "keeps s t \<Longrightarrow> keeps t u \<Longrightarrow> keeps s u"
  by (auto simp: keeps_def)

lemma frame_refl [simp]: "frame s s" by (simp add: frame_def)

lemma frame_trans: "frame s t \<Longrightarrow> frame t u \<Longrightarrow> frame s u"
  by (auto simp: frame_def intro: keeps_trans)

lemma frame_keeps: "frame s t \<Longrightarrow> keeps s t" by (simp add: frame_def)

lemma frame_keeps_trans: "frame s t \<Longrightarrow> keeps t u \<Longrightarrow> keeps s u"
  by (auto simp: frame_def intro: keeps_trans)

text \<open>Operations that only write fields the invariant does not mention.\<close>

lemma frame_call [simp]: "frame s (call c s)"
  by (simp add: frame_def keeps_def wifi_ok_def reg_ok_def call_def)

lemma frame_call_of [simp]: "frame s t \<Longrightarrow> frame s (call c t)"
  by (rule frame_trans [OF _ frame_call])

lemma frame_updates [simp]:
  "frame s (s\<lparr>w_timer := d\<rparr>)" "frame s (s\<lparr>w_role := r\<rparr>)"
  "frame s (s\<lparr>w_idleInterval := i\<rparr>)" "frame s (s\<lparr>w_bWlanConnectUsed := b\<rparr>)"
  "frame s (s\<lparr>w_bDeleteAllProfiles := b\<rparr>)" "frame s (s\<lparr>w_enabledPolicy := p, w_disabledPolicy := q\<rparr>)"
  "frame s (s\<lparr>w_fatalErrorCount := n, w_recoveryDelayLevel := 0\<rparr>)"
  "frame s (s\<lparr>w_provMode := WifiProvMode_OFF\<rparr>)"
  "frame s (s\<lparr>w_provFlags := f\<rparr>)" "frame s (s\<lparr>w_settings := g\<rparr>)"
  "frame s (s\<lparr>w_pNonPersistentProfile := pp\<rparr>)"
  "frame s (s\<lparr>w_hasNetIfCB := h, w_ifId := ifid\<rparr>)"
  "frame s (s\<lparr>w_statsInterval := iv, w_bStatsEnabled := b\<rparr>)"
  "frame s (s\<lparr>w_bStatsEnabled := b\<rparr>)"
  "frame s (s\<lparr>w_IpAcquiredV4 := v4\<rparr>)" "frame s (s\<lparr>w_IpAcquiredV6 := v6\<rparr>)"
  by (auto simp: frame_def keeps_def wifi_ok_def reg_ok_def)

lemma frame_updates_of [simp]:
  assumes "frame s t"
  shows "frame s (t\<lparr>w_timer := d\<rparr>)" "frame s (t\<lparr>w_role := r\<rparr>)"
    "frame s (t\<lparr>w_idleInterval := i\<rparr>)" "frame s (t\<lparr>w_bWlanConnectUsed := b\<rparr>)"
    "frame s (t\<lparr>w_bDeleteAllProfiles := b\<rparr>)"
    "frame s (t\<lparr>w_enabledPolicy := p, w_disabledPolicy := q\<rparr>)"
    "frame s (t\<lparr>w_provMode := WifiProvMode_OFF\<rparr>)"
    "frame s (t\<lparr>w_provFlags := f\<rparr>)" "frame s (t\<lparr>w_pNonPersistentProfile := pp\<rparr>)"
  using assms by (blast intro: frame_trans frame_updates)+

lemma frame_timer [simp]: "frame s (StartAsyncEvtTimer d s)" "frame s (StopAsyncEvtTimer s)"
  by (simp_all add: wifi_simps)

lemma frame_timer_of [simp]:
  "frame s t \<Longrightarrow> frame s (StartAsyncEvtTimer d t)" "frame s t \<Longrightarrow> frame s (StopAsyncEvtTimer t)"
  by (blast intro: frame_trans frame_timer)+

lemma keeps_SetState:
  "(st \<in> prov_states \<Longrightarrow> w_enterProvReg s) \<Longrightarrow> keeps s (SetState st s)"
  by (auto simp: keeps_def wifi_ok_def reg_ok_def SetState_def)

lemma w_state_SetState [simp]:
  "st \<noteq> SLWIFICONN_STATE_MAX \<Longrightarrow> w_state (SetState st s) = st"
  by (simp add: SetState_def)

lemma frame_SignalEvent: "post (SignalEvent E ev s) (\<lambda>(r, u). frame s u)"
  by (auto simp: post_def SignalEvent_def frame_def keeps_def wifi_ok_def reg_ok_def bind_Some_iff
      dest: mqi.send_cap intro: mq_ok_send split: if_splits)

lemma frame_signal_opt: "post (signal_opt E ev s) (frame s)"
  by (auto simp: signal_opt_def intro!: post_mono [OF frame_SignalEvent] split: option.split)

lemma frame_enqueue: "post (DeferredEvent_enqueue ev p s) (\<lambda>(r, u). frame s u)"
  by (auto simp: post_def DeferredEvent_enqueue_def frame_def keeps_def wifi_ok_def reg_ok_def bind_Some_iff
      dest: mqi.send_cap intro: mq_ok_send)

lemma frame_dequeue: "DeferredEvent_dequeue s = (r, m, s') \<Longrightarrow> frame s s'"
  by (auto simp: DeferredEvent_dequeue_def frame_def keeps_def wifi_ok_def reg_ok_def
      dest: mqi.recv_cap mq_ok_receive split: option.splits)

lemma frame_profileAdd_deferred [simp]: "frame s (sl_WlanProfileAdd_deferred ev p s)"
  by (auto simp: sl_WlanProfileAdd_deferred_def split: option.splits)

lemma frame_DeferredEvent_loop: "DeferredEvent_loop E r s = Some (r', s') \<Longrightarrow> frame s s'"
proof (induction E r s rule: DeferredEvent_loop.induct)
  case (1 E r s)
  obtain i m s1 where d: "DeferredEvent_dequeue s = (i, m, s1)" by (cases "DeferredEvent_dequeue s") auto
  show ?case
  proof (cases m)
    case None
    with "1.prems" d show ?thesis by (simp add: DeferredEvent_loop.simps [of E r s])
  next
    case (Some ep)
    then obtain ev p where m: "m = Some (ev, p)" by (cases ep) auto
    from "1.prems" d m obtain s2 where
      sig: "SignalEvent E ev (sl_WlanProfileAdd_deferred ev p s1) = Some (0, s2)" and
      loop: "DeferredEvent_loop E 0 s2 = Some (r', s')"
      by (auto simp: DeferredEvent_loop.simps [of E r s] split: option.splits if_splits)
    from "1.IH" [OF d [symmetric] refl m refl sig refl refl loop] have "frame s2 s'" .
    with post_pairD [OF frame_SignalEvent sig] frame_dequeue [OF d] show ?thesis
      by (blast intro: frame_trans frame_profileAdd_deferred)
  qed
qed

lemma frame_DeferredEvent_process: "post (DeferredEvent_process E s) (\<lambda>(r, u). frame s u)"
  by (auto simp: post_def DeferredEvent_process_def dest: frame_DeferredEvent_loop)

lemma frame_NonPersistentProfile: "frame s (snd (NonPersistentProfile_process E b s))"
  by (auto simp: NonPersistentProfile_process_def split: option.splits)

lemma frame_InitNWPConnPolicy: "frame s (snd (InitNWPConnPolicy E s))"
  by (auto simp: InitNWPConnPolicy_def Let_def split: prod.splits)

lemma frame_clear_errors: "frame s (clear_errors s)"
  by (simp add: clear_errors_def)

lemmas frame_rev = frame_trans [rotated]

lemmas frame_total [simp] = frame_NonPersistentProfile frame_InitNWPConnPolicy frame_clear_errors
  frame_NonPersistentProfile [THEN frame_rev] frame_InitNWPConnPolicy [THEN frame_rev]
  frame_clear_errors [THEN frame_rev]

subsection \<open>The reset of the network processor\<close>

lemma frame_ResetNWP_backoff: "post (ResetNWP_backoff s) (\<lambda>(d, u). frame s u)"
  by (auto simp: ResetNWP_backoff_def frame_def keeps_def wifi_ok_def reg_ok_def Let_def MAX_RECOVERY_LEVEL_def
      split: if_splits)

lemma frame_SuspendNWP_quiet: "post (SuspendNWP E False s) (\<lambda>(r, u). frame s u)"
  by (auto simp: SuspendNWP_def Let_def)

lemma frame_ResumeNWP_quiet: "post (ResumeNWP E False s) (\<lambda>(r, u). frame s u)"
  by (auto simp: ResumeNWP_def Let_def)

text \<open>These two rules take a proof past a call of an operation that is known to keep the frame.\<close>

lemma frame_post:
  assumes "post m (\<lambda>(r, u). frame t u)" and "frame s t" and "\<And>r u. frame s u \<Longrightarrow> Q (r, u)"
  shows "post m Q"
  using assms(1) by (rule post_mono) (auto intro: assms(3) frame_trans [OF assms(2)])

lemma frame_post1:
  assumes "post m (frame t)" and "frame s t" and "\<And>u. frame s u \<Longrightarrow> Q u"
  shows "post m Q"
  using assms(1) by (rule post_mono) (auto intro: assms(3) frame_trans [OF assms(2)])

lemmas frame_posts0 =
  frame_post [OF frame_ResetNWP_backoff] frame_post [OF frame_SuspendNWP_quiet]
  frame_post [OF frame_ResumeNWP_quiet] frame_post [OF frame_SignalEvent]
  frame_post [OF frame_enqueue] frame_post [OF frame_DeferredEvent_process]
  frame_post1 [OF frame_signal_opt]

lemma frame_ResetNWP: "post (ResetNWP E s) (\<lambda>(r, u). frame s u)"
  unfolding ResetNWP_def by (auto simp: Let_def intro!: frame_posts0 [where s = s])

lemma frame_SetRole: "post (SetRole E rl s) (\<lambda>(r, u). frame s u)"
  unfolding SetRole_def by (auto simp: Let_def intro!: frame_post [OF frame_ResetNWP, where s = s])

lemma frame_SetApParams: "post (SetApParams E s) (\<lambda>(r, u). r = 0 \<and> frame s u)"
  unfolding SetApParams_def
  by (auto simp: Let_def intro!: frame_post [OF frame_ResetNWP, where s = s] split: option.split)

lemma past_SetApParams:
  assumes "frame s t" and "\<And>u. frame s u \<Longrightarrow> Q (0, u)"
  shows "post (SetApParams E t) Q"
  using frame_SetApParams by (rule post_mono) (auto intro: assms(2) frame_trans [OF assms(1)])

subsection \<open>API calls and event handlers\<close>

lemma ok_csLock [simp]:
  "wifi_ok (s\<lparr>w_csLock := n\<rparr>) = wifi_ok s" "reg_ok (s\<lparr>w_csLock := n\<rparr>) = reg_ok s"
  by (simp_all add: wifi_ok_def reg_ok_def)

lemma ENTER_Some: "CRITICAL_SECTION_ENTER s = Some s1 \<longleftrightarrow>
    (\<exists>n. w_csLock s = Suc n \<and> s1 = s\<lparr>w_csLock := n\<rparr>)"
  by (auto simp: CRITICAL_SECTION_ENTER_def split: nat.split)

lemma frame_lock_round:
  assumes "CRITICAL_SECTION_ENTER s = Some s1" and "frame s1 t"
  shows "frame s (CRITICAL_SECTION_EXIT t)"
proof -
  obtain n where n: "w_csLock s = Suc n" "s1 = s\<lparr>w_csLock := n\<rparr>" using assms(1) by (auto simp: ENTER_Some)
  with assms(2) show ?thesis by (simp add: frame_def keeps_def CRITICAL_SECTION_EXIT_def)
qed

lemma ENTER_initialized: "CRITICAL_SECTION_ENTER s = Some s1 \<Longrightarrow> w_initialized s1 = w_initialized s"
  by (auto simp: CRITICAL_SECTION_ENTER_def split: nat.splits)

text \<open>An API call between \<open>CRITICAL_SECTION_ENTER\<close> and \<open>CRITICAL_SECTION_EXIT\<close>.\<close>

definition exits :: "wifi \<Rightarrow> wifi \<Rightarrow> bool" where
  "exits s1 u \<longleftrightarrow> (\<exists>t. u = CRITICAL_SECTION_EXIT t \<and> frame s1 t)"

lemma exitsI [simp]: "frame s1 t \<Longrightarrow> exits s1 (CRITICAL_SECTION_EXIT t)"
  by (auto simp: exits_def)

lemma frame_locked:
  assumes "\<And>s1. w_initialized s1 = w_initialized s \<Longrightarrow> post (f s1) (\<lambda>(r, u). exits s1 u)"
  shows "post (Option.bind (CRITICAL_SECTION_ENTER s) f) (\<lambda>(r, u). frame s u)"
proof -
  have "frame s u" if e: "CRITICAL_SECTION_ENTER s = Some s1" and f: "f s1 = Some (r, u)" for s1 r u
    using post_pairD [OF assms f] ENTER_initialized [OF e] frame_lock_round [OF e]
    by (auto simp: exits_def)
  then show ?thesis by (auto simp: post_def bind_Some_iff)
qed

lemma frame_guard:
  assumes "w_initialized s \<Longrightarrow> post m (\<lambda>(r, u). frame s u)"
  shows "post (if \<not> w_initialized s then Some (c, s) else m) (\<lambda>(r, u). frame s u)"
  using assms by simp

lemma frame_SlWifiConn_setRole: "post (SlWifiConn_setRole E role s) (\<lambda>(r, u). frame s u)"
  unfolding SlWifiConn_setRole_def
  apply (intro frame_guard frame_locked)
  subgoal for s1 by (auto simp: Let_def intro!: frame_post [OF frame_SetRole, where s = s1])
  done

lemma frame_SlWifiConn_reset: "post (SlWifiConn_reset E s) (\<lambda>(r, u). frame s u)"
  unfolding SlWifiConn_reset_def
  apply (intro frame_guard frame_locked)
  subgoal for s1 by (auto simp: Let_def intro!: frame_post [OF frame_ResetNWP, where s = s1])
  done

lemma frame_SlWifiConn_enableStats: "post (SlWifiConn_enableStats E iv s) (\<lambda>(r, u). frame s u)"
  unfolding SlWifiConn_enableStats_def
  by (intro frame_guard conjI impI frame_locked post_if) (auto simp: Let_def)

lemma frame_SlWifiConn_disableStats: "post (SlWifiConn_disableStats E s) (\<lambda>(r, u). frame s u)"
  unfolding SlWifiConn_disableStats_def
  by (intro frame_guard frame_locked) (auto simp: Let_def)

lemma frame_enable_update:
  "frame s (s\<lparr>w_smReg := register_states (w_smReg s) prov_states, w_enterProvReg := True,
     w_provStatusReg := True, w_provCmd := c, w_provMode := m\<rparr>)"
  by (auto simp: frame_def keeps_def wifi_ok_def reg_ok_def register_states_def)

lemma frame_SlWifiConn_enableProvisioning:
  "post (SlWifiConn_enableProvisioning E mode c fl s) (\<lambda>(r, u). frame s u)"
  unfolding SlWifiConn_enableProvisioning_def
  apply (intro frame_guard frame_locked post_if frame_locked)
   apply simp
  subgoal for s1 using frame_enable_update [where s = s1 and c = c and m = "prov_mode_of mode"]
    by (auto simp: Let_def prov_states_def intro!: frame_post [OF frame_SignalEvent, where s = s1])
  done

lemma frame_SlWifiConn_addProfile:
  "post (SlWifiConn_addProfile E ssid mac sec ext prio fl s) (\<lambda>(r, u). frame s u)"
  unfolding SlWifiConn_addProfile_def SlWifiConn_addProfile_via_def
  apply (intro frame_guard frame_locked)
  subgoal for s1
    by (auto simp: Let_def intro!: frame_post [OF frame_SignalEvent, where s = s1]
         frame_post [OF frame_enqueue, where s = s1]
         post_any [where m = "pack_profile E ssid mac sec ext prio"] split: prod.split)
  done

lemma frame_SlWifiConn_signals:
  "post (SlWifiConn_enable E s) (\<lambda>(r, u). frame s u)"
  "post (SlWifiConn_disable E s) (\<lambda>(r, u). frame s u)"
  "post (SlWifiConn_externalProvsioningCompleted E s) (\<lambda>(r, u). frame s u)"
  "post (SlWifiConn_requestReset E s) (\<lambda>(r, u). frame s u)"
  "post (SlWifiConn_deinit E s) (\<lambda>(r, u). frame s u)"
  by (auto simp: SlWifiConn_enable_def SlWifiConn_disable_def SlWifiConn_deinit_def
      SlWifiConn_externalProvsioningCompleted_def SlWifiConn_requestReset_def
      intro!: frame_SignalEvent frame_post [OF frame_SignalEvent, where s = s])

lemma frame_SlWifiConn_total:
  "frame s (SlWifiConn_setDeleteAllProfiles s)"
  "frame s (snd (SlWifiConn_registerNetIFCallback cb ifid s))"
  "frame s (snd (SlWifiConn_setConfiguration E g s))"
  by (auto simp: SlWifiConn_setDeleteAllProfiles_def SlWifiConn_registerNetIFCallback_def
      SlWifiConn_setConfiguration_def split: option.split)

lemma frame_store_connection: "post (store_connection ssid bssid s) (frame s)"
  by (auto simp: post_def store_connection_def bind_Some_iff frame_def keeps_def wifi_ok_def
      reg_ok_def dest!: length_write_at)

lemma frame_SLWlanEventHandler: "post (SLWlanEventHandler E ev s) (frame s)"
  by (cases ev) (auto simp: SLWlanEventHandler_def SLProvisioningStatusHandler_def
      intro!: frame_signal_opt frame_post1 [OF frame_store_connection, where s = s]
        frame_post1 [OF frame_signal_opt, where s = s])

lemma frame_SLNetAppEventHandler: "post (SLNetAppEventHandler E ev s) (frame s)"
  by (cases ev) (auto simp: SLNetAppEventHandler_def Let_def
      intro!: frame_post1 [OF frame_signal_opt, where s = s])

lemma frame_SLGeneralEventHandler: "post (SLGeneralEventHandler E ev s) (frame s)"
  by (cases ev) (auto simp: SLGeneralEventHandler_def intro!: frame_signal_opt)

lemma frame_AsyncEvtTimerHandler: "post (AsyncEvtTimerHandler E (s\<lparr>w_timer := d\<rparr>)) (frame s)"
  by (auto simp: AsyncEvtTimerHandler_def intro!: frame_post1 [OF frame_signal_opt, where s = s])

lemma frame_wifi_input_run: "post (wifi_input_run E i s) (frame s)"
  by (cases i)
    (auto simp: frame_SlWifiConn_total frame_SLWlanEventHandler frame_SLNetAppEventHandler
      frame_SLGeneralEventHandler frame_AsyncEvtTimerHandler
      intro!: post_mono [OF frame_SlWifiConn_signals(1)] post_mono [OF frame_SlWifiConn_signals(2)]
        post_mono [OF frame_SlWifiConn_signals(3)] post_mono [OF frame_SlWifiConn_signals(4)]
        post_mono [OF frame_SlWifiConn_signals(5)] post_mono [OF frame_SlWifiConn_addProfile]
        post_mono [OF frame_SlWifiConn_enableProvisioning] post_mono [OF frame_SlWifiConn_setRole]
        post_mono [OF frame_SlWifiConn_reset] post_mono [OF frame_SlWifiConn_enableStats]
        post_mono [OF frame_SlWifiConn_disableStats])

lemma frame_api_step: "api_step E s s' \<Longrightarrow> frame s s'"
  by (auto elim!: api_stepE intro: postD [OF frame_wifi_input_run])

lemma frame_api_steps: "steps (api_step E) s s' \<Longrightarrow> frame s s'"
  by (induction rule: steps.induct) (auto intro: frame_trans frame_api_step)

subsection \<open>Notifications\<close>

lemma frame_notify_window: "interf_api E \<Longrightarrow> post (notify_window E c s) (frame s)"
proof (unfold post_def, intro allI impI)
  fix u
  assume i: "interf_api E" and n: "notify_window E c s = Some u"
  let ?s1 = "call c (CRITICAL_SECTION_EXIT s)"
  have "frame ?s1 (interference E (w_log ?s1) ?s1)"
    using i by (auto simp: interf_api_def intro: frame_api_steps)
  then have *: "frame (CRITICAL_SECTION_EXIT s) (interference E (w_log ?s1) ?s1)"
    by (rule frame_trans [OF frame_call])
  from n obtain n where "w_csLock (interference E (w_log ?s1) ?s1) = Suc n"
    "u = (interference E (w_log ?s1) ?s1)\<lparr>w_csLock := n\<rparr>"
    by (auto simp: notify_window_def Let_def ENTER_Some)
  with * show "frame s u"
    by (auto simp: frame_def keeps_def CRITICAL_SECTION_EXIT_def)
qed

lemma frame_NotifyNetIf: "interf_api E \<Longrightarrow> post (NotifyNetIf E ev s) (frame s)"
  by (simp add: NotifyNetIf_def frame_notify_window)

lemma frame_NotifyWifiApp: "interf_api E \<Longrightarrow> post (NotifyWifiApp E ev s) (frame s)"
  by (simp add: NotifyWifiApp_def frame_notify_window)

lemma frame_NotifyProvisioningStatus:
  "interf_api E \<Longrightarrow> post (NotifyProvisioningStatus E st s) (frame s)"
  by (simp add: NotifyProvisioningStatus_def frame_NotifyWifiApp)

lemma frame_SuspendNWP: "interf_api E \<Longrightarrow> post (SuspendNWP E b s) (\<lambda>(r, u). frame s u)"
  by (auto simp: SuspendNWP_def Let_def intro!: frame_post1 [OF frame_NotifyWifiApp, where s = s])

lemma frame_ResumeNWP: "interf_api E \<Longrightarrow> post (ResumeNWP E b s) (\<lambda>(r, u). frame s u)"
  by (auto simp: ResumeNWP_def Let_def intro!: frame_post1 [OF frame_NotifyWifiApp, where s = s])

end
