(* ===== verification/WifiSystem.thy ===== *)
theory WifiSystem
  imports WifiInv
begin

text \<open>
  The connection manager as a state machine: \<open>sm_next\<close> is the abstract automaton, the set of
  states an event can lead to, and every handler, hence \<open>ProcessEvent\<close>, is shown to follow it
  and to keep the invariant. The locale \<open>transition_system\<close> gives the invariant for every
  reachable state of the module.
\<close>

subsection \<open>The abstract automaton\<close>

fun sm_next :: "slstate \<Rightarrow> slevent \<Rightarrow> slstate set" where
  "sm_next SLWIFICONN_STATE_OFF ev =
     (if ev = SLWIFICONN_EVENT_ENABLE then {SLWIFICONN_STATE_WAIT_FOR_CONN}
      else {SLWIFICONN_STATE_OFF})"
| "sm_next SLWIFICONN_STATE_IDLE ev =
     (if ev \<in> {SLWIFICONN_EVENT_ENABLE_PROVISIONING, SLWIFICONN_EVENT_ADD_PROFILE,
               SLWIFICONN_EVENT_TIMEOUT} then {SLWIFICONN_STATE_WAIT_FOR_CONN}
      else if ev = SLWIFICONN_EVENT_CONNECTED then {SLWIFICONN_STATE_WAIT_FOR_IP}
      else if ev = SLWIFICONN_EVENT_DISABLE then {SLWIFICONN_STATE_OFF}
      else {SLWIFICONN_STATE_IDLE})"
| "sm_next SLWIFICONN_STATE_WAIT_FOR_CONN ev =
     (if ev = SLWIFICONN_EVENT_CONNECTED
      then {SLWIFICONN_STATE_WAIT_FOR_IP, SLWIFICONN_STATE_CONNECTED}
      else if ev = SLWIFICONN_EVENT_IP_ACQUIRED then {SLWIFICONN_STATE_CONNECTED}
      else if ev = SLWIFICONN_EVENT_TIMEOUT
      then {SLWIFICONN_STATE_WAIT_FOR_CONN, SLWIFICONN_STATE_IDLE,
            SLWIFICONN_STATE_PROVISIONING, SLWIFICONN_STATE_EXT_PROVISIONING}
      else if ev = SLWIFICONN_EVENT_DISABLE then {SLWIFICONN_STATE_OFF}
      else {SLWIFICONN_STATE_WAIT_FOR_CONN})"
| "sm_next SLWIFICONN_STATE_WAIT_FOR_IP ev =
     (if ev = SLWIFICONN_EVENT_IP_ACQUIRED then {SLWIFICONN_STATE_CONNECTED}
      else if ev \<in> {SLWIFICONN_EVENT_TIMEOUT, SLWIFICONN_EVENT_DISCONNECT}
      then {SLWIFICONN_STATE_WAIT_FOR_CONN}
      else if ev = SLWIFICONN_EVENT_DISABLE then {SLWIFICONN_STATE_OFF}
      else {SLWIFICONN_STATE_WAIT_FOR_IP})"
| "sm_next SLWIFICONN_STATE_CONNECTED ev =
     (if ev \<in> {SLWIFICONN_EVENT_DISCONNECT, SLWIFICONN_EVENT_RESET_REQUEST}
      then {SLWIFICONN_STATE_WAIT_FOR_CONN}
      else if ev = SLWIFICONN_EVENT_IP_LOST then {SLWIFICONN_STATE_WAIT_FOR_IP}
      else if ev = SLWIFICONN_EVENT_DISABLE then {SLWIFICONN_STATE_OFF}
      else {SLWIFICONN_STATE_CONNECTED})"
| "sm_next SLWIFICONN_STATE_PROVISIONING ev =
     (if ev \<in> {SLWIFICONN_EVENT_PROV_SUCCESS, SLWIFICONN_EVENT_DISABLE,
               SLWIFICONN_EVENT_ADD_PROFILE, SLWIFICONN_EVENT_TIMEOUT, SLWIFICONN_EVENT_ERROR}
      then {SLWIFICONN_STATE_PROV_STOPPING}
      else if ev = SLWIFICONN_EVENT_PROV_STOPPED then {SLWIFICONN_STATE_IDLE}
      else if ev \<in> {SLWIFICONN_EVENT_PROV_EXT_CONFIG_READY, SLWIFICONN_EVENT_PROV_CLOUD_CONFIRM_READY}
      then {SLWIFICONN_STATE_EXT_PROVISIONING}
      else {SLWIFICONN_STATE_PROVISIONING})"
| "sm_next SLWIFICONN_STATE_EXT_PROVISIONING ev =
     (if ev \<in> {SLWIFICONN_EVENT_EXT_PROV_COMPLETED, SLWIFICONN_EVENT_ADD_PROFILE,
               SLWIFICONN_EVENT_TIMEOUT} then {SLWIFICONN_STATE_PROV_STOPPING}
      else if ev = SLWIFICONN_EVENT_RESET_REQUEST then {SLWIFICONN_STATE_PROVISIONING}
      else if ev = SLWIFICONN_EVENT_DISABLE then {SLWIFICONN_STATE_OFF}
      else {SLWIFICONN_STATE_EXT_PROVISIONING})"
| "sm_next SLWIFICONN_STATE_PROV_STOPPING ev =
     (if ev = SLWIFICONN_EVENT_CONNECTED then {SLWIFICONN_STATE_CONNECTED}
      else if ev = SLWIFICONN_EVENT_PROV_STOPPED
      then {SLWIFICONN_STATE_WAIT_FOR_CONN, SLWIFICONN_STATE_PROV_STOPPING}
      else if ev \<in> {SLWIFICONN_EVENT_EXT_PROV_COMPLETED, SLWIFICONN_EVENT_ADD_PROFILE}
      then {SLWIFICONN_STATE_WAIT_FOR_CONN}
      else if ev = SLWIFICONN_EVENT_ERROR
      then {SLWIFICONN_STATE_PROVISIONING, SLWIFICONN_STATE_EXT_PROVISIONING}
      else if ev = SLWIFICONN_EVENT_TIMEOUT then {SLWIFICONN_STATE_IDLE}
      else if ev = SLWIFICONN_EVENT_DISABLE then {SLWIFICONN_STATE_OFF}
      else {SLWIFICONN_STATE_PROV_STOPPING})"
| "sm_next SLWIFICONN_STATE_MAX ev = {}"

subsection \<open>Entering a state\<close>

definition goes :: "slstate set \<Rightarrow> wifi \<Rightarrow> wifi \<Rightarrow> bool" where
  "goes S s u \<longleftrightarrow> keeps s u \<and> w_state u \<in> S"

lemma frame_goes: "frame s t \<Longrightarrow> goes S t u \<Longrightarrow> goes S s u"
  by (auto simp: goes_def intro: frame_keeps_trans)

lemma goes_frame: "goes S s t \<Longrightarrow> frame t u \<Longrightarrow> goes S s u"
  by (auto simp: goes_def frame_def intro: keeps_trans)

lemma goes_stay: "frame s u \<Longrightarrow> w_state s \<in> S \<Longrightarrow> goes S s u"
  by (simp add: goes_def frame_def)

lemma goes_subset: "goes S s u \<Longrightarrow> S \<subseteq> S' \<Longrightarrow> goes S' s u"
  by (auto simp: goes_def)

lemma goes_SetState:
  assumes "frame s t" and "st \<in> S" and "st \<noteq> SLWIFICONN_STATE_MAX"
    and "st \<in> prov_states \<longrightarrow> w_enterProvReg s"
  shows "goes S s (SetState st t)"
proof -
  have "w_enterProvReg s \<longrightarrow> w_enterProvReg t" using assms(1) by (simp add: frame_def keeps_def)
  with assms have "keeps t (SetState st t)" by (auto intro: keeps_SetState)
  with assms show ?thesis by (auto simp: goes_def intro: frame_keeps_trans)
qed

lemma goes_updates:
  "goes S s t \<Longrightarrow> goes S s (StartAsyncEvtTimer d t)"
  "goes S s t \<Longrightarrow> goes S s (t\<lparr>w_provMode := WifiProvMode_OFF\<rparr>)"
  by (erule goes_frame, simp)+

lemma post_goes:
  assumes "post m (goes S t)" and "frame s t" and "\<And>u. goes S s u \<Longrightarrow> Q u"
  shows "post m Q"
  using assms(1) by (rule post_mono) (auto intro: assms(3) frame_goes [OF assms(2)])

lemma post_goes2:
  assumes "post m (\<lambda>(r, u). goes S t u)" and "frame s t" and "\<And>r u. goes S s u \<Longrightarrow> Q (r, u)"
  shows "post m Q"
  using assms(1) by (rule post_mono) (auto intro: assms(3) frame_goes [OF assms(2)])

text \<open>The calls a state change is made of, as rules that take a proof past them.\<close>

lemmas past_frames =
  frame_post1 [OF frame_NotifyNetIf] frame_post1 [OF frame_NotifyWifiApp]
  frame_post1 [OF frame_NotifyProvisioningStatus]
  frame_post [OF frame_SuspendNWP] frame_post [OF frame_ResumeNWP]
  frame_post [OF frame_ResetNWP] frame_post [OF frame_SetRole] past_SetApParams
  frame_post [OF frame_enqueue] frame_post [OF frame_DeferredEvent_process]

lemma goes_EnterIDLE: "interf_api E \<Longrightarrow> post (EnterIDLE E s) (goes {SLWIFICONN_STATE_IDLE} s)"
  by (auto simp: EnterIDLE_def Let_def prov_states_def intro!: past_frames [where s = s] goes_SetState)

lemma goes_EnterWAIT_FOR_CONN:
  "post (EnterWAIT_FOR_CONN E t b s) (goes {SLWIFICONN_STATE_WAIT_FOR_CONN} s)"
  by (auto simp: EnterWAIT_FOR_CONN_def Let_def prov_states_def
      intro!: past_frames [where s = s] goes_SetState)

lemma goes_EnterCONNECTED:
  "interf_api E \<Longrightarrow> post (EnterCONNECTED E b s) (goes {SLWIFICONN_STATE_CONNECTED} s)"
  by (auto simp: EnterCONNECTED_def Let_def prov_states_def
      intro!: past_frames [where s = s] goes_SetState)

lemma goes_EnterWAIT_FOR_IP:
  "interf_api E \<Longrightarrow>
   post (EnterWAIT_FOR_IP E s) (goes {SLWIFICONN_STATE_WAIT_FOR_IP, SLWIFICONN_STATE_CONNECTED} s)"
  by (auto simp: EnterWAIT_FOR_IP_def Let_def prov_states_def split: prod.split
      intro!: past_frames [where s = s] post_goes [OF goes_EnterCONNECTED, where s = s] goes_SetState
      elim: goes_subset)

lemma goes_EnterPROVISIONING:
  "interf_api E \<Longrightarrow> w_enterProvReg s \<Longrightarrow> post (EnterPROVISIONING E s)
     (\<lambda>(r, u). goes {SLWIFICONN_STATE_PROVISIONING, SLWIFICONN_STATE_EXT_PROVISIONING} s u)"
  by (auto simp: EnterPROVISIONING_def Let_def
      intro!: past_frames [where s = s] goes_updates goes_SetState)

lemma goes_EnterPROV_STOPPING:
  "w_enterProvReg s \<Longrightarrow> post (EnterPROV_STOPPING E ev p s)
     (\<lambda>(r, u). goes {SLWIFICONN_STATE_PROV_STOPPING} s u)"
  by (auto simp: EnterPROV_STOPPING_def Let_def
      intro!: past_frames [where s = s] goes_SetState)

lemma frame_CollectAndNotifyStats:
  "interf_api E \<Longrightarrow> post (CollectAndNotifyStats E s) (\<lambda>(r, u). frame s u)"
  by (auto simp: CollectAndNotifyStats_def restart_stats_timer_def Let_def split: prod.split
      intro!: past_frames [where s = s])

subsection \<open>Every handler follows the automaton\<close>

lemmas past_goes =
  post_goes [OF goes_EnterWAIT_FOR_CONN] post_goes [OF goes_EnterIDLE]
  post_goes [OF goes_EnterCONNECTED] post_goes [OF goes_EnterWAIT_FOR_IP]
  post_goes2 [OF goes_EnterPROV_STOPPING] post_goes2 [OF goes_EnterPROVISIONING]

text \<open>A notification after the state change keeps it.\<close>

lemma goes_NotifyWifiApp:
  assumes "interf_api E" and "goes S s t"
  shows "post (NotifyWifiApp E ev t) (goes S s)"
  using frame_NotifyWifiApp [OF assms(1)] by (rule post_mono) (rule goes_frame [OF assms(2)])

lemma frame_enterProv: "frame s u \<Longrightarrow> w_enterProvReg s \<Longrightarrow> w_enterProvReg u"
  by (simp add: frame_def keeps_def)

lemma goes_smState_OFF:
  "interf_api E \<Longrightarrow> w_state s = SLWIFICONN_STATE_OFF \<Longrightarrow>
   post (smState_OFF E ev s) (\<lambda>(r, u). goes (sm_next SLWIFICONN_STATE_OFF ev) s u)"
  by (cases ev) (auto simp: smState_OFF_def Let_def
      intro: goes_stay goes_subset
      intro!: past_frames [where s = s] past_goes [where s = s])

lemma goes_smState_IDLE:
  "interf_api E \<Longrightarrow> w_state s = SLWIFICONN_STATE_IDLE \<Longrightarrow> ev \<noteq> SLWIFICONN_EVENT_DISABLE \<Longrightarrow>
   post (smState_IDLE E ev s) (\<lambda>(r, u). goes (sm_next SLWIFICONN_STATE_IDLE ev) s u)"
  by (cases ev) (auto simp: smState_IDLE_def Let_def prov_states_def
      intro: goes_stay goes_subset
      intro!: past_frames [where s = s] past_goes [where s = s] goes_SetState)

lemma goes_smState_WAIT_FOR_CONN:
  "interf_api E \<Longrightarrow> w_state s = SLWIFICONN_STATE_WAIT_FOR_CONN \<Longrightarrow> ev \<noteq> SLWIFICONN_EVENT_DISABLE \<Longrightarrow>
   post (smState_WAIT_FOR_CONN E ev s)
     (\<lambda>(r, u). goes (sm_next SLWIFICONN_STATE_WAIT_FOR_CONN ev) s u)"
  by (cases ev) (auto simp: smState_WAIT_FOR_CONN_def Let_def
      intro: goes_stay goes_subset
      intro!: past_goes [where s = s] post_mono [OF goes_NotifyWifiApp [where s = s]])

lemma goes_smState_WAIT_FOR_IP:
  "interf_api E \<Longrightarrow> w_state s = SLWIFICONN_STATE_WAIT_FOR_IP \<Longrightarrow> ev \<noteq> SLWIFICONN_EVENT_DISABLE \<Longrightarrow>
   post (smState_WAIT_FOR_IP E ev s)
     (\<lambda>(r, u). goes (sm_next SLWIFICONN_STATE_WAIT_FOR_IP ev) s u)"
  by (cases ev) (auto simp: smState_WAIT_FOR_IP_def Let_def
      intro: goes_stay goes_subset
      intro!: past_frames [where s = s] past_goes [where s = s])

lemma frame_stats_stop_timer [simp]: "frame s (stats_stop_timer E s)"
  by (simp add: stats_stop_timer_def)

lemma goes_smState_CONNECTED:
  "interf_api E \<Longrightarrow> w_state s = SLWIFICONN_STATE_CONNECTED \<Longrightarrow> ev \<noteq> SLWIFICONN_EVENT_DISABLE \<Longrightarrow>
   post (smState_CONNECTED E ev s)
     (\<lambda>(r, u). goes (sm_next SLWIFICONN_STATE_CONNECTED ev) s u)"
  by (cases ev) (auto simp: smState_CONNECTED_def Let_def prov_states_def
      intro: goes_stay goes_subset
      intro!: past_frames [where s = s] past_goes [where s = s] goes_SetState
        frame_post [OF frame_CollectAndNotifyStats, where s = s])

lemma frame_provMode [simp]: "w_enterProvReg s \<Longrightarrow> frame s (s\<lparr>w_provMode := m\<rparr>)"
  by (auto simp: frame_def keeps_def wifi_ok_def reg_ok_def)

lemma goes_smState_PROVISIONING:
  "interf_api E \<Longrightarrow> w_state s = SLWIFICONN_STATE_PROVISIONING \<Longrightarrow> w_enterProvReg s \<Longrightarrow>
   post (smState_PROVISIONING E ev s)
     (\<lambda>(r, u). goes (sm_next SLWIFICONN_STATE_PROVISIONING ev) s u)"
  by (cases ev) (auto simp: smState_PROVISIONING_def Let_def
      intro: goes_stay goes_subset
      intro!: past_frames [where s = s] past_goes [where s = s] goes_SetState)

lemma goes_smState_EXT_PROVISIONING:
  "interf_api E \<Longrightarrow> w_state s = SLWIFICONN_STATE_EXT_PROVISIONING \<Longrightarrow> w_enterProvReg s \<Longrightarrow>
   ev \<noteq> SLWIFICONN_EVENT_DISABLE \<Longrightarrow>
   post (smState_EXT_PROVISIONING E ev s)
     (\<lambda>(r, u). goes (sm_next SLWIFICONN_STATE_EXT_PROVISIONING ev) s u)"
  by (cases ev) (auto simp: smState_EXT_PROVISIONING_def Let_def dest: frame_enterProv
      intro: goes_stay goes_subset
      intro!: past_frames [where s = s] past_goes [where s = s] goes_SetState)

lemma goes_smState_PROV_STOPPING:
  "interf_api E \<Longrightarrow> w_state s = SLWIFICONN_STATE_PROV_STOPPING \<Longrightarrow> w_enterProvReg s \<Longrightarrow>
   ev \<noteq> SLWIFICONN_EVENT_DISABLE \<Longrightarrow>
   post (smState_PROV_STOPPING E ev s)
     (\<lambda>(r, u). goes (sm_next SLWIFICONN_STATE_PROV_STOPPING ev) s u)"
  by (cases ev) (auto simp: smState_PROV_STOPPING_def Let_def
      intro: goes_stay goes_subset
      intro!: past_frames [where s = s] past_goes [where s = s])

subsection \<open>ProcessEvent\<close>

text \<open>DISABLE is refused by every handler except those of OFF and PROVISIONING; \<open>ProcessEvent\<close>
  then switches the module off itself.\<close>

lemma disable_refused:
  assumes "w_state s \<notin> {SLWIFICONN_STATE_OFF, SLWIFICONN_STATE_PROVISIONING, SLWIFICONN_STATE_MAX}"
  shows "sm_handler E (w_state s) SLWIFICONN_EVENT_DISABLE s = Some (-1, s)"
  using assms by (cases "w_state s")
    (simp_all add: smState_IDLE_def smState_WAIT_FOR_CONN_def smState_WAIT_FOR_IP_def
      smState_CONNECTED_def smState_EXT_PROVISIONING_def smState_PROV_STOPPING_def)

lemma goes_global_disable:
  "interf_api E \<Longrightarrow> post (global_disable E s) (goes {SLWIFICONN_STATE_OFF} s)"
  by (auto simp: global_disable_def Let_def prov_states_def
      intro!: past_frames [where s = s] goes_SetState)

lemma goes_sm_handler:
  assumes "interf_api E" and "wifi_ok s" and "ev \<noteq> SLWIFICONN_EVENT_DISABLE"
  shows "post (sm_handler E (w_state s) ev s) (\<lambda>(r, u). goes (sm_next (w_state s) ev) s u)"
proof -
  have "w_state s \<in> prov_states \<Longrightarrow> w_enterProvReg s" using assms(2) by (simp add: wifi_ok_def)
  with assms show ?thesis
    by (cases "w_state s") (simp_all add: goes_smState_OFF goes_smState_IDLE
        goes_smState_WAIT_FOR_CONN goes_smState_WAIT_FOR_IP goes_smState_CONNECTED
        goes_smState_PROVISIONING goes_smState_EXT_PROVISIONING goes_smState_PROV_STOPPING
        prov_states_def del: sm_next.simps)
qed

lemma handler_other_nonneg:
  "ev = SLWIFICONN_EVENT_DISABLE \<Longrightarrow> w_state s = SLWIFICONN_STATE_OFF \<Longrightarrow>
   smState_OFF E ev s = Some (0, s)"
  "ev = SLWIFICONN_EVENT_DISABLE \<Longrightarrow> post (smState_PROVISIONING E ev s) (\<lambda>(r, u). r = 0)"
  by (auto simp: smState_OFF_def smState_PROVISIONING_def post_def bind_Some_iff)

lemma goes_ProcessEvent:
  assumes i: "interf_api E" and ok: "wifi_ok s"
  shows "post (ProcessEvent E ev s) (\<lambda>(r, u). goes (sm_next (w_state s) ev) s u)"
proof (cases "ev = SLWIFICONN_EVENT_DISABLE")
  case False
  have *: "post (sm_handler E (w_state s) ev s)
      (\<lambda>x. post (case x of (retVal, s1) \<Rightarrow> if retVal < 0 then Some (-1, s1) else Some (retVal, s1))
        (\<lambda>(r, u). goes (sm_next (w_state s) ev) s u))"
    by (rule post_mono [OF goes_sm_handler [OF i ok False]]) auto
  with False show ?thesis by (simp add: ProcessEvent_def cong: if_cong)
next
  case True
  have prov: "w_state s \<in> prov_states \<Longrightarrow> w_enterProvReg s" and max: "w_state s \<noteq> SLWIFICONN_STATE_MAX"
    using ok by (simp_all add: wifi_ok_def)
  show ?thesis
  proof (cases "w_state s \<in> {SLWIFICONN_STATE_OFF, SLWIFICONN_STATE_PROVISIONING}")
    case other: False
    have "post (global_disable E s) (goes (sm_next (w_state s) ev) s)"
      using goes_global_disable [OF i] other max True by (cases "w_state s") auto
    with disable_refused [of s E] other max True show ?thesis
      by (auto simp: ProcessEvent_def)
  next
    case two: True
    then show ?thesis
    proof (elim insertE emptyE)
      assume "w_state s = SLWIFICONN_STATE_OFF"
      with True show ?thesis
        by (auto simp: ProcessEvent_def handler_other_nonneg(1) goes_stay)
    next
      assume st: "w_state s = SLWIFICONN_STATE_PROVISIONING"
      have *: "post (smState_PROVISIONING E ev s) (\<lambda>(r, u). r = 0 \<and> goes (sm_next (w_state s) ev) s u)"
        using goes_smState_PROVISIONING [OF i st, of ev] handler_other_nonneg(2) [OF True, of E s]
          prov st by (auto simp: post_def prov_states_def)
      show ?thesis using st by (auto simp: ProcessEvent_def simp del: sm_next.simps intro!: post_mono [OF *])
    qed
  qed
qed

subsection \<open>The whole module\<close>

text \<open>Outside its own calls the module holds no lock, and its tables are consistent.\<close>

definition mod_inv :: "wifi \<Rightarrow> bool" where
  "mod_inv s \<longleftrightarrow> reg_ok s \<and> (w_initialized s \<longrightarrow> wifi_ok s \<and> w_csLock s = 1)"

lemma mod_inv_keeps: "mod_inv s \<Longrightarrow> keeps s u \<Longrightarrow> mod_inv u"
  by (auto simp: mod_inv_def keeps_def)

lemma mod_inv_frame: "mod_inv s \<Longrightarrow> frame s u \<Longrightarrow> mod_inv u"
  by (auto intro: mod_inv_keeps frame_keeps)

lemma frame_profileCount [simp]:
  "frame s (s\<lparr>w_profileCount := c\<rparr>)" "frame s t \<Longrightarrow> frame s (t\<lparr>w_profileCount := c\<rparr>)"
  by (auto simp: frame_def keeps_def wifi_ok_def reg_ok_def)

lemma frame_count_profiles: "frame s (count_profiles E n i s)"
proof (induction n arbitrary: i s)
  case (Suc n)
  let ?u = "let s1 = call (C_sl_WlanProfileGet i) s in
    if sl_WlanProfileGet_ret E (w_log s) \<ge> 0 then s1\<lparr>w_profileCount := w_profileCount s1 + 1\<rparr> else s1"
  have "frame s ?u" by (auto simp: Let_def)
  from frame_trans [OF this Suc.IH] show ?case by (simp add: Let_def)
qed simp

lemma frame_ResetNWPProfile: "frame s (snd (ResetNWPProfileForProvisioning E s))"
  by (auto simp: ResetNWPProfileForProvisioning_def Let_def)

lemma init_role_policy: "InitNWPConnPolicy E t = (r, u) \<Longrightarrow> frame s t \<Longrightarrow> frame s u"
  using frame_InitNWPConnPolicy [of t E] by (auto intro: frame_trans)

lemma frame_init_role: "post (init_role E s) (\<lambda>(r, u). frame s u)"
  unfolding init_role_def Let_def
  by (auto split: prod.split if_splits dest!: init_role_policy [where s = s]
      intro!: frame_post [OF frame_SetRole, where s = s])

lemma init_context_ok:
  assumes "reg_ok s"
  shows "wifi_ok (init_context E cb s)" and "w_csLock (init_context E cb s) = w_csLock s"
  using assms
  by (simp_all add: init_context_def wifi_ok_def reg_ok_def calloc_ctx_def call_def
      register_states_def base_states_def prov_states_def mq_open_def mq_ok_def Let_def)

lemma mod_inv_EXIT:
  assumes "wifi_ok u" and "w_csLock u = 0"
  shows "mod_inv (CRITICAL_SECTION_EXIT u)" and "mod_inv (Deinit u)"
proof -
  show "mod_inv (CRITICAL_SECTION_EXIT u)"
    using assms by (simp add: mod_inv_def CRITICAL_SECTION_EXIT_def) (simp add: wifi_ok_def)
  show "mod_inv (Deinit u)" using assms
    by (simp add: mod_inv_def Deinit_def CRITICAL_SECTION_EXIT_def call_def wifi_ok_def reg_ok_def)
qed

lemma mod_inv_exit:
  assumes "frame s u" and "wifi_ok s" and "w_csLock s = 0"
  shows "mod_inv (CRITICAL_SECTION_EXIT u)" and "mod_inv (Deinit u)"
  using assms by (auto simp: frame_def keeps_def intro: mod_inv_EXIT)

lemmas frame_init [simp] = frame_count_profiles [THEN frame_rev]
  frame_ResetNWPProfile [THEN frame_rev] frame_updates(7) [THEN frame_rev]

lemma mod_inv_init_nwp:
  assumes "wifi_ok s" and "w_csLock s = 0"
  shows "post (init_nwp E del s) (\<lambda>(r, u). mod_inv u)"
  unfolding init_nwp_def Let_def
  by (auto intro!: frame_post [OF frame_init_role, where s = s] frame_post [OF frame_SuspendNWP_quiet, where s = s]
      mod_inv_exit [OF _ assms])

lemma mod_inv_init:
  assumes "mod_inv s0"
  shows "post (SlWifiConn_init E cb del s0) (\<lambda>(r, u). mod_inv u)"
proof (cases "w_initialized s0")
  case True
  with assms show ?thesis by (simp add: SlWifiConn_init_def)
next
  case False
  have reg: "reg_ok (call c (s0\<lparr>w_csLock := n\<rparr>))" for c n
    using assms frame_call by (auto simp: mod_inv_def frame_def keeps_def)
  have fail: "mod_inv (CRITICAL_SECTION_EXIT (call C_malloc (s0\<lparr>w_csLock := 0\<rparr>)))"
    using reg False by (simp add: mod_inv_def CRITICAL_SECTION_EXIT_def) (simp add: call_def)
  show ?thesis using False fail mod_inv_init_nwp [OF init_context_ok(1) [OF reg]] init_context_ok(2) [OF reg]
    by (simp add: SlWifiConn_init_def CRITICAL_SECTION_ENTER_def call_def)
qed

lemma mod_inv_thread:
  assumes i: "interf_api E" and m: "mod_inv s"
  shows "post (SlWifiConn_process_iter E s) (\<lambda>(b, u). mod_inv u)"
proof (cases "w_initialized s")
  case False
  then show ?thesis by (simp add: SlWifiConn_process_iter_def)
next
  case True
  with m have ok: "wifi_ok s" and lock: "w_csLock s = 1" by (auto simp: mod_inv_def)
  { fix ev q assume r: "mq_receive (w_eventQ s) = Some (ev, q)"
    let ?s1 = "s\<lparr>w_eventQ := q, w_csLock := 0\<rparr>"
    have "wifi_ok (s\<lparr>w_eventQ := q\<rparr>)"
      using ok mq_ok_receive [OF r] mqi.recv_cap [OF r] by (simp add: wifi_ok_def reg_ok_def)
    then have ok1: "wifi_ok ?s1" by simp
    have "goes S ?s1 u \<Longrightarrow> mod_inv (CRITICAL_SECTION_EXIT u)" for S u
      using ok1 by (intro mod_inv_EXIT) (auto simp: goes_def keeps_def simp del: ok_csLock)
    then have "post (ProcessEvent E ev ?s1) (\<lambda>(_, u). mod_inv (CRITICAL_SECTION_EXIT u))"
      by (intro post_mono [OF goes_ProcessEvent [OF i ok1]]) auto
    note this mod_inv_exit(2) [OF frame_refl ok1] }
  note * = this
  show ?thesis using True lock *
    by (auto simp: SlWifiConn_process_iter_def CRITICAL_SECTION_ENTER_def case_prod_beta post_def bind_Some_iff)
qed

lemma mod_inv_step:
  assumes "interf_api E" and "wifi_step E s t" and "mod_inv s"
  shows "mod_inv t"
  using assms(2)
proof (cases rule: wifi_step.cases)
  case (step_init cb del r)
  with postD [OF mod_inv_init [OF assms(3)]] show ?thesis by auto
next
  case step_api
  then show ?thesis by (rule mod_inv_frame [OF assms(3) frame_api_step])
next
  case (step_thread b)
  with postD [OF mod_inv_thread [OF assms(1) assms(3)]] show ?thesis by auto
qed

text \<open>The module as a transition system; interference through anything but the API is excluded
  by putting the hypothesis into the relation.\<close>

definition wifi_step_ok :: "sdk \<Rightarrow> wifi \<Rightarrow> wifi \<Rightarrow> bool" where
  "wifi_step_ok E s t \<longleftrightarrow> interf_api E \<and> wifi_step E s t"

lemma mod_inv_start: "wifi_start s \<Longrightarrow> mod_inv s"
  by (simp add: wifi_start_def mod_inv_def reg_ok_def)

interpretation wifi_sys: transition_system wifi_start "wifi_step_ok E" mod_inv
  by unfold_locales (auto simp: wifi_step_ok_def intro: mod_inv_start mod_inv_step)

lemma steps_ok: "interf_api E \<Longrightarrow> steps (wifi_step E) s t \<Longrightarrow> steps (wifi_step_ok E) s t"
  by (rotate_tac, induction rule: steps.induct) (auto intro: steps_step simp: wifi_step_ok_def)

end
