(* ===== verification/WifiCalm.thy ===== *)
theory WifiCalm
  imports WifiInv
begin

text \<open>
  What the API cannot reach: however other threads use the connection manager's API while a notification
  has released the lock, they leave the idle interval and the state alone, and outside OFF and
  EXT_PROVISIONING (where the processor can be reset through the API) also the error counters.
\<close>

definition calm :: "wifi \<Rightarrow> wifi \<Rightarrow> bool" where
  "calm s u \<longleftrightarrow> w_idleInterval u = w_idleInterval s \<and> w_state u = w_state s \<and>
     (w_state s \<notin> {SLWIFICONN_STATE_OFF, SLWIFICONN_STATE_EXT_PROVISIONING} \<longrightarrow>
        w_fatalErrorCount u = w_fatalErrorCount s \<and> w_recoveryDelayLevel u = w_recoveryDelayLevel s)"

lemma calm_refl [simp]: "calm s s" by (simp add: calm_def)

lemma calm_trans: "calm s t \<Longrightarrow> calm t u \<Longrightarrow> calm s u"
  by (auto simp: calm_def)

lemma calm_fields [simp]:
  "calm s (t\<lparr>w_log := l\<rparr>) = calm s t" "calm s (t\<lparr>w_csLock := n\<rparr>) = calm s t"
  "calm s (t\<lparr>w_eventQ := q\<rparr>) = calm s t" "calm s (t\<lparr>w_DeferredEventQ := dq\<rparr>) = calm s t"
  "calm s (t\<lparr>w_timer := d\<rparr>) = calm s t" "calm s (t\<lparr>w_role := r\<rparr>) = calm s t"
  "calm s (t\<lparr>w_bDeleteAllProfiles := b\<rparr>) = calm s t" "calm s (t\<lparr>w_settings := g\<rparr>) = calm s t"
  "calm s (t\<lparr>w_pNonPersistentProfile := pp\<rparr>) = calm s t" "calm s (t\<lparr>w_hasNetIfCB := h\<rparr>) = calm s t"
  "calm s (t\<lparr>w_ifId := ifid\<rparr>) = calm s t" "calm s (t\<lparr>w_statsInterval := iv\<rparr>) = calm s t"
  "calm s (t\<lparr>w_bStatsEnabled := b\<rparr>) = calm s t" "calm s (t\<lparr>w_IpAcquiredV4 := v4\<rparr>) = calm s t"
  "calm s (t\<lparr>w_IpAcquiredV6 := v6\<rparr>) = calm s t" "calm s (t\<lparr>w_connectionSSID := n1\<rparr>) = calm s t"
  "calm s (t\<lparr>w_connectionBSSID := n2\<rparr>) = calm s t" "calm s (t\<lparr>w_smReg := reg\<rparr>) = calm s t"
  "calm s (t\<lparr>w_enterProvReg := b\<rparr>) = calm s t" "calm s (t\<lparr>w_provStatusReg := b\<rparr>) = calm s t"
  "calm s (t\<lparr>w_provCmd := c\<rparr>) = calm s t" "calm s (t\<lparr>w_provMode := m\<rparr>) = calm s t"
  "calm s (t\<lparr>w_provFlags := fl\<rparr>) = calm s t"
  by (simp_all add: calm_def)

lemma calm_simps [simp]:
  "calm s (call c t) = calm s t" "calm s (CRITICAL_SECTION_EXIT t) = calm s t"
  "calm s (StartAsyncEvtTimer d t) = calm s t" "calm s (StopAsyncEvtTimer t) = calm s t"
  by (simp_all add: call_def CRITICAL_SECTION_EXIT_def StartAsyncEvtTimer_def StopAsyncEvtTimer_def)

lemma calm_SignalEvent: "calm s t \<Longrightarrow> post (SignalEvent E ev t) (\<lambda>(r, u). calm s u)"
  by (auto simp: SignalEvent_def post_def bind_Some_iff split: if_splits)

lemma calm_signal_opt: "calm s t \<Longrightarrow> post (signal_opt E ev t) (calm s)"
  by (auto simp: signal_opt_def intro!: post_mono [OF calm_SignalEvent [of s]] split: option.split)

lemma calm_enqueue: "calm s t \<Longrightarrow> post (DeferredEvent_enqueue ev p t) (\<lambda>(r, u). calm s u)"
  by (auto simp: DeferredEvent_enqueue_def post_def bind_Some_iff)

text \<open>A call under the lock.\<close>

lemma calm_locked:
  assumes "\<And>n. post (f (s\<lparr>w_csLock := n\<rparr>)) (\<lambda>(r, u). calm s u)"
  shows "post (Option.bind (CRITICAL_SECTION_ENTER s) f) (\<lambda>(r, u). calm s u)"
  using assms by (auto simp: post_def bind_Some_iff ENTER_Some)

text \<open>A reset keeps the idle interval and the state; the API resets only in the two states in which
  \<open>calm\<close> asks for no more.\<close>

lemma ResetNWP_calm:
  assumes "w_state t = SLWIFICONN_STATE_OFF \<or> w_state t = SLWIFICONN_STATE_EXT_PROVISIONING"
    and "calm s t"
  shows "post (ResetNWP E t) (\<lambda>(r, u). calm s u)"
  using assms
  by (auto simp: ResetNWP_def ResetNWP_backoff_def SuspendNWP_def ResumeNWP_def InitNWPConnPolicy_def Let_def
      call_def calm_def split: prod.split)

lemma SetRole_calm:
  assumes "w_state t = SLWIFICONN_STATE_OFF \<or> w_state t = SLWIFICONN_STATE_EXT_PROVISIONING"
    and "calm s t"
  shows "post (SetRole E role t) (\<lambda>(r, u). calm s u)"
  using assms unfolding SetRole_def
  by (auto simp: Let_def call_def intro!: post_mono [OF ResetNWP_calm [of _ s]])

lemma calm_guard:
  "(w_initialized s \<Longrightarrow> post m (\<lambda>(r, u). calm s u)) \<Longrightarrow>
     post (if \<not> w_initialized s then Some (c, s) else m) (\<lambda>(r, u). calm s u)"
  by simp

lemma calm_setRole: "post (SlWifiConn_setRole E role s) (\<lambda>(r, u). calm s u)"
  unfolding SlWifiConn_setRole_def
  by (intro calm_guard calm_locked) (auto simp: Let_def intro!: post_mono [OF SetRole_calm [of _ s]])

lemma calm_reset: "post (SlWifiConn_reset E s) (\<lambda>(r, u). calm s u)"
  unfolding SlWifiConn_reset_def
  by (intro calm_guard calm_locked) (auto simp: Let_def intro!: post_mono [OF ResetNWP_calm [of _ s]])

lemma calm_enableStats: "post (SlWifiConn_enableStats E iv s) (\<lambda>(r, u). calm s u)"
  unfolding SlWifiConn_enableStats_def
  by (intro calm_guard post_if calm_locked) (auto simp: Let_def)

lemma calm_disableStats: "post (SlWifiConn_disableStats E s) (\<lambda>(r, u). calm s u)"
  unfolding SlWifiConn_disableStats_def
  by (intro calm_guard calm_locked) (auto simp: Let_def)

lemma calm_enableProvisioning: "post (SlWifiConn_enableProvisioning E mode c fl s) (\<lambda>(r, u). calm s u)"
  unfolding SlWifiConn_enableProvisioning_def
  by (intro post_if calm_locked) (auto simp: Let_def intro!: post_mono [OF calm_SignalEvent [of s]])

lemma calm_addProfile: "post (SlWifiConn_addProfile E ssid mac sec ext prio fl s) (\<lambda>(r, u). calm s u)"
  unfolding SlWifiConn_addProfile_def SlWifiConn_addProfile_via_def
  apply (intro post_if calm_locked)
   apply simp
  apply (auto simp: Let_def intro!: post_mono [OF calm_SignalEvent [of s]] post_mono [OF calm_enqueue [of s]]
      post_any [where m = "pack_profile E ssid mac sec ext prio"] split: prod.split)
  done

lemma calm_signals:
  "post (SlWifiConn_enable E s) (\<lambda>(r, u). calm s u)"
  "post (SlWifiConn_disable E s) (\<lambda>(r, u). calm s u)"
  "post (SlWifiConn_externalProvsioningCompleted E s) (\<lambda>(r, u). calm s u)"
  "post (SlWifiConn_requestReset E s) (\<lambda>(r, u). calm s u)"
  "post (SlWifiConn_deinit E s) (\<lambda>(r, u). calm s u)"
  by (auto simp: SlWifiConn_enable_def SlWifiConn_disable_def SlWifiConn_deinit_def
      SlWifiConn_externalProvsioningCompleted_def SlWifiConn_requestReset_def
      intro!: calm_SignalEvent post_mono [OF calm_SignalEvent [of s]])

lemma calm_total:
  "calm s (SlWifiConn_setDeleteAllProfiles s)"
  "calm s (snd (SlWifiConn_registerNetIFCallback cb ifid s))"
  "calm s (snd (SlWifiConn_setConfiguration E g s))"
  by (auto simp: SlWifiConn_setDeleteAllProfiles_def SlWifiConn_registerNetIFCallback_def
      SlWifiConn_setConfiguration_def split: option.split)

lemma calm_store_connection: "post (store_connection ssid bssid s) (calm s)"
  by (auto simp: post_def store_connection_def bind_Some_iff)

lemma calm_SLWlanEventHandler: "post (SLWlanEventHandler E ev s) (calm s)"
  by (cases ev) (auto simp: SLWlanEventHandler_def SLProvisioningStatusHandler_def
      intro!: calm_signal_opt post_mono [OF calm_store_connection])

lemma calm_SLNetAppEventHandler: "post (SLNetAppEventHandler E ev s) (calm s)"
  by (cases ev) (auto simp: SLNetAppEventHandler_def Let_def intro!: calm_signal_opt)

lemma calm_SLGeneralEventHandler: "post (SLGeneralEventHandler E ev s) (calm s)"
  by (cases ev) (auto simp: SLGeneralEventHandler_def intro!: calm_signal_opt)

lemma calm_AsyncEvtTimerHandler: "post (AsyncEvtTimerHandler E (s\<lparr>w_timer := d\<rparr>)) (calm s)"
  by (auto simp: AsyncEvtTimerHandler_def intro!: calm_signal_opt)

lemmas calm_handlers = calm_SLWlanEventHandler calm_SLNetAppEventHandler calm_SLGeneralEventHandler
  calm_AsyncEvtTimerHandler

lemma calm_input: "post (wifi_input_run E i s) (calm s)"
  by (cases i)
    (auto simp: calm_total calm_handlers
      intro!: post_mono [OF calm_signals(1)] post_mono [OF calm_signals(2)]
        post_mono [OF calm_signals(3)] post_mono [OF calm_signals(4)]
        post_mono [OF calm_signals(5)] post_mono [OF calm_addProfile]
        post_mono [OF calm_enableProvisioning] post_mono [OF calm_setRole]
        post_mono [OF calm_reset] post_mono [OF calm_enableStats] post_mono [OF calm_disableStats])

lemma calm_api_steps: "steps (api_step E) s s' \<Longrightarrow> calm s s'"
  by (induction rule: steps.induct) (auto elim!: api_stepE intro: calm_trans postD [OF calm_input])

text \<open>So the two notifications return to a thread that holds the lock, and change nothing of this.\<close>

lemma notify_window_calm:
  assumes "interf_api E" and "w_csLock s = 0"
  shows "\<exists>u. notify_window E c s = Some u \<and> calm s u \<and> w_csLock u = 0"
proof -
  let ?s1 = "call c (CRITICAL_SECTION_EXIT s)"
  let ?u = "interference E (w_log ?s1) ?s1"
  have st: "steps (api_step E) ?s1 ?u" using assms(1) by (simp add: interf_api_def)
  have "w_csLock ?u = Suc 0"
    using frame_api_steps [OF st] assms(2) by (simp add: frame_def keeps_def call_def CRITICAL_SECTION_EXIT_def)
  moreover have "calm s ?u" using calm_api_steps [OF st] calm_trans [of s ?s1 ?u] by simp
  ultimately show ?thesis by (simp add: notify_window_def Let_def CRITICAL_SECTION_ENTER_def)
qed

lemma NotifyNetIf_calm:
  assumes "interf_api E" and "w_csLock s = 0"
  shows "\<exists>u. NotifyNetIf E ev s = Some u \<and> calm s u \<and> w_csLock u = 0"
  using notify_window_calm [OF assms] assms(2) by (simp add: NotifyNetIf_def)

lemma NotifyWifiApp_calm:
  assumes "interf_api E" and "w_csLock s = 0"
  shows "\<exists>u. NotifyWifiApp E ev s = Some u \<and> calm s u \<and> w_csLock u = 0"
  using notify_window_calm [OF assms] assms(2) by (simp add: NotifyWifiApp_def)

end
