(* ===== verification/WifiProps.thy ===== *)
theory WifiProps
  imports WifiSystem WifiCalm
begin

text \<open>
  The properties of the connection manager. \<open>example_sdk\<close> is an SDK whose calls all succeed
  and whose callbacks do nothing; \<open>example_wifi\<close> is the module as it is loaded, and
  \<open>example_on\<close> a module that has been initialised: the theorems are applied to them in the
  witnesses.
\<close>

definition example_sdk :: sdk where
  "example_sdk = \<lparr>ROLE_STA = 0, ROLE_AP = 2, SL_RET_CODE_PROVISIONING_IN_PROGRESS = -2014,
     SL_RET_OBJ_NOT_SET = -1, SLNETERR_API_ABORTED = -2005,
     SLNETERR_RET_CODE_DEV_ALREADY_STARTED = -2018, SLNETERR_BSD_EINVAL = -22,
     SLNETERR_BSD_ENOMEM = -12, SLNETERR_BSD_CONNECTION_PENDING = -201,
     SLNETERR_WLAN_INVALID_ROLE = -2050, SLNETERR_RET_CODE_MALLOC_ERROR = -2009,
     SLNETERR_RET_CODE_INVALID_INPUT = -2001, SL_WLAN_SEC_TYPE_OPEN = 0,
     SL_WLAN_SEC_TYPE_WPA_ENT = 5, PROV_START_MODE_APSC_EXTERNAL_CONFIGURATION = 5,
     PROV_FLAG_EXTERNAL_CONFIRMATION = 1,
     SL_WLAN_CONNECTION_POLICY = (\<lambda>a f p s. (if a then 1 else 0) OR (if f then 2 else 0) OR
        (if p then 4 else 0) OR (if s then 32 else 0)),
     WIFI_STATS = True, sl_Stop_ret = (\<lambda>_. 0), sl_Start_ret = (\<lambda>_. 0),
     sl_WlanDisconnect_ret = (\<lambda>_. 0), sl_WlanConnect_ret = (\<lambda>_. 0),
     sl_WlanProfileAdd_ret = (\<lambda>_. 0), sl_WlanProfileDel_ret = (\<lambda>_. 0),
     sl_WlanProfileGet_ret = (\<lambda>_. -1), sl_WlanPolicyGet_ret = (\<lambda>_. (0, 33)),
     sl_WlanPolicySet_ret = (\<lambda>_. 0), sl_WlanProvisioning_ret = (\<lambda>_. 0),
     sl_NetCfgGet_ret = (\<lambda>_. (0, False, 0)), sl_DeviceStatStart_ret = (\<lambda>_. 0),
     sl_DeviceStatGet_ret = (\<lambda>_. (0, 0, 0)), malloc_ok = (\<lambda>_. True),
     uninitialised_local = (\<lambda>_. 0), interference = (\<lambda>_ s. s)\<rparr>"

definition example_wifi :: wifi where
  "example_wifi = \<lparr>w_initialized = False, w_state = SLWIFICONN_STATE_OFF, w_eventQ = mq_open 0,
     w_DeferredEventQ = mq_open 0, w_timer = 0, w_hasAppCB = False, w_role = 0,
     w_provMode = WifiProvMode_OFF, w_provCmd = 0, w_provFlags = 0, w_bDeleteAllProfiles = False,
     w_idleInterval = 0, w_connectionSSID = [], w_connectionBSSID = [], w_IpAcquiredV4 = (0, 0, 0),
     w_IpAcquiredV6 = [], w_pNonPersistentProfile = None, w_bWlanConnectUsed = False,
     w_disabledPolicy = 0, w_enabledPolicy = 0, w_bStatsEnabled = False, w_statsInterval = 0,
     w_fatalErrorCount = 0, w_recoveryDelayLevel = 0, w_settings = g_settings_default example_sdk,
     w_smReg = (\<lambda>_. False), w_enterProvReg = False, w_provStatusReg = False, w_hasNetIfCB = False,
     w_ifId = 0, w_profileCount = 0, w_csLock = 0, w_log = []\<rparr>"

definition example_on :: wifi where
  "example_on = CRITICAL_SECTION_EXIT (init_context example_sdk False (example_wifi\<lparr>w_csLock := 0\<rparr>))"

lemma example_interf [simp]: "interf_api example_sdk"
  by (simp add: interf_api_def example_sdk_def)

lemma example_start [simp]: "wifi_start example_wifi"
  by (simp add: wifi_start_def example_wifi_def)

lemma example_init: "\<exists>s. SlWifiConn_init example_sdk False False example_wifi = Some (0, s) \<and>
    w_initialized s"
  by (simp add: SlWifiConn_init_def example_wifi_def example_sdk_def CRITICAL_SECTION_ENTER_def
      call_def init_context_def calloc_ctx_def Let_def init_nwp_def init_role_def
      InitNWPConnPolicy_def SuspendNWP_def eval_nat_numeral CRITICAL_SECTION_EXIT_def)

lemma example_on_ok: "wifi_ok example_on"
  using init_context_ok(1) [of "example_wifi\<lparr>w_csLock := 0\<rparr>" example_sdk False]
  by (simp add: example_on_def CRITICAL_SECTION_EXIT_def) (simp add: reg_ok_def example_wifi_def)

subsection \<open>Reachable states\<close>

text \<open>C1: in every state the module can reach after it was loaded, by any sequence of API calls,
  SimpleLink events, timer expiries and iterations of its thread, with any results of the SDK and
  any API calls made while a notification has released the lock: if the module is initialised, the
  handler of its state is registered (so the thread never calls a NULL pointer), provisioning is
  only selected when its handlers are registered, the lock is free, both queues respect their
  capacity and the backoff level is an index of the table of delays.\<close>

theorem wifi_reachable_ok:
  assumes "interf_api E" and "wifi_start s" and "steps (wifi_step E) s t" and "w_initialized t"
  shows "w_smReg t (w_state t) \<and> w_state t \<noteq> SLWIFICONN_STATE_MAX \<and>
    (w_provMode t \<noteq> WifiProvMode_OFF \<longrightarrow> w_enterProvReg t) \<and> w_csLock t = 1 \<and>
    length (mq_msgs (w_eventQ t)) \<le> 10 \<and> length (mq_msgs (w_DeferredEventQ t)) \<le> 3 \<and>
    unat (w_recoveryDelayLevel t) < length g_recoveryDelays"
proof -
  have "mod_inv t" by (rule wifi_sys.reachable_inv [OF assms(2) steps_ok [OF assms(1,3)]])
  with assms(4) have ok: "wifi_ok t" "w_csLock t = 1" by (auto simp: mod_inv_def)
  then show ?thesis
    by (cases "w_state t") (auto simp: wifi_ok_def reg_ok_def mq_ok_def base_states_def prov_states_def
        MAX_RECOVERY_LEVEL_def g_recoveryDelays_def)
qed

theorem wifi_reachable_ok_witness:
  "\<exists>s. steps (wifi_step example_sdk) example_wifi s \<and> w_initialized s \<and> w_smReg s (w_state s)"
proof -
  obtain s where s: "SlWifiConn_init example_sdk False False example_wifi = Some (0, s)" "w_initialized s"
    using example_init by blast
  then have st: "steps (wifi_step example_sdk) example_wifi s" by (blast intro: step_init)
  from wifi_reachable_ok [OF example_interf example_start st s(2)] st s(2) show ?thesis by blast
qed

text \<open>C2: whatever event the module's thread processes, and whatever the SDK answers, the next state
  is one the automaton \<open>sm_next\<close> allows, the invariant holds again, and the lock is as it
  was.\<close>

theorem ProcessEvent_refines_sm_next:
  assumes "interf_api E" and "wifi_ok s" and "ProcessEvent E ev s = Some (r, s')"
  shows "w_state s' \<in> sm_next (w_state s) ev \<and> wifi_ok s' \<and> w_csLock s' = w_csLock s"
  using post_pairD [OF goes_ProcessEvent [OF assms(1,2)] assms(3)] assms(2)
  by (auto simp: goes_def keeps_def)

theorem ProcessEvent_refines_sm_next_witness:
  "\<exists>r s'. ProcessEvent example_sdk SLWIFICONN_EVENT_ENABLE example_on = Some (r, s') \<and>
    w_state s' = SLWIFICONN_STATE_WAIT_FOR_CONN \<and> wifi_ok s'"
proof -
  have off: "w_state example_on = SLWIFICONN_STATE_OFF"
    by (simp add: example_on_def CRITICAL_SECTION_EXIT_def init_context_def Let_def)
  have "\<exists>r s'. ProcessEvent example_sdk SLWIFICONN_EVENT_ENABLE example_on = Some (r, s')"
    by (simp add: ProcessEvent_def smState_OFF_def example_on_def example_sdk_def example_wifi_def
        init_context_def calloc_ctx_def Let_def call_def CRITICAL_SECTION_EXIT_def
        register_states_def ResumeNWP_def EnterWAIT_FOR_CONN_def NotifyWifiApp_def
        DeferredEvent_process_def DeferredEvent_loop.simps DeferredEvent_dequeue_def mq_receive_def
        mq_open_def)
  then obtain r s' where p: "ProcessEvent example_sdk SLWIFICONN_EVENT_ENABLE example_on = Some (r, s')"
    by blast
  from ProcessEvent_refines_sm_next [OF example_interf example_on_ok p] off p show ?thesis by auto
qed

subsection \<open>Recovery\<close>

lemma w_log_call [simp]: "w_log (call c s) = c # w_log s" by (simp add: call_def)

lemma InitNWPConnPolicy_log [simp]:
  "w_log (snd (InitNWPConnPolicy E s)) = C_sl_WlanPolicyGet # w_log s"
  by (simp add: InitNWPConnPolicy_def Let_def call_def split: prod.split)

lemma policy_quiet:
  "SuspendNWP E False s = Some (sl_WlanPolicySet_ret E (w_log s),
     call (C_sl_WlanPolicySet_conn (w_disabledPolicy s) True) s)"
  "ResumeNWP E False s = Some (sl_WlanPolicySet_ret E (w_log s),
     call (C_sl_WlanPolicySet_conn (w_enabledPolicy s) True) s)"
  by (simp_all add: SuspendNWP_def ResumeNWP_def Let_def)

lemma level_cases: "unat (l :: u8) \<le> 4 \<Longrightarrow> l = 0 \<or> l = 1 \<or> l = 2 \<or> l = 3 \<or> l = 4"
  by (auto simp: word_unat_eq_iff)

definition backoff_level :: "u8 \<Rightarrow> u8" where
  "backoff_level l = (if l = 4 then 4 else l + 1)"

lemma ResetNWP_backoff_eq:
  assumes "unat (w_recoveryDelayLevel s) \<le> 4"
  shows "ResetNWP_backoff s =
    Some ([5, 10, 20, 30, 30] ! unat (w_recoveryDelayLevel s),
      s\<lparr>w_fatalErrorCount := w_fatalErrorCount s + 1,
        w_recoveryDelayLevel := backoff_level (w_recoveryDelayLevel s)\<rparr>)"
  using level_cases [OF assms]
  by (auto simp: ResetNWP_backoff_def MAX_RECOVERY_LEVEL_def g_recoveryDelays_def Let_def
      backoff_level_def)

lemma unat_backoff_level: "unat l \<le> 4 \<Longrightarrow> unat (backoff_level l) = min 4 (Suc (unat l))"
  by (auto dest: level_cases simp: backoff_level_def)

text \<open>C3: a reset of the network processor that returns has stopped it, waited for the delay of the
  next backoff level, and started it again. It counts one more fatal error, raises the level by one
  up to 4, and returns the role the processor came up in, which is non-negative. The delay is 5, 10,
  20 or 30 seconds: the first entry of the table, 2 seconds, is never used.\<close>

theorem ResetNWP_effect:
  assumes "unat (w_recoveryDelayLevel s) \<le> 4" and "ResetNWP E s = Some (r, s')"
  shows "\<exists>pre. w_log s' = pre @ [C_sl_Start,
            C_sleep ([5, 10, 20, 30, 30] ! unat (w_recoveryDelayLevel s)), C_sl_Stop] @ w_log s \<and>
    unat (w_recoveryDelayLevel s') = min 4 (Suc (unat (w_recoveryDelayLevel s))) \<and>
    w_fatalErrorCount s' = w_fatalErrorCount s + 1 \<and> r \<ge> 0 \<and> w_role s' = word_of_int r \<and>
    w_state s' = w_state s"
proof -
  have other [simp]: "w_recoveryDelayLevel (snd (InitNWPConnPolicy E s)) = w_recoveryDelayLevel s"
    "w_fatalErrorCount (snd (InitNWPConnPolicy E s)) = w_fatalErrorCount s"
    "w_role (snd (InitNWPConnPolicy E s)) = w_role s"
    "w_state (snd (InitNWPConnPolicy E s)) = w_state s" for s
    by (simp_all add: InitNWPConnPolicy_def Let_def call_def split: prod.split)
  have [simp]: "w_recoveryDelayLevel (call c s) = w_recoveryDelayLevel s"
    "w_fatalErrorCount (call c s) = w_fatalErrorCount s" "w_role (call c s) = w_role s"
    "w_state (call c s) = w_state s" for c s by (simp_all add: call_def)
  show ?thesis using assms(2)
    by (auto simp: ResetNWP_def ResetNWP_backoff_eq [OF assms(1)] Let_def policy_quiet
        unat_backoff_level [OF assms(1)] bind_Some_iff split: if_splits)
qed

theorem ResetNWP_effect_witness:
  "\<exists>r s'. ResetNWP example_sdk example_on = Some (r, s') \<and> r \<ge> 0 \<and>
    (\<exists>pre. w_log s' = pre @ [C_sl_Start, C_sleep 5, C_sl_Stop] @ w_log example_on)"
proof -
  have lvl: "w_recoveryDelayLevel example_on = 0"
    by (simp add: example_on_def CRITICAL_SECTION_EXIT_def init_context_def calloc_ctx_def Let_def call_def)
  have "\<exists>r s'. ResetNWP example_sdk example_on = Some (r, s')"
    by (simp add: ResetNWP_def ResetNWP_backoff_eq lvl Let_def policy_quiet) (simp add: example_sdk_def)
  then obtain r s' where r: "ResetNWP example_sdk example_on = Some (r, s')" by blast
  from ResetNWP_effect [OF _ r] lvl r show ?thesis by auto
qed

text \<open>\<open>n\<close> consecutive resets.\<close>

fun resets :: "sdk \<Rightarrow> nat \<Rightarrow> wifi \<Rightarrow> wifi option" where
  "resets E 0 s = Some s"
| "resets E (Suc n) s = do { s1 \<leftarrow> resets E n s; (r, s2) \<leftarrow> ResetNWP E s1; Some s2 }"

lemma ResetNWP_counts:
  assumes "unat (w_recoveryDelayLevel s) \<le> 4" and "\<forall>h. sl_Stop_ret E h = 0" and "\<forall>h. sl_Start_ret E h \<ge> 0"
  shows "\<exists>r s'. ResetNWP E s = Some (r, s') \<and> w_fatalErrorCount s' = w_fatalErrorCount s + 1 \<and>
    w_recoveryDelayLevel s' = backoff_level (w_recoveryDelayLevel s)"
  using assms by (simp add: ResetNWP_def ResetNWP_backoff_eq Let_def policy_quiet InitNWPConnPolicy_def call_def
      split: prod.split)

lemma resets_counts:
  assumes "w_recoveryDelayLevel s = 0" and "w_fatalErrorCount s = 0"
    and "\<forall>h. sl_Stop_ret E h = 0" and "\<forall>h. sl_Start_ret E h \<ge> 0"
  shows "\<exists>s'. resets E n s = Some s' \<and> w_fatalErrorCount s' = of_nat n \<and>
    unat (w_recoveryDelayLevel s') = min 4 n"
proof (induction n)
  case (Suc n)
  then obtain s1 where s1: "resets E n s = Some s1" "w_fatalErrorCount s1 = of_nat n"
    "unat (w_recoveryDelayLevel s1) = min 4 n" by blast
  then have l: "unat (w_recoveryDelayLevel s1) \<le> 4" by simp
  obtain r s' where "ResetNWP E s1 = Some (r, s')" "w_fatalErrorCount s' = w_fatalErrorCount s1 + 1"
    "w_recoveryDelayLevel s' = backoff_level (w_recoveryDelayLevel s1)"
    using ResetNWP_counts [OF l assms(3,4)] by blast
  with unat_backoff_level [OF l] s1 show ?case by simp
qed (simp add: assms)

text \<open>C4: the consecutive resets between two connections. From cleared counters, \<open>n\<close> resets raise the
  backoff level to \<open>n\<close>, at most 4, if the processor can be stopped and started. When the module,
  holding its lock, then enters CONNECTED, with or without telling the network interface, from a state other
  than OFF and EXT_PROVISIONING and with the counters as the resets left them, the level is cleared exactly
  when the 8-bit counter of fatal errors is not 0: after 256, 512, ... resets the counter has wrapped to 0
  and the level keeps its maximum 4. What other threads do through the API while the notification has
  released the lock changes nothing of that.\<close>

theorem EnterCONNECTED_clears_backoff:
  assumes "interf_api E" and "w_recoveryDelayLevel s = 0" and "w_fatalErrorCount s = 0"
    and "\<forall>h. sl_Stop_ret E h = 0" and "\<forall>h. sl_Start_ret E h \<ge> 0"
  shows "\<exists>s1. resets E n s = Some s1 \<and> unat (w_recoveryDelayLevel s1) = min 4 n \<and>
    (\<forall>t bNotify. w_fatalErrorCount t = w_fatalErrorCount s1 \<and> w_recoveryDelayLevel t = w_recoveryDelayLevel s1 \<and>
       w_csLock t = 0 \<and> w_state t \<notin> {SLWIFICONN_STATE_OFF, SLWIFICONN_STATE_EXT_PROVISIONING} \<longrightarrow>
       (\<exists>s2. EnterCONNECTED E bNotify t = Some s2 \<and> w_state s2 = SLWIFICONN_STATE_CONNECTED \<and>
          (if n mod 256 = 0 then unat (w_recoveryDelayLevel s2) = min 4 n
           else w_recoveryDelayLevel s2 = 0) \<and> w_fatalErrorCount s2 = 0))"
proof -
  obtain s1 where s1: "resets E n s = Some s1" "w_fatalErrorCount s1 = of_nat n"
    "unat (w_recoveryDelayLevel s1) = min 4 n"
    using resets_counts [OF assms(2-5)] by blast
  have wrap: "(of_nat n :: u8) = 0 \<longleftrightarrow> n mod 256 = 0"
    by (simp add: word_of_nat_eq_0_iff dvd_eq_mod_eq_0)
  have "\<exists>s2. EnterCONNECTED E bNotify t = Some s2 \<and> w_state s2 = SLWIFICONN_STATE_CONNECTED \<and>
      (if n mod 256 = 0 then unat (w_recoveryDelayLevel s2) = min 4 n
       else w_recoveryDelayLevel s2 = 0) \<and> w_fatalErrorCount s2 = 0"
    if t: "w_fatalErrorCount t = w_fatalErrorCount s1" "w_recoveryDelayLevel t = w_recoveryDelayLevel s1"
      "w_csLock t = 0" "w_state t \<notin> {SLWIFICONN_STATE_OFF, SLWIFICONN_STATE_EXT_PROVISIONING}" for t bNotify
  proof -
    let ?c = "clear_errors (StopAsyncEvtTimer t)"
    have c: "w_fatalErrorCount ?c = 0" "w_state ?c = w_state t" "w_csLock ?c = 0"
      "if n mod 256 = 0 then unat (w_recoveryDelayLevel ?c) = min 4 n else w_recoveryDelayLevel ?c = 0"
      using t s1 wrap by (auto simp: clear_errors_def StopAsyncEvtTimer_def word_greater_zero_iff)
    obtain u where u: "(if bNotify then NotifyNetIf E SLNETIF_IP_AQUIRED ?c else Some ?c) = Some u" "calm ?c u"
      using NotifyNetIf_calm [OF assms(1) c(3)] by (cases bNotify) auto
    then have "w_fatalErrorCount u = 0" "w_recoveryDelayLevel u = w_recoveryDelayLevel ?c"
      using c t(4) by (auto simp: calm_def)
    with u(1) c(4) show ?thesis
      by (auto simp: EnterCONNECTED_def Let_def StartAsyncEvtTimer_def SetState_def)
  qed
  with s1 show ?thesis by blast
qed

text \<open>The witness enters CONNECTED with a callback of the network interface registered.\<close>

theorem EnterCONNECTED_clears_backoff_witness:
  "\<exists>s1 s2. resets example_sdk 256 example_on = Some s1 \<and>
    EnterCONNECTED example_sdk True (s1\<lparr>w_csLock := 0, w_state := SLWIFICONN_STATE_WAIT_FOR_IP, w_hasNetIfCB := True\<rparr>) = Some s2 \<and>
    unat (w_recoveryDelayLevel s2) = 4"
proof -
  have a: "w_recoveryDelayLevel example_on = 0" "w_fatalErrorCount example_on = 0"
    "\<forall>h. sl_Stop_ret example_sdk h = 0" "\<forall>h. sl_Start_ret example_sdk h \<ge> 0"
    by (simp_all add: example_on_def CRITICAL_SECTION_EXIT_def init_context_def calloc_ctx_def Let_def call_def example_sdk_def)
  from EnterCONNECTED_clears_backoff [OF example_interf a, of 256] obtain s1 where
    s1: "resets example_sdk 256 example_on = Some s1"
    and t: "\<forall>t bNotify. w_fatalErrorCount t = w_fatalErrorCount s1 \<and> w_recoveryDelayLevel t = w_recoveryDelayLevel s1 \<and>
       w_csLock t = 0 \<and> w_state t \<notin> {SLWIFICONN_STATE_OFF, SLWIFICONN_STATE_EXT_PROVISIONING} \<longrightarrow>
       (\<exists>s2. EnterCONNECTED example_sdk bNotify t = Some s2 \<and> w_state s2 = SLWIFICONN_STATE_CONNECTED \<and>
          (if (256 :: nat) mod 256 = 0 then unat (w_recoveryDelayLevel s2) = min 4 256
           else w_recoveryDelayLevel s2 = 0) \<and> w_fatalErrorCount s2 = 0)" by blast
  let ?t = "s1\<lparr>w_csLock := 0, w_state := SLWIFICONN_STATE_WAIT_FOR_IP, w_hasNetIfCB := True\<rparr>"
  from t [rule_format, of ?t True] s1 show ?thesis by auto
qed

subsection \<open>Idle intervals\<close>

lemma unat_ucast_16_32 [simp]: "unat (ucast (x :: u16) :: u32) = unat x"
proof -
  have "unat x < 2 ^ 16" using unsigned_less [of x] by simp
  then show ?thesis by (simp add: unsigned_ucast_eq take_bit_nat_eq_self_iff)
qed

text \<open>\<open>n\<close> consecutive entries of IDLE; \<open>f\<close> is what the module does between two of them.\<close>

fun idle_entries :: "sdk \<Rightarrow> (wifi \<Rightarrow> wifi) \<Rightarrow> nat \<Rightarrow> wifi \<Rightarrow> wifi option" where
  "idle_entries E f 0 s = Some s"
| "idle_entries E f (Suc n) s = do { s1 \<leftarrow> idle_entries E f n s; EnterIDLE E (f s1) }"

lemma EnterIDLE_effect:
  assumes "interf_api E" and "\<forall>h s. w_settings (interference E h s) = w_settings s" and "w_csLock s = 0"
  shows "\<exists>s'. EnterIDLE E s = Some s' \<and> w_csLock s' = 0 \<and> w_settings s' = w_settings s \<and>
    w_timer s' = ucast (w_idleInterval s) \<and> w_state s' = SLWIFICONN_STATE_IDLE \<and>
    w_idleInterval s' = (if w_idleInterval s * 2 > idleMaxInterval (w_settings s)
       then idleMaxInterval (w_settings s) else w_idleInterval s * 2)"
proof -
  have n: "\<exists>u. NotifyWifiApp E ev t = Some u \<and> w_idleInterval u = w_idleInterval t \<and> w_csLock u = 0 \<and>
      w_settings u = w_settings t" if "w_csLock t = 0" for ev t
    using NotifyWifiApp_calm [OF assms(1) that, of ev] assms(2)
    by (auto simp: calm_def NotifyWifiApp_def notify_window_def Let_def ENTER_Some call_def CRITICAL_SECTION_EXIT_def
        split: if_splits)
  obtain r u where u: "SuspendNWP E True s = Some (r, u)" "w_idleInterval u = w_idleInterval s" "w_csLock u = 0"
    "w_settings u = w_settings s"
    using n [of "call (C_sl_WlanPolicySet_conn (w_disabledPolicy s) True) s" WifiConnEvent_POWERED_DOWN] assms(3)
    by (cases "sl_WlanPolicySet_ret E (w_log s) = 0") (auto simp: SuspendNWP_def Let_def call_def)
  then show ?thesis by (simp add: EnterIDLE_def Let_def StartAsyncEvtTimer_def SetState_def)
qed

text \<open>C5: the waits of successive entries of IDLE. Start with the interval at \<open>idleMinInterval\<close>, as
  \<open>EnterCONNECTED\<close> (and ENABLE) leaves it; let what the module does between the entries keep the
  interval, the settings and the lock it holds; and let the other threads, while the application is told,
  act through the API and not change the settings. Then the first entry waits \<open>idleMinInterval\<close>, the
  next twice that, then four times, ... up to \<open>idleMaxInterval\<close>. Both settings are below 2^15 here: an
  interval of at least 2^15 doubles to a 16-bit value below itself.\<close>

theorem idle_interval_series:
  assumes "interf_api E" and "\<forall>h s. w_settings (interference E h s) = w_settings s" and "w_csLock s = 0"
    and "w_idleInterval s = idleMinInterval (w_settings s)"
    and "unat (idleMinInterval (w_settings s)) < 2 ^ 15" and "unat (idleMaxInterval (w_settings s)) < 2 ^ 15"
    and "\<forall>t. w_idleInterval (f t) = w_idleInterval t \<and> w_settings (f t) = w_settings t \<and> w_csLock (f t) = w_csLock t"
  shows "\<exists>s'. idle_entries E f (Suc n) s = Some s' \<and> w_state s' = SLWIFICONN_STATE_IDLE \<and>
    unat (w_timer s') = (if n = 0 then unat (idleMinInterval (w_settings s))
      else min (unat (idleMinInterval (w_settings s)) * 2 ^ n) (unat (idleMaxInterval (w_settings s)))) \<and>
    (\<forall>b u v. EnterCONNECTED E b u = Some v \<longrightarrow> w_idleInterval v = idleMinInterval (w_settings v))"
proof -
  let ?m = "unat (idleMinInterval (w_settings s))" and ?M = "unat (idleMaxInterval (w_settings s))"
  have step: "\<exists>s'. idle_entries E f n s = Some s' \<and> w_csLock s' = 0 \<and> w_settings s' = w_settings s \<and>
    unat (w_idleInterval s') = (if n = 0 then ?m else min (?m * 2 ^ n) ?M)" for n
  proof (induction n)
    case (Suc n)
    then obtain s1 where s1: "idle_entries E f n s = Some s1" "w_csLock (f s1) = 0"
      "w_settings (f s1) = w_settings s" "unat (w_idleInterval (f s1)) = (if n = 0 then ?m else min (?m * 2 ^ n) ?M)"
      using assms(7) by auto
    then have "unat (w_idleInterval (f s1)) * 2 < 2 ^ 16" using assms(5,6) by (auto split: if_splits)
    then have "unat (w_idleInterval (f s1) * 2) = unat (w_idleInterval (f s1)) * 2"
      by (simp add: unat_mult_lem [THEN iffD1])
    with EnterIDLE_effect [OF assms(1,2) s1(2)] s1 show ?case
      by (auto simp: word_less_nat_alt min_def split: if_splits)
  qed (simp add: assms)
  have set: "w_idleInterval v = idleMinInterval (w_settings v)" if "EnterCONNECTED E b u = Some v" for b u v
    using that by (auto simp: EnterCONNECTED_def Let_def bind_Some_iff SetState_def StartAsyncEvtTimer_def)
  from step [of n] obtain s1 where s1: "idle_entries E f n s = Some s1" "w_csLock (f s1) = 0"
    "unat (w_idleInterval (f s1)) = (if n = 0 then ?m else min (?m * 2 ^ n) ?M)" using assms(7) by auto
  from EnterIDLE_effect [OF assms(1,2) s1(2)] s1 set show ?thesis by fastforce
qed

theorem idle_interval_series_witness:
  "\<exists>s'. idle_entries example_sdk (\<lambda>t. t) (Suc 3)
      (example_on\<lparr>w_idleInterval := 20, w_csLock := 0, w_hasAppCB := True\<rparr>) = Some s' \<and>
    w_state s' = SLWIFICONN_STATE_IDLE \<and> unat (w_timer s') = 120"
proof -
  let ?s = "example_on\<lparr>w_idleInterval := 20, w_csLock := 0, w_hasAppCB := True\<rparr>"
  have g: "w_settings ?s = g_settings_default example_sdk"
    by (simp add: example_on_def CRITICAL_SECTION_EXIT_def init_context_def calloc_ctx_def Let_def call_def example_wifi_def)
  have i: "\<forall>h s. w_settings (interference example_sdk h s) = w_settings s" by (simp add: example_sdk_def)
  have "\<exists>s'. idle_entries example_sdk (\<lambda>t. t) (Suc 3) ?s = Some s' \<and> w_state s' = SLWIFICONN_STATE_IDLE \<and>
    unat (w_timer s') = (if (3 :: nat) = 0 then unat (idleMinInterval (w_settings ?s))
      else min (unat (idleMinInterval (w_settings ?s)) * 2 ^ 3) (unat (idleMaxInterval (w_settings ?s)))) \<and>
    (\<forall>b u v. EnterCONNECTED example_sdk b u = Some v \<longrightarrow> w_idleInterval v = idleMinInterval (w_settings v))"
    by (rule idle_interval_series [OF example_interf i]) (simp_all only: g, simp_all add: g_settings_default_def)
  then show ?thesis unfolding g by (auto simp: g_settings_default_def)
qed

end
