(* ===== verification/WifiProps2.thy ===== *)
theory WifiProps2
  imports WifiProps
begin

text \<open>
  Properties of the connection manager's queues, profiles, API and shutdown.
\<close>

subsection \<open>Deferred events\<close>

text \<open>What the replay of the deferred events leaves in the log: one profile per deferred ADD_PROFILE
  (newest first).\<close>

definition deferred_adds :: "deferred list \<Rightarrow> sl_call list" where
  "deferred_adds ds = rev (concat (map (\<lambda>(ev, p). case p of
     Some pr \<Rightarrow> if ev = SLWIFICONN_EVENT_ADD_PROFILE then [C_sl_WlanProfileAdd pr] else []
   | None \<Rightarrow> []) ds))"

lemma deferred_adds_Cons:
  "deferred_adds ((ev, p) # ds) = deferred_adds ds @ (case p of
     Some pr \<Rightarrow> if ev = SLWIFICONN_EVENT_ADD_PROFILE then [C_sl_WlanProfileAdd pr] else []
   | None \<Rightarrow> [])"
  by (simp add: deferred_adds_def split: option.split)

lemma DeferredEvent_loop_FIFO:
  assumes "w_initialized s" and "\<forall>d\<in>set (mq_msgs (w_DeferredEventQ s)). fst d \<noteq> SLWIFICONN_EVENT_MAX"
    and "length (mq_msgs (w_eventQ s)) + length (mq_msgs (w_DeferredEventQ s)) \<le> mq_maxmsg (w_eventQ s)"
  shows "DeferredEvent_loop E r s =
    Some (if mq_msgs (w_DeferredEventQ s) = [] then r else 0,
      s\<lparr>w_eventQ := (w_eventQ s)\<lparr>mq_msgs := mq_msgs (w_eventQ s) @ map fst (mq_msgs (w_DeferredEventQ s))\<rparr>,
        w_DeferredEventQ := (w_DeferredEventQ s)\<lparr>mq_msgs := []\<rparr>,
        w_log := deferred_adds (mq_msgs (w_DeferredEventQ s)) @ w_log s\<rparr>)"
  using assms
proof (induction "mq_msgs (w_DeferredEventQ s)" arbitrary: s r)
  case Nil
  then have e: "mq_msgs (w_DeferredEventQ s) = []" by simp
  then have q: "(w_DeferredEventQ s)\<lparr>mq_msgs := []\<rparr> = w_DeferredEventQ s" by (cases "w_DeferredEventQ s") simp
  show ?case
    by (simp add: DeferredEvent_loop.simps [of E r s] DeferredEvent_dequeue_def mq_receive_def
        deferred_adds_def e q)
next
  case (Cons d ds)
  obtain ev p where d: "d = (ev, p)" by (cases d)
  note ms = Cons.hyps(2) [symmetric]
  let ?q = "(w_DeferredEventQ s)\<lparr>mq_msgs := ds\<rparr>"
  let ?e = "(w_eventQ s)\<lparr>mq_msgs := mq_msgs (w_eventQ s) @ [ev]\<rparr>"
  let ?s2 = "(sl_WlanProfileAdd_deferred ev p (s\<lparr>w_DeferredEventQ := ?q\<rparr>))\<lparr>w_eventQ := ?e\<rparr>"
  have ev: "ev \<noteq> SLWIFICONN_EVENT_MAX" using Cons.prems(2) ms d by auto
  have dq: "DeferredEvent_dequeue s =
      (int (length ds), Some (ev, p), s\<lparr>w_DeferredEventQ := ?q\<rparr>)"
    using ms d by (simp add: DeferredEvent_dequeue_def mq_receive_def mq_curmsgs_def)
  have add: "sl_WlanProfileAdd_deferred ev p t = t\<lparr>w_log := deferred_adds [d] @ w_log t\<rparr>" for t
    using d by (cases t) (auto simp: sl_WlanProfileAdd_deferred_def deferred_adds_def call_def split: option.split)
  have sig: "SignalEvent E ev (sl_WlanProfileAdd_deferred ev p (s\<lparr>w_DeferredEventQ := ?q\<rparr>)) = Some (0, ?s2)"
    using Cons.prems(1,3) ev ms by (simp add: add SignalEvent_def mq_send_def mq_full_def)
  have IH: "DeferredEvent_loop E 0 ?s2 =
    Some (if mq_msgs (w_DeferredEventQ ?s2) = [] then 0 else 0,
      ?s2\<lparr>w_eventQ := (w_eventQ ?s2)\<lparr>mq_msgs := mq_msgs (w_eventQ ?s2) @ map fst (mq_msgs (w_DeferredEventQ ?s2))\<rparr>,
        w_DeferredEventQ := (w_DeferredEventQ ?s2)\<lparr>mq_msgs := []\<rparr>,
        w_log := deferred_adds (mq_msgs (w_DeferredEventQ ?s2)) @ w_log ?s2\<rparr>)"
    using Cons.prems ms by (intro Cons.hyps(1)) (simp_all add: add)
  have unf: "DeferredEvent_loop E r s = DeferredEvent_loop E 0 ?s2"
    by (simp add: DeferredEvent_loop.simps [of E r s] dq sig)
  show ?case using IH ms d unfolding unf by (simp add: add deferred_adds_def)
qed

text \<open>C6: processing the deferred events, when they fit into the event queue, signals every one of
  them in the order they were deferred, adds every deferred profile, and leaves the deferred queue
  empty; the result says whether there was one.\<close>

theorem DeferredEvent_process_FIFO:
  assumes "wifi_ok s" and "\<forall>d\<in>set (mq_msgs (w_DeferredEventQ s)). fst d \<noteq> SLWIFICONN_EVENT_MAX"
    and "length (mq_msgs (w_eventQ s)) + length (mq_msgs (w_DeferredEventQ s)) \<le> 10"
  shows "\<exists>s'. DeferredEvent_process E s =
      Some (if mq_msgs (w_DeferredEventQ s) = [] then SL_RET_OBJ_NOT_SET E else 0, s') \<and>
    mq_msgs (w_eventQ s') = mq_msgs (w_eventQ s) @ map fst (mq_msgs (w_DeferredEventQ s)) \<and>
    mq_msgs (w_DeferredEventQ s') = [] \<and>
    w_log s' = deferred_adds (mq_msgs (w_DeferredEventQ s)) @ w_log s \<and> w_state s' = w_state s"
  using DeferredEvent_loop_FIFO [of s E "SL_RET_OBJ_NOT_SET E"] assms
  by (simp add: DeferredEvent_process_def wifi_ok_def)

definition example_deferred :: wifi where
  "example_deferred = example_on\<lparr>w_DeferredEventQ :=
     \<lparr>mq_maxmsg = 3, mq_msgs = [(SLWIFICONN_EVENT_DISABLE, None), (SLWIFICONN_EVENT_TIMEOUT, None)]\<rparr>\<rparr>"

lemma example_deferred_ok: "wifi_ok example_deferred"
  using example_on_ok by (simp add: wifi_ok_def example_deferred_def reg_ok_def mq_ok_def)

lemma example_on_queues [simp]: "mq_msgs (w_eventQ example_on) = []" "mq_maxmsg (w_eventQ example_on) = 10"
  "mq_maxmsg (w_DeferredEventQ example_on) = 3" "mq_msgs (w_DeferredEventQ example_on) = []"
  "w_initialized example_on" "w_csLock example_on = 1"
  by (simp_all add: example_on_def CRITICAL_SECTION_EXIT_def init_context_def calloc_ctx_def Let_def
      call_def mq_open_def example_wifi_def)

theorem DeferredEvent_process_FIFO_witness:
  "\<exists>s'. DeferredEvent_process example_sdk example_deferred = Some (0, s') \<and>
    mq_msgs (w_eventQ s') = [SLWIFICONN_EVENT_DISABLE, SLWIFICONN_EVENT_TIMEOUT]"
  using DeferredEvent_process_FIFO [OF example_deferred_ok, of example_sdk]
  by (fastforce simp: example_deferred_def)

subsection \<open>Profiles\<close>

text \<open>C7: adding a persistent profile while provisioning is in progress copies it and defers it: the
  copy goes to the end of the deferred queue and one ADD_PROFILE event to the end of the event queue,
  and the result is 0. When the deferred queue (three entries) or the event queue (ten) is full the
  call does not return; and it then holds the lock, because it makes both calls that may block,
  whatever they do, in the state in which it has taken the lock, and gives it back only after
  them.\<close>

theorem SlWifiConn_addProfile_deferred:
  assumes "w_initialized s" and "w_csLock s = 1" and "\<not> bit flags 0"
    and "sl_WlanProfileAdd_ret E (w_log s) = SL_RET_CODE_PROVISIONING_IN_PROGRESS E"
    and "malloc_ok E (C_sl_WlanProfileAdd_direct # w_log s)"
    and "pack_profile E ssid mac sec ext prio = Some p"
  shows "SlWifiConn_addProfile E ssid mac sec ext prio flags s =
    (if mq_full (w_DeferredEventQ s) \<or> mq_full (w_eventQ s) then None
     else Some (0, s\<lparr>w_log := C_malloc # C_sl_WlanProfileAdd_direct # w_log s,
       w_DeferredEventQ := (w_DeferredEventQ s)\<lparr>mq_msgs :=
         mq_msgs (w_DeferredEventQ s) @ [(SLWIFICONN_EVENT_ADD_PROFILE, Some p)]\<rparr>,
       w_eventQ := (w_eventQ s)\<lparr>mq_msgs := mq_msgs (w_eventQ s) @ [SLWIFICONN_EVENT_ADD_PROFILE]\<rparr>\<rparr>)) \<and>
    (\<forall>enqueue signal. SlWifiConn_addProfile_via enqueue signal E ssid mac sec ext prio flags s = do {
       (r, t) \<leftarrow> enqueue SLWIFICONN_EVENT_ADD_PROFILE (Some p)
                  (s\<lparr>w_csLock := 0, w_log := C_malloc # C_sl_WlanProfileAdd_direct # w_log s\<rparr>);
       u \<leftarrow> (if r \<ge> 0 then map_option snd (signal E SLWIFICONN_EVENT_ADD_PROFILE t) else Some t);
       Some (r, u\<lparr>w_csLock := Suc (w_csLock u)\<rparr>) })"
proof -
  have s: "s\<lparr>w_csLock := Suc 0\<rparr> = s" using assms(2) by (cases s) simp
  have o: "s\<lparr>w_log := l, w_DeferredEventQ := d, w_eventQ := e, w_csLock := Suc 0\<rparr> =
    s\<lparr>w_log := l, w_DeferredEventQ := d, w_eventQ := e\<rparr>" for l d e
    using assms(2) by (cases s) simp
  have via: "SlWifiConn_addProfile_via enqueue signal E ssid mac sec ext prio flags s = do {
       (r, t) \<leftarrow> enqueue SLWIFICONN_EVENT_ADD_PROFILE (Some p)
                  (s\<lparr>w_csLock := 0, w_log := C_malloc # C_sl_WlanProfileAdd_direct # w_log s\<rparr>);
       u \<leftarrow> (if r \<ge> 0 then map_option snd (signal E SLWIFICONN_EVENT_ADD_PROFILE t) else Some t);
       Some (r, u\<lparr>w_csLock := Suc (w_csLock u)\<rparr>) }" for enqueue signal
    using assms by (simp add: SlWifiConn_addProfile_via_def CRITICAL_SECTION_ENTER_def CRITICAL_SECTION_EXIT_def
      Let_def call_def)
  then show ?thesis using assms
    by (simp add: SlWifiConn_addProfile_def DeferredEvent_enqueue_def SignalEvent_def mq_send_def o)
qed

theorem SlWifiConn_addProfile_deferred_witness:
  "\<exists>p. SlWifiConn_addProfile (example_sdk\<lparr>sl_WlanProfileAdd_ret := (\<lambda>_. -2014)\<rparr>)
     [65, 66] None None None 0 0 (example_on\<lparr>w_DeferredEventQ :=
       \<lparr>mq_maxmsg = 3, mq_msgs = replicate 3 (SLWIFICONN_EVENT_ADD_PROFILE, Some p)\<rparr>\<rparr>) = None"
proof -
  let ?E = "example_sdk\<lparr>sl_WlanProfileAdd_ret := (\<lambda>_. -2014)\<rparr>"
  have "\<exists>p. pack_profile ?E [65, 66] None None None 0 = Some p"
    by (simp add: pack_profile_def copy_bytes_def write_at_def profile_tail_len_def Let_def)
  then obtain p where p: "pack_profile ?E [65, 66] None None None 0 = Some p" by blast
  let ?s = "example_on\<lparr>w_DeferredEventQ :=
       \<lparr>mq_maxmsg = 3, mq_msgs = replicate 3 (SLWIFICONN_EVENT_ADD_PROFILE, Some p)\<rparr>\<rparr>"
  have "SlWifiConn_addProfile ?E [65, 66] None None None 0 0 ?s = None"
    using SlWifiConn_addProfile_deferred [of ?s 0 ?E "[65, 66]" None None None 0 p] p
    by (simp add: mq_full_def) (simp add: example_sdk_def)
  then show ?thesis by blast
qed

text \<open>C8: the packed profile. When SSID, key, user and anonymous user are shorter than 256 bytes, the
  block allocated for the profile is exactly filled, and each of the four is read back from the
  offset and the length that \<open>sl_WlanProfileAdd\<close> and \<open>sl_WlanConnect\<close> are later given.\<close>

theorem pack_profile_roundtrip:
  assumes "length ssid < 256" and "length (sec_key sp) < 256" and "length (ext_user x) < 256"
    and "length (ext_anon x) < 256" and "sec_type sp = SL_WLAN_SEC_TYPE_WPA_ENT E"
  shows "\<exists>p. pack_profile E ssid mac (Some sp) (Some x) prio = Some p \<and>
    read_at 0 (unat (p_ssidLen p)) (p_tail p) = Some (map Some ssid) \<and>
    read_at (PROFILE_PASSWORD p) (unat (p_KeyLen p)) (p_tail p) = Some (map Some (sec_key sp)) \<and>
    read_at (PROFILE_USER p) (unat (p_UserLen p)) (p_tail p) = Some (map Some (ext_user x)) \<and>
    read_at (PROFILE_ANON_USER p) (unat (p_AnonUserLen p)) (p_tail p) = Some (map Some (ext_anon x)) \<and>
    p_tail p = map Some (ssid @ sec_key sp @ ext_user x @ ext_anon x)"
proof -
  have n: "unat (word_of_nat k :: u8) = k" if "k < 256" for k
    using that by (simp add: unsigned_of_nat take_bit_nat_eq_self_iff)
  show ?thesis using assms
    by (simp add: pack_profile_def copy_bytes_def write_at_def read_at_def profile_tail_len_def Let_def
        PROFILE_PASSWORD_def PROFILE_USER_def PROFILE_ANON_USER_def n)
qed

theorem pack_profile_roundtrip_witness:
  "\<exists>p. pack_profile example_sdk [65] None (Some \<lparr>sec_type = 5, sec_key = [1, 2]\<rparr>)
      (Some \<lparr>ext_user = [3], ext_anon = [4, 5]\<rparr>) 7 = Some p \<and>
    p_tail p = map Some [65, 1, 2, 3, 4, 5]"
  using pack_profile_roundtrip [of "[65]" "\<lparr>sec_type = 5, sec_key = [1, 2]\<rparr>"
      "\<lparr>ext_user = [3], ext_anon = [4, 5]\<rparr>" example_sdk None 7]
  by (auto simp: example_sdk_def)

subsection \<open>Roles\<close>

text \<open>\<open>SlWifiConn_setRole\<close> in a state that allows it, whatever the role, leaves 0 in
  the context's role when it returns: it stores the return value of \<open>SetRole\<close>, which is 0 on
  success, over the role \<open>SetRole\<close> has just recorded.\<close>

theorem SlWifiConn_setRole_stores_zero:
  assumes "w_initialized s"
    and "w_state s = SLWIFICONN_STATE_OFF \<or> w_state s = SLWIFICONN_STATE_EXT_PROVISIONING"
    and "SlWifiConn_setRole E role s = Some (r, s')"
  shows "r = 0 \<and> w_role s' = 0"
proof -
  have role0: "SetRole E role t = Some (q, t') \<Longrightarrow> q = 0" for t q t'
    by (auto simp: SetRole_def bind_Some_iff Let_def split: if_splits)
  show ?thesis using assms
    by (auto simp: SlWifiConn_setRole_def bind_Some_iff Let_def CRITICAL_SECTION_EXIT_def ENTER_Some
        dest!: role0)
qed

theorem SlWifiConn_setRole_stores_zero_witness:
  "\<exists>s'. SlWifiConn_setRole (example_sdk\<lparr>sl_Start_ret := (\<lambda>_. 2)\<rparr>) 2 example_on = Some (0, s') \<and>
    w_role s' = 0"
proof -
  let ?E = "example_sdk\<lparr>sl_Start_ret := (\<lambda>_. 2)\<rparr>"
  have off: "w_state example_on = SLWIFICONN_STATE_OFF"
    by (simp add: example_on_def CRITICAL_SECTION_EXIT_def init_context_def Let_def)
  have "\<exists>r s'. SlWifiConn_setRole ?E 2 example_on = Some (r, s')"
    by (simp add: SlWifiConn_setRole_def SetRole_def ResetNWP_def ResetNWP_backoff_def Let_def policy_quiet
       example_on_def CRITICAL_SECTION_EXIT_def CRITICAL_SECTION_ENTER_def init_context_def calloc_ctx_def
       call_def example_sdk_def g_recoveryDelays_def MAX_RECOVERY_LEVEL_def InitNWPConnPolicy_def example_wifi_def)
  then obtain r s' where r: "SlWifiConn_setRole ?E 2 example_on = Some (r, s')" by blast
  from SlWifiConn_setRole_stores_zero [OF example_on_queues(5) _ r] off r show ?thesis by auto
qed

end
