(* ===== verification/WifiProps3.thy ===== *)
theory WifiProps3
  imports WifiProps2
begin

text \<open>
  Properties of the connection manager's start, shutdown, events and timers.
\<close>

lemma no_notify [simp]:
  "\<not> w_hasNetIfCB s \<Longrightarrow> NotifyNetIf E ev s = Some s"
  "\<not> w_hasAppCB s \<Longrightarrow> NotifyWifiApp E ae s = Some s"
  "\<not> w_hasAppCB s \<Longrightarrow> NotifyProvisioningStatus E ps s = Some s"
  by (simp_all add: NotifyNetIf_def NotifyWifiApp_def NotifyProvisioningStatus_def)

subsection \<open>Shutdown during provisioning\<close>


text \<open>\<open>signalled s u\<close>: only events have been signalled and calls logged.\<close>

definition signalled :: "wifi \<Rightarrow> wifi \<Rightarrow> bool" where
  "signalled s u \<longleftrightarrow> (\<exists>es l. u = s\<lparr>w_eventQ := (w_eventQ s)\<lparr>mq_msgs := mq_msgs (w_eventQ s) @ es\<rparr>, w_log := l\<rparr> \<and>
     (length (mq_msgs (w_eventQ s)) \<le> 7 \<longrightarrow> length (mq_msgs (w_eventQ s) @ es) \<le> 7))"

lemma signalled_refl [simp]: "signalled s s"
  by (auto simp: signalled_def intro!: exI [of _ "[]"] exI [of _ "w_log s"])










lemma example_on_cb [simp]: "\<not> w_hasAppCB example_on" "\<not> w_hasNetIfCB example_on"
  by (simp_all add: example_on_def CRITICAL_SECTION_EXIT_def init_context_def calloc_ctx_def Let_def
      call_def example_wifi_def)



subsection \<open>Initialisation\<close>

text \<open>C10: an initialisation that returns leaves the module initialised exactly when its result is
  not negative; then it is in state OFF with the invariant established, the lock free and the error
  counters cleared. When the context cannot be allocated nothing is initialised.\<close>

theorem SlWifiConn_init_outcome:
  assumes "mod_inv s" and "\<not> w_initialized s" and "SlWifiConn_init E cb del s = Some (r, s')"
  shows "if malloc_ok E (w_log s)
    then (w_initialized s' \<longleftrightarrow> r \<ge> 0) \<and>
      (r \<ge> 0 \<longrightarrow> wifi_ok s' \<and> w_csLock s' = 1 \<and> w_state s' = SLWIFICONN_STATE_OFF \<and>
         w_fatalErrorCount s' = 0 \<and> w_recoveryDelayLevel s' = 0)
    else \<not> w_initialized s' \<and> r = SLNETERR_RET_CODE_MALLOC_ERROR E"
proof (cases "malloc_ok E (w_log s)")
  case False
  with assms show ?thesis
    by (auto simp: SlWifiConn_init_def CRITICAL_SECTION_ENTER_def CRITICAL_SECTION_EXIT_def call_def)
next
  case True
  let ?c = "init_context E cb (call C_malloc (s\<lparr>w_csLock := 0\<rparr>))"
  have nwp: "init_nwp E del ?c = Some (r, s')"
    using True assms(2,3) by (simp add: SlWifiConn_init_def CRITICAL_SECTION_ENTER_def)
  have st: "w_state ?c = SLWIFICONN_STATE_OFF" "w_initialized ?c"
    by (simp_all add: init_context_def Let_def calloc_ctx_def call_def)
  have main: "post (init_nwp E del c) (\<lambda>(r, u). (w_initialized u \<longleftrightarrow> r \<ge> 0) \<and>
      (r \<ge> 0 \<longrightarrow> w_state u = w_state c \<and> w_fatalErrorCount u = 0 \<and> w_recoveryDelayLevel u = 0))"
    if c: "w_initialized c" for c
  proof -
    { fix u del assume u: "frame c u"
      let ?t = "count_profiles E 8 0 ((if del then call C_sl_Start (snd (ResetNWPProfileForProvisioning E u))
        else u)\<lparr>w_profileCount := 0\<rparr>)"
      have "frame c ?t" using u by simp
      then have "w_initialized ?t" "w_state ?t = w_state c" using c by (auto simp: frame_def keeps_def) }
    note t = this
    show ?thesis unfolding init_nwp_def Let_def using t [of _ del]
      by (auto simp: policy_quiet CRITICAL_SECTION_EXIT_def Deinit_def call_def
          intro!: frame_post [OF frame_init_role, where s = c])
  qed
  have "mod_inv s'"
    using postD [OF mod_inv_init [OF assms(1)] assms(3)] by simp
  with post_pairD [OF main [OF st(2)] nwp] True st show ?thesis by (auto simp: mod_inv_def)
qed

theorem SlWifiConn_init_outcome_witness:
  "\<exists>s'. SlWifiConn_init example_sdk False False example_wifi = Some (0, s') \<and>
    w_initialized s' \<and> w_state s' = SLWIFICONN_STATE_OFF \<and> wifi_ok s'"
proof -
  obtain s' where s': "SlWifiConn_init example_sdk False False example_wifi = Some (0, s')"
    using example_init by blast
  have m: "malloc_ok example_sdk (w_log example_wifi)" "\<not> w_initialized example_wifi"
    by (simp_all add: example_sdk_def example_wifi_def)
  from SlWifiConn_init_outcome [OF mod_inv_start [OF example_start] m(2) s'] m s' show ?thesis by auto
qed

subsection \<open>Events\<close>

text \<open>a CONNECT event with an SSID of at most 32 bytes records SSID (0-terminated) and BSSID, and
  signals CONNECTED behind the events already queued. With a longer SSID the copy leaves the
  buffer, and with a full event queue the handler blocks.\<close>

theorem SLWlanEventHandler_connect:
  assumes "wifi_ok s" and "length bssid = 6"
  shows "if length ssid \<le> 32 \<and> length (mq_msgs (w_eventQ s)) < 10
    then \<exists>s'. SLWlanEventHandler E (SL_WLAN_EVENT_CONNECT ssid bssid) s = Some s' \<and>
      take (length ssid) (w_connectionSSID s') = ssid \<and> w_connectionSSID s' ! length ssid = 0 \<and>
      w_connectionBSSID s' = bssid \<and>
      mq_msgs (w_eventQ s') = mq_msgs (w_eventQ s) @ [SLWIFICONN_EVENT_CONNECTED]
    else SLWlanEventHandler E (SL_WLAN_EVENT_CONNECT ssid bssid) s = None"
  using assms
  by (auto simp: SLWlanEventHandler_def store_connection_def write_at_def signal_opt_def
      SignalEvent_def mq_send_def mq_full_def wifi_ok_def nth_append)

theorem SLWlanEventHandler_connect_witness:
  "\<exists>s'. SLWlanEventHandler example_sdk (SL_WLAN_EVENT_CONNECT [84, 73] [1, 2, 3, 4, 5, 6]) example_on = Some s' \<and>
    take 2 (w_connectionSSID s') = [84, 73] \<and> mq_msgs (w_eventQ s') = [SLWIFICONN_EVENT_CONNECTED]"
  using SLWlanEventHandler_connect [OF example_on_ok, of "[1, 2, 3, 4, 5, 6]" "[84, 73]" example_sdk]
  by (auto simp: numeral_2_eq_2)

text \<open>The result of a call that only signals an event.\<close>

definition signal_result :: "sdk \<Rightarrow> slevent \<Rightarrow> wifi \<Rightarrow> (int \<times> wifi) option" where
  "signal_result E ev s =
     (if \<not> w_initialized s then Some (SLNETERR_API_ABORTED E, s)
      else if mq_full (w_eventQ s) then None
      else Some (0, s\<lparr>w_eventQ := (w_eventQ s)\<lparr>mq_msgs := mq_msgs (w_eventQ s) @ [ev]\<rparr>\<rparr>))"

text \<open>the calls that only signal an event. On an initialised module each appends its one event
  to the event queue and returns 0, or blocks when the queue is full; before the initialisation it
  returns the error code and changes nothing. ENABLE is refused when the role is not station.\<close>

theorem signalling_calls:
  "SlWifiConn_disable E s = signal_result E SLWIFICONN_EVENT_DISABLE s \<and>
   SlWifiConn_externalProvsioningCompleted E s = signal_result E SLWIFICONN_EVENT_EXT_PROV_COMPLETED s \<and>
   SlWifiConn_requestReset E s = signal_result E SLWIFICONN_EVENT_RESET_REQUEST s \<and>
   SlWifiConn_enable E s =
     (if w_initialized s \<and> uint (w_role s) \<noteq> ROLE_STA E
      then Some (SLNETERR_WLAN_INVALID_ROLE E, s) else signal_result E SLWIFICONN_EVENT_ENABLE s)"
  by (auto simp: SlWifiConn_disable_def SlWifiConn_externalProvsioningCompleted_def
      SlWifiConn_requestReset_def SlWifiConn_enable_def SignalEvent_def signal_result_def mq_send_def)

text \<open>enabling provisioning rejects a mode or command out of range without touching the module,
  and otherwise registers the three provisioning handlers together with the pointers to the two
  functions the basic states call, records the mode and command, and signals ENABLE_PROVISIONING; the
  flags add the deletion of the stored profiles and the external confirmation.\<close>

theorem SlWifiConn_enableProvisioning_effect:
  assumes "wifi_ok s" and "w_csLock s = 1" and "length (mq_msgs (w_eventQ s)) < 10"
  shows "if mode > 2 \<or> (command > PROV_START_MODE_APSC_EXTERNAL_CONFIGURATION E \<and>
                          command \<noteq> SLWIFICONN_PROV_CMD_EXTERNAL_CONFIGURATION)
    then SlWifiConn_enableProvisioning E mode command flags s = Some (SLNETERR_BSD_EINVAL E, s)
    else \<exists>s'. SlWifiConn_enableProvisioning E mode command flags s = Some (0, s') \<and>
      (\<forall>st. w_smReg s' st \<longleftrightarrow> st \<in> prov_states \<or> w_smReg s st) \<and>
      w_enterProvReg s' \<and> w_provStatusReg s' \<and> w_provCmd s' = command \<and>
      w_provMode s' = prov_mode_of mode \<and>
      (w_bDeleteAllProfiles s' \<longleftrightarrow> bit flags 1 \<or> w_bDeleteAllProfiles s) \<and>
      w_provFlags s' = (if bit flags 0 then PROV_FLAG_EXTERNAL_CONFIRMATION E else w_provFlags s) \<and>
      mq_msgs (w_eventQ s') = mq_msgs (w_eventQ s) @ [SLWIFICONN_EVENT_ENABLE_PROVISIONING] \<and>
      w_csLock s' = 1 \<and> w_state s' = w_state s"
proof -
  have i: "w_initialized s" "\<not> mq_full (w_eventQ s)" using assms by (auto simp: wifi_ok_def mq_full_def)
  show ?thesis
  proof (cases "mode > 2 \<or> (command > PROV_START_MODE_APSC_EXTERNAL_CONFIGURATION E \<and>
      command \<noteq> SLWIFICONN_PROV_CMD_EXTERNAL_CONFIGURATION)")
    case True
    with i show ?thesis by (simp add: SlWifiConn_enableProvisioning_def)
  next
    case False
    then show ?thesis using i assms(2) unfolding if_not_P [OF False]
      by (cases "bit flags 0"; cases "bit flags 1")
        (simp_all add: SlWifiConn_enableProvisioning_def CRITICAL_SECTION_ENTER_def
          CRITICAL_SECTION_EXIT_def SignalEvent_def mq_send_def register_states_def prov_states_def
          del: prov_mode_of.simps)
  qed
qed

theorem SlWifiConn_enableProvisioning_effect_witness:
  "\<exists>s'. SlWifiConn_enableProvisioning example_sdk 2 0 3 example_on = Some (0, s') \<and>
    w_provMode s' = WifiProvMode_ON \<and> w_smReg s' SLWIFICONN_STATE_PROVISIONING \<and> w_bDeleteAllProfiles s'"
proof -
  have b: "bit (3 :: u32) 1" by simp
  have m: "\<not> (2 < (2 :: nat) \<or> (PROV_START_MODE_APSC_EXTERNAL_CONFIGURATION example_sdk < 0 \<and>
    0 \<noteq> SLWIFICONN_PROV_CMD_EXTERNAL_CONFIGURATION))" by simp
  have p: "SLWIFICONN_STATE_PROVISIONING \<in> prov_states" by (simp add: prov_states_def)
  have q: "length (mq_msgs (w_eventQ example_on)) < 10" by simp
  obtain s' where s': "SlWifiConn_enableProvisioning example_sdk 2 0 3 example_on = Some (0, s')"
    "\<forall>st. w_smReg s' st \<longleftrightarrow> st \<in> prov_states \<or> w_smReg example_on st"
    "w_provMode s' = prov_mode_of 2"
    "w_bDeleteAllProfiles s' \<longleftrightarrow> bit (3 :: u32) 1 \<or> w_bDeleteAllProfiles example_on"
    using SlWifiConn_enableProvisioning_effect [OF example_on_ok example_on_queues(6) q, where mode = 2 and command = 0 and E = example_sdk and flags = 3,
      unfolded if_not_P [OF m]] by (elim exE conjE) (rule that)
  from s'(1) s'(2-4) b p show ?thesis by (intro exI [of _ s']) simp
qed

end
