(* ===== verification/WifiTimer.thy ===== *)
theory WifiTimer
  imports WifiProps3
begin

text \<open>
  The timer: in every state that waits for something, the timer is running.
\<close>

text \<open>\<open>quiet\<close>: the operation left the settings and the idle interval alone, and there are no
  callbacks through which anybody else could change them.\<close>

definition quiet :: "wifi \<Rightarrow> wifi \<Rightarrow> bool" where
  "quiet s u \<longleftrightarrow> \<not> w_hasAppCB u \<and> \<not> w_hasNetIfCB u \<and> w_settings u = w_settings s \<and>
     w_idleInterval u = w_idleInterval s"

lemma quiet_call [simp]: "quiet s (call c t) = quiet s t" by (simp add: quiet_def call_def)
lemma quiet_timer [simp]: "quiet s (StartAsyncEvtTimer d t) = quiet s t" "quiet s (StopAsyncEvtTimer t) = quiet s t"
  by (simp_all add: quiet_def wifi_simps)
lemma quiet_SetState [simp]: "quiet s (SetState st t) = quiet s t" by (simp add: quiet_def wifi_simps)
lemma quiet_fields [simp]:
  "quiet s (t\<lparr>w_role := r\<rparr>) = quiet s t" "quiet s (t\<lparr>w_bWlanConnectUsed := b\<rparr>) = quiet s t"
  "quiet s (t\<lparr>w_provMode := m\<rparr>) = quiet s t" "quiet s (t\<lparr>w_bDeleteAllProfiles := b\<rparr>) = quiet s t"
  "quiet s (t\<lparr>w_enabledPolicy := p, w_disabledPolicy := q\<rparr>) = quiet s t"
  "quiet s (t\<lparr>w_fatalErrorCount := n, w_recoveryDelayLevel := l\<rparr>) = quiet s t"
  "quiet s (t\<lparr>w_fatalErrorCount := n\<rparr>) = quiet s t"
  "quiet s (t\<lparr>w_eventQ := eq\<rparr>) = quiet s t" "quiet s (t\<lparr>w_DeferredEventQ := dq\<rparr>) = quiet s t"
  by (simp_all add: quiet_def)

lemma quiet_notify [simp]:
  "quiet s t \<Longrightarrow> NotifyNetIf E ev t = Some t" "quiet s t \<Longrightarrow> NotifyWifiApp E ae t = Some t"
  "quiet s t \<Longrightarrow> NotifyProvisioningStatus E ps t = Some t"
  by (simp_all add: quiet_def)

lemma quiet_NWP:
  "quiet s t \<Longrightarrow> post (SuspendNWP E b t) (\<lambda>(r, u). quiet s u)"
  "quiet s t \<Longrightarrow> post (ResumeNWP E b t) (\<lambda>(r, u). quiet s u)"
  by (auto simp: SuspendNWP_def ResumeNWP_def Let_def)

lemma quiet_InitNWPConnPolicy [simp]: "quiet s (snd (InitNWPConnPolicy E t)) = quiet s t"
  by (simp add: InitNWPConnPolicy_def Let_def split: prod.split)

lemma quiet_ResetNWP: "quiet s t \<Longrightarrow> post (ResetNWP E t) (\<lambda>(r, u). quiet s u)"
proof -
  assume q: "quiet s t"
  have b: "ResetNWP_backoff t = Some (d, u) \<Longrightarrow> quiet s u" for d u
    using q by (auto simp: ResetNWP_backoff_def Let_def split: if_splits)
  have "post (ResetNWP_backoff t) (\<lambda>(d, u). quiet s u)" using b by (auto simp: post_def)
  then show ?thesis unfolding ResetNWP_def
    by (auto simp: Let_def policy_quiet elim: post_mono)
qed

lemma quiet_SetRole: "quiet s t \<Longrightarrow> post (SetRole E rl t) (\<lambda>(r, u). quiet s u)"
  by (auto simp: SetRole_def Let_def intro!: post_mono [OF quiet_ResetNWP [of s]])

definition armed :: "wifi \<Rightarrow> bool" where
  "armed u \<longleftrightarrow> w_state u \<in> {SLWIFICONN_STATE_IDLE, SLWIFICONN_STATE_WAIT_FOR_CONN,
     SLWIFICONN_STATE_WAIT_FOR_IP} \<longrightarrow> w_timer u \<noteq> 0"

definition timeouts_set :: "wifi \<Rightarrow> bool" where
  "timeouts_set s \<longleftrightarrow> connectTimeout (w_settings s) \<noteq> 0 \<and> ipTimeout (w_settings s) \<noteq> 0 \<and>
     reconnectTimeout (w_settings s) \<noteq> 0 \<and> idleMinInterval (w_settings s) \<noteq> 0 \<and>
     w_idleInterval s \<noteq> 0"

lemma ucast_16_32_zero [simp]: "(ucast (x :: u16) :: u32) = 0 \<longleftrightarrow> x = 0"
  by (metis unat_ucast_16_32 unat_eq_zero)

lemma armed_EnterWAIT_FOR_CONN: "t \<noteq> 0 \<Longrightarrow> post (EnterWAIT_FOR_CONN E t b s) armed"
  by (cases "DeferredEvent_process E s")
    (auto simp: EnterWAIT_FOR_CONN_def Let_def armed_def SetState_def StartAsyncEvtTimer_def)

lemma armed_CONNECTED: "w_state u = SLWIFICONN_STATE_CONNECTED \<Longrightarrow> armed u" by (simp add: armed_def)

lemma armed_EnterCONNECTED: "post (EnterCONNECTED E b s) armed"
  by (auto simp: post_def EnterCONNECTED_def Let_def bind_Some_iff intro!: armed_CONNECTED)

lemma armed_prov: "w_state u \<in> prov_states \<Longrightarrow> armed u" by (auto simp: armed_def prov_states_def)

lemma quiet_SetApParams: "quiet s t \<Longrightarrow> post (SetApParams E t) (\<lambda>(r, u). r = 0 \<and> quiet s u)"
  by (auto simp: SetApParams_def Let_def split: option.split intro!: post_mono [OF quiet_ResetNWP [of s]])

lemma armed_EnterPROVISIONING:
  "quiet s t \<Longrightarrow> post (EnterPROVISIONING E t) (\<lambda>(r, u). quiet s u \<and> armed u)"
proof -
  assume q: "quiet s t"
  have t: "w_state (StartAsyncEvtTimer d u) = w_state u" for d u by (simp add: StartAsyncEvtTimer_def)
  show ?thesis using q
    by (auto simp: EnterPROVISIONING_def Let_def t prov_states_def intro!: armed_prov
        post_mono [OF quiet_SetApParams [of s]])
qed

lemma armed_EnterPROV_STOPPING: "post (EnterPROV_STOPPING E ev p s) (\<lambda>(r, u). armed u)"
  by (auto simp: post_def EnterPROV_STOPPING_def Let_def bind_Some_iff prov_states_def intro!: armed_prov)

lemma armed_EnterWAIT_FOR_IP:
  "quiet s t \<Longrightarrow> timeouts_set s \<Longrightarrow> post (EnterWAIT_FOR_IP E t) armed"
  by (auto simp: EnterWAIT_FOR_IP_def Let_def armed_EnterCONNECTED split: prod.split)
    (auto simp: armed_def SetState_def StartAsyncEvtTimer_def timeouts_set_def quiet_def call_def)

lemma armed_EnterIDLE:
  "quiet s t \<Longrightarrow> timeouts_set s \<Longrightarrow> post (EnterIDLE E t) armed"
  by (auto simp: EnterIDLE_def Let_def intro!: post_mono [OF quiet_NWP(1) [of s]])
    (auto simp: armed_def SetState_def StartAsyncEvtTimer_def timeouts_set_def quiet_def)

lemma quiet_refl: "\<not> w_hasAppCB s \<Longrightarrow> \<not> w_hasNetIfCB s \<Longrightarrow> quiet s s" by (simp add: quiet_def)

lemma quiet_timeouts:
  "quiet s u \<Longrightarrow> timeouts_set s \<Longrightarrow> timeouts_set u"
  by (simp add: quiet_def timeouts_set_def)

definition arms :: "slevent \<Rightarrow> wifi \<Rightarrow> bool" where
  "arms ev s \<longleftrightarrow> quiet s s \<and> timeouts_set s \<and> (armed s \<or> ev = SLWIFICONN_EVENT_TIMEOUT)"

lemma timeouts_nonzero:
  "quiet s u \<Longrightarrow> timeouts_set s \<Longrightarrow> connectTimeout (w_settings u) \<noteq> 0"
  "quiet s u \<Longrightarrow> timeouts_set s \<Longrightarrow> reconnectTimeout (w_settings u) \<noteq> 0"
  "quiet s u \<Longrightarrow> timeouts_set s \<Longrightarrow> ipTimeout (w_settings u) \<noteq> 0"
  by (auto simp: quiet_def timeouts_set_def)

lemma armed_waits:
  "quiet s u \<Longrightarrow> timeouts_set s \<Longrightarrow> post (EnterWAIT_FOR_CONN E (connectTimeout (w_settings u)) b u) armed"
  "quiet s u \<Longrightarrow> timeouts_set s \<Longrightarrow> post (EnterWAIT_FOR_CONN E (reconnectTimeout (w_settings u)) b u) armed"
  by (simp_all add: armed_EnterWAIT_FOR_CONN timeouts_nonzero)

lemmas armed_enters = armed_waits [of s] armed_EnterCONNECTED armed_EnterWAIT_FOR_IP [of s]
  armed_EnterIDLE [of s] post_mono [OF armed_EnterPROV_STOPPING] post_mono [OF armed_EnterPROVISIONING [of s]]
  post_mono [OF quiet_NWP(2) [of s]] post_mono [OF quiet_ResetNWP [of s]] post_mono [OF quiet_SetRole [of s]]
  for s

lemma armed_smState_OFF:
  assumes "arms ev s" and "w_state s = SLWIFICONN_STATE_OFF"
  shows "post (smState_OFF E ev s) (\<lambda>(r, u). armed u)"
proof (cases "ev = SLWIFICONN_EVENT_ENABLE")
  case True
  let ?s = "s\<lparr>w_idleInterval := idleMinInterval (w_settings s)\<rparr>"
  have q: "quiet ?s ?s" and t: "timeouts_set ?s"
    using assms(1) by (simp_all add: arms_def quiet_def timeouts_set_def)
  from True q t show ?thesis
    by (auto simp: smState_OFF_def Let_def intro!: armed_enters [where s = ?s])
next
  case False
  with assms(2) show ?thesis by (cases ev) (simp_all add: smState_OFF_def armed_def)
qed

lemma armed_smState_IDLE:
  "arms ev s \<Longrightarrow> w_state s = SLWIFICONN_STATE_IDLE \<Longrightarrow> post (smState_IDLE E ev s) (\<lambda>(r, u). armed u)"
  by (auto simp: smState_IDLE_def Let_def arms_def intro!: armed_enters [where s = s])
    (auto simp: armed_def SetState_def StartAsyncEvtTimer_def StopAsyncEvtTimer_def timeouts_set_def)

lemma armed_smState_WAIT_FOR_CONN:
  "arms ev s \<Longrightarrow> w_state s = SLWIFICONN_STATE_WAIT_FOR_CONN \<Longrightarrow>
   post (smState_WAIT_FOR_CONN E ev s) (\<lambda>(r, u). armed u)"
  by (cases ev) (auto simp: smState_WAIT_FOR_CONN_def Let_def arms_def intro!: armed_enters [where s = s])

lemma armed_smState_WAIT_FOR_IP:
  "arms ev s \<Longrightarrow> w_state s = SLWIFICONN_STATE_WAIT_FOR_IP \<Longrightarrow>
   post (smState_WAIT_FOR_IP E ev s) (\<lambda>(r, u). armed u)"
  by (cases ev) (auto simp: smState_WAIT_FOR_IP_def Let_def arms_def intro!: armed_enters [where s = s])

lemma armed_smState_CONNECTED:
  "arms ev s \<Longrightarrow> w_state s = SLWIFICONN_STATE_CONNECTED \<Longrightarrow>
   post (smState_CONNECTED E ev s) (\<lambda>(r, u). armed u)"
proof -
  assume a: "arms ev s" and st: "w_state s = SLWIFICONN_STATE_CONNECTED"
  have q: "quiet s (stats_stop_timer E s)" using a by (simp add: stats_stop_timer_def arms_def)
  have stay: "post (CollectAndNotifyStats E s) (\<lambda>(r, u). w_state u = SLWIFICONN_STATE_CONNECTED)"
    using a st by (auto simp: post_def CollectAndNotifyStats_def restart_stats_timer_def Let_def
        StartAsyncEvtTimer_def bind_Some_iff arms_def quiet_def call_def split: prod.splits if_splits)
  show ?thesis using a st q
    by (cases ev, auto simp: smState_CONNECTED_def Let_def arms_def armed_CONNECTED
        intro!: armed_enters [where s = s] post_mono [OF stay])
      (auto simp: armed_def SetState_def StartAsyncEvtTimer_def timeouts_set_def quiet_def)
qed

lemma armed_smState_PROVISIONING:
  "arms ev s \<Longrightarrow> w_state s = SLWIFICONN_STATE_PROVISIONING \<Longrightarrow>
   post (smState_PROVISIONING E ev s) (\<lambda>(r, u). armed u)"
  by (cases ev) (auto simp: smState_PROVISIONING_def Let_def arms_def prov_states_def
      intro!: post_mono [OF armed_EnterPROV_STOPPING] armed_enters [where s = s] armed_prov)

lemma armed_smState_EXT_PROVISIONING:
  "arms ev s \<Longrightarrow> w_state s = SLWIFICONN_STATE_EXT_PROVISIONING \<Longrightarrow>
   post (smState_EXT_PROVISIONING E ev s) (\<lambda>(r, u). armed u)"
  by (cases ev) (auto simp: smState_EXT_PROVISIONING_def Let_def arms_def prov_states_def
      intro!: post_mono [OF armed_EnterPROV_STOPPING] armed_enters [where s = s] armed_prov)

lemma DeferredEvent_loop_preserve:
  assumes "DeferredEvent_loop E r s = Some (r', s')" and "P s"
    and "\<And>u q. P u \<Longrightarrow> P (u\<lparr>w_DeferredEventQ := q\<rparr>)" and "\<And>u q. P u \<Longrightarrow> P (u\<lparr>w_eventQ := q\<rparr>)"
    and "\<And>u c. P u \<Longrightarrow> P (call c u)"
  shows "P s'"
  using assms(1,2)
proof (induction E r s rule: DeferredEvent_loop.induct)
  case (1 E r s)
  obtain i m s1 where d: "DeferredEvent_dequeue s = (i, m, s1)" by (cases "DeferredEvent_dequeue s") auto
  with "1.prems"(2) have s1: "P s1"
    by (auto simp: DeferredEvent_dequeue_def intro: assms(3) split: option.splits)
  show ?case
  proof (cases m)
    case None
    with "1.prems" d show ?thesis by (simp add: DeferredEvent_loop.simps [of E r s])
  next
    case (Some ep)
    then obtain ev p where m: "m = Some (ev, p)" by (cases ep) auto
    from "1.prems"(1) d m obtain s2 where
      sig: "SignalEvent E ev (sl_WlanProfileAdd_deferred ev p s1) = Some (0, s2)" and
      loop: "DeferredEvent_loop E 0 s2 = Some (r', s')"
      by (auto simp: DeferredEvent_loop.simps [of E r s] split: option.splits if_splits)
    have "P (sl_WlanProfileAdd_deferred ev p s1)"
      using s1 by (auto simp: sl_WlanProfileAdd_deferred_def intro: assms(5) split: option.split)
    with sig have "P s2" by (auto simp: SignalEvent_def bind_Some_iff intro: assms(4) split: if_splits)
    from "1.IH" [OF d [symmetric] refl m refl sig refl refl loop this] show ?thesis .
  qed
qed

lemma quiet_DeferredEvent_process:
  "quiet s t \<Longrightarrow> post (DeferredEvent_process E t) (\<lambda>(r, u). quiet s u \<and> w_state u = w_state t)"
  by (auto simp: post_def DeferredEvent_process_def call_def quiet_def
      dest!: DeferredEvent_loop_preserve [where P = "\<lambda>u. quiet s u \<and> w_state u = w_state t"])

lemma armed_smState_PROV_STOPPING:
  "arms ev s \<Longrightarrow> w_state s = SLWIFICONN_STATE_PROV_STOPPING \<Longrightarrow>
   post (smState_PROV_STOPPING E ev s) (\<lambda>(r, u). armed u)"
  by (cases ev) (auto simp: smState_PROV_STOPPING_def Let_def arms_def prov_states_def
      intro!: post_mono [OF armed_EnterPROV_STOPPING] armed_enters [where s = s] armed_prov post_mono [OF quiet_DeferredEvent_process [of s]])

lemma armed_global_disable: "post (global_disable E s) armed"
  by (auto simp: post_def global_disable_def Let_def bind_Some_iff armed_def SetState_def)

lemma armed_sm_handler:
  "arms ev s \<Longrightarrow> post (sm_handler E (w_state s) ev s) (\<lambda>(r, u). armed u)"
  by (cases "w_state s") (simp_all add: armed_smState_OFF armed_smState_IDLE armed_smState_WAIT_FOR_CONN
      armed_smState_WAIT_FOR_IP armed_smState_CONNECTED armed_smState_PROVISIONING
      armed_smState_EXT_PROVISIONING armed_smState_PROV_STOPPING)

text \<open>C11: the module never waits in IDLE, WAIT_FOR_CONN or WAIT_FOR_IP without a running timer. If
  the timeouts are non-zero and there are no callbacks that could change them meanwhile, processing
  any event keeps this, and so does processing the TIMEOUT the timer has just raised: it leaves the
  state or starts the timer again.\<close>

theorem ProcessEvent_timer_armed:
  assumes "\<not> w_hasAppCB s" and "\<not> w_hasNetIfCB s" and "timeouts_set s"
    and "armed s \<or> ev = SLWIFICONN_EVENT_TIMEOUT" and "ProcessEvent E ev s = Some (r, s')"
  shows "w_state s' \<in> {SLWIFICONN_STATE_IDLE, SLWIFICONN_STATE_WAIT_FOR_CONN, SLWIFICONN_STATE_WAIT_FOR_IP}
    \<longrightarrow> w_timer s' \<noteq> 0"
proof -
  have "arms ev s" using assms by (simp add: arms_def quiet_def)
  note h = armed_sm_handler [OF this]
  have "post (ProcessEvent E ev s) (\<lambda>(r, u). armed u)"
    unfolding ProcessEvent_def by (auto intro!: armed_global_disable post_mono [OF h])
  from post_pairD [OF this assms(5)] show ?thesis by (simp add: armed_def)
qed

theorem ProcessEvent_timer_armed_witness:
  "\<exists>r s'. ProcessEvent example_sdk SLWIFICONN_EVENT_ENABLE (example_on\<lparr>w_idleInterval := 20\<rparr>) = Some (r, s') \<and>
    w_state s' = SLWIFICONN_STATE_WAIT_FOR_CONN \<and> w_timer s' \<noteq> 0"
proof -
  let ?s = "example_on\<lparr>w_idleInterval := 20\<rparr>"
  have g: "w_settings example_on = g_settings_default example_sdk" "w_state example_on = SLWIFICONN_STATE_OFF"
    "w_smReg example_on SLWIFICONN_STATE_OFF" "\<not> w_bDeleteAllProfiles example_on"
    by (simp_all add: example_on_def CRITICAL_SECTION_EXIT_def init_context_def calloc_ctx_def Let_def
      call_def example_wifi_def register_states_def)
  have "\<exists>r s'. ProcessEvent example_sdk SLWIFICONN_EVENT_ENABLE ?s = Some (r, s') \<and>
      w_state s' = SLWIFICONN_STATE_WAIT_FOR_CONN"
    by (simp add: ProcessEvent_def smState_OFF_def g Let_def ResumeNWP_def EnterWAIT_FOR_CONN_def
        DeferredEvent_process_def DeferredEvent_loop.simps DeferredEvent_dequeue_def mq_receive_def wifi_simps)
  then obtain r s' where p: "ProcessEvent example_sdk SLWIFICONN_EVENT_ENABLE ?s = Some (r, s')"
    "w_state s' = SLWIFICONN_STATE_WAIT_FOR_CONN" by blast
  have "timeouts_set ?s" by (simp add: timeouts_set_def g g_settings_default_def)
  with ProcessEvent_timer_armed [OF _ _ _ _ p(1)] p g show ?thesis by (auto simp: armed_def)
qed

subsection \<open>Configuration\<close>

text \<open>a configuration is accepted exactly when its provisioning timeout is at least 30 seconds;
  it is then what \<open>SlWifiConn_getConfiguration\<close> returns, and a rejected one leaves the module
  as it was.\<close>

theorem SlWifiConn_configuration_roundtrip:
  "(let (r, s') = SlWifiConn_setConfiguration E (Some g) s
    in if provisioningTimeout g < 30
       then r = SLNETERR_RET_CODE_INVALID_INPUT E \<and> s' = s
       else r = 0 \<and> SlWifiConn_getConfiguration E True s' = (0, Some g) \<and> w_state s' = w_state s) \<and>
   SlWifiConn_setConfiguration E None s = (SLNETERR_RET_CODE_INVALID_INPUT E, s)"
  by (simp add: SlWifiConn_setConfiguration_def SlWifiConn_getConfiguration_def)

end
