(* ===== verification/WlanTypes.thy ===== *)
theory WlanTypes
  imports WifiApi
begin

text \<open>
  The WLAN device \<open>cc3220sf\<close> (\<open>src/drivers/network/wlan/cc3220sf/cc3220sf.c\<close>): its
  status bits, states, events and descriptor, and the functions that send an event to its thread and
  receive one. The device owns a connection manager and calls its API, so the descriptor holds the
  manager's context (\<open>d_wifi\<close>). What the device calls outside the repository is logged in
  \<open>d_calls\<close>, newest first, and its results are functions of that history in \<open>devenv\<close>.
\<close>

subsection \<open>Status bits\<close>

datatype status_bit =
    STATUS_BIT_RUNNING | STATUS_BIT_CHECKED_PROFILES | STATUS_BIT_PROV_MODE | STATUS_BIT_GOT_MODE
  | STATUS_BIT_CONNECTED | STATUS_BIT_IP_ACQUIRED | STATUS_BIT_PROV_CONNECT
  | STATUS_BIT_PROV_IP_ACQUIRED | STATUS_BIT_PROV_SUCCESS | STATUS_BIT_PROV_STOPPED
  | STATUS_BIT_PROV_PROF_ADDED | STATUS_BIT_PROV_FAILED | STATUS_BIT_PING_DONE
  | STATUS_BIT_FW_DL_START | STATUS_BIT_FW_DL_DONE | STATUS_BIT_FW_DL_ERROR | STATUS_BIT_FW_UPGRADE
  | STATUS_BIT_FW_INSTALL | STATUS_BIT_AUTHENTICATION_FAILED | STATUS_BIT_RESET_REQUIRED
  | STATUS_BIT_REBOOT_REQUIRED | STATUS_BIT_FATAL_ERROR

fun status_pos :: "status_bit \<Rightarrow> nat" where
  "status_pos STATUS_BIT_RUNNING = 0" | "status_pos STATUS_BIT_CHECKED_PROFILES = 1"
| "status_pos STATUS_BIT_PROV_MODE = 2" | "status_pos STATUS_BIT_GOT_MODE = 3"
| "status_pos STATUS_BIT_CONNECTED = 4" | "status_pos STATUS_BIT_IP_ACQUIRED = 5"
| "status_pos STATUS_BIT_PROV_CONNECT = 6" | "status_pos STATUS_BIT_PROV_IP_ACQUIRED = 7"
| "status_pos STATUS_BIT_PROV_SUCCESS = 8" | "status_pos STATUS_BIT_PROV_STOPPED = 9"
| "status_pos STATUS_BIT_PROV_PROF_ADDED = 10" | "status_pos STATUS_BIT_PROV_FAILED = 11"
| "status_pos STATUS_BIT_PING_DONE = 12" | "status_pos STATUS_BIT_FW_DL_START = 13"
| "status_pos STATUS_BIT_FW_DL_DONE = 14" | "status_pos STATUS_BIT_FW_DL_ERROR = 15"
| "status_pos STATUS_BIT_FW_UPGRADE = 16" | "status_pos STATUS_BIT_FW_INSTALL = 17"
| "status_pos STATUS_BIT_AUTHENTICATION_FAILED = 18" | "status_pos STATUS_BIT_RESET_REQUIRED = 19"
| "status_pos STATUS_BIT_REBOOT_REQUIRED = 20" | "status_pos STATUS_BIT_FATAL_ERROR = 21"

definition SET_STATUS_BIT :: "status_bit \<Rightarrow> u32 \<Rightarrow> u32" where
  "SET_STATUS_BIT b v = v OR push_bit (status_pos b) 1"

definition CLR_STATUS_BIT :: "status_bit \<Rightarrow> u32 \<Rightarrow> u32" where
  "CLR_STATUS_BIT b v = v AND NOT (push_bit (status_pos b) 1)"

definition GET_STATUS_BIT :: "status_bit \<Rightarrow> u32 \<Rightarrow> bool" where
  "GET_STATUS_BIT b v \<longleftrightarrow> v AND push_bit (status_pos b) 1 \<noteq> 0"

lemma status_pos_lt: "status_pos b < 32"
  by (cases b) simp_all

lemma status_pos_inject [simp]: "status_pos b = status_pos c \<longleftrightarrow> b = c"
  by (cases b; cases c) simp_all

lemma GET_STATUS_BIT_bit: "GET_STATUS_BIT b v \<longleftrightarrow> bit v (status_pos b)"
  using status_pos_lt [of b]
  by (simp add: GET_STATUS_BIT_def and_exp_eq_0_iff_not_bit push_bit_eq_mult)

lemma bit_status_pos [simp]: "bit ((2 :: u32) ^ status_pos c) (status_pos b) \<longleftrightarrow> b = c"
  using status_pos_lt [of b] by (auto simp: bit_exp_iff possible_bit_word)

lemma GET_SET [simp]: "GET_STATUS_BIT b (SET_STATUS_BIT c v) \<longleftrightarrow> b = c \<or> GET_STATUS_BIT b v"
  using status_pos_lt [of b]
  by (auto simp: GET_STATUS_BIT_bit SET_STATUS_BIT_def bit_or_iff bit_push_bit_iff bit_1_iff)

lemma GET_CLR [simp]: "GET_STATUS_BIT b (CLR_STATUS_BIT c v) \<longleftrightarrow> b \<noteq> c \<and> GET_STATUS_BIT b v"
  using status_pos_lt [of b]
  by (auto simp: GET_STATUS_BIT_bit CLR_STATUS_BIT_def bit_and_iff bit_not_iff bit_push_bit_iff bit_1_iff)

lemma GET_zero [simp]: "\<not> GET_STATUS_BIT b 0"
  by (simp add: GET_STATUS_BIT_def)

lemma GET_mask [simp]:
  "GET_STATUS_BIT b (v AND push_bit (status_pos c) 1) \<longleftrightarrow> b = c \<and> GET_STATUS_BIT b v"
  using status_pos_lt [of b]
  by (auto simp: GET_STATUS_BIT_bit bit_and_iff bit_push_bit_iff bit_1_iff)

subsection \<open>States and events\<close>

datatype cc_state =
    CC3220SF_STATE_INIT | CC3220SF_STATE_START | CC3220SF_STATE_CHECK_PROFILES
  | CC3220SF_STATE_WAIT_4_START | CC3220SF_STATE_STOP | CC3220SF_STATE_WAIT_CONNECTAP
  | CC3220SF_STATE_WAIT_IP | CC3220SF_STATE_START_NETWORK | CC3220SF_STATE_START_HTTP
  | CC3220SF_STATE_NOTIFY_UP | CC3220SF_STATE_NOTIFY_DOWN | CC3220SF_STATE_READY
  | CC3220SF_STATE_IDLE | CC3220SF_STATE_SLEEP | CC3220SF_STATE_CHECK_CONNECTION
  | CC3220SF_STATE_GET_STATISTICS | CC3220SF_STATE_ERROR | CC3220SF_STATE_START_PROV
  | CC3220SF_STATE_HTTP_MESSAGE | CC3220SF_STATE_HANDLE_EVENT | CC3220SF_STATE_WAIT_FW_INSTALL
  | CC3220SF_STATE_WAIT_PROVISION

datatype cc_event =
    CC3220SF_EVENT_STOPPED | CC3220SF_EVENT_RUNNING | CC3220SF_EVENT_CONNECTED
  | CC3220SF_EVENT_IP_ACQUIRED | CC3220SF_EVENT_IP_LOST | CC3220SF_EVENT_IP_LEASED
  | CC3220SF_EVENT_IP_RELEASED | CC3220SF_EVENT_DISCONNECT | CC3220SF_EVENT_STA_ADDED
  | CC3220SF_EVENT_STA_REMOVED | CC3220SF_EVENT_PROF_ADDED | CC3220SF_EVENT_PING_COMPLETE
  | CC3220SF_EVENT_PROVISIONING_STARTED | CC3220SF_EVENT_PROVISIONING_SUCCESS
  | CC3220SF_EVENT_PROVISIONING_STOPPED | CC3220SF_EVENT_PROVISIONING_WAIT_CONN
  | CC3220SF_EVENT_PROVISIONING_CONNECT_FAILED | CC3220SF_EVENT_PROVISIONING_CONNECT_SUCCESS
  | CC3220SF_EVENT_PROVISIONING_TIMEOUT | CC3220SF_EVENT_PROVISIONING_IP_ACQUIRED
  | CC3220SF_EVENT_PROVISIONING_IP_FAILED | CC3220SF_EVENT_PROVISIONING_CONFIRM_FAILED
  | CC3220SF_EVENT_FW_DOWNLOAD_START | CC3220SF_EVENT_FW_DOWNLOAD_DONE
  | CC3220SF_EVENT_FW_DOWNLOAD_ERROR | CC3220SF_EVENT_FW_UPGRADE | CC3220SF_EVENT_FW_INSTALL
  | CC3220SF_EVENT_TIMEOUT | CC3220SF_EVENT_ERROR | CC3220SF_EVENT_FATAL_ERROR
  | CC3220SF_EVENT_RESTART | CC3220SF_EVENT_MAX | CC3220SF_EVENT_INVALID

text \<open>HTTP requests as the handler copies them into memory of its own.\<close>

datatype http_type =
    SL_NETAPP_REQUEST_HTTP_GET | SL_NETAPP_REQUEST_HTTP_DELETE | SL_NETAPP_REQUEST_HTTP_POST
  | SL_NETAPP_REQUEST_HTTP_PUT | SL_NETAPP_REQUEST_OTHER nat

record http_request =
  r_type :: http_type
  r_metadata :: "u8 list"
  r_payload :: "u8 list"

datatype http_response = SL_NETAPP_RESPONSE_PENDING | SL_NETAPP_HTTP_RESPONSE_500

datatype net_event =
    NETWORK_EVENT_CONNECTED | NETWORK_EVENT_DISCONNECTED | NETWORK_EVENT_PAUSE | NETWORK_EVENT_RESUME

datatype dev_call =
    D_event net_event | D_Task_sleep nat | D_mqtt_post_wlan_data "u8 list" int int u32 u32 u32 u32
  | D_OTA_IF_install | D_OTA_IF_restart | D_OTA_IF_init | D_OTA_IF_commit
  | D_sl_NetAppStop | D_sl_NetAppStart | D_http_init_handlers | D_http_get_handler http_request
  | D_http_post_handler http_request | D_sl_WlanSet_AP_SSID string | D_sl_WlanGet
  | D_SlNetIf_add | D_mq_open | D_pthread_create string | D_malloc nat

subsection \<open>The device descriptor\<close>

text \<open>
  \<open>CC3220SF_Desc\<close>: the fields the code uses. \<open>d_reg_*\<close> are the three spare registers
  to which the code writes its statistics and from which \<open>probe\<close> reads them back;
  \<open>d_hasEvent\<close> says that \<open>event\<close> has been set; \<open>d_blocks\<close> counts the blocks of
  memory allocated for HTTP requests and not freed. An element of \<open>d_httpserverQueue\<close> is the
  pointer to a request as it arrived: \<open>None\<close> when only its first byte was transferred.
\<close>

record wdev =
  d_state :: cc_state
  d_nstate :: cc_state
  d_pstate :: cc_state
  d_timer :: u32
  d_sleepTime :: u32
  d_running :: bool
  d_fatalErrorCount :: u8
  d_totalFatalErrors :: u32
  d_totalRecoveries :: u32
  d_totalDisconnects :: u32
  d_connectedTime :: u32
  d_reg_fatal :: u32
  d_reg_recover :: u32
  d_reg_discon :: u32
  d_wlanMode :: int
  d_wlanStatus :: u32
  d_wlanRole :: int
  d_lastError :: int
  d_eventQ :: "cc_event mq"
  d_httpserverQueue :: "http_request option mq"
  d_macAddress :: "u8 list"
  d_SSIDconnection :: "u8 list"
  d_BSSIDconnection :: "u8 list"
  d_SSID :: string
  d_wlanEventReasonCode :: u8
  d_stationIP :: u32
  d_gatewayIP :: u32
  d_dnsIP :: u32
  d_doProvisioning :: bool
  d_hasEvent :: bool
  d_blocks :: nat
  d_wifi :: wifi
  d_calls :: "dev_call list"

text \<open>
  The environment. \<open>eventQ_nonblock\<close>: the POSIX layer honours \<open>O_NONBLOCK\<close> in the
  attributes of \<open>mq_open\<close>. \<open>WIFI_REBOOT_ON_FATAL_ERROR\<close> is the compile-time flag.
  \<open>others\<close> is what the other threads do to the device while its thread sleeps inside a state
  function. \<open>stray_argument\<close> is the second argument of \<open>SlWifiConn_init\<close>, which the
  call in \<open>start\<close> does not pass. \<open>spare_regs_readable\<close>: a read of the spare registers 0 to
  2 from \<open>probe\<close> does not end in a bus fault (\<open>src/ocp-shared-registers.md\<close> reports that it
  does). \<open>mq_send_whole\<close>: a \<open>mq_send\<close> of length 1 into a queue of pointers transfers the
  whole pointer, because the POSIX layer copies messages of the size the queue was opened with.
\<close>

record devenv =
  env_sdk :: sdk
  eventQ_nonblock :: bool
  mq_send_whole :: bool
  spare_regs_readable :: bool
  WIFI_REBOOT_ON_FATAL_ERROR :: bool
  ROLE_P2P :: int
  SL_ERROR_BSD_ETIMEDOUT :: int
  STATUS_OK :: int
  STATUS_FAIL :: int
  SL_WLAN_PROVISIONING_CMD_START_MODE_APSC :: u8
  sizeof_SlNetAppRequest :: nat
  nwp_mac :: "dev_call list \<Rightarrow> u8 list"
  host_name :: "u8 list \<Rightarrow> string"
  ipv6_as_v4 :: "u8 list \<Rightarrow> u32 \<times> u32 \<times> u32"
  ntohl :: "u32 \<Rightarrow> u32"
  sl_NetAppStart_ret :: "dev_call list \<Rightarrow> int"
  http_mq_open_ok :: "dev_call list \<Rightarrow> bool"
  SlNetIf_add_ret :: "dev_call list \<Rightarrow> int"
  pthread_create_ret :: "dev_call list \<Rightarrow> int"
  dev_malloc_ok :: "dev_call list \<Rightarrow> bool"
  stray_argument :: bool
  others :: "dev_call list \<Rightarrow> wdev \<Rightarrow> wdev"

definition dcall :: "dev_call \<Rightarrow> wdev \<Rightarrow> wdev" where
  "dcall c d = d\<lparr>d_calls := c # d_calls d\<rparr>"

definition Task_sleep :: "devenv \<Rightarrow> nat \<Rightarrow> wdev \<Rightarrow> wdev" where
  "Task_sleep V ms d = (let d1 = dcall (D_Task_sleep ms) d in others V (d_calls d1) d1)"

text \<open>A call of the connection manager's API.\<close>

definition wifi_call :: "(wifi \<Rightarrow> (int \<times> wifi) option) \<Rightarrow> wdev \<Rightarrow> (int \<times> wdev) option" where
  "wifi_call f d = do { (r, w) \<leftarrow> f (d_wifi d); Some (r, d\<lparr>d_wifi := w\<rparr>) }"

abbreviation "IS_CONNECTED d \<equiv> GET_STATUS_BIT STATUS_BIT_CONNECTED (d_wlanStatus d)"
abbreviation "IS_PROV_MODE d \<equiv> GET_STATUS_BIT STATUS_BIT_PROV_MODE (d_wlanStatus d)"
abbreviation "IS_IP_ACQUIRED d \<equiv> GET_STATUS_BIT STATUS_BIT_IP_ACQUIRED (d_wlanStatus d)"
abbreviation "IS_RUNNING d \<equiv> GET_STATUS_BIT STATUS_BIT_RUNNING (d_wlanStatus d)"
abbreviation "IS_REBOOT d \<equiv> GET_STATUS_BIT STATUS_BIT_REBOOT_REQUIRED (d_wlanStatus d)"

definition SETB :: "status_bit \<Rightarrow> wdev \<Rightarrow> wdev" where
  "SETB b d = d\<lparr>d_wlanStatus := SET_STATUS_BIT b (d_wlanStatus d)\<rparr>"

definition CLRB :: "status_bit \<Rightarrow> wdev \<Rightarrow> wdev" where
  "CLRB b d = d\<lparr>d_wlanStatus := CLR_STATUS_BIT b (d_wlanStatus d)\<rparr>"

declare dcall_def [dev_simps] SETB_def [dev_simps] CLRB_def [dev_simps]

subsection \<open>Events\<close>

definition send_event :: "devenv \<Rightarrow> cc_event \<Rightarrow> wdev \<Rightarrow> wdev option" where
  "send_event V ev d =
     (if eventQ_nonblock V then Some (d\<lparr>d_eventQ := mq_send_nonblock ev (d_eventQ d)\<rparr>)
      else do { q \<leftarrow> mq_send ev (d_eventQ d); Some (d\<lparr>d_eventQ := q\<rparr>) })"

text \<open>The effect of a received event on the descriptor; \<open>None\<close> is the endless loop after the
  request for a system reboot.\<close>

fun event_effect :: "devenv \<Rightarrow> cc_event \<Rightarrow> wdev \<Rightarrow> wdev option" where
  "event_effect V CC3220SF_EVENT_STOPPED d = Some (CLRB STATUS_BIT_RUNNING d)"
| "event_effect V CC3220SF_EVENT_RUNNING d = Some (SETB STATUS_BIT_RUNNING d)"
| "event_effect V CC3220SF_EVENT_CONNECTED d = Some (SETB STATUS_BIT_CONNECTED d)"
| "event_effect V CC3220SF_EVENT_IP_ACQUIRED d = Some (SETB STATUS_BIT_IP_ACQUIRED d)"
| "event_effect V CC3220SF_EVENT_DISCONNECT d =
     (let d1 = CLRB STATUS_BIT_CONNECTED d;
          d2 = d1\<lparr>d_totalDisconnects := d_totalDisconnects d1 + 1, d_connectedTime := 0\<rparr>
      in Some (d2\<lparr>d_reg_discon := d_totalDisconnects d2\<rparr>))"
| "event_effect V CC3220SF_EVENT_PROVISIONING_STARTED d = Some (SETB STATUS_BIT_PROV_MODE d)"
| "event_effect V CC3220SF_EVENT_PROVISIONING_SUCCESS d = Some (SETB STATUS_BIT_PROV_SUCCESS d)"
| "event_effect V CC3220SF_EVENT_PROVISIONING_STOPPED d = Some (SETB STATUS_BIT_PROV_STOPPED d)"
| "event_effect V CC3220SF_EVENT_PROVISIONING_CONNECT_FAILED d = Some (SETB STATUS_BIT_PROV_FAILED d)"
| "event_effect V CC3220SF_EVENT_PROVISIONING_CONNECT_SUCCESS d = Some (SETB STATUS_BIT_PROV_CONNECT d)"
| "event_effect V CC3220SF_EVENT_PROVISIONING_TIMEOUT d = Some (SETB STATUS_BIT_PROV_FAILED d)"
| "event_effect V CC3220SF_EVENT_PROVISIONING_IP_ACQUIRED d = Some (SETB STATUS_BIT_PROV_IP_ACQUIRED d)"
| "event_effect V CC3220SF_EVENT_PROVISIONING_IP_FAILED d = Some (SETB STATUS_BIT_PROV_FAILED d)"
| "event_effect V CC3220SF_EVENT_PROVISIONING_CONFIRM_FAILED d = Some (SETB STATUS_BIT_PROV_FAILED d)"
| "event_effect V CC3220SF_EVENT_ERROR d = Some (SETB STATUS_BIT_FATAL_ERROR (d\<lparr>d_wlanStatus := 0\<rparr>))"
| "event_effect V CC3220SF_EVENT_RESTART d = Some (SETB STATUS_BIT_REBOOT_REQUIRED d)"
| "event_effect V CC3220SF_EVENT_PROF_ADDED d = Some (SETB STATUS_BIT_PROV_PROF_ADDED d)"
| "event_effect V CC3220SF_EVENT_FATAL_ERROR d =
     (let d1 = SETB STATUS_BIT_FATAL_ERROR (d\<lparr>d_wlanStatus := 0\<rparr>);
          d2 = d1\<lparr>d_fatalErrorCount := d_fatalErrorCount d1 + 1,
                  d_totalFatalErrors := d_totalFatalErrors d1 + 1\<rparr>;
          d3 = d2\<lparr>d_reg_fatal := d_totalFatalErrors d2\<rparr>
      in if WIFI_REBOOT_ON_FATAL_ERROR V \<and> d_fatalErrorCount d3 \<ge> 10 then None else Some d3)"
| "event_effect V CC3220SF_EVENT_FW_DOWNLOAD_START d =
     Some (CLRB STATUS_BIT_FW_DL_ERROR (CLRB STATUS_BIT_FW_DL_DONE (SETB STATUS_BIT_FW_DL_START d)))"
| "event_effect V CC3220SF_EVENT_FW_DOWNLOAD_DONE d = Some (SETB STATUS_BIT_FW_DL_DONE d)"
| "event_effect V CC3220SF_EVENT_FW_DOWNLOAD_ERROR d =
     Some (SETB STATUS_BIT_FW_DL_ERROR (CLRB STATUS_BIT_FW_DL_DONE (CLRB STATUS_BIT_FW_DL_START d)))"
| "event_effect V CC3220SF_EVENT_FW_UPGRADE d =
     Some (CLRB STATUS_BIT_FW_INSTALL (CLRB STATUS_BIT_FW_DL_ERROR (CLRB STATUS_BIT_FW_DL_DONE
       (CLRB STATUS_BIT_FW_DL_START (SETB STATUS_BIT_FW_UPGRADE d)))))"
| "event_effect V CC3220SF_EVENT_FW_INSTALL d =
     Some (SETB STATUS_BIT_FW_INSTALL (CLRB STATUS_BIT_FW_DL_ERROR (CLRB STATUS_BIT_FW_DL_DONE
       (CLRB STATUS_BIT_FW_DL_START (CLRB STATUS_BIT_FW_UPGRADE d)))))"
| "event_effect V _ d = Some d"

definition recv_event :: "devenv \<Rightarrow> wdev \<Rightarrow> (cc_event \<times> wdev) option" where
  "recv_event V d =
     (case mq_receive (d_eventQ d) of
        None \<Rightarrow> Some (CC3220SF_EVENT_INVALID, d)
      | Some (ev, q) \<Rightarrow> do { d' \<leftarrow> event_effect V ev (d\<lparr>d_eventQ := q\<rparr>); Some (ev, d') })"

end
