(* ===== verification/WlanDev.thy ===== *)
theory WlanDev
  imports WlanTypes
begin

text \<open>
  The callbacks, the state machine and the exported operations of the WLAN device
  (\<open>src/drivers/network/wlan/cc3220sf/cc3220sf.c\<close>). Every function \<open>sm_*\<close> returns the
  next state; \<open>exec\<close> runs one of them and stores it. \<open>None\<close> says that the thread does
  not come back (a blocked queue, an endless loop, a call through a NULL pointer).
\<close>

subsection \<open>Callbacks\<close>

definition to_wlanRole :: "devenv \<Rightarrow> u32 \<Rightarrow> int" where
  "to_wlanRole V mode =
     (if mode = 2 then ROLE_AP (env_sdk V) else if mode = 3 then ROLE_P2P V else ROLE_STA (env_sdk V))"

text \<open>The device event of a provisioning status, where there is one.\<close>

fun prov_dev_event :: "sl_prov_status \<Rightarrow> cc_event option" where
  "prov_dev_event SL_WLAN_PROVISIONING_CONFIRMATION_STATUS_FAIL_NETWORK_NOT_FOUND =
     Some CC3220SF_EVENT_PROVISIONING_CONFIRM_FAILED"
| "prov_dev_event SL_WLAN_PROVISIONING_CONFIRMATION_STATUS_FAIL_CONNECTION_FAILED =
     Some CC3220SF_EVENT_PROVISIONING_CONNECT_FAILED"
| "prov_dev_event SL_WLAN_PROVISIONING_CONFIRMATION_STATUS_CONNECTION_SUCCESS_IP_NOT_ACQUIRED =
     Some CC3220SF_EVENT_PROVISIONING_IP_FAILED"
| "prov_dev_event SL_WLAN_PROVISIONING_CONFIRMATION_STATUS_SUCCESS_FEEDBACK_FAILED =
     Some CC3220SF_EVENT_PROVISIONING_CONFIRM_FAILED"
| "prov_dev_event SL_WLAN_PROVISIONING_CONFIRMATION_STATUS_SUCCESS =
     Some CC3220SF_EVENT_PROVISIONING_SUCCESS"
| "prov_dev_event SL_WLAN_PROVISIONING_AUTO_STARTED = Some CC3220SF_EVENT_PROVISIONING_STARTED"
| "prov_dev_event SL_WLAN_PROVISIONING_STOPPED = Some CC3220SF_EVENT_PROVISIONING_STOPPED"
| "prov_dev_event SL_WLAN_PROVISIONING_SMART_CONFIG_SYNC_TIMEOUT =
     Some CC3220SF_EVENT_PROVISIONING_TIMEOUT"
| "prov_dev_event SL_WLAN_PROVISIONING_CONFIRMATION_WLAN_CONNECT =
     Some CC3220SF_EVENT_PROVISIONING_CONNECT_SUCCESS"
| "prov_dev_event SL_WLAN_PROVISIONING_CONFIRMATION_IP_ACQUIRED =
     Some CC3220SF_EVENT_PROVISIONING_IP_ACQUIRED"
| "prov_dev_event _ = None"

definition SimpleLinkWlanEventHandler :: "devenv \<Rightarrow> sl_wlan_event \<Rightarrow> wdev \<Rightarrow> wdev option" where
  "SimpleLinkWlanEventHandler V ev d =
     (case ev of
        SL_WLAN_EVENT_CONNECT ssid bssid \<Rightarrow> do {
          n \<leftarrow> write_at 0 ssid (d_SSIDconnection d);
          b \<leftarrow> write_at 0 (take 6 bssid) (d_BSSIDconnection d);
          send_event V CC3220SF_EVENT_CONNECTED (d\<lparr>d_SSIDconnection := n, d_BSSIDconnection := b\<rparr>) }
      | SL_WLAN_EVENT_DISCONNECT reason \<Rightarrow>
          send_event V CC3220SF_EVENT_DISCONNECT (d\<lparr>d_wlanEventReasonCode := reason\<rparr>)
      | SL_WLAN_EVENT_STA_ADDED \<Rightarrow> send_event V CC3220SF_EVENT_STA_ADDED d
      | SL_WLAN_EVENT_STA_REMOVED \<Rightarrow> send_event V CC3220SF_EVENT_STA_REMOVED d
      | SL_WLAN_EVENT_PROVISIONING_PROFILE_ADDED \<Rightarrow> send_event V CC3220SF_EVENT_PROF_ADDED d
      | SL_WLAN_EVENT_PROVISIONING_STATUS st role is_connected \<Rightarrow>
          (case prov_dev_event st of None \<Rightarrow> Some d | Some e \<Rightarrow> send_event V e d)
      | _ \<Rightarrow> Some d)"

definition SimpleLinkFatalErrorEventHandler :: "devenv \<Rightarrow> wdev \<Rightarrow> wdev option" where
  "SimpleLinkFatalErrorEventHandler V d = send_event V CC3220SF_EVENT_FATAL_ERROR d"

text \<open>An IPv6 address is read through the IPv4 member of the event's union (\<open>ipv6_as_v4\<close>).\<close>

definition set_ip :: "u32 \<times> u32 \<times> u32 \<Rightarrow> wdev \<Rightarrow> wdev" where
  "set_ip a d = d\<lparr>d_stationIP := fst a, d_gatewayIP := fst (snd a), d_dnsIP := snd (snd a)\<rparr>"

definition SimpleLinkNetAppEventHandler :: "devenv \<Rightarrow> sl_netapp_event \<Rightarrow> wdev \<Rightarrow> wdev option" where
  "SimpleLinkNetAppEventHandler V ev d =
     (let acquired = (\<lambda>a. do { d1 \<leftarrow> send_event V CC3220SF_EVENT_IP_ACQUIRED d; Some (set_ip a d1) });
          lost = do { d1 \<leftarrow> send_event V CC3220SF_EVENT_IP_LOST d; Some (set_ip (0, 0, 0) d1) }
      in case ev of
           SL_NETAPP_EVENT_IPV4_ACQUIRED ip gw dns \<Rightarrow> acquired (ip, gw, dns)
         | SL_NETAPP_EVENT_IPV6_ACQUIRED a \<Rightarrow> acquired (ipv6_as_v4 V a)
         | SL_NETAPP_EVENT_IPV4_LOST \<Rightarrow> lost
         | SL_NETAPP_EVENT_IPV6_LOST \<Rightarrow> lost
         | SL_NETAPP_EVENT_DHCPV4_LEASED \<Rightarrow> send_event V CC3220SF_EVENT_IP_LEASED d
         | SL_NETAPP_EVENT_DHCPV4_RELEASED \<Rightarrow> send_event V CC3220SF_EVENT_IP_RELEASED d
         | _ \<Rightarrow> Some d)"

datatype ota_notif =
    OTA_NOTIF_IMAGE_PENDING_COMMIT | OTA_NOTIF_IMAGE_DOWNLOAD | OTA_NOTIF_IMAGE_PROGRESS
  | OTA_NOTIF_IMAGE_DOWNLOADED | OTA_NOTIF_GETLINK_ERROR | OTA_NOTIF_DOWNLOAD_ERROR
  | OTA_NOTIF_INSTALL_ERROR | OTA_NOTIF_COMMIT_ERROR | OTA_NOTIF_OTHER nat

definition SimpleLinkOtaEventHandler :: "devenv \<Rightarrow> ota_notif \<Rightarrow> wdev \<Rightarrow> wdev option" where
  "SimpleLinkOtaEventHandler V n d =
     (case n of
        OTA_NOTIF_IMAGE_PENDING_COMMIT \<Rightarrow> Some (dcall D_OTA_IF_commit d)
      | OTA_NOTIF_IMAGE_DOWNLOAD \<Rightarrow> send_event V CC3220SF_EVENT_FW_DOWNLOAD_START d
      | OTA_NOTIF_IMAGE_DOWNLOADED \<Rightarrow> send_event V CC3220SF_EVENT_FW_DOWNLOAD_DONE d
      | OTA_NOTIF_DOWNLOAD_ERROR \<Rightarrow> send_event V CC3220SF_EVENT_FW_DOWNLOAD_ERROR d
      | _ \<Rightarrow> Some d)"

text \<open>The request is copied into up to three blocks of memory. On a failed allocation the handler
  answers with an error and returns; the blocks allocated before stay allocated. The pointer to the
  request is sent with length 1, so it depends on the POSIX layer (\<open>mq_send_whole\<close>) whether more
  of it than one byte arrives.\<close>

definition dmalloc :: "devenv \<Rightarrow> nat \<Rightarrow> wdev \<Rightarrow> bool \<times> wdev" where
  "dmalloc V n d =
     (let ok = dev_malloc_ok V (d_calls d); d1 = dcall (D_malloc n) d
      in (ok, if ok then d1\<lparr>d_blocks := Suc (d_blocks d1)\<rparr> else d1))"

definition dfree :: "wdev \<Rightarrow> wdev" where
  "dfree d = d\<lparr>d_blocks := d_blocks d - 1\<rparr>"

definition alloc_part :: "devenv \<Rightarrow> u8 list \<Rightarrow> wdev \<Rightarrow> bool \<times> wdev" where
  "alloc_part V bytes d = (if length bytes > 0 then dmalloc V (length bytes) d else (True, d))"

fun http_type_known :: "http_type \<Rightarrow> bool" where
  "http_type_known (SL_NETAPP_REQUEST_OTHER _) = False"
| "http_type_known _ = True"

definition SimpleLinkNetAppRequestEventHandler ::
    "devenv \<Rightarrow> http_request \<Rightarrow> wdev \<Rightarrow> (http_response \<times> wdev) option" where
  "SimpleLinkNetAppRequestEventHandler V req d =
     (if \<not> http_type_known (r_type req) then Some (SL_NETAPP_HTTP_RESPONSE_500, d)
      else
        let (ok1, d1) = dmalloc V (sizeof_SlNetAppRequest V) d in
        if \<not> ok1 then Some (SL_NETAPP_HTTP_RESPONSE_500, d1)
        else let (ok2, d2) = alloc_part V (r_metadata req) d1 in
          if \<not> ok2 then Some (SL_NETAPP_HTTP_RESPONSE_500, d2)
          else let (ok3, d3) = alloc_part V (r_payload req) d2 in
            if \<not> ok3 then Some (SL_NETAPP_HTTP_RESPONSE_500, d3)
            else do {
              q \<leftarrow> mq_send (if mq_send_whole V then Some req else None) (d_httpserverQueue d3);
              Some (SL_NETAPP_RESPONSE_PENDING, d3\<lparr>d_httpserverQueue := q\<rparr>) })"

text \<open>\<open>pWlanDev->event\<close>: a call through the pointer that \<open>notify\<close> sets.\<close>

definition raise_event :: "net_event \<Rightarrow> wdev \<Rightarrow> wdev option" where
  "raise_event e d = (if d_hasEvent d then Some (dcall (D_event e) d) else None)"

definition post_wlan_data :: "u8 list \<Rightarrow> int \<Rightarrow> int \<Rightarrow> wdev \<Rightarrow> wdev" where
  "post_wlan_data bssid mgmt data d =
     dcall (D_mqtt_post_wlan_data bssid mgmt data (d_totalFatalErrors d) (d_totalRecoveries d)
       (d_totalDisconnects d) (d_connectedTime d div 1000)) d"

definition SlWifiConnEventHandler :: "devenv \<Rightarrow> app_event \<Rightarrow> wdev \<Rightarrow> wdev option" where
  "SlWifiConnEventHandler V ev d =
     (case ev of
        WifiConnEvent_POWERED_UP \<Rightarrow>
          send_event V CC3220SF_EVENT_RUNNING (d\<lparr>d_macAddress := nwp_mac V (d_calls d)\<rparr>)
      | WifiConnEvent_POWERED_DOWN \<Rightarrow> send_event V CC3220SF_EVENT_STOPPED d
      | WifiConnEvent_STATS_PAUSE \<Rightarrow>
          (if WIFI_STATS (env_sdk V) then raise_event NETWORK_EVENT_PAUSE d else Some d)
      | WifiConnEvent_STATS_RESUME \<Rightarrow>
          (if WIFI_STATS (env_sdk V) then raise_event NETWORK_EVENT_RESUME d else Some d)
      | WifiConnEvent_STATS_RESULT bssid mgmt data \<Rightarrow>
          Some (if WIFI_STATS (env_sdk V) then post_wlan_data bssid mgmt data d else d)
      | _ \<Rightarrow> Some d)"

subsection \<open>The state machine\<close>

text \<open>\<open>sm_init\<close> waits until the device is no longer RUNNING. Its loop sleeps but receives no
  event, so only another thread could clear the bit; it may not end.\<close>

partial_function (option) init_wait :: "devenv \<Rightarrow> wdev \<Rightarrow> wdev option" where
  "init_wait V d =
     (let d1 = Task_sleep V 1000 d in if IS_RUNNING d1 then init_wait V d1 else Some d1)"

declare init_wait.simps [code]

definition sm_init :: "devenv \<Rightarrow> wdev \<Rightarrow> (cc_state \<times> wdev) option" where
  "sm_init V d = do {
     let d1 = d\<lparr>d_pstate := CC3220SF_STATE_INIT\<rparr>;
     d2 \<leftarrow> (if IS_RUNNING d1
            then do { (_, d') \<leftarrow> wifi_call (SlWifiConn_disable (env_sdk V)) d1; init_wait V d' }
            else Some d1);
     Some (CC3220SF_STATE_START,
       d2\<lparr>d_macAddress := replicate 6 0, d_stationIP := 0, d_gatewayIP := 0\<rparr>) }"

definition sm_start :: "devenv \<Rightarrow> wdev \<Rightarrow> (cc_state \<times> wdev) option" where
  "sm_start V d0 = do {
     (_, d) \<leftarrow> recv_event V d0;
     let d1 = d\<lparr>d_pstate := CC3220SF_STATE_START\<rparr>;
     if GET_STATUS_BIT STATUS_BIT_FW_INSTALL (d_wlanStatus d1)
     then do {
       (_, d2) \<leftarrow> wifi_call (SlWifiConn_deinit (env_sdk V)) (dcall D_OTA_IF_install d1);
       Some (CC3220SF_STATE_WAIT_FW_INSTALL, d2\<lparr>d_timer := 0\<rparr>) }
     else do {
       (_, d2) \<leftarrow> (if \<not> IS_RUNNING d1 then wifi_call (SlWifiConn_enable (env_sdk V)) d1
                   else Some (0, d1));
       Some (CC3220SF_STATE_WAIT_4_START,
         d2\<lparr>d_nstate := CC3220SF_STATE_CHECK_PROFILES, d_timer := 0\<rparr>) } }"

definition sm_wait_4_start :: "devenv \<Rightarrow> wdev \<Rightarrow> (cc_state \<times> wdev) option" where
  "sm_wait_4_start V d0 = do {
     (_, d) \<leftarrow> recv_event V d0;
     Some (if IS_RUNNING d then (d_nstate d, d\<lparr>d_timer := 0\<rparr>)
           else if d_timer d \<ge> 2000
           then (CC3220SF_STATE_SLEEP,
                 d\<lparr>d_nstate := CC3220SF_STATE_INIT, d_timer := 0, d_sleepTime := 1000\<rparr>)
           else (CC3220SF_STATE_WAIT_4_START, d)) }"

fun stop_wait :: "devenv \<Rightarrow> nat \<Rightarrow> wdev \<Rightarrow> wdev option" where
  "stop_wait V 0 d = Some d"
| "stop_wait V (Suc to) d =
     (if IS_RUNNING d
      then do { (_, d1) \<leftarrow> recv_event V (Task_sleep V 500 d); stop_wait V to d1 }
      else Some d)"

definition sm_stop :: "devenv \<Rightarrow> wdev \<Rightarrow> (cc_state \<times> wdev) option" where
  "sm_stop V d0 = do {
     (_, d) \<leftarrow> recv_event V d0;
     (_, d1) \<leftarrow> wifi_call (SlWifiConn_disable (env_sdk V)) (dcall D_sl_NetAppStop d);
     d2 \<leftarrow> stop_wait V 10 (d1\<lparr>d_pstate := CC3220SF_STATE_STOP\<rparr>);
     Some (CC3220SF_STATE_INIT,
       d2\<lparr>d_wlanStatus := d_wlanStatus d2 AND push_bit (status_pos STATUS_BIT_FW_INSTALL) 1\<rparr>) }"

definition sm_check_profiles :: "wdev \<Rightarrow> (cc_state \<times> wdev) option" where
  "sm_check_profiles d = Some (CC3220SF_STATE_START_NETWORK, d\<lparr>d_timer := 0\<rparr>)"

definition sm_start_network :: "devenv \<Rightarrow> wdev \<Rightarrow> (cc_state \<times> wdev) option" where
  "sm_start_network V d = do {
     let d1 = d\<lparr>d_pstate := CC3220SF_STATE_START_NETWORK\<rparr>;
     if d_doProvisioning d1
     then do {
       let ssid = host_name V (drop 3 (d_macAddress d1));
       (_, d2) \<leftarrow> wifi_call (SlWifiConn_disable (env_sdk V))
                   (dcall (D_sl_WlanSet_AP_SSID ssid) (d1\<lparr>d_SSID := ssid\<rparr>));
       Some (CC3220SF_STATE_WAIT_PROVISION, d2) }
     else Some (CC3220SF_STATE_WAIT_CONNECTAP, d1) }"

definition sm_wait_connect_ap :: "devenv \<Rightarrow> wdev \<Rightarrow> (cc_state \<times> wdev) option" where
  "sm_wait_connect_ap V d0 = do {
     (_, d) \<leftarrow> recv_event V d0;
     let d1 = d\<lparr>d_pstate := CC3220SF_STATE_WAIT_CONNECTAP\<rparr>;
     Some (if IS_CONNECTED d1 then (CC3220SF_STATE_WAIT_IP, d1\<lparr>d_timer := 0\<rparr>)
           else if d_timer d1 > 10000
           then (CC3220SF_STATE_ERROR, d1\<lparr>d_lastError := SL_ERROR_BSD_ETIMEDOUT V\<rparr>)
           else (CC3220SF_STATE_WAIT_CONNECTAP, d1)) }"

definition sm_wait_ip :: "devenv \<Rightarrow> wdev \<Rightarrow> (cc_state \<times> wdev) option" where
  "sm_wait_ip V d0 = do {
     (_, d) \<leftarrow> recv_event V d0;
     let d1 = d\<lparr>d_pstate := CC3220SF_STATE_WAIT_IP\<rparr>;
     Some (if IS_IP_ACQUIRED d1 then (CC3220SF_STATE_START_HTTP, d1)
           else if d_timer d1 > 5000
           then (CC3220SF_STATE_ERROR, d1\<lparr>d_lastError := SL_ERROR_BSD_ETIMEDOUT V\<rparr>)
           else (CC3220SF_STATE_WAIT_IP, d1)) }"

definition sm_start_httpserver :: "devenv \<Rightarrow> wdev \<Rightarrow> (cc_state \<times> wdev) option" where
  "sm_start_httpserver V d =
     (let d1 = dcall D_http_init_handlers d;
          d2 = (if sl_NetAppStart_ret V (d_calls d1) < 0
                then dcall D_sl_NetAppStart (dcall D_sl_NetAppStart d1) else dcall D_sl_NetAppStart d1)
      in Some (CC3220SF_STATE_NOTIFY_UP, d2\<lparr>d_nstate := CC3220SF_STATE_IDLE\<rparr>))"

definition sm_notifyup :: "wdev \<Rightarrow> (cc_state \<times> wdev) option" where
  "sm_notifyup d = do {
     let d1 = d\<lparr>d_timer := 0\<rparr>;
     let d2 = (if d_fatalErrorCount d1 > 0
               then d1\<lparr>d_totalRecoveries := d_totalRecoveries d1 + 1,
                       d_reg_recover := d_totalRecoveries d1 + 1, d_fatalErrorCount := 0\<rparr>
               else d1);
     d3 \<leftarrow> raise_event NETWORK_EVENT_CONNECTED (d2\<lparr>d_connectedTime := 0\<rparr>);
     Some (d_nstate d3, d3) }"

definition sm_idle :: "wdev \<Rightarrow> (cc_state \<times> wdev) option" where
  "sm_idle d =
     Some (if mq_curmsgs (d_httpserverQueue d) > 0 then (CC3220SF_STATE_HTTP_MESSAGE, d)
           else if mq_curmsgs (d_eventQ d) > 0 then (CC3220SF_STATE_HANDLE_EVENT, d)
           else (CC3220SF_STATE_IDLE,
             if d_timer d \<ge> 30000 then (post_wlan_data (d_BSSIDconnection d) 0 0 d)\<lparr>d_timer := 0\<rparr> else d))"

text \<open>\<open>go_down\<close>: the way to STOP through NOTIFY_DOWN.\<close>

definition go_down :: "wdev \<Rightarrow> cc_state \<times> wdev" where
  "go_down d = (CC3220SF_STATE_NOTIFY_DOWN, d\<lparr>d_timer := 0, d_nstate := CC3220SF_STATE_STOP\<rparr>)"

definition sm_handle_event :: "devenv \<Rightarrow> wdev \<Rightarrow> (cc_state \<times> wdev) option" where
  "sm_handle_event V d0 = do {
     (event, d) \<leftarrow> recv_event V d0;
     if event = CC3220SF_EVENT_FW_INSTALL then Some (go_down d)
     else if event = CC3220SF_EVENT_FATAL_ERROR
     then do {
       (_, d1) \<leftarrow> wifi_call (SlWifiConn_requestReset (env_sdk V)) d;
       Some (go_down d1) }
     else if IS_REBOOT d then Some (go_down d)
     else Some (CC3220SF_STATE_IDLE, d) }"

text \<open>The received pointer is followed at once: one of which only a byte arrived points nowhere.\<close>

definition sm_http_message :: "wdev \<Rightarrow> (cc_state \<times> wdev) option" where
  "sm_http_message d = do {
     (netAppRequest, q) \<leftarrow> mq_receive (d_httpserverQueue d);
     req \<leftarrow> netAppRequest;
     let d1 = d\<lparr>d_httpserverQueue := q\<rparr>;
     let d2 = (case r_type req of
                 SL_NETAPP_REQUEST_HTTP_GET \<Rightarrow> dcall (D_http_get_handler req) d1
               | SL_NETAPP_REQUEST_HTTP_DELETE \<Rightarrow> dcall (D_http_get_handler req) d1
               | SL_NETAPP_REQUEST_HTTP_POST \<Rightarrow> dcall (D_http_post_handler req) d1
               | SL_NETAPP_REQUEST_HTTP_PUT \<Rightarrow> dcall (D_http_post_handler req) d1
               | SL_NETAPP_REQUEST_OTHER _ \<Rightarrow> d1);
     let d3 = (if length (r_metadata req) > 0 then dfree d2 else d2);
     let d4 = (if length (r_payload req) > 0 then dfree d3 else d3);
     Some (CC3220SF_STATE_IDLE, dfree d4) }"

definition sm_check_connection :: "wdev \<Rightarrow> (cc_state \<times> wdev) option" where
  "sm_check_connection d = Some (CC3220SF_STATE_IDLE, (dcall D_sl_WlanGet d)\<lparr>d_timer := 0\<rparr>)"

definition sm_notifydown :: "wdev \<Rightarrow> (cc_state \<times> wdev) option" where
  "sm_notifydown d = do {
     d1 \<leftarrow> raise_event NETWORK_EVENT_DISCONNECTED d;
     Some (d_nstate d1, d1\<lparr>d_timer := 0, d_sleepTime := 2000\<rparr>) }"

definition sm_sleep :: "wdev \<Rightarrow> (cc_state \<times> wdev) option" where
  "sm_sleep d = Some (if d_timer d \<ge> d_sleepTime d then d_nstate d else CC3220SF_STATE_SLEEP, d)"

definition sm_error :: "wdev \<Rightarrow> (cc_state \<times> wdev) option" where
  "sm_error d = Some (CC3220SF_STATE_SLEEP,
     d\<lparr>d_pstate := CC3220SF_STATE_ERROR, d_nstate := CC3220SF_STATE_STOP,
       d_sleepTime := 2000, d_timer := 0\<rparr>)"

definition sm_wait_fw_install :: "devenv \<Rightarrow> wdev \<Rightarrow> (cc_state \<times> wdev) option" where
  "sm_wait_fw_install V d0 = do {
     (_, d) \<leftarrow> recv_event V d0;
     Some (CC3220SF_STATE_WAIT_FW_INSTALL,
       if d_timer d > 5000 then dcall D_OTA_IF_restart d else d) }"

definition sm_wait_provisioning :: "devenv \<Rightarrow> wdev \<Rightarrow> (cc_state \<times> wdev) option" where
  "sm_wait_provisioning V d0 = do {
     (_, d) \<leftarrow> recv_event V d0;
     d1 \<leftarrow> (if \<not> IS_PROV_MODE d
            then do {
              (_, d') \<leftarrow> wifi_call (SlWifiConn_enableProvisioning (env_sdk V) 1
                          (SL_WLAN_PROVISIONING_CMD_START_MODE_APSC V) 2) d;
              (_, d'') \<leftarrow> wifi_call (SlWifiConn_enable (env_sdk V))
                          (Task_sleep V 500 (SETB STATUS_BIT_PROV_MODE d'));
              Some d'' }
            else Some d);
     Some (CC3220SF_STATE_WAIT_PROVISION, d1) }"

fun sm_run :: "devenv \<Rightarrow> cc_state \<Rightarrow> wdev \<Rightarrow> (cc_state \<times> wdev) option" where
  "sm_run V CC3220SF_STATE_INIT d = sm_init V d"
| "sm_run V CC3220SF_STATE_START d = sm_start V d"
| "sm_run V CC3220SF_STATE_WAIT_4_START d = sm_wait_4_start V d"
| "sm_run V CC3220SF_STATE_STOP d = sm_stop V d"
| "sm_run V CC3220SF_STATE_CHECK_PROFILES d = sm_check_profiles d"
| "sm_run V CC3220SF_STATE_WAIT_CONNECTAP d = sm_wait_connect_ap V d"
| "sm_run V CC3220SF_STATE_WAIT_IP d = sm_wait_ip V d"
| "sm_run V CC3220SF_STATE_START_NETWORK d = sm_start_network V d"
| "sm_run V CC3220SF_STATE_START_HTTP d = sm_start_httpserver V d"
| "sm_run V CC3220SF_STATE_NOTIFY_UP d = sm_notifyup d"
| "sm_run V CC3220SF_STATE_NOTIFY_DOWN d = sm_notifydown d"
| "sm_run V CC3220SF_STATE_IDLE d = sm_idle d"
| "sm_run V CC3220SF_STATE_SLEEP d = sm_sleep d"
| "sm_run V CC3220SF_STATE_ERROR d = sm_error d"
| "sm_run V CC3220SF_STATE_CHECK_CONNECTION d = sm_check_connection d"
| "sm_run V CC3220SF_STATE_HTTP_MESSAGE d = sm_http_message d"
| "sm_run V CC3220SF_STATE_HANDLE_EVENT d = sm_handle_event V d"
| "sm_run V CC3220SF_STATE_WAIT_FW_INSTALL d = sm_wait_fw_install V d"
| "sm_run V CC3220SF_STATE_WAIT_PROVISION d = sm_wait_provisioning V d"
| "sm_run V _ d = Some (CC3220SF_STATE_ERROR, d)"

subsection \<open>Operations\<close>

definition wlan_exec :: "devenv \<Rightarrow> u32 \<Rightarrow> wdev \<Rightarrow> (int \<times> wdev) option" where
  "wlan_exec V delay d = do {
     (s, d1) \<leftarrow> sm_run V (d_state d) (d\<lparr>d_timer := d_timer d + delay\<rparr>);
     let d2 = d1\<lparr>d_state := s\<rparr>;
     Some (0, if IS_CONNECTED d2 then d2\<lparr>d_connectedTime := d_connectedTime d2 + delay\<rparr> else d2) }"

text \<open>What \<open>probe\<close> sets of the network device that it is called for (\<open>struct network_dev\<close>).
  Its read of the three spare registers comes back only if they can be read.\<close>

record netdev_cfg =
  cfg_delay :: u32
  cfg_stackSize :: u32
  cfg_priority :: "8 word"

definition wlan_probe :: "devenv \<Rightarrow> netdev_cfg \<Rightarrow> wdev \<Rightarrow> (int \<times> netdev_cfg \<times> wdev) option" where
  "wlan_probe V c d =
     (if spare_regs_readable V
      then Some (0, c\<lparr>cfg_delay := 100, cfg_priority := 5, cfg_stackSize := 4096\<rparr>,
        d\<lparr>d_wlanRole := ROLE_STA (env_sdk V), d_wlanMode := ROLE_STA (env_sdk V),
          d_state := CC3220SF_STATE_INIT, d_sleepTime := 5000, d_lastError := 0,
          d_doProvisioning := False, d_fatalErrorCount := 0, d_totalFatalErrors := d_reg_fatal d,
          d_totalRecoveries := d_reg_recover d, d_totalDisconnects := d_reg_discon d\<rparr>)
      else None)"

definition wlan_remove :: "wdev \<Rightarrow> int \<times> wdev" where
  "wlan_remove d = (0, d)"

definition wlan_notify :: "wdev \<Rightarrow> int \<times> wdev" where
  "wlan_notify d = (0, d\<lparr>d_hasEvent := True\<rparr>)"

text \<open>\<open>start\<close> opens the queues, adds the interface and starts the SimpleLink task; the second
  half initialises the connection manager and starts its thread.\<close>

definition wlan_start_wifi :: "devenv \<Rightarrow> wdev \<Rightarrow> (int \<times> wdev) option" where
  "wlan_start_wifi V d = do {
     (r, d1) \<leftarrow> wifi_call (SlWifiConn_init (env_sdk V) True (stray_argument V)) d;
     if r \<noteq> 0 then Some (STATUS_FAIL V, d1)
     else do {
       let d2 = (if SlWifiConn_getProfileCount (d_wifi d1) = 0
                 then d1\<lparr>d_doProvisioning := True\<rparr> else d1);
       let d3 = SETB STATUS_BIT_CHECKED_PROFILES d2;
       let d4 = dcall (D_pthread_create ''SlWifiConnTask'') d3;
       if pthread_create_ret V (d_calls d3) \<noteq> 0 then Some (STATUS_FAIL V, d4)
       else Some (STATUS_OK V, (dcall D_OTA_IF_init d4)\<lparr>d_running := True\<rparr>) } }"

definition wlan_start :: "devenv \<Rightarrow> wdev \<Rightarrow> (int \<times> wdev) option" where
  "wlan_start V d =
     (let d1 = d\<lparr>d_wlanStatus := 0, d_eventQ := mq_open 10, d_httpserverQueue := mq_open 1\<rparr>;
          d2 = dcall D_mq_open d1;
          d3 = dcall D_SlNetIf_add d2;
          d4 = dcall (D_pthread_create ''sl_Task'') d3
      in if \<not> http_mq_open_ok V (d_calls d1) then Some (STATUS_FAIL V, d2)
         else if SlNetIf_add_ret V (d_calls d2) \<noteq> 0 then Some (STATUS_FAIL V, d3)
         else if pthread_create_ret V (d_calls d3) \<noteq> 0 then Some (STATUS_FAIL V, d4)
         else wlan_start_wifi V d4)"

definition wlan_stop :: "wdev \<Rightarrow> int \<times> wdev" where
  "wlan_stop d = (0, d\<lparr>d_running := False\<rparr>)"

definition wlan_power :: "wdev \<Rightarrow> int \<times> wdev" where
  "wlan_power d = (0, d)"

record ipconf =
  ip_address :: u32
  ip_netmask :: u32
  ip_gateway :: u32
  ip_dns :: u32
  ip_ntp :: u32

definition wlan_ipconfig :: "devenv \<Rightarrow> wdev \<Rightarrow> int \<times> ipconf" where
  "wlan_ipconfig V d =
     (0, if IS_IP_ACQUIRED d
         then \<lparr>ip_address = ntohl V (d_stationIP d), ip_netmask = 0x00ffffff,
               ip_gateway = ntohl V (d_gatewayIP d), ip_dns = ntohl V (d_dnsIP d),
               ip_ntp = ntohl V (d_gatewayIP d)\<rparr>
         else \<lparr>ip_address = 0, ip_netmask = 0, ip_gateway = 0, ip_dns = 0, ip_ntp = 0\<rparr>)"

definition wlan_get_macaddress :: "devenv \<Rightarrow> wdev \<Rightarrow> int \<times> u8 list option" where
  "wlan_get_macaddress V d =
     (if list_all (\<lambda>b. b = 0) (take 6 (d_macAddress d)) then (STATUS_FAIL V, None)
      else (6, Some (take 6 (d_macAddress d))))"

definition wlan_is_linkup :: "wdev \<Rightarrow> int" where
  "wlan_is_linkup d = (if IS_CONNECTED d \<and> IS_IP_ACQUIRED d then 1 else 0)"

abbreviation (input) "WLAN_IOCTL_SET_MODE \<equiv> (0x10 :: u32)"
abbreviation (input) "WLAN_IOTCTL_FW_UPGRADE \<equiv> (0x31 :: u32)"
abbreviation (input) "WLAN_IOTCTL_FW_INSTALL \<equiv> (0x32 :: u32)"
abbreviation (input) "WLAN_IOTCTL_WIFI_STATS \<equiv> (0x33 :: u32)"
abbreviation (input) "WLAN_MODE_STATION \<equiv> (1 :: u32)"
abbreviation (input) "WLAN_MODE_PROVISION \<equiv> (4 :: u32)"

definition wlan_ioctl :: "devenv \<Rightarrow> u32 \<Rightarrow> u32 \<Rightarrow> wdev \<Rightarrow> (int \<times> wdev) option" where
  "wlan_ioctl V code param d =
     (if code = WLAN_IOCTL_SET_MODE
      then (let d1 = d\<lparr>d_wlanMode := to_wlanRole V param\<rparr>
            in Some (0, if param = WLAN_MODE_PROVISION then d1\<lparr>d_doProvisioning := True\<rparr> else d1))
      else if code = WLAN_IOTCTL_FW_UPGRADE
      then do { d1 \<leftarrow> send_event V CC3220SF_EVENT_FW_UPGRADE d; Some (0, d1) }
      else if code = WLAN_IOTCTL_FW_INSTALL
      then do { d1 \<leftarrow> send_event V CC3220SF_EVENT_FW_INSTALL d; Some (0, d1) }
      else if code = WLAN_IOTCTL_WIFI_STATS \<and> WIFI_STATS (env_sdk V)
      then do {
        (_, d1) \<leftarrow> (if param > 0 then wifi_call (SlWifiConn_enableStats (env_sdk V) 10) d
                    else wifi_call (SlWifiConn_disableStats (env_sdk V)) d);
        Some (0, d1) }
      else Some (0, d))"

abbreviation (input) "NETWORK_MODE_DHCP \<equiv> (1 :: int)"

definition wlan_get_mode :: "wdev \<Rightarrow> int" where
  "wlan_get_mode d = NETWORK_MODE_DHCP"

abbreviation (input) "NETWORK_STATUS_OFFLINE \<equiv> (0x00 :: int)"
abbreviation (input) "NETWORK_STATUS_WAITAP \<equiv> (0x02 :: int)"
abbreviation (input) "NETWORK_STATUS_CONNECTED \<equiv> (0x03 :: int)"
abbreviation (input) "NETWORK_STATUS_READY \<equiv> (0x05 :: int)"
abbreviation (input) "NETWORK_STATUS_PROVISIONING_START \<equiv> (0x11 :: int)"
abbreviation (input) "NETWORK_STATUS_PROVISIONING_CONNECT \<equiv> (0x12 :: int)"
abbreviation (input) "NETWORK_STATUS_PROVISIONING_IP_ACQUIRED \<equiv> (0x13 :: int)"
abbreviation (input) "NETWORK_STATUS_PROVISIONING_SUCCESS \<equiv> (0x15 :: int)"
abbreviation (input) "NETWORK_STATUS_FW_DOWNLOAD_START \<equiv> (0x30 :: int)"
abbreviation (input) "NETWORK_STATUS_FW_DOWNLOAD_COMPLETE \<equiv> (0x31 :: int)"
abbreviation (input) "NETWORK_STATUS_FW_DOWNLOAD_ERROR \<equiv> (0x32 :: int)"

definition wlan_get_status :: "wdev \<Rightarrow> int" where
  "wlan_get_status d =
     (let st = (\<lambda>b. GET_STATUS_BIT b (d_wlanStatus d));
          ret0 = (if st STATUS_BIT_IP_ACQUIRED then NETWORK_STATUS_READY
                  else if st STATUS_BIT_CONNECTED then NETWORK_STATUS_CONNECTED
                  else if st STATUS_BIT_RUNNING then NETWORK_STATUS_WAITAP
                  else NETWORK_STATUS_OFFLINE);
          ret1 = (if st STATUS_BIT_PROV_MODE
                  then (if st STATUS_BIT_PROV_SUCCESS then NETWORK_STATUS_PROVISIONING_SUCCESS
                        else if st STATUS_BIT_PROV_IP_ACQUIRED
                        then NETWORK_STATUS_PROVISIONING_IP_ACQUIRED
                        else if st STATUS_BIT_PROV_CONNECT then NETWORK_STATUS_PROVISIONING_CONNECT
                        else NETWORK_STATUS_PROVISIONING_START)
                  else ret0)
      in if st STATUS_BIT_FW_DL_ERROR then NETWORK_STATUS_FW_DOWNLOAD_ERROR
         else if st STATUS_BIT_FW_DL_DONE then NETWORK_STATUS_FW_DOWNLOAD_COMPLETE
         else if st STATUS_BIT_FW_DL_START then NETWORK_STATUS_FW_DOWNLOAD_START
         else ret1)"

subsection \<open>The device as a step relation\<close>

text \<open>What other threads do to the device: the SimpleLink, OTA and connection-manager callbacks, the
  requests of the HTTP server, the operations called from above, and the steps of the connection
  manager's own thread and callers. The device's thread starts it, and then only runs
  \<open>exec\<close>.\<close>

datatype dev_input =
    Dev_wlan sl_wlan_event | Dev_fatal | Dev_netapp sl_netapp_event | Dev_ota ota_notif
  | Dev_http http_request | Dev_app app_event | Dev_ioctl u32 u32 | Dev_stop | Dev_notify

fun dev_input_run :: "devenv \<Rightarrow> dev_input \<Rightarrow> wdev \<Rightarrow> wdev option" where
  "dev_input_run V (Dev_wlan ev) d = SimpleLinkWlanEventHandler V ev d"
| "dev_input_run V Dev_fatal d = SimpleLinkFatalErrorEventHandler V d"
| "dev_input_run V (Dev_netapp ev) d = SimpleLinkNetAppEventHandler V ev d"
| "dev_input_run V (Dev_ota n) d = SimpleLinkOtaEventHandler V n d"
| "dev_input_run V (Dev_http req) d = map_option snd (SimpleLinkNetAppRequestEventHandler V req d)"
| "dev_input_run V (Dev_app ev) d = SlWifiConnEventHandler V ev d"
| "dev_input_run V (Dev_ioctl code param) d = map_option snd (wlan_ioctl V code param d)"
| "dev_input_run V Dev_stop d = Some (snd (wlan_stop d))"
| "dev_input_run V Dev_notify d = Some (snd (wlan_notify d))"

inductive other_step :: "devenv \<Rightarrow> wdev \<Rightarrow> wdev \<Rightarrow> bool" for V where
  other_input: "dev_input_run V i d = Some d' \<Longrightarrow> other_step V d d'"
| other_wifi: "wifi_step (env_sdk V) (d_wifi d) w \<Longrightarrow> other_step V d (d\<lparr>d_wifi := w\<rparr>)"

definition others_ok :: "devenv \<Rightarrow> bool" where
  "others_ok V \<longleftrightarrow> (\<forall>h d. steps (other_step V) d (others V h d))"

inductive dev_step :: "devenv \<Rightarrow> wdev \<Rightarrow> wdev \<Rightarrow> bool" for V where
  dev_other: "other_step V d d' \<Longrightarrow> dev_step V d d'"
| dev_exec: "wlan_exec V delay d = Some (r, d') \<Longrightarrow> dev_step V d d'"

inductive_cases other_stepE: "other_step V d d'"
inductive_cases dev_stepE: "dev_step V d d'"

text \<open>The device's life begins with a \<open>probe\<close> that comes back and \<open>start\<close>, whatever
  \<open>start\<close> answered.\<close>

definition dev_start :: "devenv \<Rightarrow> wdev \<Rightarrow> bool" where
  "dev_start V d \<longleftrightarrow> (\<exists>c0 d0 r0 c d1 r. wlan_probe V c0 d0 = Some (r0, c, d1) \<and> wlan_start V d1 = Some (r, d))"

end
