(* ===== verification/WlanInv.thy ===== *)
theory WlanInv
  imports WlanDev
begin

text \<open>
  The invariant of the WLAN device and the abstract automaton of its state machine. What other threads
  do leaves the state machine's own variables alone (\<open>same_core\<close>); every run of
  \<open>wlan_exec\<close> follows \<open>cc_next\<close> and keeps \<open>dev_inv\<close>.
\<close>

subsection \<open>What other threads leave alone\<close>

definition same_core :: "wdev \<Rightarrow> wdev \<Rightarrow> bool" where
  "same_core d u \<longleftrightarrow> d_state u = d_state d \<and> d_nstate u = d_nstate d \<and> d_timer u = d_timer d \<and>
     d_sleepTime u = d_sleepTime d \<and> d_wlanStatus u = d_wlanStatus d \<and>
     d_fatalErrorCount u = d_fatalErrorCount d \<and> d_totalFatalErrors u = d_totalFatalErrors d \<and>
     d_totalRecoveries u = d_totalRecoveries d \<and> d_totalDisconnects u = d_totalDisconnects d \<and>
     d_reg_fatal u = d_reg_fatal d \<and> d_reg_recover u = d_reg_recover d \<and>
     d_reg_discon u = d_reg_discon d \<and> d_connectedTime u = d_connectedTime d \<and>
     (mq_ok (d_eventQ d) \<longrightarrow> mq_ok (d_eventQ u))"

lemma same_core_refl [simp]: "same_core d d" by (simp add: same_core_def)

lemma same_core_trans: "same_core d t \<Longrightarrow> same_core t u \<Longrightarrow> same_core d u"
  by (simp add: same_core_def)

lemma same_core_fields [simp]:
  "same_core d (t\<lparr>d_calls := c\<rparr>) = same_core d t" "same_core d (t\<lparr>d_wifi := w\<rparr>) = same_core d t"
  "same_core d (t\<lparr>d_blocks := n\<rparr>) = same_core d t" "same_core d (t\<lparr>d_running := b\<rparr>) = same_core d t"
  "same_core d (t\<lparr>d_hasEvent := b\<rparr>) = same_core d t" "same_core d (t\<lparr>d_wlanMode := m\<rparr>) = same_core d t"
  "same_core d (t\<lparr>d_doProvisioning := b\<rparr>) = same_core d t"
  "same_core d (t\<lparr>d_macAddress := a\<rparr>) = same_core d t"
  "same_core d (t\<lparr>d_wlanEventReasonCode := r\<rparr>) = same_core d t"
  "same_core d (t\<lparr>d_SSIDconnection := n', d_BSSIDconnection := b'\<rparr>) = same_core d t"
  "same_core d (t\<lparr>d_httpserverQueue := q\<rparr>) = same_core d t"
  "same_core d (t\<lparr>d_pstate := st\<rparr>) = same_core d t" "same_core d (t\<lparr>d_SSID := ss\<rparr>) = same_core d t"
  by (simp_all add: same_core_def)

lemma same_core_dcall [simp]: "same_core d (dcall c t) = same_core d t"
  by (simp add: dcall_def)

lemma same_core_set_ip [simp]: "same_core d (set_ip a t) = same_core d t"
  by (simp add: set_ip_def same_core_def)

lemma same_core_send_event: "same_core d t \<Longrightarrow> post (send_event V ev t) (same_core d)"
  by (auto simp: send_event_def post_def bind_Some_iff same_core_def
      intro: mq_ok_send mq_ok_send_nonblock split: if_splits)

lemma same_core_raise_event: "same_core d t \<Longrightarrow> post (raise_event e t) (same_core d)"
  by (simp add: raise_event_def)

lemma same_core_wifi_call: "same_core d t \<Longrightarrow> post (wifi_call f t) (\<lambda>(r, u). same_core d u)"
  by (auto simp: wifi_call_def post_def bind_Some_iff)

lemma same_core_alloc: "same_core d t \<Longrightarrow> dmalloc V n t = (ok, u) \<Longrightarrow> same_core d u"
  "same_core d t \<Longrightarrow> alloc_part V bs t = (ok, u) \<Longrightarrow> same_core d u"
  by (auto simp: dmalloc_def alloc_part_def Let_def split: if_splits)

lemma same_core_http:
  "post (SimpleLinkNetAppRequestEventHandler V req d) (\<lambda>(r, u). same_core d u)"
  by (auto simp: SimpleLinkNetAppRequestEventHandler_def post_def bind_Some_iff
      dest!: same_core_alloc [OF same_core_refl] intro: same_core_trans split: if_splits prod.splits)

lemma same_core_ioctl: "post (wlan_ioctl V code param d) (\<lambda>(r, u). same_core d u)"
  by (auto simp: wlan_ioctl_def Let_def intro!: post_mono [OF same_core_send_event [of d]]
      post_mono [OF same_core_wifi_call [of d]])

lemma same_core_input: "post (dev_input_run V i d) (same_core d)"
proof (cases i)
  case (Dev_wlan ev)
  have w: "post (do { n \<leftarrow> write_at 0 a x; b \<leftarrow> write_at 0 c y;
      send_event V e (d\<lparr>d_SSIDconnection := n, d_BSSIDconnection := b\<rparr>) }) (same_core d)"
    for a c :: "u8 list" and x y e
    by (auto intro!: post_any [where m = "write_at 0 a x"] post_any [where m = "write_at 0 c y" for y]
        same_core_send_event)
  with Dev_wlan show ?thesis
    by (cases ev) (auto simp: SimpleLinkWlanEventHandler_def same_core_send_event simp del: post_simps(3)
      split: option.split)
next
  case (Dev_netapp ev)
  then show ?thesis
    by (cases ev) (auto simp: SimpleLinkNetAppEventHandler_def Let_def same_core_send_event
      intro!: post_mono [OF same_core_send_event [of d]])
next
  case (Dev_ota n)
  then show ?thesis by (cases n) (auto simp: SimpleLinkOtaEventHandler_def same_core_send_event)
next
  case (Dev_app ev)
  then show ?thesis
    by (cases ev) (auto simp: SlWifiConnEventHandler_def same_core_send_event same_core_raise_event
      post_wlan_data_def)
qed (auto simp: SimpleLinkFatalErrorEventHandler_def same_core_send_event wlan_stop_def wlan_notify_def
    intro!: post_mono [OF same_core_ioctl] post_mono [OF same_core_http])

lemma same_core_other: "other_step V d u \<Longrightarrow> same_core d u"
  by (auto elim!: other_stepE dest: postD [OF same_core_input])

lemma same_core_others: "steps (other_step V) d u \<Longrightarrow> same_core d u"
  by (induction rule: steps.induct) (auto intro: same_core_trans same_core_other)

text \<open>Nor do they sleep in its name, take the network layer's callback away, or receive from its
  two queues; what they add to the queue of requests is whole pointers, if \<open>mq_send\<close> sends such.\<close>

definition d_sleeps :: "wdev \<Rightarrow> nat" where
  "d_sleeps d = length (filter (\<lambda>c. case c of D_Task_sleep _ \<Rightarrow> True | _ \<Rightarrow> False) (d_calls d))"

definition keeps_dev :: "devenv \<Rightarrow> wdev \<Rightarrow> wdev \<Rightarrow> bool" where
  "keeps_dev V d u \<longleftrightarrow> (d_hasEvent d \<longrightarrow> d_hasEvent u) \<and>
     (\<exists>cs. d_calls u = cs @ d_calls d) \<and> d_sleeps u = d_sleeps d \<and>
     (\<exists>es. mq_msgs (d_eventQ u) = mq_msgs (d_eventQ d) @ es) \<and>
     (\<exists>rs. mq_msgs (d_httpserverQueue u) = mq_msgs (d_httpserverQueue d) @ rs \<and>
        (mq_send_whole V \<longrightarrow> None \<notin> set rs))"

lemma keeps_dev_refl [simp]: "keeps_dev V d d" by (simp add: keeps_dev_def)

lemma keeps_dev_trans: "keeps_dev V d t \<Longrightarrow> keeps_dev V t u \<Longrightarrow> keeps_dev V d u"
  by (auto simp: keeps_dev_def)

lemma keeps_dev_fields [simp]:
  "keeps_dev V d (t\<lparr>d_wifi := w\<rparr>) = keeps_dev V d t"
  "keeps_dev V d (t\<lparr>d_blocks := n\<rparr>) = keeps_dev V d t" "keeps_dev V d (t\<lparr>d_running := b\<rparr>) = keeps_dev V d t"
  "keeps_dev V d (t\<lparr>d_wlanMode := m\<rparr>) = keeps_dev V d t"
  "keeps_dev V d (t\<lparr>d_doProvisioning := b\<rparr>) = keeps_dev V d t"
  "keeps_dev V d (t\<lparr>d_macAddress := a\<rparr>) = keeps_dev V d t"
  "keeps_dev V d (t\<lparr>d_wlanEventReasonCode := r\<rparr>) = keeps_dev V d t"
  "keeps_dev V d (t\<lparr>d_SSIDconnection := n', d_BSSIDconnection := b'\<rparr>) = keeps_dev V d t"
  "keeps_dev V d (set_ip i t) = keeps_dev V d t"
  by (simp_all add: keeps_dev_def d_sleeps_def set_ip_def)

lemma keeps_dev_dcall [simp]:
  "(\<forall>n. c \<noteq> D_Task_sleep n) \<Longrightarrow> keeps_dev V d t \<Longrightarrow> keeps_dev V d (dcall c t)"
proof -
  assume c: "\<forall>n. c \<noteq> D_Task_sleep n" and k: "keeps_dev V d t"
  then obtain cs where "d_calls t = cs @ d_calls d" by (auto simp: keeps_dev_def)
  then have "\<exists>cs. c # d_calls t = cs @ d_calls d" by (intro exI [of _ "c # cs"]) simp
  moreover have "d_sleeps (dcall c t) = d_sleeps t"
    using c by (cases c) (simp_all add: d_sleeps_def dcall_def)
  ultimately show ?thesis using k by (simp add: keeps_dev_def dcall_def)
qed

lemma keeps_dev_send_event: "keeps_dev W d t \<Longrightarrow> post (send_event V ev t) (keeps_dev W d)"
  by (auto simp: send_event_def post_def bind_Some_iff keeps_dev_def d_sleeps_def mq_send_def
      mq_send_nonblock_def split: if_splits)

lemma keeps_dev_wifi_call: "keeps_dev W d t \<Longrightarrow> post (wifi_call f t) (\<lambda>(r, u). keeps_dev W d u)"
  by (auto simp: wifi_call_def post_def bind_Some_iff)

lemma keeps_dev_alloc: "dmalloc V n t = (ok, u) \<Longrightarrow> keeps_dev W t u"
  "alloc_part V bs t = (ok, u) \<Longrightarrow> keeps_dev W t u"
  by (auto simp: dmalloc_def alloc_part_def Let_def split: if_splits)

lemma keeps_dev_http:
  "post (SimpleLinkNetAppRequestEventHandler V req d) (\<lambda>(r, u). keeps_dev V d u)"
proof -
  have "keeps_dev V d (t\<lparr>d_httpserverQueue := q\<rparr>)"
    if "mq_send (if mq_send_whole V then Some req else None) (d_httpserverQueue t) = Some q"
      and "keeps_dev V d t" for t q
    using that by (auto simp: keeps_dev_def d_sleeps_def mq_send_def split: if_splits)
  note send = this
  show ?thesis
    by (auto simp: SimpleLinkNetAppRequestEventHandler_def post_def bind_Some_iff simp del: if_split
      dest!: keeps_dev_alloc [where W = V] intro!: send intro: keeps_dev_trans split: if_split_asm prod.splits)
qed

lemma keeps_dev_ioctl: "post (wlan_ioctl V code param d) (\<lambda>(r, u). keeps_dev V d u)"
  by (auto simp: wlan_ioctl_def Let_def intro!: post_mono [OF keeps_dev_send_event [of V d]]
      post_mono [OF keeps_dev_wifi_call [of V d]])

lemma keeps_dev_input: "post (dev_input_run V i d) (keeps_dev V d)"
proof (cases i)
  case (Dev_wlan ev)
  have w: "post (do { n \<leftarrow> write_at 0 a x; b \<leftarrow> write_at 0 c y;
      send_event V e (d\<lparr>d_SSIDconnection := n, d_BSSIDconnection := b\<rparr>) }) (keeps_dev V d)"
    for a c :: "u8 list" and x y e
    by (auto intro!: post_any [where m = "write_at 0 a x"] post_any [where m = "write_at 0 c y" for y]
        keeps_dev_send_event)
  with Dev_wlan show ?thesis
    by (cases ev) (auto simp: SimpleLinkWlanEventHandler_def keeps_dev_send_event simp del: post_simps(3)
      split: option.split)
next
  case (Dev_netapp ev)
  then show ?thesis
    by (cases ev) (auto simp: SimpleLinkNetAppEventHandler_def Let_def keeps_dev_send_event
      intro!: post_mono [OF keeps_dev_send_event [of V d]])
next
  case (Dev_ota n)
  then show ?thesis by (cases n) (auto simp: SimpleLinkOtaEventHandler_def keeps_dev_send_event)
next
  case (Dev_app ev)
  then show ?thesis
    by (cases ev) (auto simp: SlWifiConnEventHandler_def keeps_dev_send_event raise_event_def
      post_wlan_data_def)
qed (auto simp: SimpleLinkFatalErrorEventHandler_def keeps_dev_send_event wlan_stop_def wlan_notify_def
    keeps_dev_def d_sleeps_def intro!: post_mono [OF keeps_dev_ioctl] post_mono [OF keeps_dev_http])

lemma keeps_dev_other: "other_step V d u \<Longrightarrow> keeps_dev V d u"
  by (auto elim!: other_stepE dest: postD [OF keeps_dev_input])

lemma keeps_dev_others: "steps (other_step V) d u \<Longrightarrow> keeps_dev V d u"
  by (induction rule: steps.induct) (auto intro: keeps_dev_trans keeps_dev_other)

text \<open>The lemmas below need of the other threads only what has been shown of their steps.\<close>

definition others_frame :: "devenv \<Rightarrow> bool" where
  "others_frame V \<longleftrightarrow> (\<forall>h d. same_core d (others V h d) \<and> keeps_dev V d (others V h d))"

lemma others_ok_frame: "others_ok V \<Longrightarrow> others_frame V"
  by (auto simp: others_ok_def others_frame_def intro: same_core_others keeps_dev_others)

lemma same_core_sleep: "others_frame V \<Longrightarrow> same_core d t \<Longrightarrow> same_core d (Task_sleep V n t)"
proof -
  assume o: "others_frame V" and c: "same_core d t"
  have "same_core (dcall (D_Task_sleep n) t) (Task_sleep V n t)"
    using o by (simp add: Task_sleep_def Let_def others_frame_def)
  with c show ?thesis by (auto intro: same_core_trans [of d "dcall (D_Task_sleep n) t"])
qed

lemma d_sleeps_Task_sleep: "others_frame V \<Longrightarrow> d_sleeps (Task_sleep V n t) = Suc (d_sleeps t)"
proof -
  assume "others_frame V"
  then have "keeps_dev V (dcall (D_Task_sleep n) t) (Task_sleep V n t)"
    by (simp add: Task_sleep_def Let_def others_frame_def)
  then show ?thesis by (simp add: keeps_dev_def) (simp add: d_sleeps_def dcall_def)
qed

subsection \<open>The invariant\<close>

text \<open>\<open>mirror\<close>: the spare registers, as the code has written them, hold the statistics.\<close>

definition mirror :: "wdev \<Rightarrow> bool" where
  "mirror d \<longleftrightarrow> d_reg_fatal d = d_totalFatalErrors d \<and> d_reg_recover d = d_totalRecoveries d \<and>
     d_reg_discon d = d_totalDisconnects d"

definition live_states :: "cc_state set" where
  "live_states = - {CC3220SF_STATE_READY, CC3220SF_STATE_CHECK_CONNECTION,
     CC3220SF_STATE_GET_STATISTICS, CC3220SF_STATE_START_PROV}"

definition nstate_ok :: "wdev \<Rightarrow> bool" where
  "nstate_ok d \<longleftrightarrow>
     (d_state d = CC3220SF_STATE_WAIT_4_START \<longrightarrow> d_nstate d = CC3220SF_STATE_CHECK_PROFILES) \<and>
     (d_state d = CC3220SF_STATE_NOTIFY_UP \<longrightarrow> d_nstate d = CC3220SF_STATE_IDLE) \<and>
     (d_state d = CC3220SF_STATE_NOTIFY_DOWN \<longrightarrow> d_nstate d = CC3220SF_STATE_STOP) \<and>
     (d_state d = CC3220SF_STATE_SLEEP \<longrightarrow> d_nstate d \<in> {CC3220SF_STATE_INIT, CC3220SF_STATE_STOP}) \<and>
     (d_state d = CC3220SF_STATE_INIT \<or> d_state d = CC3220SF_STATE_SLEEP \<and> d_nstate d = CC3220SF_STATE_INIT
        \<longrightarrow> \<not> IS_RUNNING d)"

definition dev_inv :: "wdev \<Rightarrow> bool" where
  "dev_inv d \<longleftrightarrow> mq_ok (d_eventQ d) \<and> mirror d \<and> d_state d \<in> live_states \<and> nstate_ok d"

lemma dev_inv_same_core: "dev_inv d \<Longrightarrow> same_core d u \<Longrightarrow> dev_inv u"
  by (auto simp: dev_inv_def same_core_def mirror_def nstate_ok_def)

text \<open>\<open>same_ctl\<close>: receiving an event changes status bits and counters, not the control
  variables.\<close>

definition same_ctl :: "wdev \<Rightarrow> wdev \<Rightarrow> bool" where
  "same_ctl d u \<longleftrightarrow> d_state u = d_state d \<and> d_nstate u = d_nstate d \<and> d_timer u = d_timer d \<and>
     d_sleepTime u = d_sleepTime d \<and> (mirror d \<longrightarrow> mirror u) \<and> (mq_ok (d_eventQ d) \<longrightarrow> mq_ok (d_eventQ u))"

lemma same_ctl_refl [simp]: "same_ctl d d" by (simp add: same_ctl_def)

lemma same_ctl_trans: "same_ctl d t \<Longrightarrow> same_ctl t u \<Longrightarrow> same_ctl d u"
  by (simp add: same_ctl_def)

lemma same_core_ctl: "same_core d u \<Longrightarrow> same_ctl d u"
  by (simp add: same_core_def same_ctl_def mirror_def)

lemma same_ctl_core: "same_ctl d t \<Longrightarrow> same_core t u \<Longrightarrow> same_ctl d u"
  by (auto intro: same_ctl_trans same_core_ctl)

lemma same_ctl_fields [simp]:
  "same_ctl d (t\<lparr>d_calls := c\<rparr>) = same_ctl d t" "same_ctl d (t\<lparr>d_pstate := st\<rparr>) = same_ctl d t"
  "same_ctl d (t\<lparr>d_lastError := e\<rparr>) = same_ctl d t" "same_ctl d (t\<lparr>d_SSID := ss\<rparr>) = same_ctl d t"
  "same_ctl d (t\<lparr>d_wlanStatus := v\<rparr>) = same_ctl d t" "same_ctl d (t\<lparr>d_connectedTime := n\<rparr>) = same_ctl d t"
  "same_ctl d (t\<lparr>d_macAddress := a, d_stationIP := i, d_gatewayIP := g\<rparr>) = same_ctl d t"
  "same_ctl d (t\<lparr>d_httpserverQueue := q\<rparr>) = same_ctl d t" "same_ctl d (t\<lparr>d_blocks := b\<rparr>) = same_ctl d t"
  by (simp_all add: same_ctl_def mirror_def)

lemma same_ctl_bits [simp]: "same_ctl d (SETB b t) = same_ctl d t" "same_ctl d (CLRB b t) = same_ctl d t"
  by (simp_all add: SETB_def CLRB_def)

lemma same_ctl_dcall [simp]: "same_ctl d (dcall c t) = same_ctl d t"
  by (simp add: dcall_def)

lemma same_ctl_dfree [simp]: "same_ctl d (dfree t) = same_ctl d t" by (simp add: dfree_def)

lemma same_ctl_event_effect: "post (event_effect V ev d) (same_ctl d)"
  by (cases ev) (auto simp: Let_def same_ctl_def mirror_def SETB_def CLRB_def)

lemma same_ctl_recv: "same_ctl d t \<Longrightarrow> post (recv_event V t) (\<lambda>(ev, u). same_ctl d u)"
proof -
  assume c: "same_ctl d t"
  have "same_ctl d u" if r: "mq_receive (d_eventQ t) = Some (ev, q)" and
    e: "event_effect V ev (t\<lparr>d_eventQ := q\<rparr>) = Some u" for ev q u
  proof -
    have "same_ctl t (t\<lparr>d_eventQ := q\<rparr>)" using mq_ok_receive [OF r] by (simp add: same_ctl_def mirror_def)
    with c postD [OF same_ctl_event_effect e] show ?thesis by (blast intro: same_ctl_trans)
  qed
  with c show ?thesis by (auto simp: recv_event_def post_def bind_Some_iff split: option.splits)
qed

lemma same_ctl_wifi_call: "same_ctl d t \<Longrightarrow> post (wifi_call f t) (\<lambda>(r, u). same_ctl d u \<and>
    d_wlanStatus u = d_wlanStatus t)"
  by (auto simp: wifi_call_def post_def bind_Some_iff same_ctl_def mirror_def)

lemma same_ctl_sleep: "others_frame V \<Longrightarrow> same_ctl d t \<Longrightarrow> same_ctl d (Task_sleep V n t)"
  by (blast intro: same_ctl_core same_core_sleep same_core_refl)

lemma same_ctl_stop_wait: "others_frame V \<Longrightarrow> same_ctl d t \<Longrightarrow> post (stop_wait V n t) (same_ctl d)"
  by (induction n arbitrary: t)
    (auto intro!: post_mono [OF same_ctl_recv] same_ctl_sleep)

subsection \<open>The abstract automaton\<close>

fun cc_next :: "cc_state \<Rightarrow> cc_state set" where
  "cc_next CC3220SF_STATE_INIT = {CC3220SF_STATE_START}"
| "cc_next CC3220SF_STATE_START = {CC3220SF_STATE_WAIT_4_START, CC3220SF_STATE_WAIT_FW_INSTALL}"
| "cc_next CC3220SF_STATE_WAIT_4_START =
     {CC3220SF_STATE_WAIT_4_START, CC3220SF_STATE_CHECK_PROFILES, CC3220SF_STATE_SLEEP}"
| "cc_next CC3220SF_STATE_CHECK_PROFILES = {CC3220SF_STATE_START_NETWORK}"
| "cc_next CC3220SF_STATE_START_NETWORK =
     {CC3220SF_STATE_WAIT_CONNECTAP, CC3220SF_STATE_WAIT_PROVISION}"
| "cc_next CC3220SF_STATE_WAIT_CONNECTAP =
     {CC3220SF_STATE_WAIT_CONNECTAP, CC3220SF_STATE_WAIT_IP, CC3220SF_STATE_ERROR}"
| "cc_next CC3220SF_STATE_WAIT_IP =
     {CC3220SF_STATE_WAIT_IP, CC3220SF_STATE_START_HTTP, CC3220SF_STATE_ERROR}"
| "cc_next CC3220SF_STATE_START_HTTP = {CC3220SF_STATE_NOTIFY_UP}"
| "cc_next CC3220SF_STATE_NOTIFY_UP = {CC3220SF_STATE_IDLE}"
| "cc_next CC3220SF_STATE_IDLE =
     {CC3220SF_STATE_IDLE, CC3220SF_STATE_HTTP_MESSAGE, CC3220SF_STATE_HANDLE_EVENT}"
| "cc_next CC3220SF_STATE_HTTP_MESSAGE = {CC3220SF_STATE_IDLE}"
| "cc_next CC3220SF_STATE_HANDLE_EVENT = {CC3220SF_STATE_IDLE, CC3220SF_STATE_NOTIFY_DOWN}"
| "cc_next CC3220SF_STATE_NOTIFY_DOWN = {CC3220SF_STATE_STOP}"
| "cc_next CC3220SF_STATE_STOP = {CC3220SF_STATE_INIT}"
| "cc_next CC3220SF_STATE_ERROR = {CC3220SF_STATE_SLEEP}"
| "cc_next CC3220SF_STATE_SLEEP = {CC3220SF_STATE_SLEEP, CC3220SF_STATE_INIT, CC3220SF_STATE_STOP}"
| "cc_next CC3220SF_STATE_WAIT_FW_INSTALL = {CC3220SF_STATE_WAIT_FW_INSTALL}"
| "cc_next CC3220SF_STATE_WAIT_PROVISION = {CC3220SF_STATE_WAIT_PROVISION}"
| "cc_next CC3220SF_STATE_CHECK_CONNECTION = {CC3220SF_STATE_IDLE}"
| "cc_next _ = {CC3220SF_STATE_ERROR}"

text \<open>\<open>runs d s u\<close>: running the state function of \<open>d\<close> may return the state
  \<open>s\<close> and the descriptor \<open>u\<close> without breaking the invariant.\<close>

definition runs :: "wdev \<Rightarrow> cc_state \<Rightarrow> wdev \<Rightarrow> bool" where
  "runs d s u \<longleftrightarrow> s \<in> cc_next (d_state d) \<and> s \<in> live_states \<and> nstate_ok (u\<lparr>d_state := s\<rparr>) \<and>
     mirror u \<and> mq_ok (d_eventQ u)"

lemma runs_next:
  assumes "same_ctl d u" and "mirror d" and "mq_ok (d_eventQ d)" and "s \<in> cc_next (d_state d)"
    and "s \<in> live_states" and "nstate_ok (u\<lparr>d_state := s\<rparr>)"
  shows "runs d s u"
  using assms by (simp add: runs_def same_ctl_def)

lemma GET_install [simp]:
  "GET_STATUS_BIT b (v AND 131072) \<longleftrightarrow> b = STATUS_BIT_FW_INSTALL \<and> GET_STATUS_BIT b v"
  using GET_mask [of b v STATUS_BIT_FW_INSTALL] by simp

lemmas runs_unfold = runs_def same_ctl_def dev_inv_def nstate_ok_def live_states_def mirror_def

lemma runs_sm_init:
  assumes "dev_inv d" and "d_state d = CC3220SF_STATE_INIT"
  shows "post (sm_init V d) (\<lambda>(s, u). runs d s u)"
  using assms by (auto simp: sm_init_def Let_def runs_unfold)

lemma runs_sm_start:
  assumes "dev_inv d" and "d_state d = CC3220SF_STATE_START"
  shows "post (sm_start V d) (\<lambda>(s, u). runs d s u)"
  using assms unfolding sm_start_def Let_def
  by (auto intro!: post_mono [OF same_ctl_recv [of d]] post_mono [OF same_ctl_wifi_call [of d]])
    (auto simp: runs_unfold)

lemma runs_sm_wait_4_start:
  assumes "dev_inv d" and "d_state d = CC3220SF_STATE_WAIT_4_START"
  shows "post (sm_wait_4_start V d) (\<lambda>(s, u). runs d s u)"
  using assms unfolding sm_wait_4_start_def Let_def
  by (auto intro!: post_mono [OF same_ctl_recv [of d]]) (auto simp: runs_unfold)

lemma runs_sm_stop:
  assumes "dev_inv d" and "d_state d = CC3220SF_STATE_STOP" and "others_frame V"
  shows "post (sm_stop V d) (\<lambda>(s, u). runs d s u)"
  using assms unfolding sm_stop_def Let_def
  by (auto intro!: post_mono [OF same_ctl_recv [of d]] post_mono [OF same_ctl_wifi_call [of d]]
      post_mono [OF same_ctl_stop_wait [of V d]] simp del: stop_wait.simps)
    (auto simp: runs_unfold)

lemma runs_sm_start_network:
  assumes "dev_inv d" and "d_state d = CC3220SF_STATE_START_NETWORK"
  shows "post (sm_start_network V d) (\<lambda>(s, u). runs d s u)"
  using assms unfolding sm_start_network_def Let_def
  by (auto intro!: post_mono [OF same_ctl_wifi_call [of d]]) (auto simp: runs_unfold)

lemma runs_sm_waits:
  "dev_inv d \<Longrightarrow> d_state d = CC3220SF_STATE_WAIT_CONNECTAP \<Longrightarrow>
    post (sm_wait_connect_ap V d) (\<lambda>(s, u). runs d s u)"
  "dev_inv d \<Longrightarrow> d_state d = CC3220SF_STATE_WAIT_IP \<Longrightarrow> post (sm_wait_ip V d) (\<lambda>(s, u). runs d s u)"
  unfolding sm_wait_connect_ap_def sm_wait_ip_def Let_def
  by (auto intro!: post_mono [OF same_ctl_recv [of d]]) (auto simp: runs_unfold)

lemma runs_sm_up_down:
  "dev_inv d \<Longrightarrow> d_state d = CC3220SF_STATE_START_HTTP \<Longrightarrow>
    post (sm_start_httpserver V d) (\<lambda>(s, u). runs d s u)"
  "dev_inv d \<Longrightarrow> d_state d = CC3220SF_STATE_NOTIFY_UP \<Longrightarrow> post (sm_notifyup d) (\<lambda>(s, u). runs d s u)"
  "dev_inv d \<Longrightarrow> d_state d = CC3220SF_STATE_NOTIFY_DOWN \<Longrightarrow> post (sm_notifydown d) (\<lambda>(s, u). runs d s u)"
  by (auto simp: sm_start_httpserver_def sm_notifyup_def sm_notifydown_def raise_event_def Let_def
      dcall_def runs_unfold)

lemma runs_sm_idle:
  "dev_inv d \<Longrightarrow> d_state d = CC3220SF_STATE_IDLE \<Longrightarrow> post (sm_idle d) (\<lambda>(s, u). runs d s u)"
  "dev_inv d \<Longrightarrow> d_state d = CC3220SF_STATE_SLEEP \<Longrightarrow> post (sm_sleep d) (\<lambda>(s, u). runs d s u)"
  "dev_inv d \<Longrightarrow> d_state d = CC3220SF_STATE_ERROR \<Longrightarrow> post (sm_error d) (\<lambda>(s, u). runs d s u)"
  "dev_inv d \<Longrightarrow> d_state d = CC3220SF_STATE_CHECK_PROFILES \<Longrightarrow> post (sm_check_profiles d) (\<lambda>(s, u). runs d s u)"
  by (auto simp: sm_idle_def sm_sleep_def sm_error_def sm_check_profiles_def post_wlan_data_def dcall_def
      runs_unfold)

lemma runs_sm_handle_event:
  assumes "dev_inv d" and "d_state d = CC3220SF_STATE_HANDLE_EVENT"
  shows "post (sm_handle_event V d) (\<lambda>(s, u). runs d s u)"
  using assms unfolding sm_handle_event_def Let_def go_down_def
  by (auto intro!: post_mono [OF same_ctl_recv [of d]] post_mono [OF same_ctl_wifi_call [of d]])
    (auto simp: runs_unfold)

lemma runs_sm_http_message:
  assumes "dev_inv d" and "d_state d = CC3220SF_STATE_HTTP_MESSAGE"
  shows "post (sm_http_message d) (\<lambda>(s, u). runs d s u)"
proof (cases "mq_receive (d_httpserverQueue d)")
  case (Some x)
  obtain p q where x: "x = (p, q)" by (cases x)
  show ?thesis
  proof (cases p)
    case None
    with Some x show ?thesis by (simp add: sm_http_message_def)
  next
    case req: (Some req)
    obtain u where u: "sm_http_message d = Some (CC3220SF_STATE_IDLE, u)" "same_ctl d u"
      using Some x req by (cases "r_type req") (simp_all add: sm_http_message_def Let_def)
    have "runs d CC3220SF_STATE_IDLE u"
      using assms by (intro runs_next [OF u(2)]) (simp_all add: dev_inv_def live_states_def nstate_ok_def)
    with u(1) show ?thesis by simp
  qed
qed (simp add: sm_http_message_def)

lemma runs_sm_finals:
  "dev_inv d \<Longrightarrow> d_state d = CC3220SF_STATE_WAIT_FW_INSTALL \<Longrightarrow>
    post (sm_wait_fw_install V d) (\<lambda>(s, u). runs d s u)"
  "others_frame V \<Longrightarrow> dev_inv d \<Longrightarrow> d_state d = CC3220SF_STATE_WAIT_PROVISION \<Longrightarrow>
    post (sm_wait_provisioning V d) (\<lambda>(s, u). runs d s u)"
  unfolding sm_wait_fw_install_def sm_wait_provisioning_def Let_def
  by (auto intro!: post_mono [OF same_ctl_recv [of d]] post_mono [OF same_ctl_wifi_call [of d]]
      same_ctl_sleep) (auto simp: runs_unfold dcall_def)

lemma runs_sm_run:
  assumes "others_frame V" and "dev_inv d"
  shows "post (sm_run V (d_state d) d) (\<lambda>(s, u). runs d s u)"
proof -
  have "d_state d \<in> live_states" using assms(2) by (simp add: dev_inv_def)
  with assms show ?thesis
    by (cases "d_state d") (simp_all add: runs_sm_init runs_sm_start runs_sm_wait_4_start runs_sm_stop
      runs_sm_start_network runs_sm_waits runs_sm_up_down runs_sm_idle runs_sm_handle_event
      runs_sm_http_message runs_sm_finals live_states_def)
qed

lemma dev_inv_timer: "dev_inv (d\<lparr>d_timer := t\<rparr>) = dev_inv d"
  by (simp add: dev_inv_def mirror_def nstate_ok_def)

lemma dev_inv_connectedTime: "dev_inv (d\<lparr>d_connectedTime := t\<rparr>) = dev_inv d"
  by (simp add: dev_inv_def mirror_def nstate_ok_def)

lemma runs_wlan_exec:
  assumes "others_frame V" and "dev_inv d"
  shows "post (wlan_exec V delay d) (\<lambda>(r, u). r = 0 \<and> dev_inv u \<and> d_state u \<in> cc_next (d_state d))"
proof -
  let ?d = "d\<lparr>d_timer := d_timer d + delay\<rparr>"
  have "runs ?d s u \<Longrightarrow> dev_inv (u\<lparr>d_state := s\<rparr>) \<and> s \<in> cc_next (d_state d)" for s u
    by (auto simp: runs_def dev_inv_def mirror_def)
  moreover have "post (sm_run V (d_state d) ?d) (\<lambda>(s, u). runs ?d s u)"
    using runs_sm_run [OF assms(1), of ?d] assms(2) by (simp add: dev_inv_timer)
  ultimately show ?thesis
    by (auto simp: wlan_exec_def Let_def dev_inv_connectedTime simp del: cc_next.simps elim!: post_mono)
qed

lemma dev_inv_fields [simp]:
  "dev_inv (dcall c x) = dev_inv x" "dev_inv (x\<lparr>d_doProvisioning := b\<rparr>) = dev_inv x"
  "dev_inv (x\<lparr>d_running := b\<rparr>) = dev_inv x"
  "dev_inv (SETB STATUS_BIT_CHECKED_PROFILES x) = dev_inv x" "dev_inv (x\<lparr>d_wifi := w\<rparr>) = dev_inv x"
  by (simp_all add: dcall_def SETB_def dev_inv_def mirror_def nstate_ok_def)

lemma dev_inv_wifi_call: "dev_inv x \<Longrightarrow> post (wifi_call f x) (\<lambda>(r, y). dev_inv y)"
  by (auto simp: wifi_call_def post_def bind_Some_iff)

lemma dev_inv_probe: "wlan_probe V c0 d0 = Some (r, c, d) \<Longrightarrow>
    dev_inv (d\<lparr>d_wlanStatus := 0, d_eventQ := mq_open 10, d_httpserverQueue := mq_open 1\<rparr>)"
  by (auto simp: wlan_probe_def dev_inv_def mirror_def nstate_ok_def live_states_def split: if_splits)

lemma dev_inv_start_wifi: "dev_inv d \<Longrightarrow> post (wlan_start_wifi V d) (\<lambda>(r, u). dev_inv u)"
  by (auto simp: wlan_start_wifi_def Let_def intro!: post_mono [OF dev_inv_wifi_call])

lemma dev_inv_start: "dev_start V d \<Longrightarrow> dev_inv d"
proof -
  have "post (wlan_start V d1) (\<lambda>(r, u). dev_inv u)" if "wlan_probe V c0 d0 = Some (r, c, d1)" for c0 d0 r c d1
    using dev_inv_probe [OF that] by (simp add: wlan_start_def Let_def dev_inv_start_wifi)
  then show "dev_start V d \<Longrightarrow> dev_inv d" by (fastforce simp: dev_start_def dest: postD)
qed

lemma dev_inv_step: "others_ok V \<Longrightarrow> dev_step V d u \<Longrightarrow> dev_inv d \<Longrightarrow> dev_inv u"
  by (auto elim!: dev_stepE dest: dev_inv_same_core [OF _ same_core_other] postD [OF runs_wlan_exec [OF others_ok_frame]])

definition dev_step_ok :: "devenv \<Rightarrow> wdev \<Rightarrow> wdev \<Rightarrow> bool" where
  "dev_step_ok V d u \<longleftrightarrow> others_ok V \<and> dev_step V d u"

interpretation dev_sys: transition_system "dev_start V" "dev_step_ok V" dev_inv
  by unfold_locales (auto simp: dev_step_ok_def intro: dev_inv_start dev_inv_step)

lemma dev_steps_ok: "others_ok V \<Longrightarrow> steps (dev_step V) s t \<Longrightarrow> steps (dev_step_ok V) s t"
  by (rotate_tac, induction rule: steps.induct) (auto intro: steps_step simp: dev_step_ok_def)

text \<open>The loop of \<open>sm_init\<close> never ends on a RUNNING device, and after \<open>sm_stop\<close> it is
  not entered.\<close>

lemma init_wait_running_aux: "init_wait V d = Some u \<Longrightarrow> others_frame V \<longrightarrow> \<not> IS_RUNNING d"
proof (erule init_wait.raw_induct [rotated, where P = "\<lambda>V d u. others_frame V \<longrightarrow> \<not> IS_RUNNING d"])
  fix W V d u
  assume 1: "\<And>V d u. W V d = Some u \<Longrightarrow> others_frame V \<longrightarrow> \<not> IS_RUNNING d"
    "(let d1 = Task_sleep V 1000 d in if IS_RUNNING d1 then W V d1 else Some d1) = Some u"
  let ?t = "Task_sleep V 1000 d"
  have "others_frame V \<Longrightarrow> d_wlanStatus ?t = d_wlanStatus d"
    using same_core_sleep [OF _ same_core_refl, where V = V and n = 1000 and d = d] by (simp add: same_core_def)
  with 1 show "others_frame V \<longrightarrow> \<not> IS_RUNNING d" by (fastforce simp: Let_def split: if_splits)
qed

lemma init_wait_running: "others_frame V \<Longrightarrow> IS_RUNNING d \<Longrightarrow> init_wait V d = None"
  using init_wait_running_aux by (cases "init_wait V d") auto

end
