(* ===== verification/WlanProps.thy ===== *)
theory WlanProps
  imports WlanInv WifiTimer
begin

text \<open>
  The properties of the WLAN device. \<open>example_env\<close> is an environment in which every call
  succeeds and other threads do nothing while the device's thread sleeps; \<open>example_dev\<close> is a
  device as it is before \<open>probe\<close>, with a connection manager that has not been initialised.
\<close>

definition example_env :: devenv where
  "example_env = \<lparr>env_sdk = example_sdk, eventQ_nonblock = True, mq_send_whole = True, spare_regs_readable = True, WIFI_REBOOT_ON_FATAL_ERROR = False,
     ROLE_P2P = 3, SL_ERROR_BSD_ETIMEDOUT = -110, STATUS_OK = 0, STATUS_FAIL = -1,
     SL_WLAN_PROVISIONING_CMD_START_MODE_APSC = 2, sizeof_SlNetAppRequest = 28,
     nwp_mac = (\<lambda>_. [1, 2, 3, 4, 5, 6]), host_name = (\<lambda>_. ''robot''), ipv6_as_v4 = (\<lambda>_. (0, 0, 0)),
     ntohl = (\<lambda>x. x), sl_NetAppStart_ret = (\<lambda>_. 0), http_mq_open_ok = (\<lambda>_. True),
     SlNetIf_add_ret = (\<lambda>_. 0), pthread_create_ret = (\<lambda>_. 0), dev_malloc_ok = (\<lambda>_. True),
     stray_argument = False, others = (\<lambda>_ d. d)\<rparr>"

definition example_dev :: wdev where
  "example_dev = \<lparr>d_state = CC3220SF_STATE_INIT, d_nstate = CC3220SF_STATE_INIT,
     d_pstate = CC3220SF_STATE_INIT, d_timer = 0, d_sleepTime = 0, d_running = False,
     d_fatalErrorCount = 0, d_totalFatalErrors = 0, d_totalRecoveries = 0, d_totalDisconnects = 0,
     d_connectedTime = 0, d_reg_fatal = 0, d_reg_recover = 0, d_reg_discon = 0, d_wlanMode = 0,
     d_wlanStatus = 0, d_wlanRole = 0, d_lastError = 0, d_eventQ = mq_open 10,
     d_httpserverQueue = mq_open 1, d_macAddress = replicate 6 0, d_SSIDconnection = replicate 33 0,
     d_BSSIDconnection = replicate 6 0, d_SSID = [], d_wlanEventReasonCode = 0, d_stationIP = 0,
     d_gatewayIP = 0, d_dnsIP = 0, d_doProvisioning = False, d_hasEvent = True, d_blocks = 0,
     d_wifi = example_on, d_calls = []\<rparr>"

lemma example_others [simp]: "others_ok example_env"
  by (simp add: others_ok_def example_env_def)

subsection \<open>Reachable states\<close>







text \<open>C18: one run of \<open>exec\<close> that returns goes to a state the automaton \<open>cc_next\<close>
  allows, reports success, and keeps the invariant.\<close>

theorem wlan_exec_refines_cc_next:
  assumes "others_ok V" and "dev_inv d" and "wlan_exec V delay d = Some (r, u)"
  shows "r = 0 \<and> d_state u \<in> cc_next (d_state d) \<and> dev_inv u"
  using postD [OF runs_wlan_exec [OF others_ok_frame [OF assms(1)] assms(2)] assms(3)] by auto

lemma example_dev_inv: "dev_inv example_dev"
  by (simp add: dev_inv_def example_dev_def mirror_def nstate_ok_def live_states_def)

theorem wlan_exec_refines_cc_next_witness:
  "\<exists>u. wlan_exec example_env 100 example_dev = Some (0, u) \<and> d_state u = CC3220SF_STATE_START \<and> dev_inv u"
proof -
  have "\<exists>r u. wlan_exec example_env 100 example_dev = Some (r, u)"
    by (simp add: wlan_exec_def sm_init_def example_dev_def Let_def)
  then obtain r u where u: "wlan_exec example_env 100 example_dev = Some (r, u)" by blast
  from wlan_exec_refines_cc_next [OF example_others example_dev_inv u] u show ?thesis
    by (auto simp: example_dev_def)
qed

text \<open>C14: \<open>sm_init\<close> on a device that is RUNNING never returns: its loop receives no event, and
  nothing another thread does clears the bit. It returns exactly when the device is not
  RUNNING.\<close>

theorem sm_init_returns_iff:
  assumes "others_ok V"
  shows "(\<exists>u. sm_init V d = Some (CC3220SF_STATE_START, u)) \<longleftrightarrow> \<not> IS_RUNNING d"
proof -
  have "sm_init V d = None" if r: "IS_RUNNING d"
  proof (cases "wifi_call (SlWifiConn_disable (env_sdk V)) (d\<lparr>d_pstate := CC3220SF_STATE_INIT\<rparr>)")
    case None
    with r show ?thesis by (simp add: sm_init_def Let_def)
  next
    case (Some x)
    obtain c t where x: "x = (c, t)" by (cases x)
    have "IS_RUNNING t" using Some x r by (auto simp: wifi_call_def bind_Some_iff)
    with Some x r init_wait_running [OF others_ok_frame [OF assms]] show ?thesis by (simp add: sm_init_def Let_def)
  qed
  moreover have "\<exists>u. sm_init V d = Some (CC3220SF_STATE_START, u)" if "\<not> IS_RUNNING d"
    using that by (simp add: sm_init_def Let_def)
  ultimately show ?thesis by auto
qed

theorem sm_init_returns_iff_witness:
  "\<not> (\<exists>u. sm_init example_env (SETB STATUS_BIT_RUNNING example_dev) = Some (CC3220SF_STATE_START, u)) \<and>
   (\<exists>u. sm_init example_env example_dev = Some (CC3220SF_STATE_START, u))"
  using sm_init_returns_iff [OF example_others, of "SETB STATUS_BIT_RUNNING example_dev"]
    sm_init_returns_iff [OF example_others, of example_dev]
  by (auto simp: SETB_def example_dev_def)

subsection \<open>Stopping\<close>

lemma recv_event_total:
  assumes "\<not> WIFI_REBOOT_ON_FATAL_ERROR V"
  shows "\<exists>ev u. recv_event V d = Some (ev, u) \<and> d_wifi u = d_wifi d"
proof -
  have "\<exists>u. event_effect V ev t = Some u \<and> d_wifi u = d_wifi t" for ev t
    using assms by (cases ev) (auto simp: Let_def SETB_def CLRB_def)
  note eff = this
  show ?thesis
  proof (cases "mq_receive (d_eventQ d)")
    case (Some x)
    obtain ev q where "x = (ev, q)" by (cases x)
    with Some eff [of ev "d\<lparr>d_eventQ := q\<rparr>"] show ?thesis by (auto simp: recv_event_def)
  qed (simp add: recv_event_def)
qed

lemma stop_wait_total:
  assumes "\<not> WIFI_REBOOT_ON_FATAL_ERROR V"
  shows "\<exists>u. stop_wait V n d = Some u"
proof (induction n arbitrary: d)
  case (Suc n)
  obtain ev u where "recv_event V (Task_sleep V 500 d) = Some (ev, u)"
    using recv_event_total [OF assms] by blast
  with Suc [of u] show ?case by simp
qed simp

lemma recv_event_calls: "recv_event V d = Some (ev, u) \<Longrightarrow> d_calls u = d_calls d"
proof -
  have "event_effect V e t = Some u \<Longrightarrow> d_calls u = d_calls t" for e t
    by (cases e) (auto simp: Let_def SETB_def CLRB_def split: if_splits)
  then show "recv_event V d = Some (ev, u) \<Longrightarrow> d_calls u = d_calls d"
    by (fastforce simp: recv_event_def bind_Some_iff simp del: event_effect.simps split: option.splits)
qed

lemma stop_wait_sleeps:
  "others_frame V \<Longrightarrow> stop_wait V n d = Some u \<Longrightarrow> d_sleeps u \<le> d_sleeps d + n"
proof (induction n arbitrary: d)
  case (Suc n)
  show ?case
  proof (cases "IS_RUNNING d")
    case True
    with Suc.prems(2) obtain ev t where t: "recv_event V (Task_sleep V 500 d) = Some (ev, t)" "stop_wait V n t = Some u"
      by (auto simp: bind_Some_iff)
    have "d_sleeps t = Suc (d_sleeps d)"
      using recv_event_calls [OF t(1)] d_sleeps_Task_sleep [OF Suc.prems(1), of 500 d] by (simp add: d_sleeps_def)
    with Suc.IH [OF Suc.prems(1) t(2)] show ?thesis by simp
  next
    case False
    with Suc.prems(2) show ?thesis by simp
  qed
qed simp

text \<open>\<open>install_kept\<close>: the request to install is pending and no event that takes it back is
  waiting; \<open>no_revoke\<close>: other threads send no such event.\<close>

definition revokes :: "cc_event set" where
  "revokes = {CC3220SF_EVENT_ERROR, CC3220SF_EVENT_FATAL_ERROR, CC3220SF_EVENT_FW_UPGRADE}"

definition install_kept :: "wdev \<Rightarrow> bool" where
  "install_kept d \<longleftrightarrow> GET_STATUS_BIT STATUS_BIT_FW_INSTALL (d_wlanStatus d) \<and>
     set (mq_msgs (d_eventQ d)) \<inter> revokes = {}"

definition no_revoke :: "devenv \<Rightarrow> bool" where
  "no_revoke V \<longleftrightarrow> (\<forall>h d. set (mq_msgs (d_eventQ (others V h d))) \<inter> revokes \<subseteq> set (mq_msgs (d_eventQ d)))"

lemma install_kept_fields [simp]:
  "install_kept (d\<lparr>d_calls := c\<rparr>) = install_kept d" "install_kept (d\<lparr>d_wifi := w\<rparr>) = install_kept d"
  "install_kept (d\<lparr>d_pstate := s\<rparr>) = install_kept d" "install_kept (d\<lparr>d_timer := t\<rparr>) = install_kept d"
  by (simp_all add: install_kept_def)

lemma install_kept_recv: "recv_event V d = Some (ev, u) \<Longrightarrow> install_kept d \<Longrightarrow> install_kept u"
proof -
  have e: "event_effect V e t = Some u \<Longrightarrow> e \<notin> revokes \<Longrightarrow> install_kept t \<Longrightarrow> install_kept u" for e t
    by (cases e) (auto simp: Let_def SETB_def CLRB_def install_kept_def revokes_def)
  assume r: "recv_event V d = Some (ev, u)" and k: "install_kept d"
  show ?thesis
  proof (cases "mq_msgs (d_eventQ d)")
    case Nil
    with r k show ?thesis by (simp add: recv_event_def mq_receive_def)
  next
    case (Cons x xs)
    with r have "event_effect V x (d\<lparr>d_eventQ := (d_eventQ d)\<lparr>mq_msgs := xs\<rparr>\<rparr>) = Some u"
      by (auto simp: recv_event_def mq_receive_def bind_Some_iff simp del: event_effect.simps)
    from e [OF this] Cons k show ?thesis by (auto simp: install_kept_def)
  qed
qed

lemma install_kept_sleep: "others_frame V \<Longrightarrow> no_revoke V \<Longrightarrow> install_kept d \<Longrightarrow> install_kept (Task_sleep V n d)"
proof -
  assume o: "others_frame V" and n: "no_revoke V" and k: "install_kept d"
  let ?t = "dcall (D_Task_sleep n) d"
  have "d_wlanStatus (Task_sleep V n d) = d_wlanStatus d"
    using same_core_sleep [OF o same_core_refl, of d n] by (simp add: same_core_def)
  moreover have "set (mq_msgs (d_eventQ (others V (d_calls ?t) ?t))) \<inter> revokes \<subseteq> set (mq_msgs (d_eventQ ?t))"
    using n unfolding no_revoke_def by blast
  ultimately show ?thesis using k by (auto simp: install_kept_def Task_sleep_def Let_def dcall_def)
qed

lemma install_kept_stop_wait:
  "others_frame V \<Longrightarrow> no_revoke V \<Longrightarrow> stop_wait V n d = Some u \<Longrightarrow> install_kept d \<Longrightarrow> install_kept u"
proof (induction n arbitrary: d)
  case (Suc n)
  show ?case
  proof (cases "IS_RUNNING d")
    case True
    with Suc.prems(3) obtain ev t where t: "recv_event V (Task_sleep V 500 d) = Some (ev, t)" "stop_wait V n t = Some u"
      by (auto simp: bind_Some_iff)
    have "install_kept (Task_sleep V 500 d)" using Suc.prems by (intro install_kept_sleep)
    with t show ?thesis using Suc.IH Suc.prems install_kept_recv by blast
  next
    case False
    with Suc.prems show ?thesis by simp
  qed
qed simp

text \<open>C15: stopping the device always ends: when a fatal error does not reboot the system and the
  connection manager can take the DISABLE event (or is not there), \<open>sm_stop\<close> returns to INIT and
  clears every status bit but that of a pending firmware installation. If other threads act through the
  device's callbacks and calls only, it has slept at most ten times; and a pending installation stays
  pending unless an event that takes it back (ERROR, FATAL\_ERROR or FW\_UPGRADE) is waiting or sent
  meanwhile.\<close>

theorem sm_stop_returns:
  assumes "\<not> WIFI_REBOOT_ON_FATAL_ERROR V" and "w_initialized (d_wifi d) \<longrightarrow> \<not> mq_full (w_eventQ (d_wifi d))"
  shows "\<exists>u. sm_stop V d = Some (CC3220SF_STATE_INIT, u) \<and> \<not> IS_RUNNING u \<and>
    (\<forall>b. GET_STATUS_BIT b (d_wlanStatus u) \<longrightarrow> b = STATUS_BIT_FW_INSTALL) \<and>
    (others_ok V \<longrightarrow> d_sleeps u \<le> d_sleeps d + 10) \<and>
    (others_ok V \<and> no_revoke V \<and> install_kept d \<longrightarrow> GET_STATUS_BIT STATUS_BIT_FW_INSTALL (d_wlanStatus u))"
proof -
  obtain ev d1 where d1: "recv_event V d = Some (ev, d1)" "d_wifi d1 = d_wifi d"
    using recv_event_total [OF assms(1)] by blast
  have "\<exists>x. SlWifiConn_disable (env_sdk V) (d_wifi d) = Some x"
    using assms(2) by (auto simp: SlWifiConn_disable_def SignalEvent_def mq_send_def)
  with d1(2) have "\<exists>c d2. wifi_call (SlWifiConn_disable (env_sdk V)) (dcall D_sl_NetAppStop d1) = Some (c, d2)"
    by (auto simp: wifi_call_def dcall_def)
  then obtain c d2 where d2: "wifi_call (SlWifiConn_disable (env_sdk V)) (dcall D_sl_NetAppStop d1) = Some (c, d2)"
    by blast
  obtain d3 where d3: "stop_wait V 10 (d2\<lparr>d_pstate := CC3220SF_STATE_STOP\<rparr>) = Some d3"
    using stop_wait_total [OF assms(1)] by blast
  from d2 have c: "d_calls d2 = D_sl_NetAppStop # d_calls d1" "install_kept d1 \<Longrightarrow> install_kept d2"
    by (auto simp: wifi_call_def bind_Some_iff dcall_def)
  have "d_sleeps d2 = d_sleeps d" using c(1) recv_event_calls [OF d1(1)] by (simp add: d_sleeps_def)
  then have "d_sleeps d3 \<le> d_sleeps d + 10" if "others_ok V"
    using stop_wait_sleeps [OF others_ok_frame [OF that] d3] by (simp add: d_sleeps_def)
  moreover have "install_kept d3" if "others_ok V" "no_revoke V" "install_kept d"
    using install_kept_stop_wait [OF others_ok_frame [OF that(1)] that(2) d3] c(2) install_kept_recv [OF d1(1) that(3)] by simp
  ultimately show ?thesis using d1 d2 d3
    by (auto simp: sm_stop_def d_sleeps_def install_kept_def simp del: stop_wait.simps)
qed

theorem sm_stop_returns_witness:
  "\<exists>u. sm_stop example_env (SETB STATUS_BIT_RUNNING (SETB STATUS_BIT_FW_INSTALL example_dev)) =
    Some (CC3220SF_STATE_INIT, u) \<and> \<not> IS_RUNNING u \<and> d_sleeps u \<le> 10 \<and>
    GET_STATUS_BIT STATUS_BIT_FW_INSTALL (d_wlanStatus u)"
proof -
  let ?d = "SETB STATUS_BIT_RUNNING (SETB STATUS_BIT_FW_INSTALL example_dev)"
  have "no_revoke example_env" "install_kept ?d" "d_sleeps ?d = 0"
    by (auto simp: no_revoke_def install_kept_def example_env_def SETB_def example_dev_def mq_open_def d_sleeps_def)
  with sm_stop_returns [of example_env ?d] example_others show ?thesis
    by (auto simp: example_env_def SETB_def example_dev_def mq_full_def)
qed

subsection \<open>Status\<close>

text \<open>C16: a received DISCONNECT clears the connected bit and only that, and counts. But the bit that
  says an address was acquired stays set, and no event but ERROR and FATAL_ERROR ever clears it: outside
  provisioning and firmware downloads \<open>getstatus\<close> still says READY on a device whose link is
  down.\<close>

theorem disconnect_leaves_ready:
  assumes "recv_event V d = Some (CC3220SF_EVENT_DISCONNECT, u)" and "IS_IP_ACQUIRED d"
    and "\<forall>b\<in>{STATUS_BIT_PROV_MODE, STATUS_BIT_FW_DL_START, STATUS_BIT_FW_DL_DONE, STATUS_BIT_FW_DL_ERROR}.
           \<not> GET_STATUS_BIT b (d_wlanStatus d)"
  shows "(\<forall>b. GET_STATUS_BIT b (d_wlanStatus u) \<longleftrightarrow> b \<noteq> STATUS_BIT_CONNECTED \<and> GET_STATUS_BIT b (d_wlanStatus d)) \<and>
    d_totalDisconnects u = d_totalDisconnects d + 1 \<and> d_connectedTime u = 0 \<and>
    wlan_is_linkup u = 0 \<and> wlan_get_status u = 5 \<and>
    (\<forall>ev v. event_effect V ev u = Some v \<longrightarrow> IS_IP_ACQUIRED v \<or>
       ev \<in> {CC3220SF_EVENT_ERROR, CC3220SF_EVENT_FATAL_ERROR})"
proof -
  have "\<exists>q. event_effect V CC3220SF_EVENT_DISCONNECT (d\<lparr>d_eventQ := q\<rparr>) = Some u"
    using assms(1) by (auto simp: recv_event_def bind_Some_iff simp del: event_effect.simps split: option.splits)
  then obtain q where "event_effect V CC3220SF_EVENT_DISCONNECT (d\<lparr>d_eventQ := q\<rparr>) = Some u" by blast
  note u = this [symmetric]
  then have ip: "IS_IP_ACQUIRED u" using assms(2) by (simp add: Let_def CLRB_def)
  have keep: "IS_IP_ACQUIRED v" if "event_effect V ev u = Some v"
    "ev \<notin> {CC3220SF_EVENT_ERROR, CC3220SF_EVENT_FATAL_ERROR}" for ev v
    using that ip by (cases ev) (auto simp: Let_def SETB_def CLRB_def)
  show ?thesis using assms u keep
    by (auto simp: wlan_is_linkup_def wlan_get_status_def Let_def CLRB_def)
qed

lemma recv_event_head:
  "mq_msgs (d_eventQ d) = ev # es \<Longrightarrow> recv_event V d =
    do { u \<leftarrow> event_effect V ev (d\<lparr>d_eventQ := (d_eventQ d)\<lparr>mq_msgs := es\<rparr>\<rparr>); Some (ev, u) }"
  by (simp add: recv_event_def mq_receive_def)

definition with_events :: "cc_event list \<Rightarrow> wdev \<Rightarrow> wdev" where
  "with_events es d = d\<lparr>d_eventQ := \<lparr>mq_maxmsg = 10, mq_msgs = es\<rparr>\<rparr>"

theorem disconnect_leaves_ready_witness:
  "\<exists>u. recv_event example_env (with_events [CC3220SF_EVENT_DISCONNECT]
      (SETB STATUS_BIT_CONNECTED (SETB STATUS_BIT_IP_ACQUIRED example_dev))) =
      Some (CC3220SF_EVENT_DISCONNECT, u) \<and> wlan_is_linkup u = 0 \<and> wlan_get_status u = 5"
proof -
  let ?d = "with_events [CC3220SF_EVENT_DISCONNECT]
      (SETB STATUS_BIT_CONNECTED (SETB STATUS_BIT_IP_ACQUIRED example_dev))"
  obtain u where u: "recv_event example_env ?d = Some (CC3220SF_EVENT_DISCONNECT, u)"
    by (simp add: recv_event_head with_events_def Let_def)
  from disconnect_leaves_ready [OF u] u show ?thesis
    by (auto simp: with_events_def SETB_def example_dev_def)
qed

text \<open>firmware over the air. Whatever the device was doing before, after the start of a
  download \<open>getstatus\<close> says so, after its end it says complete, after an error it says error,
  and the request to install ends the download's statuses and leaves the installation pending.\<close>

theorem firmware_status:
  "map_option wlan_get_status (event_effect V CC3220SF_EVENT_FW_DOWNLOAD_START d) = Some 0x30 \<and>
   map_option wlan_get_status (Option.bind (event_effect V CC3220SF_EVENT_FW_DOWNLOAD_START d)
     (event_effect V CC3220SF_EVENT_FW_DOWNLOAD_DONE)) = Some 0x31 \<and>
   map_option wlan_get_status (event_effect V CC3220SF_EVENT_FW_DOWNLOAD_ERROR d) = Some 0x32 \<and>
   (\<exists>u. event_effect V CC3220SF_EVENT_FW_INSTALL d = Some u \<and> wlan_get_status u \<notin> {0x30, 0x31, 0x32} \<and>
      GET_STATUS_BIT STATUS_BIT_FW_INSTALL (d_wlanStatus u) \<and>
      \<not> GET_STATUS_BIT STATUS_BIT_FW_UPGRADE (d_wlanStatus u))"
  by (simp add: wlan_get_status_def Let_def SETB_def CLRB_def)

end
