(* ===== verification/WlanLive.thy ===== *)
theory WlanLive
  imports WlanProps
begin

text \<open>
  The device's thread among threads that serve it: every run of \<open>wlan_exec\<close> returns as long as the
  connection manager can take the next call. \<open>execs\<close> are runs with nothing in between,
  \<open>execs_among\<close> runs between which other threads act.
\<close>

text \<open>\<open>mgr_ready\<close>: the connection manager's lock is free and its event queue has room.
  \<open>serves\<close>: other threads do to the device what \<open>same_core_others\<close> and
  \<open>keeps_dev_others\<close> show of every sequence of their steps, and the connection manager's thread has
  meanwhile taken an event from its queue if it was full.\<close>

definition mgr_ready :: "wifi \<Rightarrow> bool" where
  "mgr_ready w \<longleftrightarrow> (w_initialized w \<longrightarrow> w_csLock w \<noteq> 0 \<and> \<not> mq_full (w_eventQ w))"

definition serves :: "devenv \<Rightarrow> (wdev \<Rightarrow> wdev) \<Rightarrow> bool" where
  "serves V f \<longleftrightarrow> (\<forall>d. same_core d (f d) \<and> keeps_dev V d (f d) \<and> mgr_ready (d_wifi (f d)))"

lemma serves_steps:
  "(\<And>d. steps (other_step V) d (f d)) \<Longrightarrow> (\<And>d. mgr_ready (d_wifi (f d))) \<Longrightarrow> serves V f"
  by (simp add: serves_def) (blast intro: same_core_others keeps_dev_others)

definition others_serve :: "devenv \<Rightarrow> bool" where
  "others_serve V \<longleftrightarrow> mq_send_whole V \<and> (\<forall>h. serves V (others V h))"

lemma others_serve_frame: "others_serve V \<Longrightarrow> others_frame V"
  by (simp add: others_serve_def serves_def others_frame_def)

subsection \<open>Calls of a connection manager that is ready\<close>

lemma SignalEvent_ready: "mgr_ready w \<Longrightarrow> \<exists>r w'. SignalEvent E ev w = Some (r, w')"
  by (auto simp: SignalEvent_def mgr_ready_def mq_send_def)

lemma wifi_call_ready:
  assumes "mgr_ready (d_wifi d)"
  shows "\<exists>x. wifi_call (SlWifiConn_disable E) d = Some x" "\<exists>x. wifi_call (SlWifiConn_enable E) d = Some x"
    "\<exists>x. wifi_call (SlWifiConn_requestReset E) d = Some x" "\<exists>x. wifi_call (SlWifiConn_deinit E) d = Some x"
    "\<exists>x. wifi_call (SlWifiConn_enableProvisioning E mode cmd flags) d = Some x"
proof -
  note r = assms SignalEvent_ready [OF assms]
  show "\<exists>x. wifi_call (SlWifiConn_disable E) d = Some x" "\<exists>x. wifi_call (SlWifiConn_enable E) d = Some x"
    "\<exists>x. wifi_call (SlWifiConn_requestReset E) d = Some x" "\<exists>x. wifi_call (SlWifiConn_deinit E) d = Some x"
    using r by (auto simp: wifi_call_def SlWifiConn_disable_def SlWifiConn_enable_def bind_eq_None_conv
      SlWifiConn_requestReset_def SlWifiConn_deinit_def SignalEvent_def mgr_ready_def mq_send_def)
  have "\<exists>x. SignalEvent E SLWIFICONN_EVENT_ENABLE_PROVISIONING w = Some x"
    if "\<not> mq_full (w_eventQ w)" for w
    using that by (auto simp: SignalEvent_def mq_send_def)
  then show "\<exists>x. wifi_call (SlWifiConn_enableProvisioning E mode cmd flags) d = Some x"
    using assms by (cases "w_csLock (d_wifi d)")
      (auto simp: wifi_call_def SlWifiConn_enableProvisioning_def CRITICAL_SECTION_ENTER_def mgr_ready_def Let_def
        SignalEvent_def mq_send_def)
qed

subsection \<open>The requests\<close>

text \<open>\<open>http_ok\<close>: the network layer's callback is set and every pointer in the queue of requests
  arrived whole.\<close>

definition http_ok :: "wdev \<Rightarrow> bool" where
  "http_ok d \<longleftrightarrow> d_hasEvent d \<and> None \<notin> set (mq_msgs (d_httpserverQueue d))"

lemma http_ok_fields [simp]:
  "http_ok (d\<lparr>d_calls := cs\<rparr>) = http_ok d" "http_ok (d\<lparr>d_pstate := st\<rparr>) = http_ok d"
  "http_ok (d\<lparr>d_lastError := e\<rparr>) = http_ok d" "http_ok (d\<lparr>d_SSID := ss\<rparr>) = http_ok d"
  "http_ok (d\<lparr>d_wlanStatus := v\<rparr>) = http_ok d" "http_ok (d\<lparr>d_wifi := w\<rparr>) = http_ok d"
  "http_ok (d\<lparr>d_macAddress := a\<rparr>) = http_ok d" "http_ok (d\<lparr>d_stationIP := i\<rparr>) = http_ok d"
  "http_ok (d\<lparr>d_gatewayIP := g\<rparr>) = http_ok d" "http_ok (d\<lparr>d_timer := t\<rparr>) = http_ok d"
  "http_ok (d\<lparr>d_eventQ := q\<rparr>) = http_ok d" "http_ok (d\<lparr>d_nstate := st\<rparr>) = http_ok d"
  "http_ok (d\<lparr>d_sleepTime := t\<rparr>) = http_ok d" "http_ok (d\<lparr>d_totalRecoveries := n\<rparr>) = http_ok d"
  "http_ok (d\<lparr>d_reg_recover := n\<rparr>) = http_ok d" "http_ok (d\<lparr>d_fatalErrorCount := fc\<rparr>) = http_ok d"
  "http_ok (d\<lparr>d_connectedTime := t\<rparr>) = http_ok d" "http_ok (d\<lparr>d_state := st\<rparr>) = http_ok d"
  "http_ok (SETB b d) = http_ok d" "http_ok (CLRB b d) = http_ok d"
  "http_ok (dcall c d) = http_ok d" "http_ok (dfree d) = http_ok d"
  by (simp_all add: http_ok_def SETB_def CLRB_def dcall_def dfree_def)

lemma http_ok_recv: "http_ok d \<Longrightarrow> post (recv_event V d) (\<lambda>(ev, u). http_ok u)"
proof -
  have e: "event_effect V ev t = Some u \<Longrightarrow> http_ok t \<Longrightarrow> http_ok u" for ev t u
    by (cases ev) (auto simp: Let_def http_ok_def SETB_def CLRB_def split: if_splits)
  show "http_ok d \<Longrightarrow> post (recv_event V d) (\<lambda>(ev, u). http_ok u)"
    using e by (fastforce simp: recv_event_def post_def bind_Some_iff simp del: event_effect.simps split: option.splits)
qed

lemma http_ok_wifi_call: "http_ok d \<Longrightarrow> post (wifi_call f d) (\<lambda>(r, u). http_ok u)"
  by (auto simp: wifi_call_def post_def bind_Some_iff)

lemma http_ok_keeps: "mq_send_whole V \<Longrightarrow> keeps_dev V d u \<Longrightarrow> http_ok d \<Longrightarrow> http_ok u"
  by (auto simp: keeps_dev_def http_ok_def)

lemma http_ok_sleep: "others_serve V \<Longrightarrow> http_ok d \<Longrightarrow> http_ok (Task_sleep V n d)"
  by (auto simp: Task_sleep_def Let_def others_serve_def serves_def intro: http_ok_keeps [of V "dcall (D_Task_sleep n) d"])

lemma http_ok_stop_wait: "others_serve V \<Longrightarrow> http_ok d \<Longrightarrow> post (stop_wait V n d) http_ok"
  by (induction n arbitrary: d) (auto intro!: post_mono [OF http_ok_recv] http_ok_sleep)

lemma http_ok_init_wait_aux: "init_wait V d = Some u \<Longrightarrow> others_serve V \<longrightarrow> http_ok d \<longrightarrow> http_ok u"
proof (erule init_wait.raw_induct [rotated, where P = "\<lambda>V d u. others_serve V \<longrightarrow> http_ok d \<longrightarrow> http_ok u"])
  fix W V d u
  assume "\<And>V d u. W V d = Some u \<Longrightarrow> others_serve V \<longrightarrow> http_ok d \<longrightarrow> http_ok u"
    "(let d1 = Task_sleep V 1000 d in if IS_RUNNING d1 then W V d1 else Some d1) = Some u"
  then show "others_serve V \<longrightarrow> http_ok d \<longrightarrow> http_ok u"
    by (auto simp: Let_def dest: http_ok_sleep [of V d 1000] split: if_splits)
qed

lemma http_ok_init: "others_serve V \<Longrightarrow> http_ok d \<Longrightarrow> post (sm_init V d) (\<lambda>(s, u). http_ok u)"
proof -
  assume o: "others_serve V" and h: "http_ok d"
  have "post (init_wait V t) http_ok" if "http_ok t" for t
    using http_ok_init_wait_aux [of V t] o that by (auto simp: post_def)
  then show ?thesis using h unfolding sm_init_def Let_def
    by (auto intro!: post_mono [OF http_ok_wifi_call])
qed

lemma http_ok_message: "http_ok d \<Longrightarrow> post (sm_http_message d) (\<lambda>(s, u). http_ok u)"
proof -
  assume h: "http_ok d"
  have "http_ok u" if m: "mq_receive (d_httpserverQueue d) = Some (Some req, q)"
    and u: "sm_http_message d = Some (s, u)" for req q s u
  proof -
    have "http_ok (d\<lparr>d_httpserverQueue := q\<rparr>)"
      using h m by (auto simp: http_ok_def mq_receive_def split: list.splits)
    with m u show ?thesis
      by (cases "r_type req") (auto simp: sm_http_message_def Let_def split: if_splits)
  qed
  then show ?thesis by (auto simp: post_def) (fastforce simp: sm_http_message_def bind_Some_iff)
qed

lemma http_ok_waits:
  assumes "http_ok d"
  shows "post (sm_start V d) (\<lambda>(s, u). http_ok u)" "post (sm_wait_4_start V d) (\<lambda>(s, u). http_ok u)"
    "post (sm_start_network V d) (\<lambda>(s, u). http_ok u)" "post (sm_wait_connect_ap V d) (\<lambda>(s, u). http_ok u)"
    "post (sm_wait_ip V d) (\<lambda>(s, u). http_ok u)" "post (sm_handle_event V d) (\<lambda>(s, u). http_ok u)"
    "post (sm_wait_fw_install V d) (\<lambda>(s, u). http_ok u)"
  using assms unfolding sm_start_def sm_wait_4_start_def sm_start_network_def sm_wait_connect_ap_def
    sm_wait_ip_def sm_handle_event_def sm_wait_fw_install_def Let_def go_down_def
  by (auto intro!: post_mono [OF http_ok_recv] post_mono [OF http_ok_wifi_call])

lemma http_ok_plain:
  assumes "http_ok d"
  shows "post (sm_check_profiles d) (\<lambda>(s, u). http_ok u)" "post (sm_start_httpserver V d) (\<lambda>(s, u). http_ok u)"
    "post (sm_notifyup d) (\<lambda>(s, u). http_ok u)" "post (sm_notifydown d) (\<lambda>(s, u). http_ok u)"
    "post (sm_idle d) (\<lambda>(s, u). http_ok u)" "post (sm_sleep d) (\<lambda>(s, u). http_ok u)"
    "post (sm_error d) (\<lambda>(s, u). http_ok u)" "post (sm_check_connection d) (\<lambda>(s, u). http_ok u)"
  using assms by (auto simp: sm_check_profiles_def sm_start_httpserver_def sm_notifyup_def sm_notifydown_def
    sm_idle_def sm_sleep_def sm_error_def sm_check_connection_def raise_event_def post_wlan_data_def Let_def)

lemma http_ok_stop_prov:
  assumes "others_serve V" and "http_ok d"
  shows "post (sm_stop V d) (\<lambda>(s, u). http_ok u)" "post (sm_wait_provisioning V d) (\<lambda>(s, u). http_ok u)"
  using assms unfolding sm_stop_def sm_wait_provisioning_def Let_def
  by (auto intro!: post_mono [OF http_ok_recv] post_mono [OF http_ok_wifi_call]
      post_mono [OF http_ok_stop_wait] http_ok_sleep simp del: stop_wait.simps)

lemma http_ok_run: "others_serve V \<Longrightarrow> http_ok d \<Longrightarrow> post (sm_run V s d) (\<lambda>(s, u). http_ok u)"
  using http_ok_init http_ok_message http_ok_waits http_ok_plain http_ok_stop_prov by (cases s) simp_all

subsection \<open>Every run returns\<close>

lemma recv_event_ok:
  assumes "\<not> WIFI_REBOOT_ON_FATAL_ERROR V"
  obtains ev u where "recv_event V d = Some (ev, u)" "d_wifi u = d_wifi d"
  using recv_event_total [OF assms, of d] by blast

lemma sm_run_total:
  assumes V: "\<not> WIFI_REBOOT_ON_FATAL_ERROR V" "others_serve V"
    and d: "dev_inv d" "http_ok d" "d_state d = CC3220SF_STATE_INIT \<or> mgr_ready (d_wifi d)"
    and h: "d_state d = CC3220SF_STATE_HTTP_MESSAGE \<longrightarrow> mq_msgs (d_httpserverQueue d) \<noteq> []"
  shows "\<exists>x. sm_run V (d_state d) d = Some x"
proof -
  obtain ev d1 where r: "recv_event V d = Some (ev, d1)" "d_wifi d1 = d_wifi d"
    by (rule recv_event_ok [OF V(1)])
  have live: "d_state d \<in> live_states" and ns: "nstate_ok d" using d(1) by (simp_all add: dev_inv_def)
  show ?thesis
  proof (cases "d_state d = CC3220SF_STATE_INIT")
    case True
    then show ?thesis using ns by (simp add: nstate_ok_def sm_init_def Let_def)
  next
    case False
    have m: "mgr_ready (d_wifi t)" if "d_wifi t = d_wifi d" for t using False d(3) that by simp
    show ?thesis
    proof (cases "d_state d")
      case CC3220SF_STATE_STOP
      obtain y where y: "wifi_call (SlWifiConn_disable (env_sdk V)) (dcall D_sl_NetAppStop d1) = Some y"
        using wifi_call_ready(1) [OF m [of "dcall D_sl_NetAppStop d1"], of "env_sdk V"] r(2)
        by (auto simp: dcall_def)
      with CC3220SF_STATE_STOP r stop_wait_total [OF V(1), of 10 "(snd y)\<lparr>d_pstate := CC3220SF_STATE_STOP\<rparr>"]
      show ?thesis by (auto simp: sm_stop_def case_prod_beta simp del: stop_wait.simps)
    next
      case CC3220SF_STATE_START
      with r wifi_call_ready(2) [OF m [of "d1\<lparr>d_pstate := CC3220SF_STATE_START\<rparr>"], of "env_sdk V"]
        wifi_call_ready(4) [OF m [of "dcall D_OTA_IF_install (d1\<lparr>d_pstate := CC3220SF_STATE_START\<rparr>)"], of "env_sdk V"]
      show ?thesis by (auto simp: sm_start_def Let_def dcall_def)
    next
      case CC3220SF_STATE_START_NETWORK
      let ?ssid = "host_name V (drop 3 (d_macAddress d))"
      let ?t = "dcall (D_sl_WlanSet_AP_SSID ?ssid) (d\<lparr>d_pstate := CC3220SF_STATE_START_NETWORK, d_SSID := ?ssid\<rparr>)"
      obtain y where y: "wifi_call (SlWifiConn_disable (env_sdk V)) ?t = Some y"
        using wifi_call_ready(1) [OF m [of ?t], of "env_sdk V"] by (auto simp: dcall_def)
      with CC3220SF_STATE_START_NETWORK show ?thesis
        by (auto simp: sm_start_network_def Let_def case_prod_beta)
    next
      case CC3220SF_STATE_HANDLE_EVENT
      with r wifi_call_ready(3) [OF m, of d1 "env_sdk V"] show ?thesis by (auto simp: sm_handle_event_def)
    next
      case CC3220SF_STATE_WAIT_PROVISION
      obtain c t where t: "wifi_call (SlWifiConn_enableProvisioning (env_sdk V) 1
          (SL_WLAN_PROVISIONING_CMD_START_MODE_APSC V) 2) d1 = Some (c, t)"
        using wifi_call_ready(5) [OF m [OF r(2)]] by (metis surj_pair)
      have "mgr_ready (d_wifi (Task_sleep V 500 (SETB STATUS_BIT_PROV_MODE t)))"
        using V(2) by (simp add: Task_sleep_def Let_def others_serve_def serves_def)
      then obtain y where "wifi_call (SlWifiConn_enable (env_sdk V))
          (Task_sleep V 500 (SETB STATUS_BIT_PROV_MODE t)) = Some y"
        using wifi_call_ready(2) by blast
      with CC3220SF_STATE_WAIT_PROVISION r t show ?thesis
        by (auto simp: sm_wait_provisioning_def case_prod_beta)
    next
      case CC3220SF_STATE_HTTP_MESSAGE
      with h obtain p ps where p: "mq_msgs (d_httpserverQueue d) = p # ps"
        by (cases "mq_msgs (d_httpserverQueue d)") auto
      with d(2) obtain req where "p = Some req" by (cases p) (auto simp: http_ok_def)
      with CC3220SF_STATE_HTTP_MESSAGE p show ?thesis by (simp add: sm_http_message_def mq_receive_def Let_def)
    qed (use r d(2) live in \<open>auto simp: sm_wait_4_start_def sm_check_profiles_def sm_wait_connect_ap_def sm_wait_ip_def
      sm_start_httpserver_def sm_notifyup_def sm_notifydown_def sm_idle_def sm_sleep_def sm_error_def
      sm_wait_fw_install_def raise_event_def http_ok_def live_states_def Let_def False\<close>)
  qed
qed

text \<open>\<open>dev_live\<close>: a device whose thread can run; it stays so in every run and whatever the other
  threads do.\<close>

definition dev_live :: "wdev \<Rightarrow> bool" where
  "dev_live d \<longleftrightarrow> dev_inv d \<and> http_ok d \<and>
     (d_state d = CC3220SF_STATE_HTTP_MESSAGE \<longrightarrow> mq_msgs (d_httpserverQueue d) \<noteq> [])"

lemma dev_live_serves: "mq_send_whole V \<Longrightarrow> serves V f \<Longrightarrow> dev_live d \<Longrightarrow> dev_live (f d) \<and> mgr_ready (d_wifi (f d))"
proof -
  assume w: "mq_send_whole V" and f: "serves V f" and d: "dev_live d"
  from f have c: "same_core d (f d)" and k: "keeps_dev V d (f d)" and m: "mgr_ready (d_wifi (f d))"
    unfolding serves_def by blast+
  have "d_state (f d) = d_state d" using c by (simp add: same_core_def)
  moreover have "mq_msgs (d_httpserverQueue d) \<noteq> [] \<Longrightarrow> mq_msgs (d_httpserverQueue (f d)) \<noteq> []"
    using k by (auto simp: keeps_dev_def)
  ultimately show ?thesis
    using d m dev_inv_same_core [OF _ c] http_ok_keeps [OF w k] by (simp add: dev_live_def)
qed

lemma dev_live_exec:
  assumes V: "\<not> WIFI_REBOOT_ON_FATAL_ERROR V" "others_serve V"
    and d: "dev_live d" "d_state d = CC3220SF_STATE_INIT \<or> mgr_ready (d_wifi d)"
  obtains u where "wlan_exec V t d = Some (0, u)" "dev_live u"
proof -
  let ?d = "d\<lparr>d_timer := d_timer d + t\<rparr>"
  have i: "dev_inv ?d" "http_ok ?d" using d(1) by (simp_all add: dev_live_def dev_inv_timer)
  obtain s u where x: "sm_run V (d_state d) ?d = Some (s, u)"
    using sm_run_total [OF V i] d by (auto simp: dev_live_def)
  then have "\<exists>v. wlan_exec V t d = Some (0, v)" by (simp add: wlan_exec_def Let_def)
  then obtain v where v: "wlan_exec V t d = Some (0, v)" ..
  have n: "dev_inv v" "d_state v \<in> cc_next (d_state d)"
    using postD [OF runs_wlan_exec [OF others_serve_frame [OF V(2)]] v] d(1) by (auto simp: dev_live_def)
  have vu: "d_httpserverQueue v = d_httpserverQueue u" "d_hasEvent v = d_hasEvent u" "d_state v = s"
    using x v by (auto simp: wlan_exec_def Let_def split: if_splits)
  have "http_ok u" using postD [OF http_ok_run [OF V(2) i(2)] x] by simp
  moreover have "mq_msgs (d_httpserverQueue u) \<noteq> []" if "s = CC3220SF_STATE_HTTP_MESSAGE"
  proof -
    have "d_state d = CC3220SF_STATE_IDLE" using n(2) vu(3) that by (cases "d_state d") auto
    with x that show ?thesis by (auto simp: sm_idle_def mq_curmsgs_def split: if_splits)
  qed
  ultimately have "dev_live v" using n(1) vu by (simp add: dev_live_def http_ok_def)
  with v that show ?thesis by blast
qed

subsection \<open>Sequences of runs\<close>

text \<open>\<open>execs\<close> runs the device's thread once for each delay, with nothing in between; in
  \<open>execs_among\<close> the other threads do \<open>f\<close> after each run.\<close>

fun execs :: "devenv \<Rightarrow> u32 list \<Rightarrow> wdev \<Rightarrow> wdev option" where
  "execs V [] d = Some d"
| "execs V (t # ts) d = do { (_, d1) \<leftarrow> wlan_exec V t d; execs V ts d1 }"

fun execs_among :: "devenv \<Rightarrow> (wdev \<Rightarrow> wdev) \<Rightarrow> u32 list \<Rightarrow> wdev \<Rightarrow> wdev option" where
  "execs_among V f [] d = Some d"
| "execs_among V f (t # ts) d = do { (_, d1) \<leftarrow> wlan_exec V t d; execs_among V f ts (f d1) }"

lemma execs_append: "execs V (ts @ us) d = Option.bind (execs V ts d) (execs V us)"
  by (induction ts arbitrary: d) (auto simp: case_prod_beta intro!: bind_option_cong)

end
