(* ===== verification/WlanScenarios.thy ===== *)
theory WlanScenarios
  imports WlanLive
begin

text \<open>
  Sequences of runs of the WLAN device: recovery from fatal errors and timeouts, firmware
  installation, and the memory of HTTP requests.
\<close>

subsection \<open>Fatal errors\<close>



text \<open>coming up. From START_HTTP two runs bring the device to IDLE and tell the network layer it
  is connected, whatever the HTTP server's start returns. The consecutive fatal errors are cleared,
  and exactly when there were any, one recovery is counted and stored in its register.\<close>

theorem notify_up_counts_recovery:
  assumes "d_state d = CC3220SF_STATE_START_HTTP" and "d_hasEvent d"
  shows "\<exists>u. execs V [t1, t2] d = Some u \<and> d_state u = CC3220SF_STATE_IDLE \<and>
    d_fatalErrorCount u = 0 \<and> d_timer u = 0 \<and>
    d_totalRecoveries u = d_totalRecoveries d + (if d_fatalErrorCount d > 0 then 1 else 0) \<and>
    (d_fatalErrorCount d > 0 \<longrightarrow> d_reg_recover u = d_totalRecoveries u) \<and>
    d_totalFatalErrors u = d_totalFatalErrors d \<and> hd (d_calls u) = D_event NETWORK_EVENT_CONNECTED"
proof -
  define d1 where "d1 = (snd (the (sm_start_httpserver V (d\<lparr>d_timer := d_timer d + t1\<rparr>))))
    \<lparr>d_state := CC3220SF_STATE_NOTIFY_UP\<rparr>"
  define d2 where "d2 = (if IS_CONNECTED d1 then d1\<lparr>d_connectedTime := d_connectedTime d1 + t1\<rparr> else d1)"
  have e1: "wlan_exec V t1 d = Some (0, d2)"
    using assms(1) by (simp add: wlan_exec_def sm_start_httpserver_def Let_def d1_def d2_def)
  have p: "d_state d2 = CC3220SF_STATE_NOTIFY_UP" "d_nstate d2 = CC3220SF_STATE_IDLE" "d_hasEvent d2"
    "d_fatalErrorCount d2 = d_fatalErrorCount d" "d_totalRecoveries d2 = d_totalRecoveries d"
    "d_totalFatalErrors d2 = d_totalFatalErrors d"
    using assms(2) by (simp_all add: d2_def d1_def sm_start_httpserver_def Let_def dcall_def)
  have "\<exists>u. wlan_exec V t2 d2 = Some (0, u) \<and> d_state u = CC3220SF_STATE_IDLE \<and>
    d_fatalErrorCount u = 0 \<and> d_timer u = 0 \<and>
    d_totalRecoveries u = d_totalRecoveries d + (if d_fatalErrorCount d > 0 then 1 else 0) \<and>
    (d_fatalErrorCount d > 0 \<longrightarrow> d_reg_recover u = d_totalRecoveries u) \<and>
    d_totalFatalErrors u = d_totalFatalErrors d \<and> hd (d_calls u) = D_event NETWORK_EVENT_CONNECTED"
    using p by (cases "d_fatalErrorCount d > 0")
      (auto simp: wlan_exec_def sm_notifyup_def Let_def raise_event_def dcall_def word_greater_zero_iff)
  with e1 show ?thesis by fastforce
qed

theorem notify_up_counts_recovery_witness:
  "\<exists>u. execs example_env [100, 100] (example_dev\<lparr>d_state := CC3220SF_STATE_START_HTTP, d_fatalErrorCount := 3\<rparr>) = Some u \<and>
    d_state u = CC3220SF_STATE_IDLE \<and> d_fatalErrorCount u = 0 \<and> d_totalRecoveries u = 1"
proof -
  let ?d = "example_dev\<lparr>d_state := CC3220SF_STATE_START_HTTP, d_fatalErrorCount := 3\<rparr>"
  have a: "d_state ?d = CC3220SF_STATE_START_HTTP" "d_hasEvent ?d" by (simp_all add: example_dev_def)
  have b: "d_fatalErrorCount ?d > 0" "d_totalRecoveries ?d = 0" by (simp_all add: example_dev_def)
  from notify_up_counts_recovery [OF a, of example_env 100 100] b show ?thesis by auto
qed

subsection \<open>Timeouts\<close>

text \<open>\<open>passes lim t0 k ts\<close>: a timer that stands at \<open>t0\<close> and counts the delays \<open>ts\<close> is
  beyond \<open>lim\<close> after \<open>k\<close> of them and not before.\<close>

definition sum_delays :: "u32 list \<Rightarrow> nat" where
  "sum_delays ts = sum_list (map unat ts)"

definition passes :: "nat \<Rightarrow> nat \<Rightarrow> nat \<Rightarrow> u32 list \<Rightarrow> bool" where
  "passes lim t0 k ts \<longleftrightarrow> k \<le> length ts \<and> lim < t0 + sum_delays (take k ts) \<and> (\<forall>j < k. t0 + sum_delays (take j ts) \<le> lim)"

lemma passes_one: "t0 \<le> lim \<Longrightarrow> lim < t0 + unat t \<Longrightarrow> passes lim t0 (Suc 0) (t # ts)"
  by (simp add: passes_def sum_delays_def)

lemma passes_Suc: "t0 \<le> lim \<Longrightarrow> passes lim (t0 + unat t) k ts \<Longrightarrow> passes lim t0 (Suc k) (t # ts)"
  by (auto simp: passes_def sum_delays_def less_Suc_eq_0_disj)

text \<open>A state that counts the delays until its limit is passed is left by the first run beyond it.\<close>

lemma timed_loop:
  assumes step: "\<And>d t. W d \<Longrightarrow> \<exists>u. wlan_exec V t d = Some (0, u) \<and>
      (if lim < unat (d_timer d + t) then Q u else W u \<and> d_timer u = d_timer d + t)"
    and W: "W d" and t0: "unat (d_timer d) \<le> lim" and l: "lim < 2 ^ 31"
    and ts: "\<forall>t \<in> set ts. unat t < 2 ^ 31" "lim < unat (d_timer d) + sum_delays ts"
  shows "\<exists>k u. passes lim (unat (d_timer d)) k ts \<and> execs V (take k ts) d = Some u \<and> Q u"
  using W t0 ts
proof (induction ts arbitrary: d)
  case Nil
  then show ?case by (simp add: sum_delays_def)
next
  case (Cons t ts)
  have n: "unat (d_timer d + t) = unat (d_timer d) + unat t"
    using Cons.prems l by (intro unat_add_lem [THEN iffD1]) simp
  obtain u where u: "wlan_exec V t d = Some (0, u)"
    "if lim < unat (d_timer d + t) then Q u else W u \<and> d_timer u = d_timer d + t"
    using step [OF Cons.prems(1)] by blast
  show ?case
  proof (cases "lim < unat (d_timer d + t)")
    case True
    with u n Cons.prems(2) have "passes lim (unat (d_timer d)) 1 (t # ts)" "execs V (take 1 (t # ts)) d = Some u" "Q u"
      by (simp_all add: passes_one)
    then show ?thesis by blast
  next
    case False
    with u have w: "W u" "d_timer u = d_timer d + t" by simp_all
    have "lim < unat (d_timer u) + sum_delays ts" using Cons.prems(4) w(2) n by (simp add: sum_delays_def)
    with Cons.IH [OF w(1)] w(2) False n Cons.prems(3) obtain k v where
      "passes lim (unat (d_timer d) + unat t) k ts" "execs V (take k ts) u = Some v" "Q v" by auto
    then have "passes lim (unat (d_timer d)) (Suc k) (t # ts)" "execs V (take (Suc k) (t # ts)) d = Some v" "Q v"
      using Cons.prems(2) u(1) by (simp_all add: passes_Suc)
    then show ?thesis by blast
  qed
qed

definition waiting :: "u32 \<Rightarrow> wdev \<Rightarrow> bool" where
  "waiting lim d \<longleftrightarrow> mq_msgs (d_eventQ d) = [] \<and>
     (d_state d = CC3220SF_STATE_WAIT_CONNECTAP \<and> \<not> IS_CONNECTED d \<and> lim = 10000 \<or>
      d_state d = CC3220SF_STATE_WAIT_IP \<and> \<not> IS_IP_ACQUIRED d \<and> lim = 5000)"

lemma waiting_step:
  assumes "waiting lim d"
  shows "\<exists>u. wlan_exec V t d = Some (0, u) \<and> d_wlanStatus u = d_wlanStatus d \<and>
    (if lim < d_timer d + t then d_state u = CC3220SF_STATE_ERROR \<and> d_lastError u = SL_ERROR_BSD_ETIMEDOUT V
     else waiting lim u \<and> d_timer u = d_timer d + t)"
proof -
  have "recv_event V (d\<lparr>d_timer := d_timer d + t\<rparr>) = Some (CC3220SF_EVENT_INVALID, d\<lparr>d_timer := d_timer d + t\<rparr>)"
    using assms by (simp add: waiting_def recv_event_def mq_receive_def)
  with assms show ?thesis
    by (cases "lim < d_timer d + t")
      (auto simp: waiting_def wlan_exec_def sm_wait_connect_ap_def sm_wait_ip_def Let_def)
qed

definition recovering :: "devenv \<Rightarrow> u32 \<Rightarrow> wdev \<Rightarrow> bool" where
  "recovering V status d \<longleftrightarrow> d_state d = CC3220SF_STATE_SLEEP \<and> d_nstate d = CC3220SF_STATE_STOP \<and>
     d_sleepTime d = 2000 \<and> d_lastError d = SL_ERROR_BSD_ETIMEDOUT V \<and> d_wlanStatus d = status"

lemma recovering_step:
  assumes "recovering V v d"
  shows "\<exists>u. wlan_exec V t d = Some (0, u) \<and>
    (if 1999 < unat (d_timer d + t) then d_state u = CC3220SF_STATE_STOP \<and> d_lastError u = SL_ERROR_BSD_ETIMEDOUT V \<and>
       d_wlanStatus u = v else recovering V v u \<and> d_timer u = d_timer d + t)"
  using assms by (auto simp: recovering_def wlan_exec_def sm_sleep_def word_le_nat_alt Let_def)

text \<open>C18: a device that waits for an access point or for an address does not wait for ever. Let no
  event arrive and nothing else act, and let the timer be within the limit (10 seconds, or 5 for the
  address) and the delays of the following runs reach beyond it (each below half the range of the timer,
  so that it does not wrap around). Then the first run in which the timer has passed the limit ends the
  waiting and records the timeout, the next goes to sleep, and the first run in which 2 more seconds have
  passed leads to STOP (from where the device starts again), with its status as it was.\<close>

theorem wait_timeout_recovers:
  assumes "waiting lim d" and "d_timer d \<le> lim" and "unat lim < unat (d_timer d) + sum_delays ts"
    and "2000 \<le> sum_delays vs" and "\<forall>t \<in> set (ts @ vs). unat t < 2 ^ 31"
  shows "\<exists>k m u. passes (unat lim) (unat (d_timer d)) k ts \<and> passes 1999 0 m vs \<and>
    execs V (take k ts @ [t] @ take m vs) d = Some u \<and> d_state u = CC3220SF_STATE_STOP \<and>
    d_lastError u = SL_ERROR_BSD_ETIMEDOUT V \<and> d_wlanStatus u = d_wlanStatus d"
proof -
  have l: "unat lim < 2 ^ 31" using assms(1) by (auto simp: waiting_def)
  have "\<exists>k u. passes (unat lim) (unat (d_timer d)) k ts \<and> execs V (take k ts) d = Some u \<and>
      (d_state u = CC3220SF_STATE_ERROR \<and> d_lastError u = SL_ERROR_BSD_ETIMEDOUT V \<and> d_wlanStatus u = d_wlanStatus d)"
  proof (rule timed_loop [where W = "\<lambda>u. waiting lim u \<and> d_wlanStatus u = d_wlanStatus d"])
    show "\<exists>u. wlan_exec V t' d' = Some (0, u) \<and> (if unat lim < unat (d_timer d' + t')
        then d_state u = CC3220SF_STATE_ERROR \<and> d_lastError u = SL_ERROR_BSD_ETIMEDOUT V \<and> d_wlanStatus u = d_wlanStatus d
        else (waiting lim u \<and> d_wlanStatus u = d_wlanStatus d) \<and> d_timer u = d_timer d' + t')"
      if "waiting lim d' \<and> d_wlanStatus d' = d_wlanStatus d" for d' t'
      using waiting_step [of lim d' V t'] that by (auto simp: word_less_nat_alt)
  qed (use assms l in \<open>auto simp: word_le_nat_alt\<close>)
  then obtain k u where k: "passes (unat lim) (unat (d_timer d)) k ts" "execs V (take k ts) d = Some u"
    and u: "d_state u = CC3220SF_STATE_ERROR" "d_lastError u = SL_ERROR_BSD_ETIMEDOUT V" "d_wlanStatus u = d_wlanStatus d"
    by blast
  obtain v where v: "wlan_exec V t u = Some (0, v)" "recovering V (d_wlanStatus d) v" "d_timer v = 0"
    using u by (auto simp: wlan_exec_def sm_error_def recovering_def Let_def)
  have "\<exists>m u. passes 1999 (unat (d_timer v)) m vs \<and> execs V (take m vs) v = Some u \<and>
      (d_state u = CC3220SF_STATE_STOP \<and> d_lastError u = SL_ERROR_BSD_ETIMEDOUT V \<and> d_wlanStatus u = d_wlanStatus d)"
    by (rule timed_loop [where W = "recovering V (d_wlanStatus d)"]) (use assms v recovering_step in auto)
  then obtain m w where "passes 1999 0 m vs" "execs V (take m vs) v = Some w" "d_state w = CC3220SF_STATE_STOP"
    "d_lastError w = SL_ERROR_BSD_ETIMEDOUT V" "d_wlanStatus w = d_wlanStatus d" using v(3) by auto
  with k v(1) show ?thesis by (intro exI [of _ k] exI [of _ m] exI [of _ w]) (simp add: execs_append)
qed

theorem wait_timeout_recovers_witness:
  "\<exists>k m u. passes 10000 0 k (replicate 101 100) \<and> passes 1999 0 m (replicate 20 100) \<and>
    execs example_env (take k (replicate 101 100) @ [100] @ take m (replicate 20 100))
      (example_dev\<lparr>d_state := CC3220SF_STATE_WAIT_CONNECTAP\<rparr>) = Some u \<and> d_state u = CC3220SF_STATE_STOP"
proof -
  let ?d = "example_dev\<lparr>d_state := CC3220SF_STATE_WAIT_CONNECTAP\<rparr>"
  have a: "waiting 10000 ?d" "d_timer ?d \<le> 10000" "unat (10000 :: u32) < unat (d_timer ?d) + sum_delays (replicate 101 100)"
    "2000 \<le> sum_delays (replicate 20 100)" "\<forall>t \<in> set (replicate 101 100 @ replicate 20 100). unat (t :: u32) < 2 ^ 31"
    by (simp_all add: waiting_def example_dev_def mq_open_def sum_delays_def sum_list_replicate)
  have "d_timer ?d = 0" by (simp add: example_dev_def)
  with wait_timeout_recovers [OF a, of example_env 100] show ?thesis by auto
qed

subsection \<open>Firmware installation\<close>

lemma recv_event_kept:
  assumes "install_kept d"
  shows "\<exists>ev u. recv_event V d = Some (ev, u) \<and> install_kept u \<and> d_wifi u = d_wifi d"
proof -
  have e: "\<exists>u. event_effect V ev t = Some u \<and> d_wifi u = d_wifi t" if "ev \<notin> revokes" for ev t
    using that by (cases ev) (auto simp: Let_def SETB_def CLRB_def revokes_def)
  have "\<exists>ev u. recv_event V d = Some (ev, u) \<and> d_wifi u = d_wifi d"
  proof (cases "mq_msgs (d_eventQ d)")
    case (Cons x xs)
    with assms e [of x "d\<lparr>d_eventQ := (d_eventQ d)\<lparr>mq_msgs := xs\<rparr>\<rparr>"] show ?thesis
      by (auto simp: install_kept_def recv_event_def mq_receive_def simp del: event_effect.simps)
  qed (simp add: recv_event_def mq_receive_def)
  with assms install_kept_recv show ?thesis by blast
qed

lemma stop_wait_kept:
  assumes "others_frame V" and "no_revoke V"
  shows "install_kept d \<Longrightarrow> \<exists>u. stop_wait V n d = Some u \<and> install_kept u"
proof (induction n arbitrary: d)
  case (Suc n)
  obtain ev u where "recv_event V (Task_sleep V 500 d) = Some (ev, u)" "install_kept u"
    using recv_event_kept [OF install_kept_sleep [OF assms Suc.prems]] by blast
  with Suc show ?case by simp
qed simp

text \<open>The six runs, from IDLE to the installation.\<close>

lemma install_idle:
  assumes "d_state d = CC3220SF_STATE_IDLE" and "mq_msgs (d_eventQ d) \<noteq> []" and "mq_msgs (d_httpserverQueue d) = []"
  shows "\<exists>u. wlan_exec V t d = Some (0, u) \<and> d_state u = CC3220SF_STATE_HANDLE_EVENT \<and>
    mq_msgs (d_eventQ u) = mq_msgs (d_eventQ d) \<and> d_hasEvent u = d_hasEvent d"
  using assms by (simp add: wlan_exec_def sm_idle_def mq_curmsgs_def Let_def)

lemma install_event:
  assumes "d_state d = CC3220SF_STATE_HANDLE_EVENT" and "mq_msgs (d_eventQ d) = CC3220SF_EVENT_FW_INSTALL # es"
    and "set es \<inter> revokes = {}"
  shows "\<exists>u. wlan_exec V t d = Some (0, u) \<and> d_state u = CC3220SF_STATE_NOTIFY_DOWN \<and>
    d_nstate u = CC3220SF_STATE_STOP \<and> install_kept u \<and> d_hasEvent u = d_hasEvent d"
  using assms by (simp add: wlan_exec_def sm_handle_event_def recv_event_def mq_receive_def Let_def SETB_def CLRB_def
      go_down_def install_kept_def)

lemma install_down:
  assumes "d_state d = CC3220SF_STATE_NOTIFY_DOWN" and "d_nstate d = CC3220SF_STATE_STOP" and "install_kept d"
    and "d_hasEvent d"
  shows "\<exists>u. wlan_exec V t d = Some (0, u) \<and> d_state u = CC3220SF_STATE_STOP \<and> install_kept u"
  using assms by (simp add: wlan_exec_def sm_notifydown_def raise_event_def dcall_def install_kept_def Let_def)

lemma install_stop:
  assumes V: "others_frame V" "no_revoke V" and "d_state d = CC3220SF_STATE_STOP" and k: "install_kept d"
    and m: "mgr_ready (d_wifi d)"
  shows "\<exists>u. wlan_exec V t d = Some (0, u) \<and> d_state u = CC3220SF_STATE_INIT \<and> install_kept u \<and> \<not> IS_RUNNING u"
proof -
  obtain ev d1 where r: "recv_event V (d\<lparr>d_timer := d_timer d + t\<rparr>) = Some (ev, d1)" "install_kept d1"
    "d_wifi d1 = d_wifi d" using recv_event_kept [of "d\<lparr>d_timer := d_timer d + t\<rparr>" V] k by auto
  obtain c d2 where d2: "wifi_call (SlWifiConn_disable (env_sdk V)) (dcall D_sl_NetAppStop d1) = Some (c, d2)"
    using wifi_call_ready(1) [of "dcall D_sl_NetAppStop d1" "env_sdk V"] m r(3) by (auto simp: dcall_def)
  then have "install_kept (d2\<lparr>d_pstate := CC3220SF_STATE_STOP\<rparr>)"
    using r(2) by (auto simp: wifi_call_def bind_Some_iff dcall_def)
  from stop_wait_kept [OF V this, of 10] obtain d3 where
    d3: "stop_wait V 10 (d2\<lparr>d_pstate := CC3220SF_STATE_STOP\<rparr>) = Some d3" "install_kept d3" by blast
  with assms(3) r(1) d2 show ?thesis
    by (auto simp: wlan_exec_def sm_stop_def install_kept_def Let_def simp del: stop_wait.simps)
qed

lemma install_init:
  assumes "d_state d = CC3220SF_STATE_INIT" and "install_kept d" and "\<not> IS_RUNNING d"
  shows "\<exists>u. wlan_exec V t d = Some (0, u) \<and> d_state u = CC3220SF_STATE_START \<and> install_kept u"
  using assms by (simp add: wlan_exec_def sm_init_def Let_def install_kept_def)

lemma install_start:
  assumes "d_state d = CC3220SF_STATE_START" and k: "install_kept d" and m: "mgr_ready (d_wifi d)"
  shows "\<exists>u. wlan_exec V t d = Some (0, u) \<and> d_state u = CC3220SF_STATE_WAIT_FW_INSTALL \<and> install_kept u \<and>
    D_OTA_IF_install \<in> set (d_calls u)"
proof -
  obtain ev d1 where r: "recv_event V (d\<lparr>d_timer := d_timer d + t\<rparr>) = Some (ev, d1)" "install_kept d1"
    "d_wifi d1 = d_wifi d" using recv_event_kept [of "d\<lparr>d_timer := d_timer d + t\<rparr>" V] k by auto
  let ?d = "dcall D_OTA_IF_install (d1\<lparr>d_pstate := CC3220SF_STATE_START\<rparr>)"
  obtain c d2 where d2: "wifi_call (SlWifiConn_deinit (env_sdk V)) ?d = Some (c, d2)"
    using wifi_call_ready(4) [of ?d "env_sdk V"] m r(3) by (auto simp: dcall_def)
  then have e: "d_calls d2 = D_OTA_IF_install # d_calls d1" "d_wlanStatus d2 = d_wlanStatus d1" "d_eventQ d2 = d_eventQ d1"
    by (auto simp: wifi_call_def bind_Some_iff dcall_def)
  have "GET_STATUS_BIT STATUS_BIT_FW_INSTALL (d_wlanStatus d1)" using r(2) by (simp add: install_kept_def)
  with assms(1) r d2 e show ?thesis by (simp add: wlan_exec_def sm_start_def Let_def install_kept_def)
qed

lemma install_kept_serves:
  assumes "serves V f" and "\<forall>d. set (mq_msgs (d_eventQ (f d))) \<inter> revokes \<subseteq> set (mq_msgs (d_eventQ d))"
    and "install_kept d"
  shows "install_kept (f d)" and "mgr_ready (d_wifi (f d))"
proof -
  have "d_wlanStatus (f d) = d_wlanStatus d" using assms(1) by (simp add: serves_def same_core_def)
  moreover have "set (mq_msgs (d_eventQ (f d))) \<inter> revokes \<subseteq> set (mq_msgs (d_eventQ d))" using assms(2) by blast
  ultimately show "install_kept (f d)" using assms(3) by (auto simp: install_kept_def)
  show "mgr_ready (d_wifi (f d))" using assms(1) by (simp add: serves_def)
qed

text \<open>C19: a request to install new firmware, received by an idle device with no HTTP request waiting,
  goes through the stop of the device (which forgets every status but this one) and its restart: six runs
  later the installation has been started and the device waits for it. Between the runs, and while the
  thread sleeps in one, other threads do what their callbacks and calls can do (\<open>serves\<close>), except
  that they send no event that takes the request back (ERROR, FATAL\_ERROR, FW\_UPGRADE), and after each
  of these times the connection manager can take another event; no such event was waiting behind the
  request, and the network layer has set its callback.\<close>

theorem firmware_install_chain:
  assumes st: "d_state d = CC3220SF_STATE_IDLE" and q: "mq_msgs (d_eventQ d) = CC3220SF_EVENT_FW_INSTALL # es"
    and es: "set es \<inter> revokes = {}" and h: "mq_msgs (d_httpserverQueue d) = []" and ev: "d_hasEvent d"
    and V: "\<forall>h. serves V (others V h)" "no_revoke V"
    and f: "serves V f" "\<forall>d. set (mq_msgs (d_eventQ (f d))) \<inter> revokes \<subseteq> set (mq_msgs (d_eventQ d))"
  shows "\<exists>u. execs_among V f [t1, t2, t3, t4, t5, t6] d = Some u \<and> d_state u = CC3220SF_STATE_WAIT_FW_INSTALL \<and>
    D_OTA_IF_install \<in> set (d_calls u) \<and> GET_STATUS_BIT STATUS_BIT_FW_INSTALL (d_wlanStatus u)"
proof -
  have fr: "others_frame V" using V(1) by (simp add: serves_def others_frame_def)
  have c: "d_state (f x) = d_state x" "d_nstate (f x) = d_nstate x" "d_wlanStatus (f x) = d_wlanStatus x"
    "d_hasEvent x \<Longrightarrow> d_hasEvent (f x)" "\<exists>cs. d_calls (f x) = cs @ d_calls x"
    "\<exists>es. mq_msgs (d_eventQ (f x)) = mq_msgs (d_eventQ x) @ es" for x
    using f(1) by (simp_all add: serves_def same_core_def keeps_dev_def)
  note k = install_kept_serves [OF f]
  obtain d1 where d1: "wlan_exec V t1 d = Some (0, d1)" "d_state d1 = CC3220SF_STATE_HANDLE_EVENT"
    "mq_msgs (d_eventQ d1) = CC3220SF_EVENT_FW_INSTALL # es" "d_hasEvent d1"
    using install_idle [OF st _ h, of V t1] q ev by auto
  obtain fs where fs: "mq_msgs (d_eventQ (f d1)) = CC3220SF_EVENT_FW_INSTALL # es @ fs" using c(6) [of d1] d1(3) by auto
  have "set (mq_msgs (d_eventQ (f d1))) \<inter> revokes \<subseteq> set (mq_msgs (d_eventQ d1))" using f(2) by blast
  then have "set (es @ fs) \<inter> revokes = {}" unfolding fs d1(3) using es by (auto simp: revokes_def)
  from install_event [OF _ fs this, of V t2] d1 obtain d2 where d2: "wlan_exec V t2 (f d1) = Some (0, d2)"
    "d_state d2 = CC3220SF_STATE_NOTIFY_DOWN" "d_nstate d2 = CC3220SF_STATE_STOP" "install_kept d2" "d_hasEvent d2"
    using c by auto
  from install_down [of "f d2" V t3] d2 k(1) [of d2] c obtain d3 where d3: "wlan_exec V t3 (f d2) = Some (0, d3)"
    "d_state d3 = CC3220SF_STATE_STOP" "install_kept d3" by auto
  from install_stop [OF fr V(2), of "f d3" t4] d3 k [of d3] c obtain d4 where d4: "wlan_exec V t4 (f d3) = Some (0, d4)"
    "d_state d4 = CC3220SF_STATE_INIT" "install_kept d4" "\<not> IS_RUNNING d4" by auto
  from install_init [of "f d4" V t5] d4 k(1) [of d4] c obtain d5 where d5: "wlan_exec V t5 (f d4) = Some (0, d5)"
    "d_state d5 = CC3220SF_STATE_START" "install_kept d5" by auto
  from install_start [of "f d5" V t6] d5 k [of d5] c obtain d6 where d6: "wlan_exec V t6 (f d5) = Some (0, d6)"
    "d_state d6 = CC3220SF_STATE_WAIT_FW_INSTALL" "install_kept d6" "D_OTA_IF_install \<in> set (d_calls d6)" by auto
  obtain cs where "d_calls (f d6) = cs @ d_calls d6" using c(5) by blast
  with d1(1) d2(1) d3(1) d4(1) d5(1) d6 c show ?thesis by (auto simp: install_kept_def)
qed

text \<open>An instance of the other threads: they take every event from the connection manager's queue.\<close>

definition drain :: "wdev \<Rightarrow> wdev" where
  "drain d = d\<lparr>d_wifi := (d_wifi d)\<lparr>w_eventQ := mq_open 10, w_csLock := 1\<rparr>\<rparr>"

definition drain_env :: devenv where
  "drain_env = example_env\<lparr>others := (\<lambda>_. drain)\<rparr>"

lemma drain_serves: "serves V drain" "\<forall>d. d_eventQ (drain d) = d_eventQ d"
  by (simp_all add: serves_def drain_def mgr_ready_def mq_open_def mq_full_def same_core_def keeps_dev_def d_sleeps_def)

theorem firmware_install_chain_witness:
  "\<exists>u. execs_among drain_env drain [100, 100, 100, 100, 100, 100] (with_events [CC3220SF_EVENT_FW_INSTALL]
      (SETB STATUS_BIT_RUNNING (example_dev\<lparr>d_state := CC3220SF_STATE_IDLE\<rparr>))) = Some u \<and>
    d_state u = CC3220SF_STATE_WAIT_FW_INSTALL \<and> D_OTA_IF_install \<in> set (d_calls u)"
proof -
  let ?d = "with_events [CC3220SF_EVENT_FW_INSTALL] (SETB STATUS_BIT_RUNNING (example_dev\<lparr>d_state := CC3220SF_STATE_IDLE\<rparr>))"
  have o: "\<forall>h. others drain_env h = drain" by (simp add: drain_env_def)
  have "\<exists>u. execs_among drain_env drain [100, 100, 100, 100, 100, 100] ?d = Some u \<and>
    d_state u = CC3220SF_STATE_WAIT_FW_INSTALL \<and>
    D_OTA_IF_install \<in> set (d_calls u) \<and> GET_STATUS_BIT STATUS_BIT_FW_INSTALL (d_wlanStatus u)"
    by (rule firmware_install_chain [where es = "[]"])
      (simp_all add: with_events_def example_dev_def SETB_def mq_open_def no_revoke_def drain_serves o)
  then show ?thesis by blast
qed

subsection \<open>HTTP requests\<close>



text \<open>when the second allocation fails, the handler answers with an error and has lost the block
  it had allocated first: nothing in the device refers to it any more.\<close>

theorem http_request_leak:
  assumes "http_type_known (r_type req)" and "r_metadata req \<noteq> []"
    and "dev_malloc_ok V (d_calls d)" and "\<not> dev_malloc_ok V (D_malloc (sizeof_SlNetAppRequest V) # d_calls d)"
  shows "\<exists>u. SimpleLinkNetAppRequestEventHandler V req d = Some (SL_NETAPP_HTTP_RESPONSE_500, u) \<and>
    d_blocks u = Suc (d_blocks d) \<and> d_httpserverQueue u = d_httpserverQueue d"
  using assms
  by (simp add: SimpleLinkNetAppRequestEventHandler_def dmalloc_def alloc_part_def Let_def dcall_def)

theorem http_request_leak_witness:
  "\<exists>u. SimpleLinkNetAppRequestEventHandler (example_env\<lparr>dev_malloc_ok := (\<lambda>h. h = [])\<rparr>)
      \<lparr>r_type = SL_NETAPP_REQUEST_HTTP_PUT, r_metadata = [1], r_payload = []\<rparr> example_dev =
      Some (SL_NETAPP_HTTP_RESPONSE_500, u) \<and> d_blocks u = 1"
  using http_request_leak [of "\<lparr>r_type = SL_NETAPP_REQUEST_HTTP_PUT, r_metadata = [1], r_payload = []\<rparr>"
      "example_env\<lparr>dev_malloc_ok := (\<lambda>h. h = [])\<rparr>" example_dev]
  by (auto simp: example_dev_def)

end
