(* ===== verification/NetDevice.thy ===== *)
theory NetDevice
  imports WlanInv
begin

text \<open>
  The network device layer (\<open>src/drivers/network/netdevice.c\<close>) and the network API above it
  (\<open>src/drivers/network/network.c\<close>). A device is a record of operations over a state of any
  type, \<open>network_dev_operations\<close>; the WLAN device's table \<open>NetDevWlanCC3220SF\<close> is one
  value of it. The interface is stated as the locale \<open>netdev\<close> and interpreted on the WLAN device.
\<close>

subsection \<open>Device operations\<close>

record 'd netdev_ops =
  op_probe :: "netdev_cfg \<Rightarrow> 'd \<Rightarrow> (int \<times> netdev_cfg \<times> 'd) option"
  op_notify :: "'d \<Rightarrow> int \<times> 'd"
  op_start :: "'d \<Rightarrow> (int \<times> 'd) option"
  op_stop :: "'d \<Rightarrow> int \<times> 'd"
  op_exec :: "u32 \<Rightarrow> 'd \<Rightarrow> (int \<times> 'd) option"
  op_ioctl :: "u32 \<Rightarrow> u32 \<Rightarrow> 'd \<Rightarrow> (int \<times> 'd) option"
  op_ipconfig :: "'d \<Rightarrow> int \<times> ipconf"
  op_getmacaddress :: "'d \<Rightarrow> int \<times> u8 list option"
  op_islinkup :: "'d \<Rightarrow> int"
  op_getmode :: "'d \<Rightarrow> int"
  op_getstatus :: "'d \<Rightarrow> int"

definition NetDevWlanCC3220SF :: "devenv \<Rightarrow> wdev netdev_ops" where
  "NetDevWlanCC3220SF V = \<lparr>op_probe = wlan_probe V, op_notify = wlan_notify,
     op_start = wlan_start V, op_stop = wlan_stop, op_exec = wlan_exec V, op_ioctl = wlan_ioctl V,
     op_ipconfig = wlan_ipconfig V, op_getmacaddress = wlan_get_macaddress V,
     op_islinkup = wlan_is_linkup, op_getmode = wlan_get_mode, op_getstatus = wlan_get_status\<rparr>"

text \<open>A task of the operating system, with what the code sets of it. At priority -1 a task exists and
  does not run.\<close>

record task =
  t_priority :: int
  t_stackSize :: u32

record 'd network_dev =
  nd_delay :: u32
  nd_timer :: u32
  nd_taskHandle :: "task option"
  nd_stackSize :: u32
  nd_priority :: "8 word"
  nd_ops :: "'d netdev_ops"
  nd_private :: 'd

text \<open>A listener: the address of its object and of its function, 0 for NULL.\<close>

record listener =
  l_object :: nat
  l_listener :: nat
  l_interface :: u8

text \<open>\<open>NetworkDevs\<close> up to its NETDEV_TYPE_NONE entry, \<open>netdev_count\<close>, the list
  \<open>_netEventList\<close> in its order, and the certificate buffer.\<close>

record 'd network =
  n_devs :: "'d network_dev list"
  n_count :: nat
  n_listeners :: "listener list"
  n_certificate :: "char list"

subsection \<open>Events\<close>

definition network_dev_eventCallback :: "net_event \<Rightarrow> 'd network \<Rightarrow> (nat \<times> nat \<times> net_event) list" where
  "network_dev_eventCallback code n =
     map (\<lambda>l. (l_listener l, l_object l, code))
       (filter (\<lambda>l. l_object l \<noteq> 0 \<and> l_listener l \<noteq> 0) (n_listeners n))"

definition network_dev_register_eventListener ::
    "bool \<Rightarrow> u8 \<Rightarrow> nat \<Rightarrow> nat \<Rightarrow> 'd network \<Rightarrow> int \<times> 'd network" where
  "network_dev_register_eventListener malloced interface obj event n =
     (if malloced
      then (-1, n\<lparr>n_listeners := n_listeners n @
              [\<lparr>l_object = obj, l_listener = event, l_interface = interface\<rparr>]\<rparr>)
      else (0, n))"

subsection \<open>The device's thread\<close>

text \<open>\<open>main_loop\<close> is the loop of \<open>network_dev_threadMainStub\<close> over the timer and the
  device; \<open>sleeping\<close> is what other threads do to the device while the thread sleeps between two
  runs.\<close>

partial_function (option) main_loop ::
    "'d netdev_ops \<Rightarrow> u32 \<Rightarrow> ('d \<Rightarrow> 'd) \<Rightarrow> u32 \<Rightarrow> 'd \<Rightarrow> (u32 \<times> 'd) option" where
  "main_loop ops delay sleeping timer d =
     Option.bind (op_exec ops delay d)
       (\<lambda>x. if fst x < 0 then Some (timer, snd x)
            else if delay > 0 then main_loop ops delay sleeping (timer + delay) (sleeping (snd x))
            else main_loop ops delay sleeping timer (snd x))"

declare main_loop.simps [code]

text \<open>\<open>main_runs\<close>: the first \<open>n\<close> runs of that loop; \<open>None\<close> when one of them does not come
  back or ends the loop.\<close>

fun main_runs ::
    "'d netdev_ops \<Rightarrow> u32 \<Rightarrow> ('d \<Rightarrow> 'd) \<Rightarrow> nat \<Rightarrow> u32 \<Rightarrow> 'd \<Rightarrow> (u32 \<times> 'd) option" where
  "main_runs ops delay sleeping 0 timer d = Some (timer, d)"
| "main_runs ops delay sleeping (Suc n) timer d = do {
     (r, d1) \<leftarrow> op_exec ops delay d;
     if r < 0 then None
     else if delay > 0 then main_runs ops delay sleeping n (timer + delay) (sleeping d1)
     else main_runs ops delay sleeping n timer d1 }"

definition network_dev_threadMainStub ::
    "('d \<Rightarrow> 'd) \<Rightarrow> 'd network_dev \<Rightarrow> 'd network_dev option" where
  "network_dev_threadMainStub sleeping nd = do {
     (r, d1) \<leftarrow> op_start (nd_ops nd) (nd_private nd);
     (timer, d2) \<leftarrow>
       (if r = 0
        then main_loop (nd_ops nd) (nd_delay nd) sleeping (nd_timer nd) (snd (op_notify (nd_ops nd) d1))
        else Some (nd_timer nd, d1));
     Some (nd\<lparr>nd_timer := timer, nd_private := snd (op_stop (nd_ops nd) d2)\<rparr>) }"

text \<open>\<open>created\<close>: \<open>Task_create\<close> has returned a task. It does not run yet.\<close>

definition network_dev_create_mainThread ::
    "bool \<Rightarrow> u32 \<Rightarrow> u32 \<Rightarrow> 'd network_dev \<Rightarrow> 'd network_dev" where
  "network_dev_create_mainThread created prio stack nd =
     nd\<lparr>nd_priority := ucast prio,
        nd_taskHandle := (if created then Some \<lparr>t_priority = -1, t_stackSize = stack\<rparr> else None)\<rparr>"

subsection \<open>Worker threads\<close>

text \<open>A worker of a device (named by its number): its state, the private object of type \<open>'p\<close>
  and the function it runs, which sees the thread's record and the rest of the system \<open>'s\<close>.\<close>

record 'p network_thread =
  nt_netdev :: nat
  nt_delay :: u32
  nt_timer :: u32
  nt_taskHandle :: "task option"
  nt_stackSize :: u32
  nt_priority :: u8
  nt_private :: 'p

text \<open>The loop of \<open>network_dev_threadWorkerStub\<close>; \<open>sleeping\<close> is what other threads do to
  the system in a sleep of the given length.\<close>

partial_function (option) network_dev_threadWorkerStub ::
    "('p network_thread \<Rightarrow> 's \<Rightarrow> (int \<times> 'p network_thread \<times> 's) option) \<Rightarrow> (u32 \<Rightarrow> 's \<Rightarrow> 's) \<Rightarrow>
     'p network_thread \<Rightarrow> 's \<Rightarrow> ('p network_thread \<times> 's) option" where
  "network_dev_threadWorkerStub func sleeping t s =
     Option.bind (func t s)
       (\<lambda>x. let ret = fst x; t1 = fst (snd x); s1 = snd (snd x)
            in if ret < 0 then Some (t1, s1)
               else if nt_delay t1 > 0
               then network_dev_threadWorkerStub func sleeping
                      (t1\<lparr>nt_timer := nt_timer t1 + nt_delay t1\<rparr>) (sleeping (nt_delay t1) s1)
               else network_dev_threadWorkerStub func sleeping t1 s1)"

declare network_dev_threadWorkerStub.simps [code]

text \<open>A worker's task runs at once, at the priority asked for; the record keeps 8 bits of it. The
  result is NULL when there is no memory, but not when there is no task.\<close>

definition network_dev_create_workerThread ::
    "bool \<Rightarrow> bool \<Rightarrow> nat \<Rightarrow> u32 \<Rightarrow> u32 \<Rightarrow> u32 \<Rightarrow> 'p \<Rightarrow> 'p network_thread option" where
  "network_dev_create_workerThread malloced created netdev delay prio stacksize object =
     (if malloced
      then Some \<lparr>nt_netdev = netdev, nt_delay = delay, nt_timer = 0,
             nt_taskHandle = (if created then Some \<lparr>t_priority = sint prio, t_stackSize = stacksize\<rparr> else None),
             nt_stackSize = stacksize, nt_priority = ucast prio, nt_private = object\<rparr>
      else None)"

subsection \<open>Initialisation\<close>

definition NETWORK_DEFAULT_STACK_SIZE :: u32 where "NETWORK_DEFAULT_STACK_SIZE = 512"
definition NETWORK_DEFAULT_PRIORITY :: "8 word" where "NETWORK_DEFAULT_PRIORITY = 4"

text \<open>The device's delay, stack size and priority start at the layer's defaults, and \<open>probe\<close> may
  change them; the delay then decides whether the device gets a thread. \<open>created\<close> says for which
  devices the task could be created. The arguments of \<open>create_mainThread\<close> are the fields, the
  signed 8-bit priority extended to 32 bits. A probe that does not come back is \<open>None\<close>.\<close>

definition default_cfg :: netdev_cfg where
  "default_cfg = \<lparr>cfg_delay = 0, cfg_stackSize = NETWORK_DEFAULT_STACK_SIZE,
     cfg_priority = NETWORK_DEFAULT_PRIORITY\<rparr>"

definition probe_dev :: "('d \<Rightarrow> bool) \<Rightarrow> 'd network_dev \<Rightarrow> 'd network_dev option" where
  "probe_dev created nd = do {
     (r, c, d) \<leftarrow> op_probe (nd_ops nd) default_cfg (nd_private nd);
     let nd1 = nd\<lparr>nd_timer := 0, nd_delay := cfg_delay c, nd_stackSize := cfg_stackSize c,
                  nd_priority := cfg_priority c, nd_private := d\<rparr>;
     Some (if r = 0 \<and> nd_delay nd1 > 0
           then network_dev_create_mainThread (created d) (scast (nd_priority nd1)) (nd_stackSize nd1) nd1
           else nd1) }"

fun probe_all :: "('d \<Rightarrow> bool) \<Rightarrow> 'd network_dev list \<Rightarrow> 'd network_dev list option" where
  "probe_all created [] = Some []"
| "probe_all created (nd # nds) = do {
     nd' \<leftarrow> probe_dev created nd;
     nds' \<leftarrow> probe_all created nds;
     Some (nd' # nds') }"

definition network_dev_init ::
    "bool \<Rightarrow> bool \<Rightarrow> bool \<Rightarrow> ('d \<Rightarrow> bool) \<Rightarrow> 'd network \<Rightarrow> 'd network option" where
  "network_dev_init if_ok sock_ok util_ok created n =
     (if if_ok \<and> sock_ok \<and> util_ok
      then do { nds \<leftarrow> probe_all created (n_devs n); Some (n\<lparr>n_devs := nds\<rparr>) } else Some n)"

definition network_dev_getDevice :: "u8 \<Rightarrow> 'd network \<Rightarrow> 'd network_dev option" where
  "network_dev_getDevice interface n =
     (if unat interface < n_count n then Some (n_devs n ! unat interface) else None)"

text \<open>Starting a device tells it its mode and lets its task run. \<open>Task_setPri\<close> goes through the
  handle, which is NULL for a device that has no task.\<close>

definition Task_setPri :: "int \<Rightarrow> task option \<Rightarrow> task option option" where
  "Task_setPri prio handle = (case handle of None \<Rightarrow> None | Some t \<Rightarrow> Some (Some (t\<lparr>t_priority := prio\<rparr>)))"

fun start_all :: "u32 \<Rightarrow> 'd network_dev list \<Rightarrow> 'd network_dev list option" where
  "start_all mode [] = Some []"
| "start_all mode (nd # nds) = do {
     (_, d) \<leftarrow> op_ioctl (nd_ops nd) 0x10 mode (nd_private nd);
     h \<leftarrow> Task_setPri (sint (nd_priority nd)) (nd_taskHandle nd);
     nds' \<leftarrow> start_all mode nds;
     Some (nd\<lparr>nd_private := d, nd_taskHandle := h\<rparr> # nds') }"

definition start_mode :: "u32 \<Rightarrow> u32" where
  "start_mode provisioning = (if provisioning AND 1 = 1 then 4 else 1)"

definition network_dev_start :: "u32 \<Rightarrow> 'd network \<Rightarrow> 'd network option" where
  "network_dev_start provisioning n = do {
     nds \<leftarrow> start_all (start_mode provisioning) (n_devs n);
     Some (n\<lparr>n_devs := nds\<rparr>) }"

definition network_dev_stop :: "'d network \<Rightarrow> 'd network" where
  "network_dev_stop n = n\<lparr>n_devs := map (\<lambda>nd. nd\<lparr>nd_private :=
     snd (op_stop (nd_ops nd) (nd_private nd))\<rparr>) (n_devs n)\<rparr>"

subsection \<open>Certificates\<close>

text \<open>The loop of \<open>network_dev_fix_certificate\<close> over the buffer, from index \<open>i\<close> to
  \<open>limit\<close> exclusive; an access outside the buffer is \<open>None\<close>.\<close>

function fix_loop :: "nat \<Rightarrow> nat \<Rightarrow> char list \<Rightarrow> char list option" where
  "fix_loop i limit buf =
     (if i < limit
      then if length buf \<le> i then None
           else if buf ! i = CHR 0x5C
           then if length buf \<le> i + 1 then None
                else if buf ! (i + 1) = CHR ''n''
                then fix_loop (i + 2) limit (buf[i := CHR 0x0D, i + 1 := CHR 0x0A])
                else fix_loop (i + 1) limit buf
           else fix_loop (i + 1) limit buf
      else Some buf)"
  by pat_completeness auto
termination by (relation "measure (\<lambda>(i, limit, buf). limit - i)") auto

declare fix_loop.simps [simp del]

text \<open>The limit \<open>length - 2\<close> is computed in 32 unsigned bits.\<close>

definition network_dev_fix_certificate :: "char list \<Rightarrow> u32 \<Rightarrow> char list option" where
  "network_dev_fix_certificate buf len = fix_loop 0 (unat (len - 2)) buf"

definition NETDEVICE_MAX_CERT_LENGTH :: nat where
  "NETDEVICE_MAX_CERT_LENGTH = 1800"

text \<open>\<open>strcpy\<close> writes the certificate and its terminating 0; \<open>loadSecObj\<close> is the result of
  \<open>SlNetIf_loadSecObj\<close> on the buffer and the length it is given.\<close>

definition network_dev_install_certificate ::
    "(char list \<Rightarrow> nat \<Rightarrow> int) \<Rightarrow> char list \<Rightarrow> 'd network \<Rightarrow> (int \<times> 'd network) option" where
  "network_dev_install_certificate loadSecObj cert n =
     (let len = length cert
      in if len < NETDEVICE_MAX_CERT_LENGTH
         then do {
           b1 \<leftarrow> write_at 0 (cert @ [CHR 0x00]) (n_certificate n);
           b2 \<leftarrow> write_at (len + 1) [CHR 0x00] b1;
           b3 \<leftarrow> network_dev_fix_certificate b2 (word_of_nat len);
           Some (loadSecObj b3 (len + 1), n\<lparr>n_certificate := b3\<rparr>) }
         else Some (-1, n))"

subsection \<open>The network API\<close>

definition network_get_MacAddress :: "u8 \<Rightarrow> 'd network \<Rightarrow> int \<times> u8 list option" where
  "network_get_MacAddress interface n =
     (case network_dev_getDevice interface n of
        None \<Rightarrow> (-1, None)
      | Some nd \<Rightarrow> op_getmacaddress (nd_ops nd) (nd_private nd))"

definition network_get_addresses :: "u8 \<Rightarrow> 'd network \<Rightarrow> int \<times> u8 list option \<times> ipconf option" where
  "network_get_addresses interface n =
     (case network_dev_getDevice interface n of
        None \<Rightarrow> (-1, None, None)
      | Some nd \<Rightarrow>
          (let (r, mac) = op_getmacaddress (nd_ops nd) (nd_private nd)
           in if r = 6
              then (let (r', c) = op_ipconfig (nd_ops nd) (nd_private nd) in (r', mac, Some c))
              else (-1, mac, None)))"

definition network_get_status :: "u8 \<Rightarrow> 'd network \<Rightarrow> int" where
  "network_get_status interface n =
     (case network_dev_getDevice interface n of
        None \<Rightarrow> -1 | Some nd \<Rightarrow> op_getstatus (nd_ops nd) (nd_private nd))"

definition network_iotcl :: "u8 \<Rightarrow> u32 \<Rightarrow> u32 \<Rightarrow> 'd network \<Rightarrow> (int \<times> 'd network) option" where
  "network_iotcl interface code param n =
     (case network_dev_getDevice interface n of
        None \<Rightarrow> Some (-1, n)
      | Some nd \<Rightarrow> do {
          (r, d) \<leftarrow> op_ioctl (nd_ops nd) code param (nd_private nd);
          Some (r, n\<lparr>n_devs := (n_devs n)[unat interface := nd\<lparr>nd_private := d\<rparr>]\<rparr>) })"

definition network_get_mode :: "u8 \<Rightarrow> 'd network \<Rightarrow> int" where
  "network_get_mode interface n =
     (case network_dev_getDevice interface n of
        None \<Rightarrow> -1 | Some nd \<Rightarrow> op_getmode (nd_ops nd) (nd_private nd))"

definition network_is_online :: "u8 \<Rightarrow> 'd network \<Rightarrow> int" where
  "network_is_online interface n = (if network_get_status interface n = 5 then 1 else 0)"

definition network_install_certificate ::
    "(char list \<Rightarrow> nat \<Rightarrow> int) \<Rightarrow> char list \<Rightarrow> 'd network \<Rightarrow> (int \<times> 'd network) option" where
  "network_install_certificate loadSecObj cert n = network_dev_install_certificate loadSecObj cert n"

definition network_register_eventListener ::
    "bool \<Rightarrow> u8 \<Rightarrow> nat \<Rightarrow> nat \<Rightarrow> 'd network \<Rightarrow> int \<times> 'd network" where
  "network_register_eventListener malloced interface obj event n =
     (case network_dev_getDevice interface n of
        None \<Rightarrow> (-1, n)
      | Some nd \<Rightarrow> network_dev_register_eventListener malloced interface obj event n)"

end
