(* ===== verification/NetProps.thy ===== *)
theory NetProps
  imports NetDevice WlanScenarios
begin

text \<open>
  The interface between the network layer and its devices as a locale, interpreted on the WLAN device,
  and the properties of the network layer.
\<close>

subsection \<open>The contract of a device\<close>








definition example_net :: "devenv \<Rightarrow> wdev \<Rightarrow> wdev network" where
  "example_net V d = \<lparr>n_devs = [\<lparr>nd_delay = 100, nd_timer = 0, nd_taskHandle = None, nd_stackSize = 512, nd_priority = 4,
       nd_ops = NetDevWlanCC3220SF V, nd_private = d\<rparr>], n_count = 1, n_listeners = [],
     n_certificate = replicate 1801 (CHR 0x00)\<rparr>"


subsection \<open>Threads\<close>













text \<open>A worker whose function leaves the delay and the timer alone: when it ends, its timer has counted
  whole delays, and the function has failed in the state it stopped in.\<close>

definition leaves_clock :: "('p network_thread \<Rightarrow> 's \<Rightarrow> (int \<times> 'p network_thread \<times> 's) option) \<Rightarrow> bool" where
  "leaves_clock f \<longleftrightarrow> (\<forall>t s ret t1 s1. f t s = Some (ret, t1, s1) \<longrightarrow>
     nt_delay t1 = nt_delay t \<and> nt_timer t1 = nt_timer t)"

lemma worker_timer_aux:
  "network_dev_threadWorkerStub f sleeping t s = Some u \<Longrightarrow> leaves_clock f \<longrightarrow>
     (\<exists>n. nt_timer (fst u) = nt_timer t + of_nat n * nt_delay t) \<and>
     (\<exists>t0 s0 ret. f t0 s0 = Some (ret, u) \<and> ret < 0)"
proof (erule network_dev_threadWorkerStub.raw_induct [rotated, where P = "\<lambda>f sleeping t s u. leaves_clock f \<longrightarrow>
     (\<exists>n. nt_timer (fst u) = nt_timer t + of_nat n * nt_delay t) \<and>
     (\<exists>t0 s0 ret. f t0 s0 = Some (ret, u) \<and> ret < 0)"], intro impI)
  fix L f sleeping t s u
  assume IH: "\<And>f sleeping t s u. L f sleeping t s = Some u \<Longrightarrow> leaves_clock f \<longrightarrow>
       (\<exists>n. nt_timer (fst u) = nt_timer t + of_nat n * nt_delay t) \<and>
       (\<exists>t0 s0 ret. f t0 s0 = Some (ret, u) \<and> ret < 0)"
    and r: "Option.bind (f t s)
       (\<lambda>x. let ret = fst x; t1 = fst (snd x); s1 = snd (snd x)
            in if ret < 0 then Some (t1, s1)
               else if nt_delay t1 > 0
               then L f sleeping (t1\<lparr>nt_timer := nt_timer t1 + nt_delay t1\<rparr>) (sleeping (nt_delay t1) s1)
               else L f sleeping t1 s1) = Some u"
    and c: "leaves_clock f"
  from r obtain ret t1 s1 where f: "f t s = Some (ret, t1, s1)" by (auto simp: bind_Some_iff)
  with c have k: "nt_delay t1 = nt_delay t" "nt_timer t1 = nt_timer t" unfolding leaves_clock_def by blast+
  show "(\<exists>n. nt_timer (fst u) = nt_timer t + of_nat n * nt_delay t) \<and>
     (\<exists>t0 s0 ret. f t0 s0 = Some (ret, u) \<and> ret < 0)"
  proof (cases "ret < 0")
    case True
    with r f have u: "u = (t1, s1)" by simp
    have "nt_timer (fst u) = nt_timer t + of_nat 0 * nt_delay t" using u k by simp
    with True f u show ?thesis by blast
  next
    case False
    then obtain t2 s2 m where L: "L f sleeping t2 s2 = Some u"
      and t2: "nt_timer t2 = nt_timer t + of_nat m * nt_delay t" "nt_delay t2 = nt_delay t"
    proof (cases "nt_delay t1 > 0")
      case True
      with False r f k show ?thesis
        by (intro that [of "t1\<lparr>nt_timer := nt_timer t1 + nt_delay t1\<rparr>" "sleeping (nt_delay t1) s1" 1]) simp_all
    next
      case z: False
      with False r f k show ?thesis by (intro that [of t1 s1 0]) simp_all
    qed
    from IH [OF L] c obtain n where n: "nt_timer (fst u) = nt_timer t2 + of_nat n * nt_delay t2"
      and e: "\<exists>t0 s0 ret. f t0 s0 = Some (ret, u) \<and> ret < 0" by blast
    have "nt_timer (fst u) = nt_timer t + of_nat (m + n) * nt_delay t"
      using n t2 by (simp add: algebra_simps)
    with e show ?thesis by blast
  qed
qed

lemma worker_timer:
  assumes "network_dev_threadWorkerStub f sleeping t s = Some (t', s')" and "leaves_clock f"
  shows "\<exists>n. nt_timer t' = nt_timer t + of_nat n * nt_delay t"
    and "\<exists>t0 s0 ret. f t0 s0 = Some (ret, t', s') \<and> ret < 0"
  using worker_timer_aux [OF assms(1)] assms(2) by simp_all

subsection \<open>Listeners\<close>

text \<open>Registering a listener for a device that exists adds it behind all others: an event reaches
  the listeners registered before, in their order, and then the new one if its object and function are
  not NULL. The result is -1 although the registration succeeded, and 0 when the memory for the entry
  could not be allocated and nobody was registered; -1 is also what a device that does not exist
  gives.\<close>

theorem network_register_eventListener_effect:
  "network_register_eventListener malloced i obj fn n =
    (if unat i < n_count n
     then (if malloced then (-1, snd (network_register_eventListener True i obj fn n)) else (0, n))
     else (-1, n)) \<and>
   network_dev_eventCallback code (snd (network_register_eventListener True i obj fn n)) =
     network_dev_eventCallback code n @
       (if unat i < n_count n \<and> obj \<noteq> 0 \<and> fn \<noteq> 0 then [(fn, obj, code)] else [])"
  by (auto simp: network_register_eventListener_def network_dev_getDevice_def
      network_dev_register_eventListener_def network_dev_eventCallback_def)

subsection \<open>Certificates\<close>

text \<open>The text the loop is meant to produce: every backslash-n becomes a carriage return and a line
  feed, as long as at least one more character follows the pair.\<close>

fun unescape :: "char list \<Rightarrow> char list" where
  "unescape (a # b # c # cs) =
     (if a = CHR 0x5C \<and> b = CHR ''n'' then CHR 0x0D # CHR 0x0A # unescape (c # cs)
      else a # unescape (b # c # cs))"
| "unescape cs = cs"

lemma unescape_short: "length cs \<le> 2 \<Longrightarrow> unescape cs = cs"
  by (cases cs rule: unescape.cases) auto

lemma fix_loop_done: "limit \<le> i \<Longrightarrow> fix_loop i limit buf = Some buf"
  by (subst fix_loop.simps) simp

lemma fix_loop_unescape:
  assumes "length buf = length pre + length cs + length suf" and "buf = pre @ cs @ suf"
  shows "fix_loop (length pre) (length pre + length cs - 2) buf = Some (pre @ unescape cs @ suf)"
  using assms
proof (induction cs arbitrary: pre buf rule: unescape.induct)
  case (1 a b c cs)
  let ?n = "length pre"
  have lim: "?n < ?n + length (a # b # c # cs) - 2" by simp
  have nth: "buf ! ?n = a" "buf ! (?n + 1) = b" using "1.prems"(2) by (simp_all add: nth_append)
  have len: "\<not> length buf \<le> ?n + 1" "\<not> length buf \<le> ?n" using "1.prems"(1) by simp_all
  show ?case
  proof (cases "a = CHR 0x5C \<and> b = CHR ''n''")
    case True
    let ?pre = "pre @ [CHR 0x0D, CHR 0x0A]"
    have b: "buf[?n := CHR 0x0D, ?n + 1 := CHR 0x0A] = ?pre @ (c # cs) @ suf"
      using "1.prems"(2) by (simp add: list_update_append)
    have IH: "fix_loop (length ?pre) (length ?pre + length (c # cs) - 2) (?pre @ (c # cs) @ suf) =
        Some (?pre @ unescape (c # cs) @ suf)"
      by (rule "1.IH"(1) [OF True]) simp_all
    have "fix_loop ?n (?n + length (a # b # c # cs) - 2) buf =
        fix_loop (?n + 2) (?n + length (a # b # c # cs) - 2) (?pre @ (c # cs) @ suf)"
      using True lim nth len b by (simp add: fix_loop.simps [of ?n])
    with IH True show ?thesis by simp
  next
    case False
    have IH: "fix_loop (length (pre @ [a])) (length (pre @ [a]) + length (b # c # cs) - 2) buf =
        Some ((pre @ [a]) @ unescape (b # c # cs) @ suf)"
      using "1.prems" by (intro "1.IH"(2) [OF False]) simp_all
    have "fix_loop ?n (?n + length (a # b # c # cs) - 2) buf =
        fix_loop (?n + 1) (?n + length (a # b # c # cs) - 2) buf"
      using False lim nth len by (auto simp: fix_loop.simps [of ?n])
    with IH False show ?thesis by simp
  qed
qed (simp_all add: fix_loop_done)

lemma fix_loop_off:
  "length buf < limit \<Longrightarrow> i \<le> length buf \<Longrightarrow> fix_loop i limit buf = None"
proof (induction i limit buf rule: fix_loop.induct)
  case (1 i limit buf)
  show ?case
  proof (cases "length buf \<le> i + 1")
    case True
    have "fix_loop (length buf) limit buf = None" using 1 by (subst fix_loop.simps) simp
    with True show ?thesis using 1
      by (cases "length buf = i") (simp, subst fix_loop.simps, auto simp: le_Suc_eq)
  next
    case False
    then show ?thesis using 1 by (subst fix_loop.simps) auto
  qed
qed

text \<open>C23: for a certificate of at least two characters that lies in the buffer,
  \<open>fix_certificate\<close> replaces every backslash-n pair that is followed by one more character and
  changes nothing else, neither in the certificate nor behind it.\<close>

theorem network_dev_fix_certificate_unescape:
  assumes "2 \<le> len" and "unat len \<le> length buf"
  shows "network_dev_fix_certificate buf len =
    Some (unescape (take (unat len) buf) @ drop (unat len) buf)"
proof -
  have n: "unat (len - 2) = unat len - 2"
    using assms(1) by (simp add: unat_sub)
  have l: "length (take (unat len) buf) = unat len" using assms(2) by simp
  from fix_loop_unescape [of buf "[]" "take (unat len) buf" "drop (unat len) buf"] show ?thesis
    using assms(2) l by (simp add: network_dev_fix_certificate_def n min_def)
qed

theorem network_dev_fix_certificate_unescape_witness:
  "network_dev_fix_certificate
     [CHR ''A'', CHR 0x5C, CHR ''n'', CHR ''B'', CHR 0x5C, CHR ''n'', CHR 0x00, CHR 0x00] 6 =
   Some [CHR ''A'', CHR 0x0D, CHR 0x0A, CHR ''B'', CHR 0x5C, CHR ''n'', CHR 0x00, CHR 0x00]"
  by (subst network_dev_fix_certificate_unescape) simp_all

text \<open>A certificate text of less than two characters makes the installation run off its buffer,
  because the bound of the loop is computed as \<open>length - 2\<close> in unsigned arithmetic.\<close>

theorem network_dev_install_certificate_off_buffer:
  assumes "length cert < 2" and "length (n_certificate n) < 2 ^ 32 - 2"
  shows "network_dev_install_certificate loadSecObj cert n = None"
proof -
  have u: "unat (word_of_nat (length cert) - 2 :: u32) \<ge> 2 ^ 32 - 2"
  proof -
    from assms(1) consider "length cert = 0" | "length cert = 1" by linarith
    then show ?thesis by cases (simp_all add: unsigned_minus_1_eq_mask mask_eq_exp_minus_1)
  qed
  have "network_dev_fix_certificate b (word_of_nat (length cert)) = None"
    if "length b = length (n_certificate n)" for b
    unfolding network_dev_fix_certificate_def using u assms(2) that by (intro fix_loop_off) simp_all
  then have f: "network_dev_fix_certificate b2 (word_of_nat (length cert)) = None"
    if "write_at 0 (cert @ [CHR 0x00]) (n_certificate n) = Some b1"
      and "write_at (length cert + 1) [CHR 0x00] b1 = Some b2" for b1 b2
    using length_write_at [OF that(1)] length_write_at [OF that(2)] by simp
  have "length cert < NETDEVICE_MAX_CERT_LENGTH" using assms(1) by (simp add: NETDEVICE_MAX_CERT_LENGTH_def)
  then show ?thesis
    using f by (simp add: network_dev_install_certificate_def Let_def split: Option.bind_splits)
qed

theorem network_dev_install_certificate_off_buffer_witness:
  "network_dev_install_certificate (\<lambda>b l. 0) '''' (example_net example_env example_dev) = None"
  by (rule network_dev_install_certificate_off_buffer) (simp_all add: example_net_def)

end
