(* ===== verification/DrvTypes.thy ===== *)
theory DrvTypes
  imports Prelude
begin

text \<open>
  The SimpleLink host driver (\<open>src/driver.c\<close>): its control block, the constants it takes from
  the SDK's headers, and its locks.

  The build modelled is the one of this repository: several threads (\<open>SL_PLATFORM_MULTI_THREADED\<close>)
  with the internal spawn task of \<open>src/spawn.c\<close>, the SPI interface and dynamic memory. The headers
  of the SDK are not part of the repository; the constants the code names are the fields of the
  record \<open>drvcfg\<close>, and the operating system's objects behave as documented: a lock taken with
  an unbounded wait blocks while it is held, a sync object is a binary semaphore that remembers one
  signal. \<open>None\<close> is a call that does not return: it blocks on a lock that is held, follows an
  index out of the pool, or runs in a loop for ever.
\<close>

subsection \<open>Constants of the SDK\<close>

text \<open>The device status, one flag for each of the header's test macros; \<open>command_allowed\<close> is
  \<open>SL_IS_COMMAND_ALLOWED\<close>. Which flags \<open>SL_SET_DEVICE_STATUS\<close> overwrites is the
  header's (field of \<open>drvcfg\<close>).\<close>

record dev_status =
  command_allowed :: bool
  restart_required :: bool
  stop_in_progress :: bool
  start_in_progress :: bool
  provisioning_in_progress :: bool
  provisioning_active :: bool
  provisioning_by_user :: bool
  provisioning_api_allowed :: bool
  device_started :: bool
  device_locked :: bool

text \<open>A command: \<open>_SlCmdCtrl_t\<close> and \<open>_SlCmdExt_t\<close>, the buffers by their contents.
  A negative \<open>ce_RxPayloadLen\<close> marks a receive buffer that is sent.\<close>

record cmd_ctrl =
  cc_Opcode :: u16
  cc_TxDescLen :: nat
  cc_RxDescLen :: nat

record cmd_ext =
  ce_TxPayload1 :: "u8 list"
  ce_TxPayload1Len :: nat
  ce_TxPayload2 :: "u8 list"
  ce_TxPayload2Len :: nat
  ce_RxPayload :: "u8 list"
  ce_RxPayloadLen :: int
  ce_ActualRxPayloadLen :: int

text \<open>\<open>_SlArgsData_t\<close>: where a receive call wants its arguments and its data.\<close>

record args_data =
  ad_pArgs :: "u8 list"
  ad_pData :: "u8 list"

record drvcfg =
  MAX_CONCURRENT_ACTIONS :: nat
  SL_MAX_SOCKETS :: u8
  SL_BSD_SOCKET_ID_MASK :: u8
  SL_NETAPP_FAMILY_MASK :: u8
  MAX_SOCKET_ENUM_IDX :: u8
  SELECT_ID :: u8
  RECV_ID :: u8
  NETUTIL_CMD_ID :: u8
  FLOW_CONT_MIN :: u8
  slcb_SocketTrigger :: bool
  SL_API_ABORTED :: int
  SL_RET_OBJ_NOT_SET :: int
  SL_RET_CODE_STOP_IN_PROGRESS :: int
  SL_RET_CODE_DEV_LOCKED :: int
  SL_RET_CODE_DEV_NOT_STARTED :: int
  SL_RET_CODE_PROVISIONING_IN_PROGRESS :: int
  SL_RET_CODE_NO_FREE_ASYNC_BUFFERS_ERROR :: int
  SL_RET_CODE_INTERFACE_CLOSED :: int
  SL_RET_CODE_PROTOCOL_ERROR :: int
  SL_RET_CODE_INVALID_INPUT :: int
  SL_ERROR_BSD_EBADF :: int
  SL_ERROR_BSD_EAGAIN :: int
  SL_ERROR_BSD_SOC_ERROR :: int
  SL_POOL_IS_EMPTY :: int
  SL_OS_ERROR :: int
  SL_OPCODE_SILO_MASK :: u16
  SL_OPCODE_IPV6 :: u16
  SL_OPCODE_SYNC :: u16
  SL_OPCODE_SILO_OFFSET :: nat
  SL_OPCODE_SILO_FS :: u16
  SL_OPCODE_SILO_DEVICE :: u16
  IF_ERROR :: int
  NO_MEMORY :: int
  SL_DRIVER_TIMEOUT_SHORT :: u32
  SL_DRIVER_TIMEOUT_LONG :: u32
  SYNC_PATTERN_TIMEOUT_IN_MSEC :: u32
  SL_TIMESTAMP_TICKS_IN_10_MILLISECONDS :: u32
  SL_TIMESTAMP_MAX_VALUE :: u32
  SL_ASYNC_MAX_PAYLOAD_LEN :: nat
  SL_ASYNC_MAX_MSG_LEN :: nat
  SL_RESP_HDR_SIZE :: nat
  SL_RESP_SPEC_HDR_SIZE :: nat
  BASIC_RESPONSE_SIZE :: nat
  RECV_ARGS_SIZE :: nat
  RECVFROM_IPV4_ARGS_SIZE :: nat
  RECVFROM_IPV6_ARGS_SIZE :: nat
  N2H_SYNC_PATTERN :: u32
  H2N_SYNC_PATTERN_Short :: "u8 list"
  H2N_CNYS_PATTERN_Short :: "u8 list"
  GLOBAL_LOCK_FLAGS_UPDATE_API_IN_PROGRESS :: u32
  GLOBAL_LOCK_FLAGS_PROVISIONING_STOP_API :: u32
  PROTOCOL_CALC_LEN :: "cmd_ctrl \<Rightarrow> cmd_ext option \<Rightarrow> nat"
  rsp_Opcode :: "u8 list \<Rightarrow> u16"
  rsp_Len :: "u8 list \<Rightarrow> u16"
  rsp_TxPoolCnt :: "u8 list \<Rightarrow> u8"
  rsp_DevStatus :: "u8 list \<Rightarrow> u8"
  rsp_MinMaxPayload :: "u8 list \<Rightarrow> u16"
  rsp_SocketTXFailure :: "u8 list \<Rightarrow> u16"
  rsp_SocketNonBlocking :: "u8 list \<Rightarrow> u16"
  arg_Sd :: "u8 list \<Rightarrow> u8"
  arg_StatusOrLen :: "u8 list \<Rightarrow> int"
  basic_status :: "u8 list \<Rightarrow> int"
  prov_InactivityTimeoutSec :: "u8 list \<Rightarrow> u16"
  event_of :: "string \<Rightarrow> u8"
  SL_SET_DEVICE_STATUS :: "u8 \<Rightarrow> dev_status \<Rightarrow> dev_status"
  silo_registered :: "string \<Rightarrow> bool"
  opcode :: "string \<Rightarrow> u16"
  fatal_id :: "string \<Rightarrow> u32"

text \<open>\<open>opcode\<close> and \<open>fatal_id\<close> give the protocol's opcodes and the ids of fatal errors by their
  names in the headers; \<open>IF_ERROR\<close> and \<open>NO_MEMORY\<close> are what the header's macros
  \<open>NWP_IF_READ_CHECK\<close>, \<open>NWP_IF_WRITE_CHECK\<close> and \<open>MALLOC_OK_CHECK\<close> return;
  \<open>rsp_Opcode\<close> and the others read the fields of a response's header, of the arguments of a
  receive (\<open>arg_Sd\<close>, \<open>arg_StatusOrLen\<close>) and of a basic response from their bytes;
  \<open>silo_registered\<close> says which event handlers the application has registered. What the code relies on: the pool's indices fit into a byte, a socket number
  is left alone by the mask, and so is the value that stands for no socket; the actions are numbered
  from \<open>SL_MAX_SOCKETS\<close> on and share the 32 bits of the bitmap with the sockets; the return codes
  of errors are negative.\<close>

definition cfg_ok :: "drvcfg \<Rightarrow> bool" where
  "cfg_ok C \<longleftrightarrow> 0 < MAX_CONCURRENT_ACTIONS C \<and> MAX_CONCURRENT_ACTIONS C < 128 \<and>
     0 < SL_MAX_SOCKETS C \<and> SL_MAX_SOCKETS C \<le> 16 \<and>
     (\<forall>sd \<le> SL_MAX_SOCKETS C. sd AND SL_BSD_SOCKET_ID_MASK C = sd) \<and>
     SL_MAX_SOCKETS C \<le> SELECT_ID C \<and> SELECT_ID C < 32 \<and>
     SL_API_ABORTED C < 0 \<and> SL_RET_CODE_STOP_IN_PROGRESS C < 0 \<and> SL_POOL_IS_EMPTY C < 0"

subsection \<open>The control block\<close>

text \<open>One pool object. \<open>po_sync\<close> is its sync object: \<open>None\<close> after its deletion,
  otherwise whether it is signalled. \<open>po_pRespArgs\<close> is a pointer of the caller.\<close>

record pool_obj =
  po_NextIndex :: nat
  po_ActionID :: u8
  po_AdditionalData :: u8
  po_pRespArgs :: "nat option"
  po_sync :: "bool option"

text \<open>What the driver does to the outside, newest first.\<close>

datatype drv_call =
    V_resp_status nat int | V_fatal_event u32 u32 u32 | V_write "u8 list" | V_handler string "u8 list"
  | V_os string | V_tick | V_malloc nat | V_free nat

text \<open>An event the driver has read while a command was running, kept for the spawn task.\<close>

record spawn_item =
  si_ActionIndex :: nat
  si_AsyncHndlr :: "string option"
  si_Buffer :: "u8 list"

datatype rx_class =
  ASYNC_EVT_CLASS | RECV_RESP_CLASS | CMD_RESP_CLASS | DUMMY_MSG_CLASS | MULTI_SELECT_RESP_CLASS

record drv =
  g_ObjPool :: "pool_obj list"
  g_FreePoolIdx :: nat
  g_PendingPoolIdx :: nat
  g_ActivePoolIdx :: nat
  g_ActiveActionsBitmap :: u32
  g_NumOfDeletedSyncObj :: u8
  g_ProtectionLock :: bool
  g_ApiInProgressCnt :: u8
  g_GlobalLock :: bool
  g_GlobalLockInit :: bool
  g_GlobalLockCntRequested :: u8
  g_GlobalLockCntReleased :: u8
  g_status :: dev_status
  g_TxLock :: bool
  g_TxSync :: bool
  g_TxPoolCnt :: u8
  g_MinTxPayloadSize :: u16
  g_SocketNonBlocking :: u16
  g_SocketTXFailure :: u16
  g_TriggerObjIdx :: nat
  g_WaitForCmdResp :: bool
  g_CmdSync :: bool
  g_RxIrqCnt :: u8
  g_RxDoneCnt :: u8
  g_TxSeqNum :: u8
  g_ActionIndex :: nat
  g_AsyncEvtHandler :: "string option"
  g_RxMsgClass :: rx_class
  g_spawnMsgList :: "spawn_item list"
  g_SpawnSync :: bool
  g_IrqWriteCnt :: u8
  g_IrqReadCnt :: u8
  g_IrqMasked :: bool
  g_rx :: "u8 list"
  g_RecvArgs :: "nat \<Rightarrow> args_data"
  g_pCmdCtrl :: "cmd_ctrl option"
  g_pTxRxDescBuff :: "u8 list option"
  g_pCmdExt :: "cmd_ext option"
  g_CtrlSockFD :: u8
  g_SelectSync :: "bool option"
  g_SelectStatus :: int
  g_ActiveSelect :: bool
  g_SelectEntry :: "bool list"
  g_calls :: "drv_call list"

definition vcall :: "drv_call \<Rightarrow> drv \<Rightarrow> drv" where
  "vcall c D = D\<lparr>g_calls := c # g_calls D\<rparr>"

definition set_obj :: "nat \<Rightarrow> (pool_obj \<Rightarrow> pool_obj) \<Rightarrow> drv \<Rightarrow> drv" where
  "set_obj i f D = D\<lparr>g_ObjPool := (g_ObjPool D)[i := f (g_ObjPool D ! i)]\<rparr>"

text \<open>\<open>OSI_RET_OK_CHECK\<close>: a call that fails ends the function with its code.\<close>

definition OSI_RET_OK_CHECK :: "int \<times> drv \<Rightarrow> (drv \<Rightarrow> int \<times> drv) \<Rightarrow> int \<times> drv" where
  "OSI_RET_OK_CHECK m f = (if fst m \<noteq> 0 then m else f (snd m))"

text \<open>The outside: the operating system's calls that create and delete objects, the clock, the
  allocator, what the interface does on a write, the event handlers outside this file, and what the
  other threads do while this one waits. Each is a function of the calls made before it.\<close>

record drvenv =
  os_ret :: "string \<Rightarrow> drv_call list \<Rightarrow> int"
  get_timestamp :: "drv_call list \<Rightarrow> u32"
  malloc_ok :: "drv_call list \<Rightarrow> bool"
  if_write_ok :: "drv_call list \<Rightarrow> bool"
  on_handler :: "string \<Rightarrow> u8 list \<Rightarrow> drv \<Rightarrow> drv option"
  others :: "drv_call list \<Rightarrow> drv \<Rightarrow> drv"

definition os_call :: "drvenv \<Rightarrow> string \<Rightarrow> drv \<Rightarrow> int \<times> drv" where
  "os_call E name D = (os_ret E name (g_calls D), vcall (V_os name) D)"

subsection \<open>Locks, sync objects and the API counter\<close>

definition SlDrvProtectionObjLockWaitForever :: "drv \<Rightarrow> drv option" where
  "SlDrvProtectionObjLockWaitForever D =
     (if g_ProtectionLock D then None else Some (D\<lparr>g_ProtectionLock := True\<rparr>))"

definition SlDrvProtectionObjUnLock :: "drv \<Rightarrow> drv" where
  "SlDrvProtectionObjUnLock D = D\<lparr>g_ProtectionLock := False\<rparr>"

text \<open>\<open>sl_SyncObjSignal\<close> and \<open>sl_SyncObjDelete\<close> on the sync object of a pool object; both
  fail on a deleted one. The driver ignores the result of the signal.\<close>

definition signal_obj :: "nat \<Rightarrow> drv \<Rightarrow> drv" where
  "signal_obj i = set_obj i (\<lambda>ob. ob\<lparr>po_sync := map_option (\<lambda>_. True) (po_sync ob)\<rparr>)"

definition delete_sync :: "drvcfg \<Rightarrow> nat \<Rightarrow> drv \<Rightarrow> int \<times> drv" where
  "delete_sync C i D =
     (if po_sync (g_ObjPool D ! i) = None then (SL_OS_ERROR C, D)
      else (0, set_obj i (\<lambda>ob. ob\<lparr>po_sync := None\<rparr>) D))"

text \<open>The counter is an 8-bit signed integer.\<close>

definition SlDrvUpdateApiInProgress :: "u8 \<Rightarrow> drv \<Rightarrow> drv option" where
  "SlDrvUpdateApiInProgress v D = do {
     D1 \<leftarrow> SlDrvProtectionObjLockWaitForever D;
     Some (SlDrvProtectionObjUnLock (D1\<lparr>g_ApiInProgressCnt := g_ApiInProgressCnt D1 + v\<rparr>)) }"

definition SlDrvIsApiInProgress :: "drv option \<Rightarrow> (int \<times> drv option) option" where
  "SlDrvIsApiInProgress g_pCB =
     (case g_pCB of
        None \<Rightarrow> Some (1, None)
      | Some D \<Rightarrow> do {
          D1 \<leftarrow> SlDrvProtectionObjLockWaitForever D;
          Some (if sint (g_ApiInProgressCnt D1) > 0 then 1 else 0, Some (SlDrvProtectionObjUnLock D1)) })"

lemmas drv_lock_simps = SlDrvProtectionObjLockWaitForever_def SlDrvProtectionObjUnLock_def
  SlDrvUpdateApiInProgress_def

end
