(* ===== verification/DrvPool.thy ===== *)
theory DrvPool
  imports DrvTypes
begin

text \<open>
  The pool of action objects of the host driver (\<open>src/driver.c\<close>). Every API that waits for an
  asynchronous response owns one object of \<open>ObjPool\<close>; the objects are linked by
  \<open>NextIndex\<close> into a free, an active and a pending list, and the bitmap
  \<open>ActiveActionsBitmap\<close> says which sockets and actions are in use. A caller whose socket or
  action is in use puts its object on the pending list and sleeps on the object's sync object.
  \<open>SlDrvWaitForPoolObj\<close> is the call up to its return or that sleep,
  \<open>SlDrvWaitForPoolObj_woken\<close> what the caller does when it has been woken.
\<close>

subsection \<open>Lists threaded through the pool\<close>

text \<open>The loop of \<open>_SlDrvRemoveFromList\<close>. \<open>n\<close> is \<open>MAX_CONCURRENT_ACTIONS\<close>.\<close>

partial_function (option) unlink :: "nat \<Rightarrow> nat \<Rightarrow> pool_obj list \<Rightarrow> nat \<Rightarrow> pool_obj list option" where
  "unlink n item p idx =
     (if idx < n
      then if po_NextIndex (p ! idx) = item
           then Some (p[idx := (p ! idx)\<lparr>po_NextIndex := po_NextIndex (p ! item)\<rparr>])
           else unlink n item p (po_NextIndex (p ! idx))
      else Some p)"

declare unlink.simps [code]

text \<open>The result is the new value of the list's head and the new pool; an empty list would be read
  behind the end of the pool.\<close>

definition SlDrvRemoveFromList ::
    "drvcfg \<Rightarrow> nat \<Rightarrow> nat \<Rightarrow> pool_obj list \<Rightarrow> (nat \<times> pool_obj list) option" where
  "SlDrvRemoveFromList C ListIndex ItemIndex p =
     (let n = MAX_CONCURRENT_ACTIONS C
      in if ListIndex \<ge> n then None
         else if po_NextIndex (p ! ListIndex) = n then Some (n, p)
         else if ListIndex = ItemIndex then Some (po_NextIndex (p ! ItemIndex), p)
         else do { p' \<leftarrow> unlink n ItemIndex p ListIndex; Some (ListIndex, p') })"

subsection \<open>The bitmap\<close>

definition id_bit :: "u8 \<Rightarrow> u32" where
  "id_bit x = push_bit (unat x) 1"

definition MULTI_SELECT_MASK :: "drvcfg \<Rightarrow> u32" where
  "MULTI_SELECT_MASK C = (if slcb_SocketTrigger C then -1 else NOT (id_bit (SELECT_ID C)))"

definition sd_of :: "drvcfg \<Rightarrow> pool_obj \<Rightarrow> u8" where
  "sd_of C ob = po_AdditionalData ob AND SL_BSD_SOCKET_ID_MASK C"

definition in_use :: "drvcfg \<Rightarrow> u8 \<Rightarrow> u8 \<Rightarrow> u32 \<Rightarrow> bool" where
  "in_use C ActionID SocketID bitmap \<longleftrightarrow>
     (SL_MAX_SOCKETS C > SocketID \<and> bitmap AND id_bit SocketID \<noteq> 0) \<or>
     (bitmap AND (MULTI_SELECT_MASK C AND id_bit ActionID) \<noteq> 0 \<and> SL_MAX_SOCKETS C = SocketID)"

subsection \<open>Taking an object\<close>

datatype pool_wait = PW_return int | PW_sleep nat

definition pool_take :: "drvcfg \<Rightarrow> u8 \<Rightarrow> u8 \<Rightarrow> drv \<Rightarrow> nat \<times> drv" where
  "pool_take C ActionID SocketID D =
     (let i = g_FreePoolIdx D;
          nxt = po_NextIndex (g_ObjPool D ! i);
          D1 = D\<lparr>g_FreePoolIdx := (if MAX_CONCURRENT_ACTIONS C > nxt then nxt
                                   else MAX_CONCURRENT_ACTIONS C)\<rparr>;
          D2 = set_obj i (\<lambda>ob. ob\<lparr>po_ActionID := ActionID\<rparr>) D1
      in (i, if SL_MAX_SOCKETS C > SocketID
             then set_obj i (\<lambda>ob. ob\<lparr>po_AdditionalData := SocketID\<rparr>) D2 else D2))"

text \<open>From the head of the waiting loop on, with the protection lock held; \<open>spawn\<close>: the caller
  is the spawn task, which must not sleep.\<close>

definition pool_enter ::
    "drvcfg \<Rightarrow> bool \<Rightarrow> u8 \<Rightarrow> u8 \<Rightarrow> nat \<Rightarrow> drv \<Rightarrow> (pool_wait \<times> drv) option" where
  "pool_enter C spawn ActionID SocketID i D =
     (if in_use C ActionID SocketID (g_ActiveActionsBitmap D)
      then if spawn
           then Some (PW_return (int (MAX_CONCURRENT_ACTIONS C)),
                  SlDrvProtectionObjUnLock ((set_obj i (\<lambda>ob. ob\<lparr>po_ActionID := 0,
                      po_AdditionalData := SL_MAX_SOCKETS C\<rparr>) D)\<lparr>g_FreePoolIdx := i\<rparr>))
           else Some (PW_sleep i,
                  SlDrvProtectionObjUnLock ((set_obj i (\<lambda>ob. ob\<lparr>po_NextIndex := g_PendingPoolIdx D\<rparr>) D)
                      \<lparr>g_PendingPoolIdx := i\<rparr>))
      else do {
        let b = (if SL_MAX_SOCKETS C > SocketID then id_bit SocketID else id_bit ActionID);
        let D1 = (set_obj i (\<lambda>ob. ob\<lparr>po_NextIndex := g_ActivePoolIdx D\<rparr>) D)
                   \<lparr>g_ActivePoolIdx := i, g_ActiveActionsBitmap := g_ActiveActionsBitmap D OR b\<rparr>;
        D2 \<leftarrow> SlDrvUpdateApiInProgress 1 (SlDrvProtectionObjUnLock D1);
        Some (PW_return (int i), D2) })"

definition SlDrvWaitForPoolObj ::
    "drvcfg \<Rightarrow> bool \<Rightarrow> u8 \<Rightarrow> u8 \<Rightarrow> drv \<Rightarrow> (pool_wait \<times> drv) option" where
  "SlDrvWaitForPoolObj C spawn ActionID SocketID D0 = do {
     D \<leftarrow> SlDrvProtectionObjLockWaitForever D0;
     if MAX_CONCURRENT_ACTIONS C > g_FreePoolIdx D
     then (let (i, D1) = pool_take C ActionID SocketID D in pool_enter C spawn ActionID SocketID i D1)
     else Some (PW_return (int (MAX_CONCURRENT_ACTIONS C)), SlDrvProtectionObjUnLock D) }"

text \<open>The wait on the sync object is over: it takes the signal. The result of the wait is ignored.\<close>

definition SlDrvWaitForPoolObj_woken ::
    "drvcfg \<Rightarrow> u8 \<Rightarrow> u8 \<Rightarrow> nat \<Rightarrow> drv \<Rightarrow> (pool_wait \<times> drv) option" where
  "SlDrvWaitForPoolObj_woken C ActionID SocketID i D0 =
     (if po_sync (g_ObjPool D0 ! i) \<noteq> Some True then None
      else
        let D = set_obj i (\<lambda>ob. ob\<lparr>po_sync := Some False\<rparr>) D0
        in if stop_in_progress (g_status D)
           then (let (r, D1) = delete_sync C i D
                 in if r \<noteq> 0 then Some (PW_return r, D1)
                    else do {
                      D2 \<leftarrow> SlDrvProtectionObjLockWaitForever D1;
                      Some (PW_return (SL_RET_CODE_STOP_IN_PROGRESS C), SlDrvProtectionObjUnLock
                        (D2\<lparr>g_NumOfDeletedSyncObj := g_NumOfDeletedSyncObj D2 + 1\<rparr>)) })
           else do {
             D1 \<leftarrow> SlDrvProtectionObjLockWaitForever D;
             pool_enter C False ActionID SocketID i D1 })"

subsection \<open>Releasing an object\<close>

text \<open>The pending object that a release of \<open>ob\<close> wakes.\<close>

definition wakes :: "drvcfg \<Rightarrow> pool_obj \<Rightarrow> pool_obj \<Rightarrow> bool" where
  "wakes C ob pend \<longleftrightarrow> po_ActionID pend = po_ActionID ob \<and>
     (SL_MAX_SOCKETS C = sd_of C pend \<or> (SL_MAX_SOCKETS C > sd_of C ob \<and> sd_of C pend = sd_of C ob))"

partial_function (option) find_pending :: "drvcfg \<Rightarrow> pool_obj \<Rightarrow> pool_obj list \<Rightarrow> nat \<Rightarrow> nat option" where
  "find_pending C ob p idx =
     (if MAX_CONCURRENT_ACTIONS C > idx
      then if wakes C ob (p ! idx) then Some idx else find_pending C ob p (po_NextIndex (p ! idx))
      else Some idx)"

declare find_pending.simps [code]

definition release_pending :: "drvcfg \<Rightarrow> nat \<Rightarrow> drv \<Rightarrow> drv option" where
  "release_pending C ObjIdx D = do {
     j \<leftarrow> find_pending C (g_ObjPool D ! ObjIdx) (g_ObjPool D) (g_PendingPoolIdx D);
     if MAX_CONCURRENT_ACTIONS C > j
     then do {
       (l, p) \<leftarrow> SlDrvRemoveFromList C (g_PendingPoolIdx D) j (g_ObjPool D);
       Some (signal_obj j (D\<lparr>g_PendingPoolIdx := l, g_ObjPool := p\<rparr>)) }
     else Some D }"

text \<open>The bit of the object, and the rest of the release once it is known to be set.\<close>

definition slot_bit :: "drvcfg \<Rightarrow> pool_obj \<Rightarrow> u32" where
  "slot_bit C ob = (if SL_MAX_SOCKETS C > sd_of C ob then id_bit (sd_of C ob) else id_bit (po_ActionID ob))"

definition release_active :: "drvcfg \<Rightarrow> nat \<Rightarrow> drv \<Rightarrow> (int \<times> drv) option" where
  "release_active C ObjIdx D = do {
     let D1 = D\<lparr>g_ActiveActionsBitmap := g_ActiveActionsBitmap D AND NOT (slot_bit C (g_ObjPool D ! ObjIdx))\<rparr>;
     let D2 = set_obj ObjIdx (\<lambda>ob. ob\<lparr>po_pRespArgs := None, po_ActionID := 0,
                po_AdditionalData := SL_MAX_SOCKETS C\<rparr>) D1;
     (l, p) \<leftarrow> SlDrvRemoveFromList C (g_ActivePoolIdx D2) ObjIdx (g_ObjPool D2);
     let D3 = set_obj ObjIdx (\<lambda>ob. ob\<lparr>po_NextIndex := g_FreePoolIdx D2\<rparr>)
                (D2\<lparr>g_ActivePoolIdx := l, g_ObjPool := p\<rparr>);
     D4 \<leftarrow> SlDrvUpdateApiInProgress (-1) (SlDrvProtectionObjUnLock (D3\<lparr>g_FreePoolIdx := ObjIdx\<rparr>));
     Some (0, D4) }"

text \<open>The two early returns leave the function with the protection lock held.\<close>

definition SlDrvReleasePoolObj :: "drvcfg \<Rightarrow> nat \<Rightarrow> drv \<Rightarrow> (int \<times> drv) option" where
  "SlDrvReleasePoolObj C ObjIdx D0 =
     (if stop_in_progress (g_status D0)
      then (let (r, D1) = delete_sync C ObjIdx D0
            in if r \<noteq> 0 then Some (r, D1)
               else do {
                 D2 \<leftarrow> SlDrvProtectionObjLockWaitForever D1;
                 Some (0, SlDrvProtectionObjUnLock
                   (D2\<lparr>g_NumOfDeletedSyncObj := g_NumOfDeletedSyncObj D2 + 1\<rparr>)) })
      else do {
        D1 \<leftarrow> SlDrvProtectionObjLockWaitForever D0;
        D2 \<leftarrow> release_pending C ObjIdx D1;
        let ob = g_ObjPool D2 ! ObjIdx;
        if SL_MAX_SOCKETS C > sd_of C ob
        then if id_bit (sd_of C ob) AND g_ActiveActionsBitmap D2 = 0 then Some (0, D2)
             else release_active C ObjIdx D2
        else if id_bit (po_ActionID ob) AND g_ActiveActionsBitmap D2 = 0 \<and> SELECT_ID C \<noteq> po_ActionID ob
             then Some (0, D2)
             else release_active C ObjIdx D2 })"

definition SlDrvProtectAsyncRespSetting ::
    "drvcfg \<Rightarrow> nat option \<Rightarrow> u8 \<Rightarrow> u8 \<Rightarrow> pool_wait \<times> drv \<Rightarrow> (int \<times> drv) option" where
  "SlDrvProtectAsyncRespSetting C pAsyncRsp ActionID SocketID w =
     (case w of
        (PW_sleep _, _) \<Rightarrow> None
      | (PW_return ObjIdx, D) \<Rightarrow>
          (if ObjIdx = SL_RET_CODE_STOP_IN_PROGRESS C then Some (SL_RET_CODE_STOP_IN_PROGRESS C, D)
           else if ObjIdx = int (MAX_CONCURRENT_ACTIONS C) then Some (SL_POOL_IS_EMPTY C, D)
           else do {
             D1 \<leftarrow> SlDrvProtectionObjLockWaitForever D;
             Some (ObjIdx, SlDrvProtectionObjUnLock
               (set_obj (nat ObjIdx) (\<lambda>ob. ob\<lparr>po_pRespArgs := pAsyncRsp\<rparr>) D1)) }))"

subsection \<open>Finding the receiver of an event\<close>

definition SlActionLookupTable :: "drvcfg \<Rightarrow> (u16 \<times> string) list" where
  "SlActionLookupTable C =
     [(opcode C ''SL_OPCODE_SOCKET_ACCEPTASYNCRESPONSE'', ''_SlSocketHandleAsync_Accept''),
      (opcode C ''SL_OPCODE_SOCKET_CONNECTASYNCRESPONSE'', ''_SlSocketHandleAsync_Connect''),
      (opcode C ''SL_OPCODE_SOCKET_SELECTASYNCRESPONSE'', ''_SlSocketHandleAsync_Select''),
      (opcode C ''SL_OPCODE_NETAPP_DNSGETHOSTBYNAMEASYNCRESPONSE'', ''_SlNetAppHandleAsync_DnsGetHostByName''),
      (opcode C ''SL_OPCODE_NETAPP_MDNSGETHOSTBYSERVICEASYNCRESPONSE'',
         ''_SlNetAppHandleAsync_DnsGetHostByService''),
      (opcode C ''SL_OPCODE_NETAPP_PINGREPORTREQUESTRESPONSE'', ''_SlNetAppHandleAsync_PingResponse''),
      (opcode C ''SL_OPCODE_NETAPP_RECEIVE'', ''_SlNetAppHandleAsync_NetAppReceive''),
      (opcode C ''SL_OPCODE_DEVICE_STOP_ASYNC_RESPONSE'', ''_SlDeviceHandleAsync_Stop''),
      (opcode C ''SL_OPCODE_NETUTIL_COMMANDASYNCRESPONSE'', ''_SlNetUtilHandleAsync_Cmd''),
      (opcode C ''SL_OPCODE_SOCKET_SOCKETCLOSEASYNCEVENT'', ''_SlSocketHandleAsync_Close'')]"

definition is_recv_opcode :: "drvcfg \<Rightarrow> u16 \<Rightarrow> bool" where
  "is_recv_opcode C opc \<longleftrightarrow> opc = opcode C ''SL_OPCODE_SOCKET_RECVASYNCRESPONSE'' \<or>
     opc = opcode C ''SL_OPCODE_SOCKET_RECVFROMASYNCRESPONSE'' \<or>
     opc = opcode C ''SL_OPCODE_SOCKET_RECVFROMASYNCRESPONSE_V6''"

text \<open>The walk along the active list; the result is the object and the handler to set, where one
  is set. An action beyond the lookup table is read behind its end. The bit of the IPv6 opcodes, once
  cleared for one object, stays cleared for the rest of the list.\<close>

partial_function (option) find_active ::
    "drvcfg \<Rightarrow> u8 \<Rightarrow> pool_obj list \<Rightarrow> u16 \<Rightarrow> nat \<Rightarrow> (nat \<times> string option) option option" where
  "find_active C Sd p opc0 idx =
     (if MAX_CONCURRENT_ACTIONS C > idx
      then
        let ob = p ! idx;
            opc = (if po_AdditionalData ob AND SL_NETAPP_FAMILY_MASK C \<noteq> 0
                   then opc0 AND NOT (SL_OPCODE_IPV6 C) else opc0);
            k = uint (po_ActionID ob) - uint (MAX_SOCKET_ENUM_IDX C);
            table = SlActionLookupTable C
        in if po_ActionID ob = RECV_ID C \<and> Sd = po_AdditionalData ob \<and> is_recv_opcode C opc
           then Some (Some (idx, None))
           else if k < 0 \<or> k \<ge> int (length table) then None
           else if fst (table ! nat k) = opc \<and>
                   ((Sd = sd_of C ob \<and> SL_MAX_SOCKETS C > Sd) \<or> SL_MAX_SOCKETS C = sd_of C ob)
           then Some (Some (idx, Some (snd (table ! nat k))))
           else find_active C Sd p opc (po_NextIndex ob)
      else Some None)"

declare find_active.simps [code]

definition SlDrvFindAndSetActiveObj :: "drvcfg \<Rightarrow> u16 \<Rightarrow> u8 \<Rightarrow> drv \<Rightarrow> (int \<times> drv) option" where
  "SlDrvFindAndSetActiveObj C opc Sd D = do {
     r \<leftarrow> find_active C Sd (g_ObjPool D) opc (g_ActivePoolIdx D);
     (case r of
        None \<Rightarrow> Some (SL_RET_OBJ_NOT_SET C, D)
      | Some (idx, None) \<Rightarrow> Some (0, D\<lparr>g_ActionIndex := idx\<rparr>)
      | Some (idx, Some h) \<Rightarrow> Some (0, D\<lparr>g_ActionIndex := idx, g_AsyncEvtHandler := Some h\<rparr>)) }"

subsection \<open>Stopping\<close>

text \<open>\<open>_SlDrvReleaseAllActivePendingPoolObj\<close>: every active caller gets the error code through
  its response pointer and a signal, every pending caller a signal, and the sync objects of the free
  objects are deleted. A response pointer that has not been set yet is a NULL dereference.\<close>

partial_function (option) stop_active :: "drvcfg \<Rightarrow> nat \<Rightarrow> drv \<Rightarrow> drv option" where
  "stop_active C idx D =
     (if MAX_CONCURRENT_ACTIONS C > idx
      then (case po_pRespArgs (g_ObjPool D ! idx) of
              None \<Rightarrow> None
            | Some ptr \<Rightarrow> stop_active C (po_NextIndex (g_ObjPool D ! idx))
                (signal_obj idx (vcall (V_resp_status ptr (SL_RET_CODE_STOP_IN_PROGRESS C)) D)))
      else Some D)"

declare stop_active.simps [code]

partial_function (option) stop_pending :: "drvcfg \<Rightarrow> nat \<Rightarrow> drv \<Rightarrow> drv option" where
  "stop_pending C idx D =
     (if MAX_CONCURRENT_ACTIONS C > idx
      then stop_pending C (po_NextIndex (g_ObjPool D ! idx)) (signal_obj idx D)
      else Some D)"

declare stop_pending.simps [code]

partial_function (option) stop_free :: "drvcfg \<Rightarrow> nat \<Rightarrow> drv \<Rightarrow> (int \<times> drv) option" where
  "stop_free C idx D =
     (if MAX_CONCURRENT_ACTIONS C > idx
      then (let (r, D1) = delete_sync C idx D
            in if r \<noteq> 0 then Some (r, D1)
               else stop_free C (po_NextIndex (g_ObjPool D1 ! idx))
                      (D1\<lparr>g_NumOfDeletedSyncObj := g_NumOfDeletedSyncObj D1 + 1\<rparr>))
      else Some (0, D))"

declare stop_free.simps [code]

definition SlDrvReleaseAllActivePendingPoolObj :: "drvcfg \<Rightarrow> drv \<Rightarrow> (int \<times> drv) option" where
  "SlDrvReleaseAllActivePendingPoolObj C D0 = do {
     D1 \<leftarrow> SlDrvProtectionObjLockWaitForever D0;
     D2 \<leftarrow> stop_active C (g_ActivePoolIdx D1) D1;
     D3 \<leftarrow> stop_pending C (g_PendingPoolIdx D2) D2;
     (r, D4) \<leftarrow> stop_free C (g_FreePoolIdx D3) D3;
     if r \<noteq> 0 then Some (r, D4)
     else if slcb_SocketTrigger C \<and> MAX_CONCURRENT_ACTIONS C \<noteq> g_TriggerObjIdx D4
     then (let (r', D5) = delete_sync C (g_TriggerObjIdx D4) D4
           in if r' \<noteq> 0 then Some (r', D5)
              else Some (0, SlDrvProtectionObjUnLock
                     (D5\<lparr>g_NumOfDeletedSyncObj := g_NumOfDeletedSyncObj D5 + 1\<rparr>)))
     else Some (0, SlDrvProtectionObjUnLock D4) }"

end
