(* ===== verification/DrvPoolInv.thy ===== *)
theory DrvPoolInv
  imports DrvPool
begin

text \<open>
  The three lists of the pool as lists of indices: \<open>chain n p i xs\<close> says that following
  \<open>NextIndex\<close> in \<open>p\<close> from \<open>i\<close> visits exactly \<open>xs\<close> and ends with \<open>n\<close>.
  The lemmas say what the driver's loops compute on a chain.
\<close>

subsection \<open>Chains\<close>

primrec chain :: "nat \<Rightarrow> pool_obj list \<Rightarrow> nat \<Rightarrow> nat list \<Rightarrow> bool" where
  "chain n p i [] \<longleftrightarrow> i = n"
| "chain n p i (x # xs) \<longleftrightarrow> i = x \<and> x < n \<and> chain n p (po_NextIndex (p ! x)) xs"

lemma chain_at_end [simp]: "chain n p n xs \<longleftrightarrow> xs = []"
  by (cases xs) auto

lemma chain_below: "chain n p i xs \<Longrightarrow> x \<in> set xs \<Longrightarrow> x < n"
  by (induction xs arbitrary: i) auto

lemma chain_unique: "chain n p i xs \<Longrightarrow> chain n p i ys \<Longrightarrow> xs = ys"
proof (induction xs arbitrary: i ys)
  case (Cons x xs)
  then show ?case by (cases ys) auto
qed auto

lemma chain_update [simp]: "j \<notin> set xs \<Longrightarrow> chain n (p[j := ob]) i xs = chain n p i xs"
  by (induction xs arbitrary: i) auto

lemma chain_cong:
  assumes "\<And>j. j \<in> set xs \<Longrightarrow> po_NextIndex (q ! j) = po_NextIndex (p ! j)"
  shows "chain n q i xs = chain n p i xs"
  using assms by (induction xs arbitrary: i) auto

text \<open>Everything in an object but its place in a list.\<close>

definition obj_data :: "pool_obj \<Rightarrow> u8 \<times> u8 \<times> nat option \<times> bool option" where
  "obj_data ob = (po_ActionID ob, po_AdditionalData ob, po_pRespArgs ob, po_sync ob)"

text \<open>\<open>relinked n S p q\<close>: \<open>q\<close> differs from \<open>p\<close> at most in the links of \<open>S\<close>.\<close>

definition relinked :: "nat \<Rightarrow> nat set \<Rightarrow> pool_obj list \<Rightarrow> pool_obj list \<Rightarrow> bool" where
  "relinked n S p q \<longleftrightarrow> length p = n \<and> length q = n \<and> (\<forall>j. j \<notin> S \<longrightarrow> q ! j = p ! j) \<and>
     (\<forall>j. obj_data (q ! j) = obj_data (p ! j))"

lemma relinked_refl: "length p = n \<Longrightarrow> relinked n S p p"
  by (simp add: relinked_def)

lemma relinked_mono: "relinked n S p q \<Longrightarrow> S \<subseteq> T \<Longrightarrow> relinked n T p q"
  by (auto simp: relinked_def)

lemma relinked_link:
  "length p = n \<Longrightarrow> z < n \<Longrightarrow> z \<in> S \<Longrightarrow> relinked n S p (p[z := (p ! z)\<lparr>po_NextIndex := k\<rparr>])"
  by (auto simp: relinked_def obj_data_def nth_list_update split: if_splits)

text \<open>The walk that takes an item out of its list.\<close>

lemma unlink_chain:
  assumes "chain n p x (x # xs)" and "distinct (x # xs)" and "y \<in> set xs" and "length p = n"
  shows "\<exists>q. unlink n y p x = Some q \<and> chain n q x (x # remove1 y xs) \<and>
    relinked n (set (x # xs) - {y}) p q"
  using assms
proof (induction xs arbitrary: x)
  case (Cons a as)
  show ?case
  proof (cases "a = y")
    case True
    let ?q = "p[x := (p ! x)\<lparr>po_NextIndex := po_NextIndex (p ! y)\<rparr>]"
    have "unlink n y p x = Some ?q" using Cons.prems True by (simp add: unlink.simps [of n y p x])
    moreover have "chain n ?q x (x # remove1 y (a # as))" using Cons.prems True by auto
    moreover have "relinked n (set (x # a # as) - {y}) p ?q"
      using Cons.prems by (intro relinked_link) auto
    ultimately show ?thesis by blast
  next
    case False
    have step: "unlink n y p x = unlink n y p a" "po_NextIndex (p ! x) = a"
      using Cons.prems False by (auto simp: unlink.simps [of n y p x])
    from Cons.IH [of a] Cons.prems False obtain q where q: "unlink n y p a = Some q"
      "chain n q a (a # remove1 y as)" "relinked n (set (a # as) - {y}) p q" by auto
    have "q ! x = p ! x" using q(3) Cons.prems(2) by (auto simp: relinked_def)
    with q(2) step Cons.prems(1) have "chain n q x (x # a # remove1 y as)" by simp
    moreover have "relinked n (set (x # a # as) - {y}) p q" by (rule relinked_mono [OF q(3)]) auto
    ultimately show ?thesis using q(1) step(1) False by auto
  qed
qed simp

lemma RemoveFromList_chain:
  assumes "chain n p li xs" and "distinct xs" and "y \<in> set xs" and "length p = n"
    and "n = MAX_CONCURRENT_ACTIONS C"
  shows "\<exists>li' q. SlDrvRemoveFromList C li y p = Some (li', q) \<and> chain n q li' (remove1 y xs) \<and>
    relinked n (set xs - {y}) p q"
proof -
  from assms(1,3) obtain x xs' where xs: "xs = x # xs'" by (cases xs) auto
  with assms have li: "li = x" "x < n" "chain n p (po_NextIndex (p ! x)) xs'" by auto
  show ?thesis
  proof (cases "x = y")
    case True
    have "SlDrvRemoveFromList C li y p = Some (po_NextIndex (p ! x), p)"
      using True li assms(5) by (auto simp: SlDrvRemoveFromList_def Let_def)
    then show ?thesis using True xs li relinked_refl [OF assms(4)] by auto
  next
    case False
    then have y: "y \<in> set xs'" using xs assms(3) by auto
    then have "po_NextIndex (p ! x) \<noteq> n" using li(3) by (cases xs') auto
    then have R: "SlDrvRemoveFromList C li y p = Option.bind (unlink n y p x) (\<lambda>p'. Some (x, p'))"
      using False li assms(5) by (simp add: SlDrvRemoveFromList_def Let_def)
    from unlink_chain [of n p x xs' y] xs li assms y obtain q where
      "unlink n y p x = Some q" "chain n q x (x # remove1 y xs')" "relinked n (set (x # xs') - {y}) p q"
      by auto
    with R xs False show ?thesis by (intro exI [of _ x] exI [of _ q]) auto
  qed
qed

lemma find_pending_chain:
  assumes "chain n p i xs" and "n = MAX_CONCURRENT_ACTIONS C"
  shows "find_pending C ob p i = Some (case find (\<lambda>j. wakes C ob (p ! j)) xs of Some j \<Rightarrow> j | None \<Rightarrow> n)"
  using assms by (induction xs arbitrary: i) (auto simp: find_pending.simps)

subsection \<open>Bits\<close>

lemma bit_id_bit: "unat x < 32 \<Longrightarrow> bit (id_bit x) k \<longleftrightarrow> k = unat x"
  by (auto simp: id_bit_def bit_exp_iff possible_bit_word)

lemma and_id_bit: "unat x < 32 \<Longrightarrow> b AND id_bit x \<noteq> 0 \<longleftrightarrow> bit b (unat x)"
  using and_exp_eq_0_iff_not_bit [of b "unat x"] by (simp add: id_bit_def push_bit_eq_mult)

text \<open>The bit an action claims, and the actions that may be active several times (select, when the
  build has no trigger for it).\<close>

definition slot :: "drvcfg \<Rightarrow> pool_obj \<Rightarrow> nat" where
  "slot C ob = (if po_AdditionalData ob < SL_MAX_SOCKETS C then unat (po_AdditionalData ob)
                else unat (po_ActionID ob))"

definition multi :: "drvcfg \<Rightarrow> pool_obj \<Rightarrow> bool" where
  "multi C ob \<longleftrightarrow> \<not> slcb_SocketTrigger C \<and> po_ActionID ob = SELECT_ID C \<and>
     \<not> po_AdditionalData ob < SL_MAX_SOCKETS C"

definition ids_ok :: "drvcfg \<Rightarrow> u8 \<Rightarrow> u8 \<Rightarrow> bool" where
  "ids_ok C a sd \<longleftrightarrow> a < 32 \<and> sd \<le> SL_MAX_SOCKETS C"

lemma cfg_sockets: "cfg_ok C \<Longrightarrow> unat (SL_MAX_SOCKETS C) \<le> 16"
  by (simp add: cfg_ok_def word_le_nat_alt)

lemma sd_of_ok: "cfg_ok C \<Longrightarrow> po_AdditionalData ob \<le> SL_MAX_SOCKETS C \<Longrightarrow> sd_of C ob = po_AdditionalData ob"
  by (simp add: sd_of_def cfg_ok_def)

lemma slot_lt:
  assumes "cfg_ok C" and "ids_ok C (po_ActionID ob) (po_AdditionalData ob)"
  shows "slot C ob < 32"
  using assms(2) cfg_sockets [OF assms(1)] by (simp add: slot_def ids_ok_def word_less_nat_alt)

lemma slot_bit_slot:
  assumes "cfg_ok C" and "ids_ok C (po_ActionID ob) (po_AdditionalData ob)"
  shows "bit (slot_bit C ob) k \<longleftrightarrow> k = slot C ob"
proof -
  have "sd_of C ob = po_AdditionalData ob" using assms by (simp add: sd_of_ok ids_ok_def)
  then show ?thesis
    using slot_lt [OF assms] bit_id_bit [of "po_AdditionalData ob" k] bit_id_bit [of "po_ActionID ob" k]
    by (simp add: slot_bit_def slot_def split: if_splits)
qed

lemma in_use_slot:
  assumes "cfg_ok C" and "ids_ok C (po_ActionID ob) (po_AdditionalData ob)"
  shows "in_use C (po_ActionID ob) (po_AdditionalData ob) b \<longleftrightarrow> bit b (slot C ob) \<and> \<not> multi C ob"
proof (cases "po_AdditionalData ob < SL_MAX_SOCKETS C")
  case True
  then have "unat (po_AdditionalData ob) < 32" using slot_lt [OF assms] by (simp add: slot_def)
  moreover have "SL_MAX_SOCKETS C \<noteq> po_AdditionalData ob" using True by auto
  ultimately show ?thesis using True by (simp add: in_use_def slot_def multi_def and_id_bit)
next
  case False
  then have sd: "po_AdditionalData ob = SL_MAX_SOCKETS C" using assms(2) by (simp add: ids_ok_def)
  have a: "unat (po_ActionID ob) < 32" using assms(2) by (simp add: ids_ok_def word_less_nat_alt)
  have sel: "unat (SELECT_ID C) < 32" using assms(1) by (simp add: cfg_ok_def word_less_nat_alt)
  have "b AND (MULTI_SELECT_MASK C AND id_bit (po_ActionID ob)) =
      (b AND MULTI_SELECT_MASK C) AND id_bit (po_ActionID ob)" by (simp add: and.assoc)
  then have "b AND (MULTI_SELECT_MASK C AND id_bit (po_ActionID ob)) \<noteq> 0 \<longleftrightarrow>
      bit b (unat (po_ActionID ob)) \<and> bit (MULTI_SELECT_MASK C) (unat (po_ActionID ob))"
    using and_id_bit [OF a] by (simp add: bit_and_iff)
  also have "bit (MULTI_SELECT_MASK C) (unat (po_ActionID ob)) \<longleftrightarrow>
      slcb_SocketTrigger C \<or> po_ActionID ob \<noteq> SELECT_ID C"
    using a bit_id_bit [OF sel, of "unat (po_ActionID ob)"]
    by (simp add: MULTI_SELECT_MASK_def bit_not_iff possible_bit_word word_unat_eq_iff)
  finally have m: "b AND (MULTI_SELECT_MASK C AND id_bit (po_ActionID ob)) \<noteq> 0 \<longleftrightarrow>
      bit b (unat (po_ActionID ob)) \<and> (slcb_SocketTrigger C \<or> po_ActionID ob \<noteq> SELECT_ID C)" .
  have "in_use C (po_ActionID ob) (po_AdditionalData ob) b \<longleftrightarrow>
      b AND (MULTI_SELECT_MASK C AND id_bit (po_ActionID ob)) \<noteq> 0"
    by (simp add: in_use_def sd)
  also have "\<dots> \<longleftrightarrow> bit b (slot C ob) \<and> \<not> multi C ob"
    unfolding m slot_def multi_def using False by auto
  finally show ?thesis .
qed

subsection \<open>The invariant\<close>

text \<open>\<open>pool_ok C D fs as ps ws hs\<close>: the free, active and pending lists are \<open>fs\<close>,
  \<open>as\<close> and \<open>ps\<close>; \<open>ws\<close> are the objects whose callers have been woken and \<open>hs\<close>
  those a running call holds in its hand; no object is in two of them and none is lost. The bitmap
  has exactly the bits of the active objects, and no two active objects claim the same bit, except
  those of \<open>multi\<close>.\<close>

definition active_ok :: "drvcfg \<Rightarrow> pool_obj list \<Rightarrow> u32 \<Rightarrow> nat set \<Rightarrow> bool" where
  "active_ok C p bm as \<longleftrightarrow>
     (\<forall>i \<in> as. \<not> multi C (p ! i) \<longrightarrow> bit bm (slot C (p ! i))) \<and>
     (\<forall>k. bit bm k \<longrightarrow> (\<exists>i \<in> as. slot C (p ! i) = k)) \<and>
     (\<forall>i \<in> as. \<forall>j \<in> as. slot C (p ! i) = slot C (p ! j) \<longrightarrow> i = j \<or> multi C (p ! i) \<and> multi C (p ! j))"

definition objs_ok :: "drvcfg \<Rightarrow> pool_obj list \<Rightarrow> nat set \<Rightarrow> nat set \<Rightarrow> nat set \<Rightarrow> nat set \<Rightarrow> nat set \<Rightarrow> bool" where
  "objs_ok C p fs as ps ws hs \<longleftrightarrow>
     (\<forall>i \<in> fs. po_AdditionalData (p ! i) = SL_MAX_SOCKETS C) \<and>
     (\<forall>i \<in> fs \<union> ps \<union> hs. po_sync (p ! i) = Some False) \<and>
     (\<forall>i \<in> ws. po_sync (p ! i) = Some True) \<and> (\<forall>i \<in> as. po_sync (p ! i) \<noteq> None) \<and>
     (\<forall>i \<in> as \<union> ps \<union> ws \<union> hs. ids_ok C (po_ActionID (p ! i)) (po_AdditionalData (p ! i)))"

definition pool_ok :: "drvcfg \<Rightarrow> drv \<Rightarrow> nat list \<Rightarrow> nat list \<Rightarrow> nat list \<Rightarrow> nat set \<Rightarrow> nat set \<Rightarrow> bool" where
  "pool_ok C D fs as ps ws hs \<longleftrightarrow>
     (let n = MAX_CONCURRENT_ACTIONS C; p = g_ObjPool D
      in length p = n \<and> chain n p (g_FreePoolIdx D) fs \<and> chain n p (g_ActivePoolIdx D) as \<and>
         chain n p (g_PendingPoolIdx D) ps \<and> distinct (fs @ as @ ps) \<and>
         ws \<inter> set (fs @ as @ ps) = {} \<and> hs \<inter> set (fs @ as @ ps) = {} \<and> ws \<inter> hs = {} \<and>
         set (fs @ as @ ps) \<union> ws \<union> hs = {..<n} \<and>
         objs_ok C p (set fs) (set as) (set ps) ws hs \<and>
         active_ok C p (g_ActiveActionsBitmap D) (set as))"

lemma pool_ok_cong:
  assumes "g_ObjPool D' = g_ObjPool D" and "g_FreePoolIdx D' = g_FreePoolIdx D"
    and "g_ActivePoolIdx D' = g_ActivePoolIdx D" and "g_PendingPoolIdx D' = g_PendingPoolIdx D"
    and "g_ActiveActionsBitmap D' = g_ActiveActionsBitmap D"
  shows "pool_ok C D' fs as ps ws hs = pool_ok C D fs as ps ws hs"
  using assms by (simp add: pool_ok_def)

lemma pool_ok_lock [simp]:
  "pool_ok C (D\<lparr>g_ProtectionLock := b\<rparr>) fs as ps ws hs = pool_ok C D fs as ps ws hs"
  "pool_ok C (D\<lparr>g_ApiInProgressCnt := k\<rparr>) fs as ps ws hs = pool_ok C D fs as ps ws hs"
  by (simp_all add: pool_ok_def)

text \<open>A change of one object outside the active set keeps \<open>active_ok\<close>.\<close>

lemma active_ok_local: "(\<And>j. j \<in> as \<Longrightarrow> q ! j = p ! j) \<Longrightarrow> active_ok C q bm as = active_ok C p bm as"
  by (simp add: active_ok_def)

lemma active_ok_update [simp]: "i \<notin> as \<Longrightarrow> active_ok C (p[i := ob]) bm as = active_ok C p bm as"
  by (rule active_ok_local) (metis nth_list_update_neq)

lemma active_ok_data:
  assumes "\<And>j. obj_data (q ! j) = obj_data (p ! j)"
  shows "active_ok C q bm as = active_ok C p bm as"
proof -
  have "slot C (q ! j) = slot C (p ! j)" "multi C (q ! j) = multi C (p ! j)" for j
    using assms [of j] by (simp_all add: obj_data_def slot_def multi_def)
  then show ?thesis by (simp add: active_ok_def)
qed

lemma objs_ok_data:
  assumes "\<And>j. obj_data (q ! j) = obj_data (p ! j)"
  shows "objs_ok C q fs as ps ws hs = objs_ok C p fs as ps ws hs"
  using assms by (simp add: objs_ok_def obj_data_def)

end
