(* ===== verification/DrvPoolOps.thy ===== *)
theory DrvPoolOps
  imports DrvPoolInv
begin

text \<open>
  What the operations of the pool do to the invariant: where an object goes, and that every
  operation on a pool that satisfies the invariant returns.
\<close>

subsection \<open>Taking an object\<close>

lemma pool_okD:
  assumes "pool_ok C D fs as ps ws hs"
  shows "length (g_ObjPool D) = MAX_CONCURRENT_ACTIONS C"
    and "chain (MAX_CONCURRENT_ACTIONS C) (g_ObjPool D) (g_FreePoolIdx D) fs"
    and "chain (MAX_CONCURRENT_ACTIONS C) (g_ObjPool D) (g_ActivePoolIdx D) as"
    and "chain (MAX_CONCURRENT_ACTIONS C) (g_ObjPool D) (g_PendingPoolIdx D) ps"
    and "distinct (fs @ as @ ps)"
    and "ws \<inter> set (fs @ as @ ps) = {}" and "hs \<inter> set (fs @ as @ ps) = {}" and "ws \<inter> hs = {}"
    and "set (fs @ as @ ps) \<union> ws \<union> hs = {..<MAX_CONCURRENT_ACTIONS C}"
    and "objs_ok C (g_ObjPool D) (set fs) (set as) (set ps) ws hs"
    and "active_ok C (g_ObjPool D) (g_ActiveActionsBitmap D) (set as)"
  using assms by (simp_all add: pool_ok_def Let_def)

lemma pool_ok_below: "pool_ok C D fs as ps ws hs \<Longrightarrow> i \<in> set fs \<union> set as \<union> set ps \<union> ws \<union> hs \<Longrightarrow>
    i < MAX_CONCURRENT_ACTIONS C \<and> i < length (g_ObjPool D)"
  using pool_okD(1,9) [of C D fs as ps ws hs] by (simp add: set_eq_iff)

lemma pool_take_ok:
  assumes ok: "pool_ok C D fs as ps ws {}" and ids: "ids_ok C a sd"
    and free: "g_FreePoolIdx D < MAX_CONCURRENT_ACTIONS C"
  shows "\<exists>i fs' D1. fs = i # fs' \<and> pool_take C a sd D = (i, D1) \<and> pool_ok C D1 fs' as ps ws {i} \<and>
    po_ActionID (g_ObjPool D1 ! i) = a \<and> po_AdditionalData (g_ObjPool D1 ! i) = sd \<and>
    chain (MAX_CONCURRENT_ACTIONS C) (g_ObjPool D1) (po_NextIndex (g_ObjPool D1 ! i)) fs' \<and>
    g_ProtectionLock D1 = g_ProtectionLock D \<and> g_status D1 = g_status D"
proof -
  let ?n = "MAX_CONCURRENT_ACTIONS C" and ?p = "g_ObjPool D"
  note P = pool_okD [OF ok]
  from P(2) free obtain i fs' where fs: "fs = i # fs'" "g_FreePoolIdx D = i"
    and ch: "chain ?n ?p (po_NextIndex (?p ! i)) fs'" by (cases fs) auto
  have nxt: "(if ?n > po_NextIndex (?p ! i) then po_NextIndex (?p ! i) else ?n) = po_NextIndex (?p ! i)"
    using ch by (cases fs') auto
  have ad: "po_AdditionalData (?p ! i) = SL_MAX_SOCKETS C" and sy: "po_sync (?p ! i) = Some False"
    using P(10) fs by (auto simp: objs_ok_def)
  define ob where "ob = (?p ! i)\<lparr>po_ActionID := a, po_AdditionalData := sd\<rparr>"
  define D1 where "D1 = D\<lparr>g_FreePoolIdx := po_NextIndex (?p ! i), g_ObjPool := ?p[i := ob]\<rparr>"
  have sd: "SL_MAX_SOCKETS C > sd \<or> sd = SL_MAX_SOCKETS C" using ids by (auto simp: ids_ok_def)
  have i: "i < length ?p" using pool_ok_below [OF ok, of i] fs by simp
  have same: "ob = (?p ! i)\<lparr>po_ActionID := a\<rparr>" if "sd = SL_MAX_SOCKETS C"
    using that ad by (cases "?p ! i") (simp add: ob_def)
  have take: "pool_take C a sd D = (i, D1)"
    using sd i same by (auto simp: pool_take_def Let_def nxt fs(2) set_obj_def D1_def ob_def)
  have nin: "i \<notin> set fs'" "i \<notin> set as" "i \<notin> set ps" "i \<notin> ws" using P(5,6) fs by auto
  have ob: "g_ObjPool D1 ! i = ob" using i by (simp add: D1_def)
  have "pool_ok C D1 fs' as ps ws {i}"
  proof -
    have "objs_ok C (?p[i := ob]) (set fs') (set as) (set ps) ws {i}"
      using P(10) nin i ids sy fs by (auto simp: objs_ok_def nth_list_update ob_def)
    moreover have "set (fs' @ as @ ps) \<union> ws \<union> {i} = {..<?n}" using P(9) fs by auto
    ultimately show ?thesis
      using P nin fs ch by (simp add: pool_ok_def D1_def)
  qed
  with take fs ob ch nin show ?thesis by (auto simp: D1_def ob_def)
qed

subsection \<open>Entering the active or the pending list\<close>

lemma enter_sleep:
  assumes ok: "pool_ok C D fs as ps ws {i}"
  shows "pool_ok C ((set_obj i (\<lambda>ob. ob\<lparr>po_NextIndex := g_PendingPoolIdx D\<rparr>) D)\<lparr>g_PendingPoolIdx := i\<rparr>)
    fs as (i # ps) ws {}"
proof -
  note P = pool_okD [OF ok]
  let ?q = "(g_ObjPool D)[i := (g_ObjPool D ! i)\<lparr>po_NextIndex := g_PendingPoolIdx D\<rparr>]"
  have i: "i < MAX_CONCURRENT_ACTIONS C" "i < length (g_ObjPool D)" using pool_ok_below [OF ok, of i] by simp_all
  have nin: "i \<notin> set fs" "i \<notin> set as" "i \<notin> set ps" "i \<notin> ws" using P(7,8) by auto
  have "objs_ok C ?q (set fs) (set as) (set (i # ps)) ws {}"
    using P(10) by (subst objs_ok_data [of _ "g_ObjPool D"])
      (auto simp: objs_ok_def obj_data_def nth_list_update i)
  then show ?thesis using P i nin by (simp add: pool_ok_def set_obj_def)
qed

lemma enter_refused:
  assumes ok: "pool_ok C D fs as ps ws {i}"
    and ch: "chain (MAX_CONCURRENT_ACTIONS C) (g_ObjPool D) (po_NextIndex (g_ObjPool D ! i)) fs"
  shows "pool_ok C ((set_obj i (\<lambda>ob. ob\<lparr>po_ActionID := 0, po_AdditionalData := SL_MAX_SOCKETS C\<rparr>) D)
    \<lparr>g_FreePoolIdx := i\<rparr>) (i # fs) as ps ws {}"
proof -
  note P = pool_okD [OF ok]
  have i: "i < MAX_CONCURRENT_ACTIONS C" "i < length (g_ObjPool D)" using pool_ok_below [OF ok, of i] by simp_all
  have nin: "i \<notin> set fs" "i \<notin> set as" "i \<notin> set ps" "i \<notin> ws" using P(7,8) by auto
  let ?q = "(g_ObjPool D)[i := (g_ObjPool D ! i)\<lparr>po_ActionID := 0, po_AdditionalData := SL_MAX_SOCKETS C\<rparr>]"
  have "objs_ok C ?q (set (i # fs)) (set as) (set ps) ws {}"
    using P(10) i nin by (auto simp: objs_ok_def nth_list_update)
  then show ?thesis using P i nin ch by (simp add: pool_ok_def set_obj_def)
qed

lemma slot_select:
  assumes "cfg_ok C" and "ids_ok C (po_ActionID ob) (po_AdditionalData ob)" and "\<not> slcb_SocketTrigger C"
  shows "slot C ob = unat (SELECT_ID C) \<longleftrightarrow> multi C ob"
proof -
  have "unat (SL_MAX_SOCKETS C) \<le> unat (SELECT_ID C)" using assms(1) by (simp add: cfg_ok_def word_le_nat_alt)
  then show ?thesis
    using assms(3) by (auto simp: slot_def multi_def word_less_nat_alt word_unat_eq_iff)
qed

lemma active_ok_insert:
  assumes cfg: "cfg_ok C" and ids: "\<forall>j \<in> insert i as. ids_ok C (po_ActionID (p ! j)) (po_AdditionalData (p ! j))"
    and ok: "active_ok C p bm as" and i: "i \<notin> as"
    and free: "\<not> (bit bm (slot C (p ! i)) \<and> \<not> multi C (p ! i))"
  shows "active_ok C p (bm OR slot_bit C (p ! i)) (insert i as)"
proof -
  have sb: "bit (slot_bit C (p ! i)) k \<longleftrightarrow> k = slot C (p ! i)" for k
    using slot_bit_slot [OF cfg] ids by simp
  have excl: "multi C (p ! i) \<and> multi C (p ! j)" if j: "j \<in> as" "slot C (p ! i) = slot C (p ! j)" for j
  proof -
    have *: "slot C (p ! k) = unat (SELECT_ID C) \<longleftrightarrow> multi C (p ! k)" if "k \<in> insert i as" "\<not> slcb_SocketTrigger C" for k
      using slot_select [OF cfg _ that(2)] ids that(1) by blast
    show ?thesis
    proof (cases "multi C (p ! i)")
      case True
      then have t: "\<not> slcb_SocketTrigger C" by (simp add: multi_def)
      with True j * [of i] * [of j] show ?thesis by auto
    next
      case False
      then have nb: "\<not> bit bm (slot C (p ! j))" using free j by auto
      then have "multi C (p ! j)" using ok j(1) by (auto simp: active_ok_def)
      moreover from this have "\<not> slcb_SocketTrigger C" by (simp add: multi_def)
      ultimately show ?thesis using j * [of i] * [of j] by auto
    qed
  qed
  show ?thesis
    unfolding active_ok_def
  proof (intro conjI ballI allI impI)
    fix j assume "j \<in> insert i as" "\<not> multi C (p ! j)"
    then show "bit (bm OR slot_bit C (p ! i)) (slot C (p ! j))"
      using ok sb by (auto simp: bit_or_iff active_ok_def)
  next
    fix k assume "bit (bm OR slot_bit C (p ! i)) k"
    then show "\<exists>j \<in> insert i as. slot C (p ! j) = k"
      using ok sb by (auto simp: bit_or_iff active_ok_def)
  next
    fix j k assume "j \<in> insert i as" "k \<in> insert i as" "slot C (p ! j) = slot C (p ! k)"
    moreover have "slot C (p ! j) = slot C (p ! k) \<Longrightarrow> j \<in> as \<Longrightarrow> k \<in> as \<Longrightarrow>
        j = k \<or> multi C (p ! j) \<and> multi C (p ! k)" using ok by (auto simp: active_ok_def)
    ultimately show "j = k \<or> multi C (p ! j) \<and> multi C (p ! k)" using excl by auto
  qed
qed

lemma enter_active:
  assumes cfg: "cfg_ok C" and ok: "pool_ok C D fs as ps ws {i}"
    and free: "\<not> in_use C (po_ActionID (g_ObjPool D ! i)) (po_AdditionalData (g_ObjPool D ! i)) (g_ActiveActionsBitmap D)"
  shows "pool_ok C ((set_obj i (\<lambda>ob. ob\<lparr>po_NextIndex := g_ActivePoolIdx D\<rparr>) D)
      \<lparr>g_ActivePoolIdx := i, g_ActiveActionsBitmap := g_ActiveActionsBitmap D OR slot_bit C (g_ObjPool D ! i)\<rparr>)
    fs (i # as) ps ws {}"
proof -
  note P = pool_okD [OF ok]
  let ?p = "g_ObjPool D" and ?bm = "g_ActiveActionsBitmap D"
  let ?q = "?p[i := (?p ! i)\<lparr>po_NextIndex := g_ActivePoolIdx D\<rparr>]"
  have i: "i < MAX_CONCURRENT_ACTIONS C" "i < length ?p" using pool_ok_below [OF ok, of i] by simp_all
  have nin: "i \<notin> set fs" "i \<notin> set as" "i \<notin> set ps" "i \<notin> ws" using P(7,8) by auto
  have data: "obj_data (?q ! j) = obj_data (?p ! j)" for j
    using i by (auto simp: obj_data_def nth_list_update)
  have ids: "\<forall>j \<in> insert i (set as). ids_ok C (po_ActionID (?p ! j)) (po_AdditionalData (?p ! j))"
    using P(10) by (auto simp: objs_ok_def)
  have "\<not> (bit ?bm (slot C (?p ! i)) \<and> \<not> multi C (?p ! i))"
    using free in_use_slot [OF cfg, of "?p ! i"] ids by auto
  then have "active_ok C ?q (?bm OR slot_bit C (?p ! i)) (set (i # as))"
    using active_ok_insert [OF cfg ids P(11) nin(2)] by (simp add: active_ok_data [OF data])
  moreover have "objs_ok C ?q (set fs) (set (i # as)) (set ps) ws {}"
    using P(10) by (subst objs_ok_data [OF data]) (auto simp: objs_ok_def)
  ultimately show ?thesis using P i nin by (simp add: pool_ok_def set_obj_def)
qed

subsection \<open>Releasing\<close>

text \<open>A change of the links of one list leaves the other lists and the data alone.\<close>

lemma relinked_chain: "relinked n S p q \<Longrightarrow> S \<inter> set xs = {} \<Longrightarrow> chain n q i xs = chain n p i xs"
  by (rule chain_cong) (auto simp: relinked_def)

lemma relinked_data: "relinked n S p q \<Longrightarrow> obj_data (q ! j) = obj_data (p ! j)"
  by (simp add: relinked_def)

text \<open>What an object is for.\<close>

definition obj_key :: "pool_obj \<Rightarrow> u8 \<times> u8" where
  "obj_key ob = (po_ActionID ob, po_AdditionalData ob)"

lemma obj_key_data: "obj_data ob = obj_data ob' \<Longrightarrow> obj_key ob = obj_key ob'"
  by (simp add: obj_data_def obj_key_def)

text \<open>A sleeper that is signalled leaves the pending objects for the woken ones.\<close>

lemma objs_ok_wake:
  assumes "objs_ok C p F A P W {}" and "j \<in> P" and "j < length p" and "po_sync (p ! j) = Some False" and "j \<notin> F" and "j \<notin> A"
  shows "objs_ok C (p[j := (p ! j)\<lparr>po_sync := map_option (\<lambda>_. True) (po_sync (p ! j))\<rparr>]) F A (P - {j}) (insert j W) {}"
  using assms by (auto simp: objs_ok_def nth_list_update)

lemma release_pending_ok:
  fixes i :: nat
  assumes ok: "pool_ok C D fs as ps ws {}"
  defines "pend \<equiv> find (\<lambda>j. wakes C (g_ObjPool D ! i) (g_ObjPool D ! j)) ps"
  shows "\<exists>D'. release_pending C i D = Some D' \<and>
    pool_ok C D' fs as (case pend of None \<Rightarrow> ps | Some j \<Rightarrow> remove1 j ps) (ws \<union> set_option pend) {} \<and>
    (\<forall>k. k \<notin> set ps \<longrightarrow> g_ObjPool D' ! k = g_ObjPool D ! k) \<and>
    (\<forall>k. obj_key (g_ObjPool D' ! k) = obj_key (g_ObjPool D ! k)) \<and>
    g_ActiveActionsBitmap D' = g_ActiveActionsBitmap D \<and> g_ProtectionLock D' = g_ProtectionLock D \<and>
    g_status D' = g_status D"
proof (cases pend)
  case None
  then have "release_pending C i D = Some D"
    using find_pending_chain [OF pool_okD(4) [OF ok] refl, of "g_ObjPool D ! i"]
    by (simp add: release_pending_def pend_def)
  with None ok show ?thesis by simp
next
  case (Some j)
  note P = pool_okD [OF ok]
  let ?n = "MAX_CONCURRENT_ACTIONS C"
  from Some have j: "j \<in> set ps" by (auto simp: pend_def find_Some_iff)
  then have jn: "j < ?n" using pool_ok_below [OF ok, of j] by simp
  have dps: "distinct ps" using P(5) by simp
  from RemoveFromList_chain [OF P(4) dps j P(1) refl] obtain l q where
    R: "SlDrvRemoveFromList C (g_PendingPoolIdx D) j (g_ObjPool D) = Some (l, q)"
      "chain ?n q l (remove1 j ps)" "relinked ?n (set ps - {j}) (g_ObjPool D) q" by blast
  let ?D1 = "D\<lparr>g_PendingPoolIdx := l, g_ObjPool := q\<rparr>"
  let ?D2 = "signal_obj j ?D1"
  let ?q = "q[j := (q ! j)\<lparr>po_sync := map_option (\<lambda>_. True) (po_sync (q ! j))\<rparr>]"
  have D2: "?D2 = ?D1\<lparr>g_ObjPool := ?q\<rparr>" by (simp add: signal_obj_def set_obj_def)
  have "find_pending C (g_ObjPool D ! i) (g_ObjPool D) (g_PendingPoolIdx D) = Some j"
    using find_pending_chain [OF P(4) refl, of "g_ObjPool D ! i"] Some by (simp add: pend_def)
  then have rel: "release_pending C i D = Some ?D2" using R(1) jn by (simp add: release_pending_def)
  have jl: "j < length q" using R(3) jn by (simp add: relinked_def)
  have nin: "j \<notin> set fs" "j \<notin> set as" "j \<notin> ws" using P(5,6) j by auto
  have qj: "q ! j = g_ObjPool D ! j" using R(3) by (auto simp: relinked_def)
  have data: "obj_data (?q ! k) = obj_data (g_ObjPool D ! k)" if "k \<noteq> j" for k
    using relinked_data [OF R(3)] that by simp
  have others: "?q ! k = g_ObjPool D ! k" if "k \<notin> set ps" for k
  proof -
    have "k \<noteq> j" using that j by auto
    then show ?thesis using R(3) that by (simp add: relinked_def)
  qed
  have sj: "po_sync (g_ObjPool D ! j) = Some False" using P(10) j by (auto simp: objs_ok_def)
  have objs: "objs_ok C ?q (set fs) (set as) (set (remove1 j ps)) (insert j ws) {}"
    unfolding set_remove1_eq [OF dps] using P(10) sj qj j nin jl
    by (intro objs_ok_wake) (simp_all add: objs_ok_data [OF relinked_data [OF R(3)]])
  have act: "active_ok C ?q (g_ActiveActionsBitmap D) (set as)"
    using P(11) nin(2) by (simp add: active_ok_data [OF relinked_data [OF R(3)]])
  have "pool_ok C ?D2 fs as (remove1 j ps) (insert j ws) {}"
  proof -
    have "(set ps - {j}) \<inter> set fs = {}" "(set ps - {j}) \<inter> set as = {}" using P(5) by auto
    then have "chain ?n q (g_FreePoolIdx D) fs" "chain ?n q (g_ActivePoolIdx D) as"
      using P(2,3) by (simp_all add: relinked_chain [OF R(3)])
    moreover have "set (fs @ as @ remove1 j ps) \<union> insert j ws \<union> {} = {..<?n}"
      using P(9) j dps by auto
    moreover have "insert j ws \<inter> set (fs @ as @ remove1 j ps) = {}" using P(5,6) nin dps by auto
    moreover have "distinct (fs @ as @ remove1 j ps)" using P(5) dps by auto
    moreover have "j \<notin> set (remove1 j ps)" using dps by simp
    ultimately show ?thesis
      using R(2,3) objs act nin unfolding pool_ok_def D2 by (simp add: relinked_def)
  qed
  moreover have "obj_key (?q ! k) = obj_key (g_ObjPool D ! k)" for k
    using obj_key_data [OF data] qj jl by (cases "k = j") (auto simp: obj_key_def)
  ultimately show ?thesis using rel Some others by (auto simp: D2)
qed

lemma active_ok_remove:
  assumes cfg: "cfg_ok C" and ids: "\<forall>j \<in> as. ids_ok C (po_ActionID (p ! j)) (po_AdditionalData (p ! j))"
    and ok: "active_ok C p bm as" and i: "i \<in> as"
  shows "active_ok C p (bm AND NOT (slot_bit C (p ! i))) (as - {i})"
proof -
  have sb: "bit (slot_bit C (p ! i)) k \<longleftrightarrow> k = slot C (p ! i)" for k
    using slot_bit_slot [OF cfg] ids i by simp
  have bits: "bit (bm AND NOT (slot_bit C (p ! i))) k \<longleftrightarrow> bit bm k \<and> k \<noteq> slot C (p ! i)" for k
    using bit_imp_le_length [of bm k] by (auto simp: bit_and_iff bit_not_iff sb possible_bit_word)
  show ?thesis
    unfolding active_ok_def bits
  proof (intro conjI ballI allI impI)
    fix j assume "j \<in> as - {i}" "\<not> multi C (p ! j)"
    then show "bit bm (slot C (p ! j))" "slot C (p ! j) \<noteq> slot C (p ! i)"
      using ok i by (auto simp: active_ok_def)
  next
    fix k assume "bit bm k \<and> k \<noteq> slot C (p ! i)"
    then show "\<exists>j \<in> as - {i}. slot C (p ! j) = k" using ok by (auto simp: active_ok_def)
  next
    fix j k assume "j \<in> as - {i}" "k \<in> as - {i}" "slot C (p ! j) = slot C (p ! k)"
    then show "j = k \<or> multi C (p ! j) \<and> multi C (p ! k)" using ok by (auto simp: active_ok_def)
  qed
qed

lemma release_active_ok:
  assumes cfg: "cfg_ok C" and ok: "pool_ok C D fs as ps ws {}" and ia: "i \<in> set as"
    and sync: "po_sync (g_ObjPool D ! i) = Some False"
  shows "\<exists>D'. release_active C i D = Some (0, D') \<and> pool_ok C D' (i # fs) (remove1 i as) ps ws {} \<and>
    \<not> g_ProtectionLock D' \<and> g_status D' = g_status D \<and>
    (\<forall>k. k \<noteq> i \<longrightarrow> obj_key (g_ObjPool D' ! k) = obj_key (g_ObjPool D ! k))"
proof -
  note P = pool_okD [OF ok]
  let ?n = "MAX_CONCURRENT_ACTIONS C" and ?p = "g_ObjPool D"
  have i: "i < ?n" "i < length ?p" using pool_ok_below [OF ok, of i] ia by simp_all
  have nin: "i \<notin> set fs" "i \<notin> set ps" "i \<notin> ws" using P(5,6) ia by auto
  have das: "distinct as" using P(5) by simp
  define bm where "bm = g_ActiveActionsBitmap D AND NOT (slot_bit C (?p ! i))"
  define p1 where "p1 = ?p[i := (?p ! i)\<lparr>po_pRespArgs := None, po_ActionID := 0,
                po_AdditionalData := SL_MAX_SOCKETS C\<rparr>]"
  have link: "po_NextIndex (p1 ! k) = po_NextIndex (?p ! k)" for k
    using i by (cases "k = i") (auto simp: p1_def)
  have len: "length p1 = ?n" using P(1) by (simp add: p1_def)
  have ch: "chain ?n p1 (g_ActivePoolIdx D) as" using P(3) by (simp add: chain_cong [OF link])
  from RemoveFromList_chain [OF ch das ia len refl] obtain l q where
    R: "SlDrvRemoveFromList C (g_ActivePoolIdx D) i p1 = Some (l, q)"
      "chain ?n q l (remove1 i as)" "relinked ?n (set as - {i}) p1 q" by blast
  let ?q = "q[i := (q ! i)\<lparr>po_NextIndex := g_FreePoolIdx D\<rparr>]"
  let ?D' = "D\<lparr>g_ActiveActionsBitmap := bm, g_ObjPool := ?q, g_ActivePoolIdx := l, g_FreePoolIdx := i,
      g_ProtectionLock := False, g_ApiInProgressCnt := g_ApiInProgressCnt D - 1\<rparr>"
  have rel: "release_active C i D = Some (0, ?D')"
    using R(1) by (simp add: release_active_def Let_def set_obj_def drv_lock_simps bm_def p1_def)
  have il: "i < length q" using R(3) i by (simp add: relinked_def)
  have data: "obj_data (?q ! k) = obj_data (p1 ! k)" for k
    using relinked_data [OF R(3)] il by (cases "k = i") (auto simp: obj_data_def)
  have qi: "?q ! k = ?p ! k" if "k \<notin> set as" for k
  proof -
    have "k \<noteq> i" using that ia by auto
    then show ?thesis using R(3) that by (simp add: relinked_def p1_def)
  qed
  have unch: "chain ?n ?q k xs = chain ?n ?p k xs" if "set xs \<inter> set as = {}" for k xs
    using that by (intro chain_cong arg_cong [where f = po_NextIndex] qi) auto
  have "objs_ok C p1 (set (i # fs)) (set (remove1 i as)) (set ps) ws {}"
    using P(10) nin das i sync by (auto simp: objs_ok_def p1_def nth_list_update)
  then have objs: "objs_ok C ?q (set (i # fs)) (set (remove1 i as)) (set ps) ws {}"
    by (simp add: objs_ok_data [OF data])
  have "active_ok C ?p bm (set as - {i})"
    unfolding bm_def using P(10) by (intro active_ok_remove [OF cfg _ P(11) ia]) (simp add: objs_ok_def)
  then have "active_ok C ?q bm (set (remove1 i as))"
    using das by (simp add: active_ok_data [OF data] p1_def)
  moreover have "chain ?n ?q i (i # fs)"
  proof -
    have "chain ?n ?q (g_FreePoolIdx D) fs"
      using P(2,5) by (subst unch) auto
    then show ?thesis using i il by simp
  qed
  moreover have "chain ?n ?q (g_PendingPoolIdx D) ps"
    using P(4,5) by (subst unch) auto
  moreover have "chain ?n ?q l (remove1 i as)" using R(2) das by simp
  moreover have "distinct ((i # fs) @ remove1 i as @ ps)" using P(5) nin das by auto
  moreover have "set ((i # fs) @ remove1 i as @ ps) \<union> ws \<union> {} = {..<?n}" using P(9) ia das by auto
  moreover have "ws \<inter> set ((i # fs) @ remove1 i as @ ps) = {}" using P(6) nin das by auto
  moreover have "length ?q = ?n" using R(3) by (simp add: relinked_def)
  ultimately have "pool_ok C ?D' (i # fs) (remove1 i as) ps ws {}"
    unfolding pool_ok_def using objs il by simp
  moreover have "obj_key (?q ! k) = obj_key (?p ! k)" if "k \<noteq> i" for k
    using obj_key_data [OF data, of k] that by (simp add: p1_def)
  ultimately show ?thesis using rel by simp
qed

subsection \<open>The calls\<close>

text \<open>Where an object \<open>i\<close> held by a call goes.\<close>

lemma pool_enter_ok:
  assumes cfg: "cfg_ok C" and ok: "pool_ok C D fs as ps ws {i}"
    and ad: "po_ActionID (g_ObjPool D ! i) = a" "po_AdditionalData (g_ObjPool D ! i) = sd"
    and sp: "spawn \<longrightarrow> chain (MAX_CONCURRENT_ACTIONS C) (g_ObjPool D) (po_NextIndex (g_ObjPool D ! i)) fs"
  shows "\<exists>w D'. pool_enter C spawn a sd i D = Some (w, D') \<and> \<not> g_ProtectionLock D' \<and> g_status D' = g_status D \<and>
    (w = PW_return (int (MAX_CONCURRENT_ACTIONS C)) \<and> spawn \<and> pool_ok C D' (i # fs) as ps ws {} \<or>
     w = PW_sleep i \<and> \<not> spawn \<and> pool_ok C D' fs as (i # ps) ws {} \<and> obj_data (g_ObjPool D' ! i) = obj_data (g_ObjPool D ! i) \<or>
     w = PW_return (int i) \<and> pool_ok C D' fs (i # as) ps ws {}) \<and> (\<forall>k. k \<noteq> i \<longrightarrow> g_ObjPool D' ! k = g_ObjPool D ! k)"
proof (cases "in_use C a sd (g_ActiveActionsBitmap D)")
  case True
  have i: "i < length (g_ObjPool D)" using pool_ok_below [OF ok, of i] by simp
  show ?thesis
  proof (cases spawn)
    case True
    with \<open>in_use C a sd (g_ActiveActionsBitmap D)\<close> enter_refused [OF ok] sp show ?thesis
      by (simp add: pool_enter_def SlDrvProtectionObjUnLock_def) (simp add: set_obj_def)
  next
    case False
    with \<open>in_use C a sd (g_ActiveActionsBitmap D)\<close> enter_sleep [OF ok] i show ?thesis
      by (simp add: pool_enter_def SlDrvProtectionObjUnLock_def) (simp add: set_obj_def obj_data_def)
  qed
next
  case False
  have "ids_ok C a sd" using pool_okD(10) [OF ok] ad by (auto simp: objs_ok_def)
  then have "(if SL_MAX_SOCKETS C > sd then id_bit sd else id_bit a) = slot_bit C (g_ObjPool D ! i)"
    using ad by (simp add: slot_bit_def sd_of_ok [OF cfg] ids_ok_def)
  with False enter_active [OF cfg ok] ad show ?thesis
    by (simp add: pool_enter_def drv_lock_simps Let_def) (simp add: set_obj_def)
qed

lemma SlDrvWaitForPoolObj_ok:
  assumes cfg: "cfg_ok C" and ok: "pool_ok C D fs as ps ws {}" and ids: "ids_ok C a sd"
    and unl: "\<not> g_ProtectionLock D"
  shows "\<exists>w D'. SlDrvWaitForPoolObj C spawn a sd D = Some (w, D') \<and> \<not> g_ProtectionLock D' \<and> g_status D' = g_status D \<and>
    (w = PW_return (int (MAX_CONCURRENT_ACTIONS C)) \<and> pool_ok C D' fs as ps ws {} \<or>
     (\<exists>i fs'. fs = i # fs' \<and> w = PW_sleep i \<and> \<not> spawn \<and> pool_ok C D' fs' as (i # ps) ws {} \<and>
        po_ActionID (g_ObjPool D' ! i) = a \<and> po_AdditionalData (g_ObjPool D' ! i) = sd) \<or>
     (\<exists>i fs'. fs = i # fs' \<and> w = PW_return (int i) \<and> pool_ok C D' fs' (i # as) ps ws {})) \<and>
    (\<forall>k. k \<notin> set fs \<longrightarrow> g_ObjPool D' ! k = g_ObjPool D ! k)"
proof (cases "MAX_CONCURRENT_ACTIONS C > g_FreePoolIdx D")
  case False
  with unl ok show ?thesis by (simp add: SlDrvWaitForPoolObj_def drv_lock_simps)
next
  case True
  let ?D = "D\<lparr>g_ProtectionLock := True\<rparr>"
  from pool_take_ok [of C ?D fs as ps ws a sd] ok ids True obtain i fs' D1 where
    T: "fs = i # fs'" "pool_take C a sd ?D = (i, D1)" "pool_ok C D1 fs' as ps ws {i}"
    "po_ActionID (g_ObjPool D1 ! i) = a" "po_AdditionalData (g_ObjPool D1 ! i) = sd"
    "chain (MAX_CONCURRENT_ACTIONS C) (g_ObjPool D1) (po_NextIndex (g_ObjPool D1 ! i)) fs'"
    "g_status D1 = g_status D" by auto
  have w: "SlDrvWaitForPoolObj C spawn a sd D = pool_enter C spawn a sd i D1"
    using True unl T(2) by (simp add: SlDrvWaitForPoolObj_def drv_lock_simps)
  have "g_ObjPool D1 ! k = g_ObjPool D ! k" if "k \<noteq> i" for k
    using T(2) that by (auto simp: pool_take_def Let_def set_obj_def split: if_splits)
  with pool_enter_ok [OF cfg T(3,4,5), of spawn] T w show ?thesis by (fastforce simp: obj_data_def)
qed

lemma SlDrvWaitForPoolObj_woken_ok:
  assumes cfg: "cfg_ok C" and ok: "pool_ok C D fs as ps ws {}" and unl: "\<not> g_ProtectionLock D"
    and i: "i \<in> ws" and ad: "po_ActionID (g_ObjPool D ! i) = a" "po_AdditionalData (g_ObjPool D ! i) = sd"
    and st: "\<not> stop_in_progress (g_status D)"
  shows "\<exists>w D'. SlDrvWaitForPoolObj_woken C a sd i D = Some (w, D') \<and> \<not> g_ProtectionLock D' \<and> g_status D' = g_status D \<and>
    (w = PW_sleep i \<and> pool_ok C D' fs as (i # ps) (ws - {i}) {} \<and>
        po_ActionID (g_ObjPool D' ! i) = a \<and> po_AdditionalData (g_ObjPool D' ! i) = sd \<or>
     w = PW_return (int i) \<and> pool_ok C D' fs (i # as) ps (ws - {i}) {}) \<and>
    (\<forall>k. k \<noteq> i \<longrightarrow> g_ObjPool D' ! k = g_ObjPool D ! k)"
proof -
  note P = pool_okD [OF ok]
  have il: "i < MAX_CONCURRENT_ACTIONS C" "i < length (g_ObjPool D)"
    using pool_ok_below [OF ok, of i] i by simp_all
  have nin: "i \<notin> set fs" "i \<notin> set as" "i \<notin> set ps" using P(6) i by auto
  let ?q = "(g_ObjPool D)[i := (g_ObjPool D ! i)\<lparr>po_sync := Some False\<rparr>]"
  let ?D1 = "D\<lparr>g_ObjPool := ?q, g_ProtectionLock := True\<rparr>"
  have "objs_ok C ?q (set fs) (set as) (set ps) (ws - {i}) {i}"
    using P(10) i il nin by (auto simp: objs_ok_def nth_list_update)
  then have ok1: "pool_ok C ?D1 fs as ps (ws - {i}) {i}"
    using P i nin by (auto simp: pool_ok_def insert_absorb)
  have "po_sync (g_ObjPool D ! i) = Some True" using P(10) i by (auto simp: objs_ok_def)
  then have w: "SlDrvWaitForPoolObj_woken C a sd i D = pool_enter C False a sd i ?D1"
    using st unl by (simp add: SlDrvWaitForPoolObj_woken_def drv_lock_simps Let_def set_obj_def)
  have "po_ActionID (g_ObjPool ?D1 ! i) = a" "po_AdditionalData (g_ObjPool ?D1 ! i) = sd" using ad il by simp_all
  from pool_enter_ok [OF cfg ok1 this, of False] w ad il show ?thesis by (auto simp: obj_data_def)
qed

lemma SlDrvReleasePoolObj_ok:
  fixes i :: nat
  assumes cfg: "cfg_ok C" and ok: "pool_ok C D fs as ps ws {}" and unl: "\<not> g_ProtectionLock D"
    and i: "i \<in> set as" and sync: "po_sync (g_ObjPool D ! i) = Some False"
    and st: "\<not> stop_in_progress (g_status D)"
  defines "pend \<equiv> find (\<lambda>j. wakes C (g_ObjPool D ! i) (g_ObjPool D ! j)) ps"
  shows "\<exists>D'. SlDrvReleasePoolObj C i D = Some (0, D') \<and> \<not> g_ProtectionLock D' \<and> g_status D' = g_status D \<and>
    pool_ok C D' (i # fs) (remove1 i as) (case pend of None \<Rightarrow> ps | Some j \<Rightarrow> remove1 j ps) (ws \<union> set_option pend) {} \<and>
    (\<forall>k. k \<noteq> i \<longrightarrow> obj_key (g_ObjPool D' ! k) = obj_key (g_ObjPool D ! k))"
proof -
  note P = pool_okD [OF ok]
  let ?D = "D\<lparr>g_ProtectionLock := True\<rparr>" and ?ob = "g_ObjPool D ! i"
  have ids: "ids_ok C (po_ActionID ?ob) (po_AdditionalData ?ob)" using P(10) i by (auto simp: objs_ok_def)
  have sd: "sd_of C ?ob = po_AdditionalData ?ob" using ids by (simp add: sd_of_ok [OF cfg] ids_ok_def)
  from release_pending_ok [of C ?D fs as ps ws i] ok obtain D2 where
    R: "release_pending C i ?D = Some D2" "pool_ok C D2 fs as (case pend of None \<Rightarrow> ps | Some j \<Rightarrow> remove1 j ps) (ws \<union> set_option pend) {}"
      "\<forall>k. k \<notin> set ps \<longrightarrow> g_ObjPool D2 ! k = g_ObjPool D ! k"
      "g_ActiveActionsBitmap D2 = g_ActiveActionsBitmap D" "g_status D2 = g_status D"
      "\<forall>k. obj_key (g_ObjPool D2 ! k) = obj_key (g_ObjPool D ! k)" by (auto simp: pend_def)
  have ob: "g_ObjPool D2 ! i = ?ob" using R(3) P(5) i by auto
  have bit: "bit (g_ActiveActionsBitmap D) (slot C ?ob)" if "\<not> multi C ?ob"
    using P(11) i that by (simp add: active_ok_def)
  have bits: "id_bit x AND g_ActiveActionsBitmap D = 0 \<longleftrightarrow> \<not> bit (g_ActiveActionsBitmap D) (unat x)" if "unat x < 32" for x
    using and_id_bit [OF that, of "g_ActiveActionsBitmap D"] by (metis and.commute)
  have rel: "SlDrvReleasePoolObj C i D = release_active C i D2"
  proof (cases "SL_MAX_SOCKETS C > po_AdditionalData ?ob")
    case True
    then have "\<not> multi C ?ob" "slot C ?ob = unat (po_AdditionalData ?ob)" by (simp_all add: multi_def slot_def)
    with bit slot_lt [OF cfg ids] bits [of "po_AdditionalData ?ob"] True show ?thesis
      using unl st by (simp add: SlDrvReleasePoolObj_def drv_lock_simps R ob sd)
  next
    case False
    then have s: "slot C ?ob = unat (po_ActionID ?ob)" by (simp add: slot_def)
    have "\<not> (id_bit (po_ActionID ?ob) AND g_ActiveActionsBitmap D = 0 \<and> SELECT_ID C \<noteq> po_ActionID ?ob)"
      using bit slot_lt [OF cfg ids] bits [of "po_ActionID ?ob"] s by (auto simp: multi_def)
    with False show ?thesis
      using unl st by (auto simp: SlDrvReleasePoolObj_def drv_lock_simps R ob sd)
  qed
  from release_active_ok [OF cfg R(2) i] sync ob rel R(5,6) show ?thesis by auto
qed

end
