(* ===== verification/DrvCtl.thy ===== *)
theory DrvCtl
  imports DrvPool
begin

text \<open>
  The control block's life, the rule which API may run, the global lock, fatal errors, waiting for
  an event with or without a timeout, and the requests to the spawn task
  (\<open>src/driver.c\<close>, \<open>src/spawn.c\<close>).
\<close>

subsection \<open>Creating and deleting the control block\<close>

definition zero_obj :: pool_obj where
  "zero_obj = \<lparr>po_NextIndex = 0, po_ActionID = 0, po_AdditionalData = 0, po_pRespArgs = None, po_sync = None\<rparr>"

text \<open>\<open>_SlDrvMemZero(g_pCB, sizeof(_SlDriverCb_t))\<close>: every field of the control block; the
  device status, the global lock and its counters, \<open>RxIrqCnt\<close> and the spawn task's block are
  variables of their own.\<close>

definition zero_cb :: "drvcfg \<Rightarrow> drv \<Rightarrow> drv" where
  "zero_cb C D = D\<lparr>g_ObjPool := replicate (MAX_CONCURRENT_ACTIONS C) zero_obj,
     g_FreePoolIdx := 0, g_PendingPoolIdx := 0, g_ActivePoolIdx := 0, g_ActiveActionsBitmap := 0,
     g_NumOfDeletedSyncObj := 0, g_ProtectionLock := False, g_ApiInProgressCnt := 0,
     g_TxLock := False, g_TxSync := False, g_TxPoolCnt := 0, g_MinTxPayloadSize := 0,
     g_SocketNonBlocking := 0, g_SocketTXFailure := 0, g_TriggerObjIdx := 0, g_WaitForCmdResp := False,
     g_CmdSync := False, g_RxDoneCnt := 0, g_TxSeqNum := 0, g_ActionIndex := 0, g_AsyncEvtHandler := None,
     g_spawnMsgList := [], g_pCmdCtrl := None, g_pTxRxDescBuff := None, g_pCmdExt := None,
     g_CtrlSockFD := 0, g_SelectSync := None, g_SelectStatus := 0, g_ActiveSelect := False,
     g_SelectEntry := replicate (MAX_CONCURRENT_ACTIONS C) False\<rparr>"

text \<open>The loop over the pool objects.\<close>

function init_objs :: "drvcfg \<Rightarrow> drvenv \<Rightarrow> nat \<Rightarrow> drv \<Rightarrow> int \<times> drv" where
  "init_objs C E Idx D =
     (if Idx < MAX_CONCURRENT_ACTIONS C
      then OSI_RET_OK_CHECK (os_call E ''sl_SyncObjCreate'' (set_obj Idx (\<lambda>ob. ob\<lparr>po_NextIndex := Idx + 1,
                               po_AdditionalData := SL_MAX_SOCKETS C\<rparr>) D))
             (\<lambda>D. init_objs C E (Idx + 1) (set_obj Idx (\<lambda>ob. ob\<lparr>po_sync := Some False\<rparr>) D))
      else (0, D))"
  by pat_completeness auto
termination by (relation "measure (\<lambda>(C, E, Idx, D). MAX_CONCURRENT_ACTIONS C - Idx)") auto

declare init_objs.simps [simp del]

definition SlDrvDriverCBInit :: "drvcfg \<Rightarrow> drvenv \<Rightarrow> drv \<Rightarrow> int \<times> drv" where
  "SlDrvDriverCBInit C E D0 =
     OSI_RET_OK_CHECK (os_call E ''sl_SyncObjCreate'' ((zero_cb C D0)\<lparr>g_RxIrqCnt := 0\<rparr>)) (\<lambda>D.
     OSI_RET_OK_CHECK (if g_GlobalLockInit D then (0, D)
                       else OSI_RET_OK_CHECK (os_call E ''sl_LockObjCreate'' D) (\<lambda>D.
                              (0, D\<lparr>g_GlobalLockInit := True\<rparr>))) (\<lambda>D.
     OSI_RET_OK_CHECK (os_call E ''sl_LockObjCreate'' D) (\<lambda>D.
     OSI_RET_OK_CHECK (init_objs C E 0 (D\<lparr>g_NumOfDeletedSyncObj := 0,
         g_TriggerObjIdx := (if slcb_SocketTrigger C then MAX_CONCURRENT_ACTIONS C else g_TriggerObjIdx D),
         g_ObjPool := replicate (MAX_CONCURRENT_ACTIONS C) zero_obj, g_FreePoolIdx := 0\<rparr>)) (\<lambda>D.
     OSI_RET_OK_CHECK (os_call E ''sl_LockObjCreate'' (D\<lparr>g_ActivePoolIdx := MAX_CONCURRENT_ACTIONS C,
         g_PendingPoolIdx := MAX_CONCURRENT_ACTIONS C, g_spawnMsgList := [], g_TxPoolCnt := FLOW_CONT_MIN C\<rparr>)) (\<lambda>D.
     OSI_RET_OK_CHECK (os_call E ''sl_SyncObjCreate'' D) (\<lambda>D.
     let D = D\<lparr>g_MinTxPayloadSize := 1536\<rparr>
     in if slcb_SocketTrigger C then (0, D)
        else OSI_RET_OK_CHECK (os_call E ''sl_LockObjCreate'' D) (\<lambda>D.
             OSI_RET_OK_CHECK (os_call E ''sl_SyncObjCreate'' D) (\<lambda>D.
               (0, D\<lparr>g_SelectSync := Some False, g_CtrlSockFD := 0xFF\<rparr>)))))))))"

definition free_items :: "spawn_item list \<Rightarrow> drv \<Rightarrow> drv" where
  "free_items its D = fold (\<lambda>it D. vcall (V_free 0) (vcall (V_free (length (si_Buffer it))) D)) its D"

text \<open>The second result: is \<open>g_pCB\<close> still set?\<close>

definition SlDrvDriverCBDeinit :: "drvcfg \<Rightarrow> drvenv \<Rightarrow> drv \<Rightarrow> int \<times> bool \<times> drv" where
  "SlDrvDriverCBDeinit C E D0 =
     (let (r, D) =
        OSI_RET_OK_CHECK (os_call E ''sl_LockObjDelete'' (D0\<lparr>g_TxPoolCnt := 0,
            g_status := (SL_SET_DEVICE_STATUS C 0 (g_status D0))\<lparr>device_started := False\<rparr>\<rparr>)) (\<lambda>D.
        OSI_RET_OK_CHECK (os_call E ''sl_SyncObjDelete'' D) (\<lambda>D.
        OSI_RET_OK_CHECK (if slcb_SocketTrigger C then (0, D)
            else OSI_RET_OK_CHECK (os_call E ''sl_LockObjDelete'' D) (os_call E ''sl_SyncObjDelete'')) (\<lambda>D.
        OSI_RET_OK_CHECK (os_call E ''sl_SyncObjDelete'' D) (os_call E ''sl_LockObjDelete''))))
      in if r \<noteq> 0 then (r, True, D)
         else (0, False, (free_items (g_spawnMsgList D) (D\<lparr>g_FreePoolIdx := 0,
                 g_PendingPoolIdx := MAX_CONCURRENT_ACTIONS C,
                 g_ActivePoolIdx := MAX_CONCURRENT_ACTIONS C\<rparr>))\<lparr>g_spawnMsgList := []\<rparr>))"

subsection \<open>Sync objects\<close>

datatype sync_id = S_pool nat | S_tx | S_cmd | S_spawn | S_select

fun get_sync :: "sync_id \<Rightarrow> drv \<Rightarrow> bool option" where
  "get_sync (S_pool i) D = po_sync (g_ObjPool D ! i)"
| "get_sync S_tx D = Some (g_TxSync D)"
| "get_sync S_cmd D = Some (g_CmdSync D)"
| "get_sync S_spawn D = Some (g_SpawnSync D)"
| "get_sync S_select D = g_SelectSync D"

fun set_sync :: "sync_id \<Rightarrow> bool \<Rightarrow> drv \<Rightarrow> drv" where
  "set_sync (S_pool i) b D = set_obj i (\<lambda>ob. ob\<lparr>po_sync := Some b\<rparr>) D"
| "set_sync S_tx b D = D\<lparr>g_TxSync := b\<rparr>"
| "set_sync S_cmd b D = D\<lparr>g_CmdSync := b\<rparr>"
| "set_sync S_spawn b D = D\<lparr>g_SpawnSync := b\<rparr>"
| "set_sync S_select b D = D\<lparr>g_SelectSync := Some b\<rparr>"

text \<open>A wait takes the signal. Without one a wait with a timeout gives the other threads the
  processor and fails when there is still none; a wait without a timeout does not return then.\<close>

definition SyncObjWait_NO_WAIT :: "drvcfg \<Rightarrow> sync_id \<Rightarrow> drv \<Rightarrow> int \<times> drv" where
  "SyncObjWait_NO_WAIT C s D = (if get_sync s D = Some True then (0, set_sync s False D) else (SL_OS_ERROR C, D))"

definition SyncObjWait :: "drvcfg \<Rightarrow> drvenv \<Rightarrow> sync_id \<Rightarrow> drv \<Rightarrow> int \<times> drv" where
  "SyncObjWait C E s D = SyncObjWait_NO_WAIT C s
     (if get_sync s D = Some True then D else others E (g_calls D) (vcall (V_os ''sl_SyncObjWait'') D))"

definition SlDrvSyncObjWaitForever :: "drvcfg \<Rightarrow> drvenv \<Rightarrow> sync_id \<Rightarrow> drv \<Rightarrow> (int \<times> drv) option" where
  "SlDrvSyncObjWaitForever C E s D =
     (let (RetVal, D1) = SyncObjWait C E s D
      in if RetVal \<noteq> 0 \<and> get_sync s D1 \<noteq> None then None
         else if restart_required (g_status D1) then Some (SL_API_ABORTED C, D1)
         else Some (RetVal, D1))"

subsection \<open>Requests to the spawn task\<close>

datatype spawn_flag = SL_SPAWN_FLAG_FROM_SL_IRQ_HANDLER | SL_SPAWN_FLAG_FROM_CMD_CTX | SL_SPAWN_FLAG_FROM_CMD_PROCESS

definition SlInternalSpawn :: "spawn_flag \<Rightarrow> drv \<Rightarrow> drv" where
  "SlInternalSpawn flags D =
     (if flags = SL_SPAWN_FLAG_FROM_SL_IRQ_HANDLER \<or> flags = SL_SPAWN_FLAG_FROM_CMD_CTX
      then D\<lparr>g_IrqWriteCnt := g_IrqWriteCnt D + 1, g_SpawnSync := True\<rparr>
      else D\<lparr>g_SpawnSync := True\<rparr>)"

definition SlDrvRxIrqHandler :: "drv \<Rightarrow> drv" where
  "SlDrvRxIrqHandler D0 =
     (let D = D0\<lparr>g_IrqMasked := True, g_RxIrqCnt := g_RxIrqCnt D0 + 1\<rparr>
      in if g_WaitForCmdResp D then D\<lparr>g_CmdSync := True\<rparr>
         else SlInternalSpawn SL_SPAWN_FLAG_FROM_SL_IRQ_HANDLER D)"

subsection \<open>Which API may run, and the global lock\<close>

definition SlDrvDriverIsApiAllowed :: "drvcfg \<Rightarrow> u16 \<Rightarrow> dev_status \<Rightarrow> int" where
  "SlDrvDriverIsApiAllowed C Silo st =
     (if command_allowed st then 0
      else if stop_in_progress st then SL_RET_CODE_STOP_IN_PROGRESS C
      else if device_locked st \<and> SL_OPCODE_SILO_FS C \<noteq> Silo then SL_RET_CODE_DEV_LOCKED C
      else if restart_required st then SL_API_ABORTED C
      else if \<not> device_started st then SL_RET_CODE_DEV_NOT_STARTED C
      else if (provisioning_active st \<or> provisioning_by_user st) \<and> \<not> provisioning_api_allowed st
           then SL_RET_CODE_PROVISIONING_IN_PROGRESS C
      else 0)"

definition SlDrvGlobalObjUnLock :: "bool \<Rightarrow> drv \<Rightarrow> drv option" where
  "SlDrvGlobalObjUnLock bDecrementApiInProgress D =
     (let D1 = D\<lparr>g_GlobalLockCntReleased := g_GlobalLockCntReleased D + 1, g_GlobalLock := False\<rparr>
      in if bDecrementApiInProgress then SlDrvUpdateApiInProgress (-1) D1 else Some D1)"

definition SlDrvObjGlobalLockWaitForever :: "drvcfg \<Rightarrow> u32 \<Rightarrow> drv \<Rightarrow> (int \<times> drv) option" where
  "SlDrvObjGlobalLockWaitForever C Flags D0 =
     (let UpdateApiInProgress = ucast (Flags AND GLOBAL_LOCK_FLAGS_UPDATE_API_IN_PROGRESS C) :: u8;
          IsProvStopApi = ucast (Flags AND GLOBAL_LOCK_FLAGS_PROVISIONING_STOP_API C) :: u16
      in if restart_required (g_status D0) then Some (SL_API_ABORTED C, D0)
         else if g_GlobalLock D0 then None
         else
           let D = D0\<lparr>g_GlobalLockCntRequested := g_GlobalLockCntRequested D0 + 1, g_GlobalLock := True\<rparr>;
               st = g_status D;
               Opcode = ucast (drop_bit 16 Flags) :: u16;
               Silo = Opcode AND push_bit (SL_OPCODE_SILO_OFFSET C) 0xF;
               Status = SlDrvDriverIsApiAllowed C Silo st
           in if start_in_progress st \<or> stop_in_progress st \<or> provisioning_in_progress st then Some (0, D)
              else if Opcode \<noteq> opcode C ''SL_OPCODE_DEVICE_STOP_COMMAND'' \<and> Status \<noteq> 0
              then Some (Status, D\<lparr>g_GlobalLock := False\<rparr>)
              else if UpdateApiInProgress = 0 then Some (0, D)
              else if \<not> provisioning_active st \<or> provisioning_api_allowed st
              then map_option (Pair 0) (SlDrvUpdateApiInProgress 1 D)
              else if IsProvStopApi = 0
              then map_option (Pair (SL_RET_CODE_PROVISIONING_IN_PROGRESS C)) (SlDrvGlobalObjUnLock True D)
              else Some (0, D))"

text \<open>\<open>_SlDrvCmdSend\<close> and the macro \<open>SL_DRV_OBJ_LOCK_FOREVER\<close> lock without a check.\<close>

definition SlDrvObjLockWaitForever_Global :: "drv \<Rightarrow> drv option" where
  "SlDrvObjLockWaitForever_Global D = (if g_GlobalLock D then None else Some (D\<lparr>g_GlobalLock := True\<rparr>))"

definition SlDrvObjLockWaitForever_Tx :: "drv \<Rightarrow> drv option" where
  "SlDrvObjLockWaitForever_Tx D = (if g_TxLock D then None else Some (D\<lparr>g_TxLock := True\<rparr>))"

subsection \<open>Fatal errors\<close>

definition fatal_event :: "drvcfg \<Rightarrow> u32 \<Rightarrow> u32 \<Rightarrow> u32 \<Rightarrow> drv_call" where
  "fatal_event C errorId info1 info2 =
     (if errorId = fatal_id C ''SL_DEVICE_EVENT_FATAL_DEVICE_ABORT'' then V_fatal_event errorId info1 info2
      else if errorId = fatal_id C ''SL_DEVICE_EVENT_FATAL_NO_CMD_ACK'' \<or>
              errorId = fatal_id C ''SL_DEVICE_EVENT_FATAL_CMD_TIMEOUT''
      then V_fatal_event errorId info1 0
      else V_fatal_event errorId 0 0)"

definition SlDrvHandleFatalError :: "drvcfg \<Rightarrow> u32 \<Rightarrow> u32 \<Rightarrow> u32 \<Rightarrow> drv \<Rightarrow> drv" where
  "SlDrvHandleFatalError C errorId info1 info2 D =
     (if restart_required (g_status D) then D
      else
        let D1 = D\<lparr>g_status := (g_status D)\<lparr>restart_required := True\<rparr>\<rparr>;
            D2 = fold signal_obj [0..<MAX_CONCURRENT_ACTIONS C] D1
        in if silo_registered C ''slcb_DeviceFatalErrorEvtHdlr''
           then vcall (fatal_event C errorId info1 info2) D2 else D2)"

definition SlDrvSyncObjWaitTimeout ::
    "drvcfg \<Rightarrow> drvenv \<Rightarrow> sync_id \<Rightarrow> u32 \<Rightarrow> u16 \<Rightarrow> drv \<Rightarrow> int \<times> drv" where
  "SlDrvSyncObjWaitTimeout C E s timeoutVal asyncEventOpcode D =
     (let (ret, D1) = SyncObjWait C E s D
      in if ret \<noteq> 0
         then (SL_API_ABORTED C, SlDrvHandleFatalError C (fatal_id C ''SL_DEVICE_EVENT_FATAL_CMD_TIMEOUT'')
                 (ucast asyncEventOpcode) timeoutVal D1)
         else if restart_required (g_status D1) then (SL_API_ABORTED C, D1)
         else (0, D1))"

subsection \<open>Measuring time\<close>

record timeout_params =
  Total10MSecUnits :: u32
  TSPrev :: u32
  TSCurr :: u32
  DeltaTicks :: u32
  DeltaTicksReminder :: u32

definition slcb_GetTimestamp :: "drvenv \<Rightarrow> drv \<Rightarrow> u32 \<times> drv" where
  "slcb_GetTimestamp E D = (get_timestamp E (g_calls D), vcall V_tick D)"

definition SlDrvStartMeasureTimeout :: "drvenv \<Rightarrow> u32 \<Rightarrow> drv \<Rightarrow> timeout_params \<times> drv" where
  "SlDrvStartMeasureTimeout E TimeoutInMsec D =
     (let (t, D1) = slcb_GetTimestamp E D
      in (\<lparr>Total10MSecUnits = TimeoutInMsec div 10, TSPrev = t, TSCurr = 0, DeltaTicks = 0, DeltaTicksReminder = 0\<rparr>,
          D1))"

text \<open>The step at time \<open>now\<close>; the units left are a signed number.\<close>

definition timeout_step :: "drvcfg \<Rightarrow> u32 \<Rightarrow> timeout_params \<Rightarrow> bool \<times> timeout_params" where
  "timeout_step C now p0 =
     (let T = SL_TIMESTAMP_TICKS_IN_10_MILLISECONDS C;
          d = (if now \<ge> TSPrev p0 then now - TSPrev p0 else (SL_TIMESTAMP_MAX_VALUE C - TSPrev p0) + now);
          p = p0\<lparr>TSCurr := now, DeltaTicks := d\<rparr>;
          TSCount = DeltaTicksReminder p + d
      in if TSCount > T
         then let p1 = p\<lparr>Total10MSecUnits := Total10MSecUnits p - TSCount div T,
                        DeltaTicksReminder := TSCount mod T\<rparr>
              in if sint (Total10MSecUnits p1) > 0 then (False, p1\<lparr>TSPrev := TSCurr p1\<rparr>) else (True, p1)
         else (False, p))"

definition SlDrvIsTimeoutExpired :: "drvcfg \<Rightarrow> drvenv \<Rightarrow> timeout_params \<Rightarrow> drv \<Rightarrow> bool \<times> timeout_params \<times> drv" where
  "SlDrvIsTimeoutExpired C E p D =
     (let (t, D1) = slcb_GetTimestamp E D; (b, p') = timeout_step C t p in (b, p', D1))"

partial_function (option) sleep_loop :: "drvcfg \<Rightarrow> drvenv \<Rightarrow> timeout_params \<Rightarrow> drv \<Rightarrow> drv option" where
  "sleep_loop C E p D =
     (let (b, p', D') = SlDrvIsTimeoutExpired C E p D in if b then Some D' else sleep_loop C E p' D')"

declare sleep_loop.simps [code]

definition SlDrvSleep :: "drvcfg \<Rightarrow> drvenv \<Rightarrow> u16 \<Rightarrow> drv \<Rightarrow> drv option" where
  "SlDrvSleep C E DurationInMsec D =
     (let (p, D1) = SlDrvStartMeasureTimeout E (ucast DurationInMsec) D in sleep_loop C E p D1)"

end
