(* ===== verification/DrvPoolSys.thy ===== *)
theory DrvPoolSys
  imports DrvPoolOps DrvCtl
begin

text \<open>
  The pool under any sequence of calls, by any number of threads. Each operation of the pool runs
  under the protection lock, so the steps of the system are whole calls: a call that asks for an
  object, a sleeper that has been woken, the release by the owner, the event that signals an active
  object, and the owner's wait for it. The system remembers who sleeps on which object for which
  action and socket, and who owns which.
\<close>

subsection \<open>The start\<close>

definition init_obj :: "drvcfg \<Rightarrow> nat \<Rightarrow> pool_obj" where
  "init_obj C j = \<lparr>po_NextIndex = j + 1, po_ActionID = 0, po_AdditionalData = SL_MAX_SOCKETS C,
     po_pRespArgs = None, po_sync = Some False\<rparr>"

lemma init_objs_ok:
  assumes "init_objs C E i D = (0, D')" and "length (g_ObjPool D) = MAX_CONCURRENT_ACTIONS C"
    and "\<forall>j < MAX_CONCURRENT_ACTIONS C. g_ObjPool D ! j = (if j < i then init_obj C j else zero_obj)"
    and "i \<le> MAX_CONCURRENT_ACTIONS C"
  shows "\<exists>k. D' = D\<lparr>g_ObjPool := map (init_obj C) [0..<MAX_CONCURRENT_ACTIONS C], g_calls := k\<rparr>"
  using assms
proof (induction C E i D rule: init_objs.induct)
  case (1 C E i D)
  show ?case
  proof (cases "i < MAX_CONCURRENT_ACTIONS C")
    case True
    define D1 where "D1 = D\<lparr>g_ObjPool := (g_ObjPool D)[i := init_obj C i], g_calls := V_os ''sl_SyncObjCreate'' # g_calls D\<rparr>"
    have D1: "set_obj i (\<lambda>ob. ob\<lparr>po_sync := Some False\<rparr>)
      (snd (os_call E ''sl_SyncObjCreate'' (set_obj i (\<lambda>ob. ob\<lparr>po_NextIndex := i + 1,
         po_AdditionalData := SL_MAX_SOCKETS C\<rparr>) D))) = D1"
      using 1(4,3) True by (simp add: D1_def set_obj_def os_call_def vcall_def init_obj_def zero_obj_def)
    then have r: "init_objs C E (i + 1) D1 = (0, D')"
      using "1.prems"(1) True init_objs.simps [of C E i D]
      by (auto simp: OSI_RET_OK_CHECK_def split: if_splits)
    then have "init_objs C E (i + 1) (set_obj i (\<lambda>ob. ob\<lparr>po_sync := Some False\<rparr>)
      (snd (os_call E ''sl_SyncObjCreate'' (set_obj i (\<lambda>ob. ob\<lparr>po_NextIndex := i + 1,
         po_AdditionalData := SL_MAX_SOCKETS C\<rparr>) D)))) = (0, D')" by (simp only: D1)
    from "1.IH" [OF True, OF this] "1.prems" True
    show ?thesis unfolding D1 by (auto simp: D1_def nth_list_update)
  next
    case False
    then have "D' = D" "g_ObjPool D = map (init_obj C) [0..<MAX_CONCURRENT_ACTIONS C]"
      using 1 init_objs.simps [of C E i D] by (auto intro!: nth_equalityI)
    then have "D' = D\<lparr>g_ObjPool := map (init_obj C) [0..<MAX_CONCURRENT_ACTIONS C], g_calls := g_calls D\<rparr>"
      by simp
    then show ?thesis by blast
  qed
qed

lemma chain_upt: "i \<le> n \<Longrightarrow> chain n (map (init_obj C) [0..<n]) i [i..<n]"
proof (induction "n - i" arbitrary: i)
  case (Suc m)
  then have "chain n (map (init_obj C) [0..<n]) (Suc i) [Suc i..<n]" "i < n" by auto
  moreover from this have "po_NextIndex (map (init_obj C) [0..<n] ! i) = Suc i" by (simp add: init_obj_def)
  ultimately show ?case by (simp add: upt_conv_Cons [of i n])
qed simp

lemma pool_ok_init:
  assumes "g_ObjPool D = map (init_obj C) [0..<MAX_CONCURRENT_ACTIONS C]" and "g_FreePoolIdx D = 0"
    and "g_ActivePoolIdx D = MAX_CONCURRENT_ACTIONS C" and "g_PendingPoolIdx D = MAX_CONCURRENT_ACTIONS C"
    and "g_ActiveActionsBitmap D = 0"
  shows "pool_ok C D [0..<MAX_CONCURRENT_ACTIONS C] [] [] {} {}"
  using assms chain_upt [of 0 "MAX_CONCURRENT_ACTIONS C" C]
  by (auto simp: pool_ok_def Let_def objs_ok_def active_ok_def init_obj_def)

lemma OSI_RET_OK_CHECK_E:
  assumes "OSI_RET_OK_CHECK m f = (0, D)" obtains D1 where "m = (0, D1)" and "f D1 = (0, D)"
  using assms by (cases m) (auto simp: OSI_RET_OK_CHECK_def split: if_splits)

lemma os_call_Ok: "os_call E s D = (0, D1) \<Longrightarrow> D1 = D\<lparr>g_calls := V_os s # g_calls D\<rparr>"
  by (simp add: os_call_def vcall_def)

lemma init_objs_all:
  assumes "init_objs C E 0 D = (0, D')" and "g_ObjPool D = replicate (MAX_CONCURRENT_ACTIONS C) zero_obj"
  obtains k where "D' = D\<lparr>g_ObjPool := map (init_obj C) [0..<MAX_CONCURRENT_ACTIONS C], g_calls := k\<rparr>"
  using init_objs_ok [of C E 0 D D'] assms by auto

text \<open>What the pool needs of the control block.\<close>

definition fresh_cb :: "drvcfg \<Rightarrow> drv \<Rightarrow> drv \<Rightarrow> bool" where
  "fresh_cb C D0 D \<longleftrightarrow> g_FreePoolIdx D = 0 \<and> g_ActiveActionsBitmap D = 0 \<and> \<not> g_ProtectionLock D \<and>
     g_status D = g_status D0 \<and> g_NumOfDeletedSyncObj D = 0"

lemma fresh_cb_simps [simp]:
  "fresh_cb C D0 (D\<lparr>g_calls := k\<rparr>) = fresh_cb C D0 D" "fresh_cb C D0 (D\<lparr>g_ObjPool := p\<rparr>) = fresh_cb C D0 D"
  "fresh_cb C D0 (D\<lparr>g_GlobalLockInit := b\<rparr>) = fresh_cb C D0 D"
  "fresh_cb C D0 (D\<lparr>g_TriggerObjIdx := i\<rparr>) = fresh_cb C D0 D"
  "fresh_cb C D0 (D\<lparr>g_ActivePoolIdx := j\<rparr>) = fresh_cb C D0 D"
  "fresh_cb C D0 (D\<lparr>g_PendingPoolIdx := j\<rparr>) = fresh_cb C D0 D"
  "fresh_cb C D0 (D\<lparr>g_spawnMsgList := l\<rparr>) = fresh_cb C D0 D"
  "fresh_cb C D0 (D\<lparr>g_TxPoolCnt := c\<rparr>) = fresh_cb C D0 D"
  "fresh_cb C D0 (D\<lparr>g_MinTxPayloadSize := m\<rparr>) = fresh_cb C D0 D"
  "fresh_cb C D0 (D\<lparr>g_SelectSync := sel\<rparr>) = fresh_cb C D0 D"
  "fresh_cb C D0 (D\<lparr>g_CtrlSockFD := sd\<rparr>) = fresh_cb C D0 D"
  "fresh_cb C D0 ((zero_cb C D0)\<lparr>g_RxIrqCnt := r\<rparr>)"
  by (simp_all add: fresh_cb_def zero_cb_def)

lemma CBInit_ok:
  assumes "SlDrvDriverCBInit C E D0 = (0, D)"
  shows "pool_ok C D [0..<MAX_CONCURRENT_ACTIONS C] [] [] {} {}" and "fresh_cb C D0 D"
proof -
  let ?n = "MAX_CONCURRENT_ACTIONS C"
  from assms obtain D1 D2 D3 D4 D5 D6 where
    1: "os_call E ''sl_SyncObjCreate'' ((zero_cb C D0)\<lparr>g_RxIrqCnt := 0\<rparr>) = (0, D1)" and
    2: "(if g_GlobalLockInit D1 then (0, D1)
         else OSI_RET_OK_CHECK (os_call E ''sl_LockObjCreate'' D1) (\<lambda>D. (0, D\<lparr>g_GlobalLockInit := True\<rparr>))) = (0, D2)" and
    3: "os_call E ''sl_LockObjCreate'' D2 = (0, D3)" and
    4: "init_objs C E 0 (D3\<lparr>g_NumOfDeletedSyncObj := 0,
         g_TriggerObjIdx := (if slcb_SocketTrigger C then ?n else g_TriggerObjIdx D3),
         g_ObjPool := replicate ?n zero_obj, g_FreePoolIdx := 0\<rparr>) = (0, D4)" and
    5: "os_call E ''sl_LockObjCreate'' (D4\<lparr>g_ActivePoolIdx := ?n,
         g_PendingPoolIdx := ?n, g_spawnMsgList := [], g_TxPoolCnt := FLOW_CONT_MIN C\<rparr>) = (0, D5)" and
    6: "os_call E ''sl_SyncObjCreate'' D5 = (0, D6)" and
    7: "(let D = D6\<lparr>g_MinTxPayloadSize := 1536\<rparr>
         in if slcb_SocketTrigger C then (0, D)
            else OSI_RET_OK_CHECK (os_call E ''sl_LockObjCreate'' D) (\<lambda>D.
              OSI_RET_OK_CHECK (os_call E ''sl_SyncObjCreate'' D) (\<lambda>D.
                (0, D\<lparr>g_SelectSync := Some False, g_CtrlSockFD := 0xFF\<rparr>)))) = (0, D)"
    unfolding SlDrvDriverCBInit_def by (elim OSI_RET_OK_CHECK_E) (erule (6) that)
  have "fresh_cb C D0 D1" by (simp add: os_call_Ok [OF 1])
  with 2 have "fresh_cb C D0 D2"
    by (cases "g_GlobalLockInit D1") (auto elim!: OSI_RET_OK_CHECK_E dest!: os_call_Ok)
  then have f3: "fresh_cb C D0 D3" by (simp add: os_call_Ok [OF 3])
  define D3' where "D3' = D3\<lparr>g_NumOfDeletedSyncObj := 0,
      g_TriggerObjIdx := (if slcb_SocketTrigger C then ?n else g_TriggerObjIdx D3),
      g_ObjPool := replicate ?n zero_obj, g_FreePoolIdx := 0\<rparr>"
  have "g_ObjPool D3' = replicate ?n zero_obj" "fresh_cb C D0 D3'"
    using f3 by (simp_all add: D3'_def fresh_cb_def)
  moreover from this obtain k where "D4 = D3'\<lparr>g_ObjPool := map (init_obj C) [0..<?n], g_calls := k\<rparr>"
    using init_objs_all [OF 4 [folded D3'_def]] by blast
  ultimately have f4: "fresh_cb C D0 D4" and p4: "g_ObjPool D4 = map (init_obj C) [0..<?n]" by simp_all
  have D6: "g_ObjPool D6 = g_ObjPool D4" "g_ActivePoolIdx D6 = ?n" "g_PendingPoolIdx D6 = ?n" "fresh_cb C D0 D6"
    using f4 by (simp_all add: os_call_Ok [OF 5] os_call_Ok [OF 6])
  have "g_ObjPool D = g_ObjPool D6 \<and> g_ActivePoolIdx D = g_ActivePoolIdx D6 \<and>
      g_PendingPoolIdx D = g_PendingPoolIdx D6 \<and> fresh_cb C D0 D"
  proof (cases "slcb_SocketTrigger C")
    case True
    then show ?thesis using 7 D6(4) by (auto simp: Let_def)
  next
    case False
    with 7 obtain D7 D8 where
      "os_call E ''sl_LockObjCreate'' (D6\<lparr>g_MinTxPayloadSize := 1536\<rparr>) = (0, D7)"
      "os_call E ''sl_SyncObjCreate'' D7 = (0, D8)" "D = D8\<lparr>g_SelectSync := Some False, g_CtrlSockFD := 0xFF\<rparr>"
      by (auto simp: Let_def elim!: OSI_RET_OK_CHECK_E)
    then show ?thesis using D6(4) by (auto dest!: os_call_Ok)
  qed
  then show "pool_ok C D [0..<?n] [] [] {} {}" "fresh_cb C D0 D"
    using D6 p4 by (auto intro!: pool_ok_init simp: fresh_cb_def)
qed

subsection \<open>The steps\<close>

record pool_sys =
  ps_drv :: drv
  ps_wait :: "nat \<Rightarrow> (u8 \<times> u8) option"
  ps_own :: "nat set"

text \<open>What the caller of \<open>SlDrvWaitForPoolObj\<close> does with the answer.\<close>

definition after_wait :: "drvcfg \<Rightarrow> u8 \<Rightarrow> u8 \<Rightarrow> pool_wait \<Rightarrow> pool_sys \<Rightarrow> pool_sys" where
  "after_wait C a sd w s =
     (case w of
        PW_sleep i \<Rightarrow> s\<lparr>ps_wait := (ps_wait s)(i \<mapsto> (a, sd))\<rparr>
      | PW_return r \<Rightarrow> (if 0 \<le> r \<and> r < int (MAX_CONCURRENT_ACTIONS C)
                       then s\<lparr>ps_own := insert (nat r) (ps_own s)\<rparr> else s))"

inductive pool_step :: "drvcfg \<Rightarrow> pool_sys \<Rightarrow> pool_sys \<Rightarrow> bool" for C where
  ps_call: "ids_ok C a sd \<Longrightarrow> SlDrvWaitForPoolObj C spawn a sd (ps_drv s) = Some (w, D) \<Longrightarrow>
    pool_step C s (after_wait C a sd w (s\<lparr>ps_drv := D\<rparr>))"
| ps_woken: "ps_wait s i = Some (a, sd) \<Longrightarrow> po_sync (g_ObjPool (ps_drv s) ! i) = Some True \<Longrightarrow>
    SlDrvWaitForPoolObj_woken C a sd i (ps_drv s) = Some (w, D) \<Longrightarrow>
    pool_step C s (after_wait C a sd w (s\<lparr>ps_drv := D, ps_wait := (ps_wait s)(i := None)\<rparr>))"
| ps_release: "i \<in> ps_own s \<Longrightarrow> po_sync (g_ObjPool (ps_drv s) ! i) = Some False \<Longrightarrow>
    SlDrvReleasePoolObj C i (ps_drv s) = Some (r, D) \<Longrightarrow>
    pool_step C s (s\<lparr>ps_drv := D, ps_own := ps_own s - {i}\<rparr>)"
| ps_event: "i \<in> ps_own s \<Longrightarrow> pool_step C s (s\<lparr>ps_drv := signal_obj i (ps_drv s)\<rparr>)"
| ps_wait_event: "i \<in> ps_own s \<Longrightarrow> SyncObjWait_NO_WAIT C (S_pool i) (ps_drv s) = (0, D) \<Longrightarrow>
    pool_step C s (s\<lparr>ps_drv := D\<rparr>)"
| ps_set_args: "i \<in> ps_own s \<Longrightarrow> pool_step C s
    (s\<lparr>ps_drv := set_obj i (\<lambda>ob. ob\<lparr>po_pRespArgs := x\<rparr>) (ps_drv s)\<rparr>)"

inductive_cases pool_stepE: "pool_step C s t"

definition pool_start :: "drvcfg \<Rightarrow> drvenv \<Rightarrow> pool_sys \<Rightarrow> bool" where
  "pool_start C E s \<longleftrightarrow> cfg_ok C \<and> (\<exists>D0 D. SlDrvDriverCBInit C E D0 = (0, D) \<and>
     \<not> stop_in_progress (g_status D0) \<and> s = \<lparr>ps_drv = D, ps_wait = (\<lambda>_. None), ps_own = {}\<rparr>)"

text \<open>The invariant. The owners are the active objects, the sleepers and the woken ones hold the
  others that are not free.\<close>

definition pool_sys_ok :: "drvcfg \<Rightarrow> pool_sys \<Rightarrow> nat list \<Rightarrow> nat list \<Rightarrow> nat list \<Rightarrow> nat set \<Rightarrow> bool" where
  "pool_sys_ok C s fs as ps ws \<longleftrightarrow> cfg_ok C \<and> pool_ok C (ps_drv s) fs as ps ws {} \<and>
     \<not> g_ProtectionLock (ps_drv s) \<and> \<not> stop_in_progress (g_status (ps_drv s)) \<and> ps_own s = set as \<and>
     dom (ps_wait s) = set ps \<union> ws \<and>
     (\<forall>i a sd. ps_wait s i = Some (a, sd) \<longrightarrow>
        po_ActionID (g_ObjPool (ps_drv s) ! i) = a \<and> po_AdditionalData (g_ObjPool (ps_drv s) ! i) = sd)"

definition pool_inv :: "drvcfg \<Rightarrow> pool_sys \<Rightarrow> bool" where
  "pool_inv C s \<longleftrightarrow> (\<exists>fs as ps ws. pool_sys_ok C s fs as ps ws)"

lemma pool_inv_start: "pool_start C E s \<Longrightarrow> pool_inv C s"
  using CBInit_ok by (fastforce simp: pool_start_def pool_inv_def pool_sys_ok_def fresh_cb_def)

text \<open>An owner's write into its own object.\<close>

lemma pool_ok_owner:
  assumes "pool_ok C D fs as ps ws {}" and "i \<in> set as"
    and "po_NextIndex ob = po_NextIndex (g_ObjPool D ! i)" and "po_ActionID ob = po_ActionID (g_ObjPool D ! i)"
    and "po_AdditionalData ob = po_AdditionalData (g_ObjPool D ! i)" and "po_sync ob \<noteq> None"
  shows "pool_ok C (D\<lparr>g_ObjPool := (g_ObjPool D)[i := ob]\<rparr>) fs as ps ws {}"
proof -
  note P = pool_okD [OF assms(1)]
  let ?q = "(g_ObjPool D)[i := ob]"
  have nin: "i \<notin> set fs" "i \<notin> set ps" "i \<notin> ws" using P(5,6) assms(2) by auto
  have il: "i < length (g_ObjPool D)" using pool_ok_below [OF assms(1), of i] assms(2) by simp
  have link: "po_NextIndex (?q ! j) = po_NextIndex (g_ObjPool D ! j)" for j
    using assms(3) il by (cases "j = i") simp_all
  have key: "slot C (?q ! j) = slot C (g_ObjPool D ! j)" "multi C (?q ! j) = multi C (g_ObjPool D ! j)" for j
    using assms(4,5) il by (cases "j = i"; simp add: slot_def multi_def)+
  have "objs_ok C ?q (set fs) (set as) (set ps) ws {}"
    using P(10) nin assms(4-6) il by (auto simp: objs_ok_def nth_list_update)
  moreover have "active_ok C ?q (g_ActiveActionsBitmap D) (set as)" using P(11) by (simp add: active_ok_def key)
  ultimately show ?thesis using P by (simp add: pool_ok_def chain_cong [OF link])
qed

lemma pool_sys_okD:
  assumes "pool_sys_ok C s fs as ps ws"
  shows "cfg_ok C" and "pool_ok C (ps_drv s) fs as ps ws {}" and "\<not> g_ProtectionLock (ps_drv s)"
    and "\<not> stop_in_progress (g_status (ps_drv s))" and "ps_own s = set as" and "dom (ps_wait s) = set ps \<union> ws"
    and "\<And>i a sd. ps_wait s i = Some (a, sd) \<Longrightarrow>
      po_ActionID (g_ObjPool (ps_drv s) ! i) = a \<and> po_AdditionalData (g_ObjPool (ps_drv s) ! i) = sd"
  using assms by (simp_all add: pool_sys_ok_def)

lemma pool_sys_call:
  assumes ok: "pool_sys_ok C s fs as ps ws" and ids: "ids_ok C a sd"
  obtains w D where "SlDrvWaitForPoolObj C spawn a sd (ps_drv s) = Some (w, D)"
    and "w = PW_return (int (MAX_CONCURRENT_ACTIONS C)) \<and>
         pool_sys_ok C (after_wait C a sd w (s\<lparr>ps_drv := D\<rparr>)) fs as ps ws \<or>
      (\<exists>i fs'. fs = i # fs' \<and> w = PW_sleep i \<and> \<not> spawn \<and>
         pool_sys_ok C (after_wait C a sd w (s\<lparr>ps_drv := D\<rparr>)) fs' as (i # ps) ws) \<or>
      (\<exists>i fs'. fs = i # fs' \<and> w = PW_return (int i) \<and>
         pool_sys_ok C (after_wait C a sd w (s\<lparr>ps_drv := D\<rparr>)) fs' (i # as) ps ws)"
proof -
  note S = pool_sys_okD [OF ok]
  from SlDrvWaitForPoolObj_ok [OF S(1,2) ids S(3), of spawn] obtain w D where
    w: "SlDrvWaitForPoolObj C spawn a sd (ps_drv s) = Some (w, D)" "\<not> g_ProtectionLock D"
      "g_status D = g_status (ps_drv s)" and
    out: "w = PW_return (int (MAX_CONCURRENT_ACTIONS C)) \<and> pool_ok C D fs as ps ws {} \<or>
     (\<exists>i fs'. fs = i # fs' \<and> w = PW_sleep i \<and> \<not> spawn \<and> pool_ok C D fs' as (i # ps) ws {} \<and>
        po_ActionID (g_ObjPool D ! i) = a \<and> po_AdditionalData (g_ObjPool D ! i) = sd) \<or>
     (\<exists>i fs'. fs = i # fs' \<and> w = PW_return (int i) \<and> pool_ok C D fs' (i # as) ps ws {})" and
    same: "\<forall>k. k \<notin> set fs \<longrightarrow> g_ObjPool D ! k = g_ObjPool (ps_drv s) ! k" by blast
  have "k \<notin> set fs" if "ps_wait s k \<noteq> None" for k
    using that S(6) pool_okD(5,6) [OF S(2)] by (auto simp: dom_def set_eq_iff)
  then have data: "po_ActionID (g_ObjPool D ! k) = b \<and> po_AdditionalData (g_ObjPool D ! k) = e"
    if "ps_wait s k = Some (b, e)" for k b e using that S(7) same by simp
  have i: "i < MAX_CONCURRENT_ACTIONS C" if "fs = i # fs'" for i fs'
    using pool_ok_below [OF S(2), of i] that by simp
  have ok': "pool_sys_ok C (after_wait C a sd w (s\<lparr>ps_drv := D\<rparr>)) fs' as' ps' ws"
    if "pool_ok C D fs' as' ps' ws {}" "ps_own (after_wait C a sd w (s\<lparr>ps_drv := D\<rparr>)) = set as'"
      "dom (ps_wait (after_wait C a sd w (s\<lparr>ps_drv := D\<rparr>))) = set ps' \<union> ws"
      "\<And>i. w = PW_sleep i \<Longrightarrow> po_ActionID (g_ObjPool D ! i) = a \<and> po_AdditionalData (g_ObjPool D ! i) = sd"
    for fs' as' ps'
    using that S(1,3,4) w(2,3) data
    by (auto simp: pool_sys_ok_def after_wait_def split: pool_wait.splits if_splits)
  have "w = PW_return (int (MAX_CONCURRENT_ACTIONS C)) \<and>
         pool_sys_ok C (after_wait C a sd w (s\<lparr>ps_drv := D\<rparr>)) fs as ps ws \<or>
      (\<exists>i fs'. fs = i # fs' \<and> w = PW_sleep i \<and> \<not> spawn \<and>
         pool_sys_ok C (after_wait C a sd w (s\<lparr>ps_drv := D\<rparr>)) fs' as (i # ps) ws) \<or>
      (\<exists>i fs'. fs = i # fs' \<and> w = PW_return (int i) \<and>
         pool_sys_ok C (after_wait C a sd w (s\<lparr>ps_drv := D\<rparr>)) fs' (i # as) ps ws)"
    using out
  proof (elim disjE exE conjE)
    assume "w = PW_return (int (MAX_CONCURRENT_ACTIONS C))" "pool_ok C D fs as ps ws {}"
    with S(5,6) ok' [of fs as ps] show ?thesis by (simp add: after_wait_def)
  next
    fix i fs'
    assume "fs = i # fs'" "w = PW_sleep i" "\<not> spawn" "pool_ok C D fs' as (i # ps) ws {}"
      "po_ActionID (g_ObjPool D ! i) = a" "po_AdditionalData (g_ObjPool D ! i) = sd"
    with S(5,6) ok' [of fs' as "i # ps"] show ?thesis by (simp add: after_wait_def)
  next
    fix i fs'
    assume "fs = i # fs'" "w = PW_return (int i)" "pool_ok C D fs' (i # as) ps ws {}"
    with S(5,6) i ok' [of fs' "i # as" ps] show ?thesis by (simp add: after_wait_def)
  qed
  with that [OF w(1)] show ?thesis by blast
qed

lemma pool_sys_woken:
  assumes ok: "pool_sys_ok C s fs as ps ws" and i: "i \<in> ws" "ps_wait s i = Some (a, sd)"
  obtains w D where "SlDrvWaitForPoolObj_woken C a sd i (ps_drv s) = Some (w, D)"
    and "w = PW_sleep i \<and> pool_sys_ok C (after_wait C a sd w
           (s\<lparr>ps_drv := D, ps_wait := (ps_wait s)(i := None)\<rparr>)) fs as (i # ps) (ws - {i}) \<or>
      w = PW_return (int i) \<and> pool_sys_ok C (after_wait C a sd w
           (s\<lparr>ps_drv := D, ps_wait := (ps_wait s)(i := None)\<rparr>)) fs (i # as) ps (ws - {i})"
proof -
  note S = pool_sys_okD [OF ok]
  let ?s = "\<lambda>D. s\<lparr>ps_drv := D, ps_wait := (ps_wait s)(i := None)\<rparr>"
  from SlDrvWaitForPoolObj_woken_ok [OF S(1,2,3) i(1) _ _ S(4)] S(7) [OF i(2)] obtain w D where
    w: "SlDrvWaitForPoolObj_woken C a sd i (ps_drv s) = Some (w, D)" "\<not> g_ProtectionLock D"
      "g_status D = g_status (ps_drv s)" and
    out: "w = PW_sleep i \<and> pool_ok C D fs as (i # ps) (ws - {i}) {} \<and>
        po_ActionID (g_ObjPool D ! i) = a \<and> po_AdditionalData (g_ObjPool D ! i) = sd \<or>
     w = PW_return (int i) \<and> pool_ok C D fs (i # as) ps (ws - {i}) {}" and
    same: "\<forall>k. k \<noteq> i \<longrightarrow> g_ObjPool D ! k = g_ObjPool (ps_drv s) ! k" by blast
  have data: "po_ActionID (g_ObjPool D ! k) = b \<and> po_AdditionalData (g_ObjPool D ! k) = e"
    if "ps_wait s k = Some (b, e)" "k \<noteq> i" for k b e using that S(7) same by simp
  have n: "i < MAX_CONCURRENT_ACTIONS C" using pool_ok_below [OF S(2), of i] i by simp
  have nin: "i \<notin> set ps" using pool_okD(6) [OF S(2)] i by auto
  have "w = PW_sleep i \<and> pool_sys_ok C (after_wait C a sd w (?s D)) fs as (i # ps) (ws - {i}) \<or>
      w = PW_return (int i) \<and> pool_sys_ok C (after_wait C a sd w (?s D)) fs (i # as) ps (ws - {i})"
    using out
  proof (elim disjE conjE)
    assume "w = PW_sleep i" "pool_ok C D fs as (i # ps) (ws - {i}) {}"
      "po_ActionID (g_ObjPool D ! i) = a" "po_AdditionalData (g_ObjPool D ! i) = sd"
    then show ?thesis using S(1,3-6) w(2,3) data i
      by (auto simp: after_wait_def pool_sys_ok_def)
  next
    assume "w = PW_return (int i)" "pool_ok C D fs (i # as) ps (ws - {i}) {}"
    then show ?thesis using S(1,3-6) w(2,3) data i n nin
      by (auto simp: after_wait_def pool_sys_ok_def)
  qed
  with that [OF w(1)] show ?thesis by blast
qed

lemma find_SomeD: "find P xs = Some x \<Longrightarrow> x \<in> set xs \<and> P x"
  by (auto simp: find_Some_iff)

lemma pool_sys_release:
  fixes i :: nat
  assumes ok: "pool_sys_ok C s fs as ps ws" and i: "i \<in> ps_own s" "po_sync (g_ObjPool (ps_drv s) ! i) = Some False"
  defines "pend \<equiv> find (\<lambda>j. wakes C (g_ObjPool (ps_drv s) ! i) (g_ObjPool (ps_drv s) ! j)) ps"
  obtains D where "SlDrvReleasePoolObj C i (ps_drv s) = Some (0, D)"
    and "pool_sys_ok C (s\<lparr>ps_drv := D, ps_own := ps_own s - {i}\<rparr>) (i # fs) (remove1 i as)
      (case pend of None \<Rightarrow> ps | Some j \<Rightarrow> remove1 j ps) (ws \<union> set_option pend)"
proof -
  note S = pool_sys_okD [OF ok]
  have ia: "i \<in> set as" using i S(5) by simp
  from SlDrvReleasePoolObj_ok [OF S(1,2,3) ia i(2) S(4)] obtain D where
    D: "SlDrvReleasePoolObj C i (ps_drv s) = Some (0, D)" "\<not> g_ProtectionLock D" "g_status D = g_status (ps_drv s)"
      "pool_ok C D (i # fs) (remove1 i as) (case pend of None \<Rightarrow> ps | Some j \<Rightarrow> remove1 j ps) (ws \<union> set_option pend) {}"
      "\<forall>k. k \<noteq> i \<longrightarrow> obj_key (g_ObjPool D ! k) = obj_key (g_ObjPool (ps_drv s) ! k)" by (auto simp: pend_def)
  have dis: "distinct as" "distinct ps" "i \<notin> set ps \<union> ws" using pool_okD(5,6) [OF S(2)] ia by auto
  have "k \<noteq> i" if "ps_wait s k = Some x" for k x using that S(6) dis(3) by auto
  then have data: "po_ActionID (g_ObjPool D ! k) = b \<and> po_AdditionalData (g_ObjPool D ! k) = e"
    if "ps_wait s k = Some (b, e)" for k b e using that S(7) [OF that] D(5) by (auto simp: obj_key_def)
  have "set (case pend of None \<Rightarrow> ps | Some j \<Rightarrow> remove1 j ps) \<union> (ws \<union> set_option pend) = set ps \<union> ws"
    using dis(2) by (cases pend) (auto simp: pend_def dest: find_SomeD)
  then have "pool_sys_ok C (s\<lparr>ps_drv := D, ps_own := ps_own s - {i}\<rparr>) (i # fs) (remove1 i as)
      (case pend of None \<Rightarrow> ps | Some j \<Rightarrow> remove1 j ps) (ws \<union> set_option pend)"
    using S D data dis by (simp add: pool_sys_ok_def)
  then show ?thesis using that [OF D(1)] by blast
qed

text \<open>The other steps write only into an object of their own.\<close>

lemma pool_sys_owner:
  assumes ok: "pool_sys_ok C s fs as ps ws" and i: "i \<in> ps_own s"
    and ob: "po_NextIndex ob = po_NextIndex (g_ObjPool (ps_drv s) ! i)"
      "obj_key ob = obj_key (g_ObjPool (ps_drv s) ! i)" "po_sync ob \<noteq> None"
  shows "pool_sys_ok C (s\<lparr>ps_drv := (ps_drv s)\<lparr>g_ObjPool := (g_ObjPool (ps_drv s))[i := ob]\<rparr>\<rparr>) fs as ps ws"
proof -
  note S = pool_sys_okD [OF ok]
  have ia: "i \<in> set as" using i S(5) by simp
  have "k \<noteq> i" if "ps_wait s k = Some x" for k x
    using that S(6) pool_okD(5,6) [OF S(2)] ia by auto
  then have "(g_ObjPool (ps_drv s))[i := ob] ! k = g_ObjPool (ps_drv s) ! k" if "ps_wait s k = Some x" for k x
    using that by (metis nth_list_update_neq)
  moreover have "pool_ok C ((ps_drv s)\<lparr>g_ObjPool := (g_ObjPool (ps_drv s))[i := ob]\<rparr>) fs as ps ws {}"
    using ob by (intro pool_ok_owner [OF S(2) ia]) (simp_all add: obj_key_def)
  ultimately show ?thesis using S by (simp add: pool_sys_ok_def)
qed

lemma pool_inv_step: "pool_step C s t \<Longrightarrow> pool_inv C s \<Longrightarrow> pool_inv C t"
proof -
  assume inv: "pool_inv C s"
  then obtain fs as ps ws where ok: "pool_sys_ok C s fs as ps ws" by (auto simp: pool_inv_def)
  note S = pool_sys_okD [OF ok]
  have own: "po_sync (g_ObjPool (ps_drv s) ! i) \<noteq> None" if "i \<in> ps_own s" for i
    using that S(5) pool_okD(10) [OF S(2)] by (simp add: objs_ok_def)
  have upd: "pool_inv C (s\<lparr>ps_drv := set_obj i f (ps_drv s)\<rparr>)" if "i \<in> ps_own s"
    "\<And>ob. po_NextIndex (f ob) = po_NextIndex ob \<and> obj_key (f ob) = obj_key ob"
    "\<And>ob. po_sync ob \<noteq> None \<Longrightarrow> po_sync (f ob) \<noteq> None" for i f
    using pool_sys_owner [OF ok that(1), of "f (g_ObjPool (ps_drv s) ! i)"] that(2) that(3) [OF own [OF that(1)]]
    unfolding pool_inv_def set_obj_def by blast
  assume "pool_step C s t"
  then show ?thesis
  proof (cases rule: pool_step.cases)
    case (ps_call a sd spawn w D)
    obtain fs' as' ps' where "pool_sys_ok C (after_wait C a sd w (s\<lparr>ps_drv := D\<rparr>)) fs' as' ps' ws"
      by (rule pool_sys_call [OF ok ps_call(2), of spawn]) (use ps_call(3) in auto)
    with ps_call(1) show ?thesis by (auto simp: pool_inv_def)
  next
    case (ps_woken i a sd w D)
    then have "i \<in> set ps \<union> ws" using S(6) by auto
    moreover have "i \<notin> set ps" using ps_woken(3) pool_okD(10) [OF S(2)] by (auto simp: objs_ok_def)
    ultimately have "i \<in> ws" by simp
    obtain as' ps' ws' where "pool_sys_ok C (after_wait C a sd w
        (s\<lparr>ps_drv := D, ps_wait := (ps_wait s)(i := None)\<rparr>)) fs as' ps' ws'"
      by (rule pool_sys_woken [OF ok \<open>i \<in> ws\<close> ps_woken(2)]) (use ps_woken(4) in auto)
    with ps_woken(1) show ?thesis by (auto simp: pool_inv_def)
  next
    case (ps_release i r D)
    show ?thesis
      by (rule pool_sys_release [OF ok ps_release(2,3)]) (use ps_release(1,4) in \<open>auto simp: pool_inv_def\<close>)
  next
    case (ps_event i)
    then show ?thesis by (auto intro!: upd simp: signal_obj_def obj_key_def)
  next
    case (ps_wait_event i D)
    with inv show ?thesis
      by (auto intro!: upd simp: SyncObjWait_NO_WAIT_def obj_key_def split: if_splits)
  next
    case (ps_set_args i x)
    then show ?thesis by (auto intro!: upd simp: obj_key_def)
  qed
qed

interpretation pool_sys: transition_system "pool_start C E" "pool_step C" "pool_inv C"
  by unfold_locales (auto intro: pool_inv_start pool_inv_step)

end
