(* ===== verification/DrvExample.thy ===== *)
theory DrvExample
  imports DrvPoolSys
begin

text \<open>
  A concrete driver, used to instantiate properties: the sizes of the SDK, an operating system whose
  calls succeed, and a clock that advances one tick with every call.
\<close>

definition example_drvcfg :: drvcfg where
  "example_drvcfg = \<lparr>MAX_CONCURRENT_ACTIONS = 4, SL_MAX_SOCKETS = 16, SL_BSD_SOCKET_ID_MASK = 0x1F,
     SL_NETAPP_FAMILY_MASK = 0x80, MAX_SOCKET_ENUM_IDX = 16, SELECT_ID = 18, RECV_ID = 26,
     NETUTIL_CMD_ID = 24, FLOW_CONT_MIN = 1, slcb_SocketTrigger = False, SL_API_ABORTED = -2005,
     SL_RET_OBJ_NOT_SET = -2014, SL_RET_CODE_STOP_IN_PROGRESS = -2015, SL_RET_CODE_DEV_LOCKED = -2016,
     SL_RET_CODE_DEV_NOT_STARTED = -2017, SL_RET_CODE_PROVISIONING_IN_PROGRESS = -2018,
     SL_RET_CODE_NO_FREE_ASYNC_BUFFERS_ERROR = -2019, SL_RET_CODE_INTERFACE_CLOSED = -2020,
     SL_RET_CODE_PROTOCOL_ERROR = -2021, SL_RET_CODE_INVALID_INPUT = -2022, SL_ERROR_BSD_EBADF = -9,
     SL_ERROR_BSD_EAGAIN = -11, SL_ERROR_BSD_SOC_ERROR = -1, SL_POOL_IS_EMPTY = -2000, SL_OS_ERROR = -1,
     SL_OPCODE_SILO_MASK = 0x7800, SL_OPCODE_IPV6 = 0x200, SL_OPCODE_SYNC = 0x8000,
     SL_OPCODE_SILO_OFFSET = 11, SL_OPCODE_SILO_FS = 0x2000, SL_OPCODE_SILO_DEVICE = 0,
     IF_ERROR = -2013, NO_MEMORY = -2006, SL_DRIVER_TIMEOUT_SHORT = 10000, SL_DRIVER_TIMEOUT_LONG = 65535,
     SYNC_PATTERN_TIMEOUT_IN_MSEC = 50, SL_TIMESTAMP_TICKS_IN_10_MILLISECONDS = 10,
     SL_TIMESTAMP_MAX_VALUE = -1, SL_ASYNC_MAX_PAYLOAD_LEN = 220, SL_ASYNC_MAX_MSG_LEN = 232,
     SL_RESP_HDR_SIZE = 12, SL_RESP_SPEC_HDR_SIZE = 8, BASIC_RESPONSE_SIZE = 4, RECV_ARGS_SIZE = 4,
     RECVFROM_IPV4_ARGS_SIZE = 12, RECVFROM_IPV6_ARGS_SIZE = 24, N2H_SYNC_PATTERN = 0xBBDDEEFF,
     H2N_SYNC_PATTERN_Short = [0x21, 0x43, 0x34, 0x12], H2N_CNYS_PATTERN_Short = [0x65, 0x87, 0x78, 0x56],
     GLOBAL_LOCK_FLAGS_UPDATE_API_IN_PROGRESS = 1, GLOBAL_LOCK_FLAGS_PROVISIONING_STOP_API = 2,
     PROTOCOL_CALC_LEN = (\<lambda>ctrl ext. 4 * ((cc_TxDescLen ctrl + 3) div 4) + (case ext of None \<Rightarrow> 0
       | Some e \<Rightarrow> 4 * ((ce_TxPayload1Len e + ce_TxPayload2Len e + 3) div 4))),
     rsp_Opcode = (\<lambda>h. ucast (h ! 0) OR push_bit 8 (ucast (h ! 1))), rsp_Len = (\<lambda>h. ucast (h ! 2) OR push_bit 8 (ucast (h ! 3))),
     rsp_TxPoolCnt = (\<lambda>h. h ! 4), rsp_DevStatus = (\<lambda>h. h ! 5),
     rsp_MinMaxPayload = (\<lambda>h. ucast (h ! 6) OR push_bit 8 (ucast (h ! 7))),
     rsp_SocketTXFailure = (\<lambda>h. ucast (h ! 8)), rsp_SocketNonBlocking = (\<lambda>h. ucast (h ! 10)),
     arg_Sd = (\<lambda>a. a ! 2), arg_StatusOrLen = (\<lambda>a. uint (a ! 0)), basic_status = (\<lambda>a. sint (a ! 0)),
     prov_InactivityTimeoutSec = (\<lambda>p. ucast (p ! 0)), event_of = (\<lambda>s. of_nat (length s)), SL_SET_DEVICE_STATUS = (\<lambda>_ st. st), silo_registered = (\<lambda>_. True),
     opcode = (\<lambda>s. of_nat (length s)), fatal_id = (\<lambda>s. of_nat (length s))\<rparr>"

definition example_drvenv :: drvenv where
  "example_drvenv = \<lparr>os_ret = (\<lambda>_ _. 0), get_timestamp = (\<lambda>cs. of_nat (length cs)), malloc_ok = (\<lambda>_. True),
     if_write_ok = (\<lambda>_. True), on_handler = (\<lambda>_ _ D. Some D), others = (\<lambda>_ D. D)\<rparr>"

definition no_status :: dev_status where
  "no_status = \<lparr>command_allowed = False, restart_required = False, stop_in_progress = False,
     start_in_progress = False, provisioning_in_progress = False, provisioning_active = False,
     provisioning_by_user = False, provisioning_api_allowed = False, device_started = False,
     device_locked = False\<rparr>"

definition example_drv :: drv where
  "example_drv = \<lparr>g_ObjPool = [], g_FreePoolIdx = 0, g_PendingPoolIdx = 0, g_ActivePoolIdx = 0,
     g_ActiveActionsBitmap = 0, g_NumOfDeletedSyncObj = 0, g_ProtectionLock = False, g_ApiInProgressCnt = 0,
     g_GlobalLock = False, g_GlobalLockInit = False, g_GlobalLockCntRequested = 0,
     g_GlobalLockCntReleased = 0, g_status = no_status, g_TxLock = False, g_TxSync = False, g_TxPoolCnt = 0,
     g_MinTxPayloadSize = 0, g_SocketNonBlocking = 0, g_SocketTXFailure = 0, g_TriggerObjIdx = 0,
     g_WaitForCmdResp = False, g_CmdSync = False, g_RxIrqCnt = 0, g_RxDoneCnt = 0, g_TxSeqNum = 0,
     g_ActionIndex = 0, g_AsyncEvtHandler = None, g_RxMsgClass = DUMMY_MSG_CLASS, g_spawnMsgList = [],
     g_SpawnSync = False, g_IrqWriteCnt = 0, g_IrqReadCnt = 0, g_IrqMasked = False, g_rx = [],
     g_RecvArgs = (\<lambda>_. \<lparr>ad_pArgs = [], ad_pData = []\<rparr>), g_pCmdCtrl = None, g_pTxRxDescBuff = None,
     g_pCmdExt = None, g_CtrlSockFD = 0, g_SelectSync = None, g_SelectStatus = 0, g_ActiveSelect = False, g_SelectEntry = [],
     g_calls = []\<rparr>"

text \<open>The driver after its initialisation.\<close>

definition example_up :: drv where
  "example_up = snd (SlDrvDriverCBInit example_drvcfg example_drvenv example_drv)"

definition example_sys :: pool_sys where
  "example_sys = \<lparr>ps_drv = example_up, ps_wait = (\<lambda>_. None), ps_own = {}\<rparr>"

lemma example_cfg_ok: "cfg_ok example_drvcfg"
proof -
  have "sd AND 0x1F = sd" if "sd \<le> 16" for sd :: u8
  proof -
    have "sd AND 0x1F = take_bit 5 sd" by (simp add: take_bit_eq_mask mask_eq_exp_minus_1)
    moreover have "unat (take_bit 5 sd) = unat sd"
      using that by (simp add: unsigned_take_bit_eq take_bit_nat_eq_self_iff word_le_nat_alt)
    ultimately show ?thesis by (simp add: word_unat_eq_iff)
  qed
  then show ?thesis by (simp add: cfg_ok_def example_drvcfg_def)
qed

lemma example_cfg_sel [simp]:
  "MAX_CONCURRENT_ACTIONS example_drvcfg = Suc (Suc (Suc (Suc 0)))" "SL_MAX_SOCKETS example_drvcfg = 16"
  "SL_BSD_SOCKET_ID_MASK example_drvcfg = 0x1F" "SELECT_ID example_drvcfg = 18" "RECV_ID example_drvcfg = 26"
  "FLOW_CONT_MIN example_drvcfg = 1" "\<not> slcb_SocketTrigger example_drvcfg" "SL_OS_ERROR example_drvcfg = -1"
  "SL_API_ABORTED example_drvcfg = -2005" "SL_RET_CODE_STOP_IN_PROGRESS example_drvcfg = -2015"
  "SL_POOL_IS_EMPTY example_drvcfg = -2000" "silo_registered example_drvcfg s"
  by (simp_all add: example_drvcfg_def)

lemmas example_env_simps = example_drvenv_def example_drv_def no_status_def

lemma example_drv_init: "SlDrvDriverCBInit example_drvcfg example_drvenv example_drv = (0, example_up)"
  and example_up_pool: "g_ObjPool example_up = [init_obj example_drvcfg 0, init_obj example_drvcfg 1,
    init_obj example_drvcfg 2, init_obj example_drvcfg 3]"
  and example_up_simps: "g_FreePoolIdx example_up = 0" "g_ActivePoolIdx example_up = 4"
    "g_PendingPoolIdx example_up = 4" "g_ActiveActionsBitmap example_up = 0" "g_status example_up = no_status"
    "\<not> g_ProtectionLock example_up" "\<not> g_GlobalLock example_up" "\<not> g_TxLock example_up"
    "g_TxPoolCnt example_up = 1" "g_ApiInProgressCnt example_up = 0" "g_rx example_up = []"
  by (simp_all add: example_up_def SlDrvDriverCBInit_def OSI_RET_OK_CHECK_def os_call_def vcall_def
     init_objs.simps set_obj_def Let_def zero_cb_def example_env_simps zero_obj_def init_obj_def)

lemma example_pool_start: "pool_start example_drvcfg example_drvenv example_sys"
  using example_cfg_ok example_drv_init
  by (auto simp: pool_start_def example_sys_def example_drv_def no_status_def)

text \<open>A receive on socket 3 owns object 0, and an accept on the same socket sleeps on object 1.\<close>

definition example_d1 :: drv where
  "example_d1 = snd (the (SlDrvWaitForPoolObj example_drvcfg False 26 3 example_up))"

definition example_d2 :: drv where
  "example_d2 = snd (the (SlDrvWaitForPoolObj example_drvcfg False 16 3 example_d1))"

definition example_busy :: pool_sys where
  "example_busy = \<lparr>ps_drv = example_d2, ps_wait = [1 \<mapsto> (16, 3)], ps_own = {0}\<rparr>"

definition ex_obj :: "nat \<Rightarrow> u8 \<Rightarrow> u8 \<Rightarrow> pool_obj" where
  "ex_obj nxt a sd = \<lparr>po_NextIndex = nxt, po_ActionID = a, po_AdditionalData = sd, po_pRespArgs = None,
     po_sync = Some False\<rparr>"

lemmas example_pool_simps = SlDrvWaitForPoolObj_def pool_take_def pool_enter_def in_use_def id_bit_def
  drv_lock_simps set_obj_def Let_def init_obj_def example_up_simps example_up_pool ex_obj_def

lemma example_d1: "SlDrvWaitForPoolObj example_drvcfg False 26 3 example_up = Some (PW_return 0, example_d1)"
  "g_ObjPool example_d1 = [ex_obj 4 26 3, ex_obj 2 0 16, ex_obj 3 0 16, ex_obj 4 0 16]"
  "g_FreePoolIdx example_d1 = 1" "g_ActivePoolIdx example_d1 = 0" "g_PendingPoolIdx example_d1 = 4"
  "g_ActiveActionsBitmap example_d1 = 8" "\<not> g_ProtectionLock example_d1" "g_status example_d1 = no_status"
  by (simp_all add: example_d1_def example_pool_simps)

lemma example_d2: "SlDrvWaitForPoolObj example_drvcfg False 16 3 example_d1 = Some (PW_sleep 1, example_d2)"
  "g_ObjPool example_d2 = [ex_obj 4 26 3, ex_obj 4 16 3, ex_obj 3 0 16, ex_obj 4 0 16]"
  "g_FreePoolIdx example_d2 = 2" "g_ActivePoolIdx example_d2 = 0" "g_PendingPoolIdx example_d2 = 1"
  "g_ActiveActionsBitmap example_d2 = 8" "\<not> g_ProtectionLock example_d2" "g_status example_d2 = no_status"
  by (simp_all add: example_d2_def example_d1 example_pool_simps)

lemma example_ids: "ids_ok example_drvcfg 26 3" "ids_ok example_drvcfg 16 3"
  by (simp_all add: ids_ok_def example_drvcfg_def)

lemma example_busy_reachable: "steps (pool_step example_drvcfg) example_sys example_busy"
proof -
  let ?s1 = "\<lparr>ps_drv = example_d1, ps_wait = (\<lambda>_. None), ps_own = {0}\<rparr>"
  have "pool_step example_drvcfg example_sys ?s1"
    using pool_step.ps_call [OF example_ids(1), of False example_sys] example_d1(1)
    by (simp add: after_wait_def example_sys_def example_drvcfg_def)
  moreover have "pool_step example_drvcfg ?s1 example_busy"
    using pool_step.ps_call [OF example_ids(2), of False ?s1] example_d2(1)
    by (simp add: after_wait_def example_busy_def)
  ultimately show ?thesis by (blast intro: steps_step)
qed

end
