(* ===== verification/DrvPoolProps.thy ===== *)
theory DrvPoolProps
  imports DrvExample
begin

text \<open>
  The properties of the object pool: exclusion, no lost object, every call returns; which sleeper a
  release wakes and which it forgets; and what a fatal error does to the sleepers.
\<close>

lemma pool_reachable_ok:
  assumes "pool_start C E s" and "steps (pool_step C) s t"
  obtains fs as ps ws where "pool_sys_ok C t fs as ps ws"
  using pool_sys.reachable_inv [OF assms] by (auto simp: pool_inv_def)

subsection \<open>Exclusion\<close>

text \<open>C24: the pool, from the initialisation of the driver on and under any sequence of calls by any
  number of threads. Two different owners never hold the same socket, nor the same action where the
  action is not on a socket, except for selects in builds without a select trigger; nobody both owns
  and waits for an object; the objects that are neither owned nor waited for are exactly those of
  the free list, which is finite and without repetition; and no call leaves the protection lock
  held.\<close>

theorem pool_exclusive:
  assumes "pool_start C E s" and "steps (pool_step C) s t"
  shows "(\<forall>i \<in> ps_own t. \<forall>j \<in> ps_own t. i \<noteq> j \<longrightarrow>
      slot C (g_ObjPool (ps_drv t) ! i) = slot C (g_ObjPool (ps_drv t) ! j) \<longrightarrow>
      multi C (g_ObjPool (ps_drv t) ! i) \<and> multi C (g_ObjPool (ps_drv t) ! j)) \<and>
    ps_own t \<inter> dom (ps_wait t) = {} \<and>
    (\<exists>fs. chain (MAX_CONCURRENT_ACTIONS C) (g_ObjPool (ps_drv t)) (g_FreePoolIdx (ps_drv t)) fs \<and> distinct fs \<and>
       set fs = {..<MAX_CONCURRENT_ACTIONS C} - ps_own t - dom (ps_wait t)) \<and>
    \<not> g_ProtectionLock (ps_drv t)"
proof -
  from assms obtain fs as ps ws where ok: "pool_sys_ok C t fs as ps ws" by (rule pool_reachable_ok)
  note S = pool_sys_okD [OF ok] and P = pool_okD [OF pool_sys_okD(2) [OF ok]]
  have "set fs = {..<MAX_CONCURRENT_ACTIONS C} - ps_own t - dom (ps_wait t)"
    using P(5,6) unfolding P(9) [symmetric] S(5,6) by auto
  moreover have "ps_own t \<inter> dom (ps_wait t) = {}" using P(5,6) unfolding S(5,6) by auto
  ultimately show ?thesis using P(2,5,11) S(3) unfolding S(5) by (auto simp: active_ok_def)
qed

theorem pool_exclusive_witness:
  "ps_own example_busy \<inter> dom (ps_wait example_busy) = {} \<and> \<not> g_ProtectionLock (ps_drv example_busy)"
  using pool_exclusive [OF example_pool_start example_busy_reachable] by blast

text \<open>C25: the form of the pool. In every state the system reaches, the free, the active and the pending
  list are finite chains through the table of objects without a common object; the active list are the
  owners, the pending list sleepers that nobody has signalled, and a sleeper off the list has been
  signalled; every object has its sync object, and those in use have an action and a socket in
  range. The bitmap has a bit for every owner (but the selects that may be many) and no other bit.\<close>

theorem pool_wellformed:
  assumes "pool_start C E s" and "steps (pool_step C) s t"
  shows "length (g_ObjPool (ps_drv t)) = MAX_CONCURRENT_ACTIONS C \<and>
    (\<forall>ob \<in> set (g_ObjPool (ps_drv t)). po_sync ob \<noteq> None) \<and>
    (\<exists>fs as ps. chain (MAX_CONCURRENT_ACTIONS C) (g_ObjPool (ps_drv t)) (g_FreePoolIdx (ps_drv t)) fs \<and>
       chain (MAX_CONCURRENT_ACTIONS C) (g_ObjPool (ps_drv t)) (g_ActivePoolIdx (ps_drv t)) as \<and>
       chain (MAX_CONCURRENT_ACTIONS C) (g_ObjPool (ps_drv t)) (g_PendingPoolIdx (ps_drv t)) ps \<and>
       distinct (fs @ as @ ps) \<and> ps_own t = set as \<and> set ps \<subseteq> dom (ps_wait t) \<and>
       (\<forall>i \<in> dom (ps_wait t). po_sync (g_ObjPool (ps_drv t) ! i) = Some (i \<notin> set ps))) \<and>
    (\<forall>i \<in> ps_own t \<union> dom (ps_wait t).
       ids_ok C (po_ActionID (g_ObjPool (ps_drv t) ! i)) (po_AdditionalData (g_ObjPool (ps_drv t) ! i))) \<and>
    (\<forall>i \<in> ps_own t. multi C (g_ObjPool (ps_drv t) ! i) \<or>
       bit (g_ActiveActionsBitmap (ps_drv t)) (slot C (g_ObjPool (ps_drv t) ! i))) \<and>
    (\<forall>k. bit (g_ActiveActionsBitmap (ps_drv t)) k \<longrightarrow> (\<exists>i \<in> ps_own t. slot C (g_ObjPool (ps_drv t) ! i) = k))"
proof -
  from assms obtain fs as ps ws where ok: "pool_sys_ok C t fs as ps ws" by (rule pool_reachable_ok)
  note S = pool_sys_okD [OF ok] and P = pool_okD [OF pool_sys_okD(2) [OF ok]]
  have o: "objs_ok C (g_ObjPool (ps_drv t)) (set fs) (set as) (set ps) ws {}" using P(10) .
  have idx: "i < MAX_CONCURRENT_ACTIONS C \<longleftrightarrow> i \<in> set (fs @ as @ ps) \<union> ws" for i
    using P(9) by (metis Un_empty_right lessThan_iff)
  have sync: "po_sync (g_ObjPool (ps_drv t) ! i) \<noteq> None" if "i < MAX_CONCURRENT_ACTIONS C" for i
    using that o unfolding idx objs_ok_def by auto
  have w: "po_sync (g_ObjPool (ps_drv t) ! i) = Some (i \<notin> set ps)" if "i \<in> dom (ps_wait t)" for i
  proof (cases "i \<in> set ps")
    case True
    then show ?thesis using o by (simp add: objs_ok_def)
  next
    case False
    then have "i \<in> ws" using that S(6) by simp
    then show ?thesis using o False by (simp add: objs_ok_def)
  qed
  have "\<forall>i \<in> set as \<union> (set ps \<union> ws).
      ids_ok C (po_ActionID (g_ObjPool (ps_drv t) ! i)) (po_AdditionalData (g_ObjPool (ps_drv t) ! i))"
    using o unfolding objs_ok_def by blast
  then have ids: "\<forall>i \<in> ps_own t \<union> dom (ps_wait t).
      ids_ok C (po_ActionID (g_ObjPool (ps_drv t) ! i)) (po_AdditionalData (g_ObjPool (ps_drv t) ! i))"
    unfolding S(5,6) .
  have chains: "chain (MAX_CONCURRENT_ACTIONS C) (g_ObjPool (ps_drv t)) (g_FreePoolIdx (ps_drv t)) fs \<and>
       chain (MAX_CONCURRENT_ACTIONS C) (g_ObjPool (ps_drv t)) (g_ActivePoolIdx (ps_drv t)) as \<and>
       chain (MAX_CONCURRENT_ACTIONS C) (g_ObjPool (ps_drv t)) (g_PendingPoolIdx (ps_drv t)) ps \<and>
       distinct (fs @ as @ ps) \<and> ps_own t = set as \<and> set ps \<subseteq> dom (ps_wait t) \<and>
       (\<forall>i \<in> dom (ps_wait t). po_sync (g_ObjPool (ps_drv t) ! i) = Some (i \<notin> set ps))"
    using P(2-5) S(5,6) w by (simp del: distinct_append)
  have bits: "\<forall>i \<in> ps_own t. multi C (g_ObjPool (ps_drv t) ! i) \<or>
       bit (g_ActiveActionsBitmap (ps_drv t)) (slot C (g_ObjPool (ps_drv t) ! i))"
    "\<forall>k. bit (g_ActiveActionsBitmap (ps_drv t)) k \<longrightarrow> (\<exists>i \<in> ps_own t. slot C (g_ObjPool (ps_drv t) ! i) = k)"
    using P(11) unfolding S(5) active_ok_def by blast+
  have all: "\<forall>ob \<in> set (g_ObjPool (ps_drv t)). po_sync ob \<noteq> None"
    using sync P(1) by (metis in_set_conv_nth)
  show ?thesis
    by (intro conjI P(1) all ids bits exI [of _ fs] exI [of _ as] exI [of _ ps] chains)
qed

theorem pool_wellformed_witness:
  "length (g_ObjPool (ps_drv example_busy)) = MAX_CONCURRENT_ACTIONS example_drvcfg \<and>
   (\<exists>fs as ps. ps_own example_busy = set as \<and> set ps \<subseteq> dom (ps_wait example_busy) \<and> distinct (fs @ as @ ps))"
  using pool_wellformed [OF example_pool_start example_busy_reachable] by blast

text \<open>C26: the calls of the pool do not hang. In every state the system reaches, a call that asks for
  an object either returns one, reports an empty pool or sleeps, and sleeps only when it was not made
  by the spawn task; a sleeper that has been signalled gets its object or sleeps again; and the
  release by an owner whose event has been taken returns 0.\<close>

theorem pool_calls_return:
  assumes "pool_start C E s" and "steps (pool_step C) s t" and "ids_ok C a sd"
  shows "(\<exists>w D. SlDrvWaitForPoolObj C spawn a sd (ps_drv t) = Some (w, D) \<and>
      (w = PW_return (int (MAX_CONCURRENT_ACTIONS C)) \<or> (\<exists>i. i < MAX_CONCURRENT_ACTIONS C \<and>
         (w = PW_return (int i) \<or> w = PW_sleep i \<and> \<not> spawn)))) \<and>
    (\<forall>i b e. ps_wait t i = Some (b, e) \<longrightarrow> po_sync (g_ObjPool (ps_drv t) ! i) = Some True \<longrightarrow>
      (\<exists>w D. SlDrvWaitForPoolObj_woken C b e i (ps_drv t) = Some (w, D) \<and> w \<in> {PW_sleep i, PW_return (int i)})) \<and>
    (\<forall>i \<in> ps_own t. po_sync (g_ObjPool (ps_drv t) ! i) = Some False \<longrightarrow>
      (\<exists>D. SlDrvReleasePoolObj C i (ps_drv t) = Some (0, D)))"
proof (intro conjI allI ballI impI)
  from assms(1,2) obtain fs as ps ws where ok: "pool_sys_ok C t fs as ps ws" by (rule pool_reachable_ok)
  note S = pool_sys_okD [OF ok]
  show "\<exists>w D. SlDrvWaitForPoolObj C spawn a sd (ps_drv t) = Some (w, D) \<and>
      (w = PW_return (int (MAX_CONCURRENT_ACTIONS C)) \<or> (\<exists>i. i < MAX_CONCURRENT_ACTIONS C \<and>
         (w = PW_return (int i) \<or> w = PW_sleep i \<and> \<not> spawn)))"
    using SlDrvWaitForPoolObj_ok [OF S(1,2) assms(3) S(3), of spawn] pool_ok_below [OF S(2)] by force
  fix i
  { fix b e assume w: "ps_wait t i = Some (b, e)" "po_sync (g_ObjPool (ps_drv t) ! i) = Some True"
    then have "i \<in> set ps \<union> ws" using S(6) by auto
    moreover have "i \<notin> set ps" using w(2) pool_okD(10) [OF S(2)] by (auto simp: objs_ok_def)
    ultimately have "i \<in> ws" by simp
    with SlDrvWaitForPoolObj_woken_ok [OF S(1,2,3) _ _ _ S(4), of i b e] S(7) [OF w(1)]
    show "\<exists>w D. SlDrvWaitForPoolObj_woken C b e i (ps_drv t) = Some (w, D) \<and> w \<in> {PW_sleep i, PW_return (int i)}"
      by fastforce }
  assume "i \<in> ps_own t" "po_sync (g_ObjPool (ps_drv t) ! i) = Some False"
  with SlDrvReleasePoolObj_ok [OF S(1,2,3) _ _ S(4), of i] S(5)
  show "\<exists>D. SlDrvReleasePoolObj C i (ps_drv t) = Some (0, D)" by fastforce
qed

theorem pool_calls_return_witness:
  "\<exists>w D. SlDrvWaitForPoolObj example_drvcfg True 26 3 (ps_drv example_busy) = Some (w, D) \<and>
     (w = PW_return 4 \<or> (\<exists>i < 4. w = PW_return (int i)))"
  using pool_calls_return [OF example_pool_start example_busy_reachable example_ids(1), of True]
  by (auto simp: example_drvcfg_def)

subsection \<open>Waking\<close>

text \<open>C27: which sleepers a release wakes. The release by an owner returns 0, gives its object back to
  the free list, and of the sleepers that were not signalled it signals at most one: the first on the
  pending list, which is the one that came last, whose action is the same and who either waits for
  no socket or for the owner's.\<close>

theorem release_wakes:
  assumes "pool_start C E s" and "steps (pool_step C) s t"
    and i: "i \<in> ps_own t" "po_sync (g_ObjPool (ps_drv t) ! i) = Some False"
    and ps: "chain (MAX_CONCURRENT_ACTIONS C) (g_ObjPool (ps_drv t)) (g_PendingPoolIdx (ps_drv t)) ps"
  shows "\<exists>D. SlDrvReleasePoolObj C i (ps_drv t) = Some (0, D) \<and> g_FreePoolIdx D = i \<and>
    (\<forall>k \<in> dom (ps_wait t). po_sync (g_ObjPool D ! k) = Some True \<longleftrightarrow>
       po_sync (g_ObjPool (ps_drv t) ! k) = Some True \<or>
       find (\<lambda>j. wakes C (g_ObjPool (ps_drv t) ! i) (g_ObjPool (ps_drv t) ! j)) ps = Some k)"
proof -
  from assms(1,2) obtain fs as ps' ws where ok: "pool_sys_ok C t fs as ps' ws" by (rule pool_reachable_ok)
  note S = pool_sys_okD [OF ok]
  have ps': "ps' = ps" using chain_unique [OF pool_okD(4) [OF S(2)] ps] .
  define pend where "pend = find (\<lambda>j. wakes C (g_ObjPool (ps_drv t) ! i) (g_ObjPool (ps_drv t) ! j)) ps"
  from pool_sys_release [OF ok i] obtain D where D: "SlDrvReleasePoolObj C i (ps_drv t) = Some (0, D)"
    "pool_sys_ok C (t\<lparr>ps_drv := D, ps_own := ps_own t - {i}\<rparr>) (i # fs) (remove1 i as)
      (case pend of None \<Rightarrow> ps | Some j \<Rightarrow> remove1 j ps) (ws \<union> set_option pend)"
    unfolding ps' pend_def by blast
  note P = pool_okD [OF pool_sys_okD(2) [OF D(2)]]
  have pw: "set ps \<inter> ws = {}" using pool_okD(6) [OF S(2)] ps' by auto
  have ps_set: "set (case pend of None \<Rightarrow> ps | Some j \<Rightarrow> remove1 j ps) = set ps - set_option pend"
    using pool_okD(5) [OF S(2)] ps' by (cases pend) auto
  have pin: "set_option pend \<subseteq> set ps" by (auto simp: pend_def dest: find_SomeD)
  have "po_sync (g_ObjPool D ! k) = Some True \<longleftrightarrow> po_sync (g_ObjPool (ps_drv t) ! k) = Some True \<or> pend = Some k"
    if "k \<in> dom (ps_wait t)" for k
  proof -
    have k: "k \<in> set ps \<union> ws" using that S(6) ps' by auto
    have "po_sync (g_ObjPool D ! k) = Some (k \<in> ws \<or> pend = Some k)"
    proof (cases "k \<in> ws \<union> set_option pend")
      case True
      then show ?thesis using P(10) by (auto simp: objs_ok_def)
    next
      case False
      then have "k \<in> set ps - set_option pend" using k by blast
      then show ?thesis using P(10) False unfolding objs_ok_def ps_set by auto
    qed
    moreover have "po_sync (g_ObjPool (ps_drv t) ! k) = Some (k \<in> ws)"
      using k pw pool_okD(10) [OF S(2)] ps' by (auto simp: objs_ok_def)
    ultimately show ?thesis by simp
  qed
  then show ?thesis using D(1) P(2) unfolding pend_def by auto
qed

theorem release_wakes_witness:
  "\<exists>D. SlDrvReleasePoolObj example_drvcfg 0 (ps_drv example_busy) = Some (0, D) \<and> g_FreePoolIdx D = 0"
proof -
  have "po_sync (g_ObjPool (ps_drv example_busy) ! 0) = Some False" "0 \<in> ps_own example_busy"
    "chain (MAX_CONCURRENT_ACTIONS example_drvcfg) (g_ObjPool (ps_drv example_busy))
       (g_PendingPoolIdx (ps_drv example_busy)) [1]"
    by (simp_all add: example_busy_def example_d2 ex_obj_def example_drvcfg_def)
  from release_wakes [OF example_pool_start example_busy_reachable this(2,1,3)] show ?thesis by blast
qed

text \<open>C28: a lost wake-up. Let one caller own a socket and another sleep on the same socket for a
  different action, and nobody else use the pool. When the owner releases its object the socket is
  free, but the sleeper is not signalled; and from then on no thread but a new caller can take a step
  of the pool, so without one the sleeper sleeps for ever beside a free socket.\<close>

theorem lost_wakeup:
  assumes "pool_start C E s" and "steps (pool_step C) s t"
    and own: "ps_own t = {i}" "po_sync (g_ObjPool (ps_drv t) ! i) = Some False"
    and wait: "ps_wait t = [k \<mapsto> (b, sd)]" "po_sync (g_ObjPool (ps_drv t) ! k) = Some False"
    and same: "sd < SL_MAX_SOCKETS C" "po_AdditionalData (g_ObjPool (ps_drv t) ! i) = sd"
      "po_ActionID (g_ObjPool (ps_drv t) ! i) \<noteq> b"
  shows "\<exists>D. SlDrvReleasePoolObj C i (ps_drv t) = Some (0, D) \<and> g_ActiveActionsBitmap D = 0 \<and>
    (\<forall>u. pool_step C (t\<lparr>ps_drv := D, ps_own := {}\<rparr>) u \<longrightarrow>
      (\<exists>a e spawn w D'. SlDrvWaitForPoolObj C spawn a e D = Some (w, D') \<and>
         u = after_wait C a e w (t\<lparr>ps_own := {}, ps_drv := D'\<rparr>)))"
proof -
  from assms(1,2) obtain fs as ps ws where ok: "pool_sys_ok C t fs as ps ws" by (rule pool_reachable_ok)
  note S = pool_sys_okD [OF ok]
  have i: "i \<in> ps_own t" using own by simp
  have k: "ws = {}" "ps = [k]"
  proof -
    have d: "set ps \<union> ws = {k}" using S(6) wait(1) by auto
    have "k \<notin> ws" using wait(2) pool_okD(10) [OF S(2)] by (auto simp: objs_ok_def)
    with d show w: "ws = {}" by auto
    have "distinct ps" using pool_okD(5) [OF S(2)] by simp
    with d w show "ps = [k]" by (cases ps) (auto simp: subset_singleton_iff)
  qed
  have "po_ActionID (g_ObjPool (ps_drv t) ! k) = b" using S(7) [of k b sd] wait(1) by simp
  then have "find (\<lambda>j. wakes C (g_ObjPool (ps_drv t) ! i) (g_ObjPool (ps_drv t) ! j)) ps = None"
    using same(3) k by (simp add: wakes_def)
  with pool_sys_release [OF ok i own(2)] own(1) k obtain D where
    D: "SlDrvReleasePoolObj C i (ps_drv t) = Some (0, D)"
      "pool_sys_ok C (t\<lparr>ps_drv := D, ps_own := {}\<rparr>) (i # fs) (remove1 i as) [k] {}" by auto
  note T = pool_sys_okD [OF D(2)]
  have as: "remove1 i as = []" using T(5) by simp
  have "\<not> bit (g_ActiveActionsBitmap D) n" for n
    using pool_okD(11) [OF T(2)] unfolding as by (auto simp: active_ok_def)
  then have "g_ActiveActionsBitmap D = 0" by (simp add: bit_eq_iff)
  moreover have nk: "po_sync (g_ObjPool D ! k) = Some False" using pool_okD(10) [OF T(2)] by (simp add: objs_ok_def)
  have "\<exists>a e spawn w D'. SlDrvWaitForPoolObj C spawn a e D = Some (w, D') \<and>
      u = after_wait C a e w (t\<lparr>ps_own := {}, ps_drv := D'\<rparr>)"
    if "pool_step C (t\<lparr>ps_drv := D, ps_own := {}\<rparr>) u" for u
    using that
  proof (cases rule: pool_step.cases)
    case (ps_call a e spawn w D')
    then have "SlDrvWaitForPoolObj C spawn a e D = Some (w, D')"
      "u = after_wait C a e w (t\<lparr>ps_own := {}, ps_drv := D'\<rparr>)" by simp_all
    then show ?thesis by blast
  qed (use wait(1) nk in \<open>auto split: if_splits\<close>)
  ultimately show ?thesis using D(1) by blast
qed

theorem lost_wakeup_witness:
  "\<exists>D. SlDrvReleasePoolObj example_drvcfg 0 (ps_drv example_busy) = Some (0, D) \<and> g_ActiveActionsBitmap D = 0"
proof -
  have "ps_own example_busy = {0}" "po_sync (g_ObjPool (ps_drv example_busy) ! 0) = Some False"
    "ps_wait example_busy = [1 \<mapsto> (16, 3)]" "po_sync (g_ObjPool (ps_drv example_busy) ! 1) = Some False"
    "3 < SL_MAX_SOCKETS example_drvcfg" "po_AdditionalData (g_ObjPool (ps_drv example_busy) ! 0) = 3"
    "po_ActionID (g_ObjPool (ps_drv example_busy) ! 0) \<noteq> 16"
    by (simp_all add: example_busy_def example_d2 ex_obj_def example_drvcfg_def)
  from lost_wakeup [OF example_pool_start example_busy_reachable this] show ?thesis by blast
qed

subsection \<open>Fatal errors\<close>

lemma fold_signal_obj:
  assumes "length (g_ObjPool D) = n" and "m \<le> n"
  shows "fold signal_obj [0..<m] D = D\<lparr>g_ObjPool :=
    map (\<lambda>ob. ob\<lparr>po_sync := map_option (\<lambda>_. True) (po_sync ob)\<rparr>) (take m (g_ObjPool D)) @ drop m (g_ObjPool D)\<rparr>"
  using assms(2)
proof (induction m)
  case (Suc m)
  then have "take (Suc m) (g_ObjPool D) = take m (g_ObjPool D) @ [g_ObjPool D ! m]"
    "drop m (g_ObjPool D) = g_ObjPool D ! m # drop (Suc m) (g_ObjPool D)"
    using assms(1) by (simp_all add: take_Suc_conv_app_nth Cons_nth_drop_Suc)
  then show ?case using Suc assms(1)
    by (simp add: signal_obj_def set_obj_def nth_append list_update_append)
qed simp

lemma HandleFatalError_pool:
  assumes "length (g_ObjPool D) = MAX_CONCURRENT_ACTIONS C" and "\<not> restart_required (g_status D)"
  shows "\<exists>cs. SlDrvHandleFatalError C e i1 i2 D = D\<lparr>g_status := (g_status D)\<lparr>restart_required := True\<rparr>,
    g_ObjPool := map (\<lambda>ob. ob\<lparr>po_sync := map_option (\<lambda>_. True) (po_sync ob)\<rparr>) (g_ObjPool D), g_calls := cs\<rparr>"
proof -
  have "fold signal_obj [0..<MAX_CONCURRENT_ACTIONS C] (D\<lparr>g_status := (g_status D)\<lparr>restart_required := True\<rparr>\<rparr>) =
      D\<lparr>g_status := (g_status D)\<lparr>restart_required := True\<rparr>,
        g_ObjPool := map (\<lambda>ob. ob\<lparr>po_sync := map_option (\<lambda>_. True) (po_sync ob)\<rparr>) (g_ObjPool D)\<rparr>"
    using assms(1) by (subst fold_signal_obj [OF _ order_refl]) simp_all
  then show ?thesis using assms(2)
    by (cases "silo_registered C ''slcb_DeviceFatalErrorEvtHdlr''")
      (auto simp: SlDrvHandleFatalError_def Let_def vcall_def
        intro: exI [of _ "g_calls D"] exI [of _ "fatal_event C e i1 i2 # g_calls D"])
qed

text \<open>A list that leads back to an object nobody wakes is walked for ever.\<close>

lemma find_pending_loop_aux:
  "find_pending C ob p idx = Some r \<Longrightarrow>
    \<not> (idx < MAX_CONCURRENT_ACTIONS C \<and> po_NextIndex (p ! idx) = idx \<and> \<not> wakes C ob (p ! idx))"
  by (erule find_pending.raw_induct [rotated]) (fastforce split: if_splits)

lemma find_pending_loop:
  "k < MAX_CONCURRENT_ACTIONS C \<Longrightarrow> po_NextIndex (p ! k) = k \<Longrightarrow> \<not> wakes C ob (p ! k) \<Longrightarrow>
    find_pending C ob p k = None"
  using find_pending_loop_aux [of C ob p k] by (cases "find_pending C ob p k") auto

text \<open>C29: a fatal error breaks the pending list. The handler signals the sync objects of the whole
  pool, the sleepers' too. The sleeper at the head of the pending list wakes, is not told of the
  error, finds its socket or action still in use, and puts its object on the pending list a second
  time: the object is now its own successor. The next release by an owner that does not wake it
  follows the list for ever, with the protection lock held.\<close>

theorem fatal_error_breaks_pending_list:
  assumes "pool_start C E s" and "steps (pool_step C) s t" and "\<not> restart_required (g_status (ps_drv t))"
    and k: "ps_wait t k = Some (b, e)" "g_PendingPoolIdx (ps_drv t) = k"
    and use: "in_use C b e (g_ActiveActionsBitmap (ps_drv t))"
    and D1: "D1 = SlDrvHandleFatalError C err i1 i2 (ps_drv t)"
  shows "\<exists>D2. SlDrvWaitForPoolObj_woken C b e k D1 = Some (PW_sleep k, D2) \<and>
    g_PendingPoolIdx D2 = k \<and> po_NextIndex (g_ObjPool D2 ! k) = k \<and>
    (\<forall>i \<in> ps_own t. po_ActionID (g_ObjPool (ps_drv t) ! i) \<noteq> b \<longrightarrow> SlDrvReleasePoolObj C i D2 = None)"
proof -
  from assms(1,2) obtain fs as ps ws where ok: "pool_sys_ok C t fs as ps ws" by (rule pool_reachable_ok)
  note S = pool_sys_okD [OF ok] and P = pool_okD [OF pool_sys_okD(2) [OF ok]]
  let ?D = "ps_drv t" and ?n = "MAX_CONCURRENT_ACTIONS C"
  let ?sig = "\<lambda>ob. ob\<lparr>po_sync := map_option (\<lambda>_. True) (po_sync ob)\<rparr>"
  obtain cs where cs: "D1 = ?D\<lparr>g_status := (g_status ?D)\<lparr>restart_required := True\<rparr>,
      g_ObjPool := map ?sig (g_ObjPool ?D), g_calls := cs\<rparr>"
    using HandleFatalError_pool [OF P(1) assms(3), of err i1 i2] D1 by blast
  have kin: "k \<in> set ps \<union> ws" using S(6) k(1) by auto
  then have kn: "k < ?n" "k < length (g_ObjPool ?D)" using pool_ok_below [OF S(2), of k] by auto
  have sy: "po_sync (g_ObjPool ?D ! k) \<noteq> None" using kin P(10) by (auto simp: objs_ok_def)
  define D2 where "D2 = D1\<lparr>g_ObjPool := (g_ObjPool D1)[k := (g_ObjPool D1 ! k)\<lparr>po_sync := Some False, po_NextIndex := k\<rparr>],
    g_PendingPoolIdx := k, g_ProtectionLock := False\<rparr>"
  have w: "SlDrvWaitForPoolObj_woken C b e k D1 = Some (PW_sleep k, D2)"
    using sy kn use S(3,4) k(2) by (auto simp: cs D2_def SlDrvWaitForPoolObj_woken_def pool_enter_def drv_lock_simps set_obj_def Let_def)
  have ob: "po_NextIndex (g_ObjPool D2 ! k) = k" "po_ActionID (g_ObjPool D2 ! k) = b"
    using kn S(7) [OF k(1)] by (simp_all add: D2_def cs)
  have "SlDrvReleasePoolObj C i D2 = None" if i: "i \<in> ps_own t" "po_ActionID (g_ObjPool ?D ! i) \<noteq> b" for i
  proof -
    have "i < length (g_ObjPool ?D)" "i \<noteq> k"
      using i S(5,7) k(1) pool_ok_below [OF S(2), of i] by auto
    then have "po_ActionID (g_ObjPool D2 ! i) \<noteq> b" using i(2) by (simp add: D2_def cs)
    then have "\<not> wakes C (g_ObjPool D2 ! i) (g_ObjPool D2 ! k)" using ob(2) by (simp add: wakes_def)
    then have "find_pending C (g_ObjPool D2 ! i) (g_ObjPool D2) k = None"
      by (intro find_pending_loop kn(1) ob(1))
    moreover have "g_PendingPoolIdx D2 = k" "\<not> g_ProtectionLock D2" "\<not> stop_in_progress (g_status D2)"
      using S(4) by (simp_all add: D2_def cs)
    ultimately show ?thesis
      by (simp add: SlDrvReleasePoolObj_def release_pending_def drv_lock_simps)
  qed
  with w ob(1) show ?thesis by (intro exI [of _ D2]) (simp add: D2_def)
qed

theorem fatal_error_breaks_pending_list_witness:
  "\<exists>D2. SlDrvWaitForPoolObj_woken example_drvcfg 16 3 1 (SlDrvHandleFatalError example_drvcfg 0 0 0 example_d2) =
      Some (PW_sleep 1, D2) \<and> SlDrvReleasePoolObj example_drvcfg 0 D2 = None"
proof -
  have "ps_wait example_busy 1 = Some (16, 3)" "g_PendingPoolIdx (ps_drv example_busy) = 1"
    "\<not> restart_required (g_status (ps_drv example_busy))"
    "in_use example_drvcfg 16 3 (g_ActiveActionsBitmap (ps_drv example_busy))"
    "0 \<in> ps_own example_busy" "po_ActionID (g_ObjPool (ps_drv example_busy) ! 0) \<noteq> 16"
    by (simp_all add: example_busy_def example_d2 ex_obj_def example_drvcfg_def in_use_def id_bit_def no_status_def)
  from fatal_error_breaks_pending_list [OF example_pool_start example_busy_reachable this(3,1,2,4) refl, of 0 0 0] this(5,6)
  show ?thesis by (auto simp: example_busy_def)
qed

end
