(* ===== verification/DrvTimeout.thy ===== *)
theory DrvTimeout
  imports DrvExample
begin

text \<open>
  The measurement of time: how a sequence of polls of \<open>_SlDrvIsTimeoutExpired\<close> relates to the
  ticks that have passed, and the sleep that is built on it.
\<close>

text \<open>After some polls without expiry: \<open>e\<close> ticks had passed at the last poll that counted,
  \<open>used\<close> units of \<open>T\<close> ticks are used up.\<close>

definition measured :: "nat \<Rightarrow> nat \<Rightarrow> u32 \<Rightarrow> nat \<Rightarrow> timeout_params \<Rightarrow> bool" where
  "measured T units t0 e p \<longleftrightarrow> unat (TSPrev p) = unat t0 + e \<and>
     (\<exists>used. unat (Total10MSecUnits p) + used = units \<and> used * T + unat (DeltaTicksReminder p) = e) \<and>
     (unat (Total10MSecUnits p) > 0 \<or> units = 0)"

lemma measured_start:
  "measured T (unat (ms div 10)) t 0 \<lparr>Total10MSecUnits = ms div 10, TSPrev = t, TSCurr = 0, DeltaTicks = 0,
     DeltaTicksReminder = 0\<rparr>"
  by (auto simp: measured_def)

lemma uint_31: "unat x < 2 ^ 31 \<Longrightarrow> uint x < 2 ^ 31" for x :: u32
proof -
  assume "unat x < 2 ^ 31"
  then have "int (unat x) < int (2 ^ 31)" by (simp only: of_nat_less_iff)
  then show "uint x < 2 ^ 31" by (simp only: uint_nat of_nat_power of_nat_numeral)
qed

lemma sint_31: "uint x < 2 ^ 31 \<Longrightarrow> sint x = uint x" for x :: u32
  using signed_take_bit_int_eq_self [of 31 "uint x"] uint_ge_0 [of x] by (simp add: sint_uint)

lemma sint_sub_31:
  fixes a q :: u32
  assumes "uint a < 2 ^ 31" and "uint q < 2 ^ 31"
  shows "sint (a - q) = uint a - uint q"
  using assms signed_take_bit_int_eq_self [of 31 "uint a - uint q"] uint_ge_0 [of a] uint_ge_0 [of q]
  by (simp add: sint_word_ariths(2) sint_31)

lemma sint_pos_sub:
  fixes a q :: u32
  assumes "unat a < 2 ^ 31" and "unat q < 2 ^ 31"
  shows "sint (a - q) > 0 \<longleftrightarrow> unat q < unat a"
  unfolding sint_sub_31 [OF uint_31 [OF assms(1)] uint_31 [OF assms(2)]]
  by (simp flip: word_less_nat_alt add: word_less_alt)

text \<open>What a poll at \<open>e'\<close> finds: the ticks used up and those counted since.\<close>

lemma measured_poll:
  assumes m: "measured T units t0 e p" and now: "unat now = unat t0 + e'" "e \<le> e'" "e' < 2 ^ 31"
  obtains used where "unat (Total10MSecUnits p) + used = units" "unat (Total10MSecUnits p) > 0 \<or> units = 0"
    "TSPrev p \<le> now" "used * T + unat (DeltaTicksReminder p + (now - TSPrev p)) = e'"
proof -
  from m obtain used where u: "unat (TSPrev p) = unat t0 + e" "unat (Total10MSecUnits p) + used = units"
    "used * T + unat (DeltaTicksReminder p) = e" "unat (Total10MSecUnits p) > 0 \<or> units = 0"
    by (auto simp: measured_def)
  have ge: "TSPrev p \<le> now" using now u by (simp add: word_le_nat_alt)
  have d: "unat (now - TSPrev p) = e' - e" using ge now u by (simp add: unat_sub)
  have "unat (DeltaTicksReminder p + (now - TSPrev p)) = unat (DeltaTicksReminder p) + (e' - e)"
    using d u now by (simp add: unat_word_ariths)
  then have "used * T + unat (DeltaTicksReminder p + (now - TSPrev p)) = e'" using u now by simp
  from that [OF u(2,4) ge this] show ?thesis .
qed

text \<open>A poll that counts no unit.\<close>

lemma timeout_step_short:
  assumes m: "measured T units t0 e p" and T: "T = unat (SL_TIMESTAMP_TICKS_IN_10_MILLISECONDS C)"
    and now: "unat now = unat t0 + e'" "e \<le> e'" "e' < 2 ^ 31"
    and short: "\<not> DeltaTicksReminder p + (now - TSPrev p) > SL_TIMESTAMP_TICKS_IN_10_MILLISECONDS C"
  shows "timeout_step C now p = (False, p\<lparr>TSCurr := now, DeltaTicks := now - TSPrev p\<rparr>)"
    and "e' \<le> units * T + (if units = 0 then T else 0)"
proof -
  from measured_poll [OF m now] obtain used where u: "unat (Total10MSecUnits p) + used = units"
    "unat (Total10MSecUnits p) > 0 \<or> units = 0" "TSPrev p \<le> now"
    "used * T + unat (DeltaTicksReminder p + (now - TSPrev p)) = e'" .
  show "timeout_step C now p = (False, p\<lparr>TSCurr := now, DeltaTicks := now - TSPrev p\<rparr>)"
    using short u(3) by (simp add: timeout_step_def Let_def)
  have le: "unat (DeltaTicksReminder p + (now - TSPrev p)) \<le> T" using short T by (simp add: word_less_nat_alt)
  show "e' \<le> units * T + (if units = 0 then T else 0)"
  proof (cases "units = 0")
    case True
    then show ?thesis using u le by simp
  next
    case False
    then have "Suc used \<le> units" using u by simp
    then have "Suc used * T \<le> units * T" by (rule mult_le_mono1)
    then show ?thesis using u(4) le by simp
  qed
qed

text \<open>A poll that counts whole units: \<open>n\<close> of them, with \<open>r\<close> ticks left over.\<close>

lemma timeout_step_long:
  assumes m: "measured T units t0 e p" and T: "T = unat (SL_TIMESTAMP_TICKS_IN_10_MILLISECONDS C)" "0 < T"
    and units: "units < 2 ^ 31" and now: "unat now = unat t0 + e'" "e \<le> e'" "e' < 2 ^ 31"
    and long: "DeltaTicksReminder p + (now - TSPrev p) > SL_TIMESTAMP_TICKS_IN_10_MILLISECONDS C"
  shows "if fst (timeout_step C now p) then units * T \<le> e'
    else e' \<le> units * T \<and> measured T units t0 e' (snd (timeout_step C now p))"
proof -
  define cnt where "cnt = DeltaTicksReminder p + (now - TSPrev p)"
  let ?q = "cnt div SL_TIMESTAMP_TICKS_IN_10_MILLISECONDS C"
  from measured_poll [OF m now, folded cnt_def] obtain used where u: "unat (Total10MSecUnits p) + used = units"
    "unat (Total10MSecUnits p) > 0 \<or> units = 0" "TSPrev p \<le> now" "used * T + unat cnt = e'" .
  define n r where "n = unat cnt div T" and "r = unat cnt mod T"
  have split: "unat cnt = n * T + r" "r < T" using T by (simp_all add: n_def r_def)
  have q: "unat ?q = n" and rem: "unat (cnt mod SL_TIMESTAMP_TICKS_IN_10_MILLISECONDS C) = r"
    by (simp_all add: unat_div unat_mod T(1) n_def r_def)
  have "n \<le> unat cnt" by (simp add: n_def)
  then have q31: "unat ?q < 2 ^ 31" using q u(4) now(3) by linarith
  have a31: "unat (Total10MSecUnits p) < 2 ^ 31" using u units by simp
  have pos: "sint (Total10MSecUnits p - ?q) > 0 \<longleftrightarrow> n < unat (Total10MSecUnits p)"
    using sint_pos_sub [OF a31 q31] q by simp
  have st: "fst (timeout_step C now p) \<longleftrightarrow> \<not> n < unat (Total10MSecUnits p)"
    "n < unat (Total10MSecUnits p) \<Longrightarrow> snd (timeout_step C now p) = p\<lparr>TSCurr := now, DeltaTicks := now - TSPrev p,
      Total10MSecUnits := Total10MSecUnits p - ?q,
      DeltaTicksReminder := cnt mod SL_TIMESTAMP_TICKS_IN_10_MILLISECONDS C, TSPrev := now\<rparr>"
    using long u(3) pos by (simp_all add: timeout_step_def Let_def flip: cnt_def)
  show ?thesis
  proof (cases "n < unat (Total10MSecUnits p)")
    case True
    have tot: "unat (Total10MSecUnits p - ?q) = unat (Total10MSecUnits p) - n"
      using True q by (simp add: unat_sub word_le_nat_alt)
    have "Suc (used + n) \<le> units" using True u by simp
    then have "Suc (used + n) * T \<le> units * T" by (rule mult_le_mono1)
    then have "e' \<le> units * T" using u(4) split by (simp add: algebra_simps)
    moreover have "measured T units t0 e' (snd (timeout_step C now p))"
      using u now True tot rem split unfolding st(2) [OF True] measured_def
      by (auto simp: algebra_simps intro!: exI [of _ "used + n"])
    ultimately show ?thesis using True by (simp add: st(1))
  next
    case False
    have "units \<le> used + n" using False u by simp
    then have "units * T \<le> (used + n) * T" by (rule mult_le_mono1)
    then show ?thesis using False u(4) split by (simp add: st(1) algebra_simps)
  qed
qed

lemma timeout_step_measured:
  assumes m: "measured T units t0 e p" and T: "T = unat (SL_TIMESTAMP_TICKS_IN_10_MILLISECONDS C)" "0 < T"
    and units: "units < 2 ^ 31" and now: "unat now = unat t0 + e'" "e \<le> e'" "e' < 2 ^ 31"
  shows "(fst (timeout_step C now p) \<longrightarrow> units * T \<le> e') \<and>
    (\<not> fst (timeout_step C now p) \<longrightarrow> e' \<le> units * T + (if units = 0 then T else 0)) \<and>
    (\<not> fst (timeout_step C now p) \<longrightarrow> (\<exists>e''. e'' \<le> e' \<and> measured T units t0 e'' (snd (timeout_step C now p))))"
proof (cases "DeltaTicksReminder p + (now - TSPrev p) > SL_TIMESTAMP_TICKS_IN_10_MILLISECONDS C")
  case True
  from timeout_step_long [OF m T units now True] show ?thesis
    by (cases "fst (timeout_step C now p)") (auto simp: intro!: exI [of _ e'])
next
  case False
  note short = timeout_step_short [OF m T(1) now False]
  have "measured T units t0 e (snd (timeout_step C now p))" using m by (simp add: short(1) measured_def)
  with short now(2) show ?thesis by auto
qed

text \<open>When the clock wraps around between two polls, one tick is lost: the difference is computed from
  the largest value and not from one beyond it.\<close>

lemma timeout_wrap_loses_tick:
  assumes "now < TSPrev p" and "SL_TIMESTAMP_MAX_VALUE C = -1"
  shows "DeltaTicks (snd (timeout_step C now p)) = now - TSPrev p - 1"
proof -
  have "\<not> TSPrev p \<le> now" using assms(1) by (simp add: not_le)
  then show ?thesis using assms(2) by (simp add: timeout_step_def Let_def)
qed

text \<open>The clock as the calls of one thread read it: at its \<open>j\<close>-th call, up to the
  \<open>K\<close>-th, it has advanced by \<open>e j\<close> ticks and not wrapped around.\<close>

definition clock :: "drvenv \<Rightarrow> drv_call list \<Rightarrow> (nat \<Rightarrow> nat) \<Rightarrow> nat \<Rightarrow> bool" where
  "clock E cs e K \<longleftrightarrow> mono e \<and> e 0 = 0 \<and>
     (\<forall>j \<le> K. unat (get_timestamp E (replicate j V_tick @ cs)) = unat (get_timestamp E cs) + e j)"

lemma sleep_loop_step:
  "sleep_loop C E p D = (let q = timeout_step C (get_timestamp E (g_calls D)) p; D' = D\<lparr>g_calls := V_tick # g_calls D\<rparr>
     in if fst q then Some D' else sleep_loop C E (snd q) D')"
  by (subst sleep_loop.simps)
    (simp add: SlDrvIsTimeoutExpired_def slcb_GetTimestamp_def vcall_def case_prod_beta Let_def)

lemma sleep_loop_run:
  assumes c: "clock E cs e K" and T: "T = unat (SL_TIMESTAMP_TICKS_IN_10_MILLISECONDS C)" "0 < T"
    and units: "units < 2 ^ 31" and K: "units * T + (if units = 0 then T else 0) < e K" "e K < 2 ^ 31"
    and "measured T units (get_timestamp E cs) e0 p" and "e0 \<le> e j" and "j \<le> K"
    and "g_calls D = replicate j V_tick @ cs"
  shows "\<exists>k. j \<le> k \<and> k \<le> K \<and> sleep_loop C E p D = Some (D\<lparr>g_calls := replicate (Suc k) V_tick @ cs\<rparr>) \<and>
    units * T \<le> e k \<and> (\<forall>i. j \<le> i \<longrightarrow> i < k \<longrightarrow> e i \<le> units * T + (if units = 0 then T else 0))"
  using assms(7-10)
proof (induction "K - j" arbitrary: j e0 p D)
  let ?B = "units * T + (if units = 0 then T else 0)"
  case (0 j e0 p D)
  then have jK: "j = K" by simp
  let ?now = "get_timestamp E (g_calls D)"
  have now: "unat ?now = unat (get_timestamp E cs) + e j" using c 0(4,5) by (simp add: clock_def)
  from timeout_step_measured [OF 0(2) T units now 0(3)] K jK
  have "fst (timeout_step C ?now p)" "units * T \<le> e j" by auto
  then have "sleep_loop C E p D = Some (D\<lparr>g_calls := replicate (Suc j) V_tick @ cs\<rparr>)"
    using 0(5) by (simp add: sleep_loop_step [of C E p D] Let_def)
  with \<open>units * T \<le> e j\<close> jK show ?case by (intro exI [of _ j]) simp
next
  let ?B = "units * T + (if units = 0 then T else 0)"
  case (Suc n j e0 p D)
  then have jK: "Suc j \<le> K" by simp
  let ?now = "get_timestamp E (g_calls D)" and ?D = "D\<lparr>g_calls := replicate (Suc j) V_tick @ cs\<rparr>"
  have now: "unat ?now = unat (get_timestamp E cs) + e j" using c Suc(5,6) by (simp add: clock_def)
  have mono: "e j \<le> e K" "e j \<le> e (Suc j)" using c jK by (auto simp: clock_def mono_def)
  then have e31: "e j < 2 ^ 31" using K by simp
  have step: "sleep_loop C E p D = (if fst (timeout_step C ?now p) then Some ?D
      else sleep_loop C E (snd (timeout_step C ?now p)) ?D)"
    using Suc(6) by (simp add: sleep_loop_step [of C E p D] Let_def)
  note M = timeout_step_measured [OF Suc(3) T units now Suc(4) e31]
  show ?case
  proof (cases "fst (timeout_step C ?now p)")
    case True
    then show ?thesis using M step jK by (intro exI [of _ j]) simp
  next
    case False
    then obtain e'' where e'': "e'' \<le> e j" "measured T units (get_timestamp E cs) e'' (snd (timeout_step C ?now p))"
      and le: "e j \<le> ?B" using M by blast
    have "e'' \<le> e (Suc j)" using e''(1) mono(2) by simp
    have n: "n = K - Suc j" using Suc(2) by simp
    obtain k where
      k: "Suc j \<le> k" "k \<le> K" "sleep_loop C E (snd (timeout_step C ?now p)) ?D = Some (D\<lparr>g_calls := replicate (Suc k) V_tick @ cs\<rparr>)"
      "units * T \<le> e k" "\<forall>i. Suc j \<le> i \<longrightarrow> i < k \<longrightarrow> e i \<le> ?B"
      using Suc(1) [OF n e''(2) \<open>e'' \<le> e (Suc j)\<close> jK, of ?D] by auto
    have "e i \<le> ?B" if "j \<le> i" "i < k" for i
      using that k(5) le by (cases "i = j") auto
    then show ?thesis using k step False by (intro exI [of _ k]) simp
  qed
qed

text \<open>C32: a sleep lasts as long as it says. Let the clock advance without a wrap-around and pass the
  end of the interval at some call. Then \<open>SlDrvSleep\<close> returns; when it does, the whole units of
  10 ms of its argument have passed; and at every poll before the last one the interval, or one unit
  if the argument is shorter than a unit, had not been exceeded.\<close>

theorem SlDrvSleep_duration:
  assumes "clock E (g_calls D) e K" and "0 < SL_TIMESTAMP_TICKS_IN_10_MILLISECONDS C"
    and "u = unat d div 10 * unat (SL_TIMESTAMP_TICKS_IN_10_MILLISECONDS C)"
    and "b = (if unat d < 10 then unat (SL_TIMESTAMP_TICKS_IN_10_MILLISECONDS C) else u)"
    and "b < e K" and "e K < 2 ^ 31" and "0 < K"
  shows "\<exists>k. 0 < k \<and> k \<le> K \<and>
    SlDrvSleep C E d D = Some (D\<lparr>g_calls := replicate (Suc k) V_tick @ g_calls D\<rparr>) \<and>
    u \<le> e k \<and> (\<forall>i. 0 < i \<longrightarrow> i < k \<longrightarrow> e i \<le> b)"
proof -
  let ?T = "unat (SL_TIMESTAMP_TICKS_IN_10_MILLISECONDS C)"
  let ?units = "unat (ucast d div 10 :: u32)"
  have "unat (ucast d :: u32) = unat d"
    by (simp add: unsigned_ucast_eq take_bit_nat_eq_self unsigned_less order_less_le_trans [OF unsigned_less])
  then have un: "?units = unat d div 10" by (simp add: unat_div)
  have z: "?units = 0 \<longleftrightarrow> unat d < 10" unfolding un by auto
  have T: "0 < ?T" using assms(2) by (simp add: word_less_nat_alt)
  have b: "b = ?units * ?T + (if ?units = 0 then ?T else 0)" using assms(3,4) un z by simp
  have "unat d < 2 ^ 16" using unsigned_less [of d] by simp
  then have u31: "?units < 2 ^ 31" using un by simp
  let ?D = "D\<lparr>g_calls := V_tick # g_calls D\<rparr>" and ?p = "\<lparr>Total10MSecUnits = ucast d div 10,
     TSPrev = get_timestamp E (g_calls D), TSCurr = 0, DeltaTicks = 0, DeltaTicksReminder = 0\<rparr>"
  have m: "measured ?T ?units (get_timestamp E (g_calls D)) 0 ?p" by (rule measured_start)
  have "SlDrvSleep C E d D = sleep_loop C E ?p ?D"
    by (simp add: SlDrvSleep_def SlDrvStartMeasureTimeout_def slcb_GetTimestamp_def vcall_def)
  moreover obtain k where "1 \<le> k \<and> k \<le> K \<and>
      sleep_loop C E ?p ?D = Some (?D\<lparr>g_calls := replicate (Suc k) V_tick @ g_calls D\<rparr>) \<and>
      ?units * ?T \<le> e k \<and> (\<forall>i. 1 \<le> i \<longrightarrow> i < k \<longrightarrow> e i \<le> b)"
    using sleep_loop_run [OF assms(1) refl T u31 _ assms(6) m, of 1 ?D] assms(5,7) unfolding b by auto
  ultimately show ?thesis using assms(3) un by (intro exI [of _ k]) auto
qed

theorem SlDrvSleep_duration_witness:
  "\<exists>k > 0. SlDrvSleep example_drvcfg example_drvenv 20 example_drv =
     Some (example_drv\<lparr>g_calls := replicate (Suc k) V_tick\<rparr>) \<and> 20 \<le> k"
proof -
  have "clock example_drvenv (g_calls example_drv) (\<lambda>j. j) 30"
    by (auto simp: clock_def mono_def example_drvenv_def example_drv_def unat_of_nat)
  then show ?thesis
    using SlDrvSleep_duration [of example_drvenv example_drv "\<lambda>j. j" 30 example_drvcfg 20 20 20]
    by (auto simp: example_drvcfg_def example_drv_def)
qed

end
