(* ===== verification/DrvMsg.thy ===== *)
theory DrvMsg
  imports DrvCtl
begin

text \<open>
  Messages to and from the network processor (\<open>src/driver.c\<close>): the bytes of a command, the
  search for the sync pattern and the header of a response, and what a response is. The bytes that
  the interface will deliver are the list \<open>g_rx\<close>; a read that asks for more fails, as does a
  write the interface refuses. A read or write outside of a buffer is \<open>None\<close>. The macro
  \<open>VERIFY_SOCKET_CB\<close> of the header is taken to check nothing.
\<close>

subsection \<open>The interface\<close>

text \<open>\<open>NWP_IF_WRITE_CHECK\<close>, \<open>NWP_IF_READ_CHECK\<close>, \<open>VERIFY_PROTOCOL\<close> and
  \<open>MALLOC_OK_CHECK\<close>: the rest of the function is the last argument.\<close>

definition RET_CHECK :: "(int \<times> drv) option \<Rightarrow> (drv \<Rightarrow> (int \<times> drv) option) \<Rightarrow> (int \<times> drv) option" where
  "RET_CHECK m f = Option.bind m (\<lambda>(r, D). if r \<noteq> 0 then Some (r, D) else f D)"

definition NWP_IF_WRITE :: "drvcfg \<Rightarrow> drvenv \<Rightarrow> u8 list \<Rightarrow> nat \<Rightarrow> nat \<Rightarrow> drv \<Rightarrow> (int \<times> drv) option" where
  "NWP_IF_WRITE C E buf off len D = do {
     bs \<leftarrow> read_at off len buf;
     Some (if if_write_ok E (g_calls D) then 0 else IF_ERROR C, vcall (V_write bs) D) }"

definition NWP_IF_READ_CHECK ::
    "drvcfg \<Rightarrow> nat \<Rightarrow> drv \<Rightarrow> (u8 list \<Rightarrow> drv \<Rightarrow> (int \<times> 'a \<times> drv) option) \<Rightarrow> 'a \<Rightarrow> (int \<times> 'a \<times> drv) option" where
  "NWP_IF_READ_CHECK C n D f out =
     (if n \<le> length (g_rx D) then f (take n (g_rx D)) (D\<lparr>g_rx := drop n (g_rx D)\<rparr>)
      else Some (IF_ERROR C, out, D))"

definition ALIGN :: "nat \<Rightarrow> nat" where "ALIGN n = 4 * ((n + 3) div 4)"

definition le16 :: "u16 \<Rightarrow> u8 list" where "le16 x = [ucast x, ucast (drop_bit 8 x)]"

definition le32 :: "u32 \<Rightarrow> u8 list" where
  "le32 x = [ucast x, ucast (drop_bit 8 x), ucast (drop_bit 16 x), ucast (drop_bit 24 x)]"

fun word_of_bytes :: "u8 list \<Rightarrow> u32" where
  "word_of_bytes [] = 0"
| "word_of_bytes (b # bs) = ucast b OR push_bit 8 (word_of_bytes bs)"

subsection \<open>Writing a command\<close>

text \<open>The payload of a command. The first transfer of two payloads leaves the length of the first
  rounded down to words in the command.\<close>

definition write_payload :: "drvcfg \<Rightarrow> drvenv \<Rightarrow> cmd_ext \<Rightarrow> drv \<Rightarrow> (int \<times> drv) option" where
  "write_payload C E e D =
     (if ce_TxPayload1Len e > 0 \<and> ce_TxPayload2Len e > 0
      then
        let rem = ce_TxPayload1Len e mod 4;
            l1 = ce_TxPayload1Len e - rem;
            off = (if rem \<noteq> 0 then 4 - rem else 0);
            D1 = D\<lparr>g_pCmdExt := Some (e\<lparr>ce_TxPayload1Len := l1\<rparr>)\<rparr>
        in RET_CHECK (NWP_IF_WRITE C E (ce_TxPayload1 e) 0 l1 D1) (\<lambda>D2.
           RET_CHECK (if rem \<noteq> 0
                      then do {
                        a \<leftarrow> read_at l1 rem (ce_TxPayload1 e);
                        b \<leftarrow> read_at 0 off (ce_TxPayload2 e);
                        NWP_IF_WRITE C E (a @ b) 0 4 D2 }
                      else Some (0, D2)) (\<lambda>D3.
           if ce_TxPayload2Len e > off
           then NWP_IF_WRITE C E (ce_TxPayload2 e) off (ALIGN (ce_TxPayload2Len e - off)) D3
           else Some (0, D3)))
      else if ce_TxPayload1Len e > 0
      then NWP_IF_WRITE C E (ce_TxPayload1 e) 0 (ALIGN (ce_TxPayload1Len e)) D
      else if ce_TxPayload2Len e > 0
      then NWP_IF_WRITE C E (ce_TxPayload2 e) 0 (ALIGN (ce_TxPayload2Len e)) D
      else Some (0, D))"

definition SlDrvMsgWrite ::
    "drvcfg \<Rightarrow> drvenv \<Rightarrow> cmd_ctrl \<Rightarrow> cmd_ext option \<Rightarrow> u8 list option \<Rightarrow> drv \<Rightarrow> (int \<times> drv) option" where
  "SlDrvMsgWrite C E pCmdCtrl pCmdExt pTxRxDescBuff D0 =
     (let sendRxPayload = (case pCmdExt of None \<Rightarrow> False | Some e \<Rightarrow> ce_RxPayloadLen e < 0);
          len0 = of_nat (PROTOCOL_CALC_LEN C pCmdCtrl pCmdExt) :: u16;
          ext = map_option (\<lambda>e. if sendRxPayload then e\<lparr>ce_RxPayloadLen := - ce_RxPayloadLen e\<rparr> else e) pCmdExt;
          len = (case ext of Some e \<Rightarrow> (if sendRxPayload then len0 + of_int (ce_RxPayloadLen e) else len0)
                           | None \<Rightarrow> len0);
          D = D0\<lparr>g_pCmdCtrl := Some pCmdCtrl, g_pTxRxDescBuff := pTxRxDescBuff, g_pCmdExt := ext\<rparr>
      in RET_CHECK (NWP_IF_WRITE C E (H2N_SYNC_PATTERN_Short C) 0 4 D) (\<lambda>D.
         RET_CHECK (NWP_IF_WRITE C E (le16 (cc_Opcode pCmdCtrl) @ le16 len) 0 4 D) (\<lambda>D.
         RET_CHECK (case pTxRxDescBuff of
                      Some buf \<Rightarrow> (if cc_TxDescLen pCmdCtrl > 0
                                   then NWP_IF_WRITE C E buf 0 (ALIGN (cc_TxDescLen pCmdCtrl)) D else Some (0, D))
                    | None \<Rightarrow> Some (0, D)) (\<lambda>D.
         case ext of
           None \<Rightarrow> Some (0, D)
         | Some e \<Rightarrow>
             RET_CHECK (if sendRxPayload
                        then NWP_IF_WRITE C E (ce_RxPayload e) 0 (ALIGN (nat (ce_RxPayloadLen e))) D
                        else Some (0, D)) (\<lambda>D.
             if cc_TxDescLen pCmdCtrl mod 4 \<noteq> 0 then Some (SL_RET_CODE_PROTOCOL_ERROR C, D)
             else write_payload C E e D)))))"

subsection \<open>The header of a response\<close>

definition N2H_SYNC_SPI_BUGS_MASK :: u32 where "N2H_SYNC_SPI_BUGS_MASK = 0x7FFF7F7F"

definition N2H_SYNC_PATTERN_MATCH :: "drvcfg \<Rightarrow> u8 list \<Rightarrow> u8 \<Rightarrow> bool" where
  "N2H_SYNC_PATTERN_MATCH C pBuf TxSeqNum =
     (let w = word_of_bytes (take 4 pBuf); m = w AND N2H_SYNC_SPI_BUGS_MASK;
          spim = N2H_SYNC_PATTERN C AND N2H_SYNC_SPI_BUGS_MASK
      in if w AND 4 \<noteq> 0 then m = (spim AND 0xFFFFFFF8) OR 4 OR (ucast TxSeqNum AND 3) else m = spim)"

text \<open>The state of the search: no timeout yet, one more chance, given up.\<close>

datatype timeout_state = TIMEOUT_STATE_INIT_VAL | TIMEOUT_ONE_MORE_SHOT | TIMEOUT_STATE_EXPIRY

text \<open>Reading on while the two words in the buffer are the same.\<close>

function skip_same :: "drvcfg \<Rightarrow> drvenv \<Rightarrow> u8 list \<Rightarrow> timeout_params \<Rightarrow> drv \<Rightarrow>
    int \<times> u8 list \<times> timeout_params \<times> drv" where
  "skip_same C E pBuf p D =
     (if take 4 pBuf = drop 4 pBuf
      then if length (g_rx D) < 4 then (IF_ERROR C, pBuf, p, D)
           else
             let pBuf' = take 4 pBuf @ take 4 (g_rx D);
                 (expired, p', D') = SlDrvIsTimeoutExpired C E p (D\<lparr>g_rx := drop 4 (g_rx D)\<rparr>)
             in if expired then (SL_API_ABORTED C, pBuf', p', D') else skip_same C E pBuf' p' D'
      else (0, pBuf, p, D))"
  by pat_completeness auto
termination
  by (relation "measure (\<lambda>(C, E, pBuf, p, D). length (g_rx D))")
    (auto simp: SlDrvIsTimeoutExpired_def slcb_GetTimestamp_def vcall_def split: prod.splits)

declare skip_same.simps [simp del]

text \<open>The position of the pattern in the eight bytes of the buffer.\<close>

definition find_sync :: "drvcfg \<Rightarrow> u8 \<Rightarrow> u8 list \<Rightarrow> nat option" where
  "find_sync C seq pBuf = find (\<lambda>ShiftIdx. N2H_SYNC_PATTERN_MATCH C (drop ShiftIdx pBuf) seq) [0..<5]"

text \<open>The result has the first four bytes after the pattern, or says that the search was given up.\<close>

function search_sync :: "drvcfg \<Rightarrow> drvenv \<Rightarrow> u8 list \<Rightarrow> timeout_state \<Rightarrow> timeout_params \<Rightarrow> drv \<Rightarrow>
    int \<times> u8 list \<times> drv" where
  "search_sync C E pBuf ts p D =
     (let found = find_sync C (g_TxSeqNum D) pBuf;
          n = (case found of Some ShiftIdx \<Rightarrow> ShiftIdx | None \<Rightarrow> 4)
      in if length (g_rx D) < n then (IF_ERROR C, pBuf, D)
         else
           let pBuf' = (case found of Some ShiftIdx \<Rightarrow> drop (ShiftIdx + 4) pBuf | None \<Rightarrow> drop 4 pBuf) @ take n (g_rx D);
               D1 = D\<lparr>g_rx := drop n (g_rx D)\<rparr>
           in if ts = TIMEOUT_ONE_MORE_SHOT then (SL_API_ABORTED C, pBuf', D1)
              else
                let (expired, p', D2) = SlDrvIsTimeoutExpired C E p D1
                in if found \<noteq> None then (0, pBuf', D2)
                   else search_sync C E pBuf' (if expired then TIMEOUT_ONE_MORE_SHOT else ts) p' D2)"
  by pat_completeness auto
termination
  by (relation "measure (\<lambda>(C, E, pBuf, ts, p, D). length (g_rx D))")
    (auto simp: SlDrvIsTimeoutExpired_def slcb_GetTimestamp_def vcall_def split: prod.splits)

declare search_sync.simps [simp del]

function skip_double :: "drvcfg \<Rightarrow> u8 list \<Rightarrow> drv \<Rightarrow> int \<times> u8 list \<times> drv" where
  "skip_double C pBuf D =
     (if N2H_SYNC_PATTERN_MATCH C pBuf (g_TxSeqNum D)
      then if length (g_rx D) < 4 then (IF_ERROR C, pBuf, D)
           else skip_double C (take 4 (g_rx D)) (D\<lparr>g_rx := drop 4 (g_rx D)\<rparr>)
      else (0, pBuf, D))"
  by pat_completeness auto
termination by (relation "measure (\<lambda>(C, pBuf, D). length (g_rx D))") auto

declare skip_double.simps [simp del]

definition SlDrvRxHdrRead :: "drvcfg \<Rightarrow> drvenv \<Rightarrow> drv \<Rightarrow> (int \<times> u8 list \<times> drv) option" where
  "SlDrvRxHdrRead C E D0 = do {
     (r, D1) \<leftarrow> NWP_IF_WRITE C E (H2N_CNYS_PATTERN_Short C) 0 4 D0;
     if r \<noteq> 0 then Some (r, [], D1)
     else do {
       let (p, D2) = SlDrvStartMeasureTimeout E (SYNC_PATTERN_TIMEOUT_IN_MSEC C) D1;
       NWP_IF_READ_CHECK C 8 D2 (\<lambda>pBuf D3.
         let (r, pBuf, p, D4) = skip_same C E pBuf p D3
         in if r \<noteq> 0 then Some (r, pBuf, D4)
            else let (r, pBuf, D5) = search_sync C E pBuf TIMEOUT_STATE_INIT_VAL p D4
            in if r \<noteq> 0 then Some (r, pBuf, D5)
               else let (r, pBuf, D6) = skip_double C pBuf D5
               in if r \<noteq> 0 then Some (r, pBuf, D6)
                  else NWP_IF_READ_CHECK C (SL_RESP_SPEC_HDR_SIZE C) (D6\<lparr>g_TxSeqNum := g_TxSeqNum D6 + 1\<rparr>)
                         (\<lambda>bs D7. Some (0, pBuf @ bs, D7)) pBuf) [] } }"

subsection \<open>The class of a response\<close>

definition RxMsgClassLUT :: "drvcfg \<Rightarrow> string option list" where
  "RxMsgClassLUT C =
     [Some ''_SlDeviceEventHandler'',
      if silo_registered C ''slcb_WlanEvtHdlr'' then Some ''_SlDrvHandleWlanEvents'' else None,
      if silo_registered C ''slcb_SockEvtHdlr'' then Some ''_SlDrvHandleSockEvents'' else None,
      if silo_registered C ''slcb_NetAppEvtHdlr'' then Some ''_SlDrvHandleNetAppEvents'' else None,
      None, None, Some ''_SlNetUtilHandleAsync_Cmd'', None]"

definition SlDrvClassifyRxMsg :: "drvcfg \<Rightarrow> u16 \<Rightarrow> drv \<Rightarrow> drv option" where
  "SlDrvClassifyRxMsg C Opcode D =
     (let set = \<lambda>c h. Some (D\<lparr>g_RxMsgClass := c, g_AsyncEvtHandler := h\<rparr>);
          is = \<lambda>name. Opcode = opcode C name;
          Silo = unat (drop_bit (SL_OPCODE_SILO_OFFSET C) Opcode AND 7)
      in if SL_OPCODE_SYNC C AND Opcode = 0
         then if is ''SL_OPCODE_DEVICE_DEVICEASYNCDUMMY'' then set DUMMY_MSG_CLASS None
              else if is_recv_opcode C Opcode then set RECV_RESP_CLASS None
              else set ASYNC_EVT_CLASS
                (if is ''SL_OPCODE_NETAPP_HTTPGETTOKENVALUE'' \<or> is ''SL_OPCODE_NETAPP_HTTPPOSTTOKENVALUE'' \<or>
                    is ''SL_OPCODE_NETAPP_REQUEST'' \<or> is ''SL_OPCODE_NETAPP_RESPONSE'' \<or> is ''SL_OPCODE_NETAPP_SEND''
                 then Some ''_SlNetAppEventHandler''
                 else if is ''SL_OPCODE_NETAPP_PINGREPORTREQUESTRESPONSE''
                 then Some ''_SlNetAppHandleAsync_PingResponse''
                 else RxMsgClassLUT C ! Silo)
         else if slcb_SocketTrigger C \<or> \<not> is ''SL_OPCODE_SOCKET_SELECTRESPONSE'' then set CMD_RESP_CLASS None
         else do {
           ctrl \<leftarrow> g_pCmdCtrl D;
           if cc_Opcode ctrl \<noteq> opcode C ''SL_OPCODE_SOCKET_SELECT'' then set MULTI_SELECT_RESP_CLASS None
           else set CMD_RESP_CLASS None })"

end
