(* ===== verification/DrvRead.thy ===== *)
theory DrvRead
  imports DrvMsg
begin

text \<open>
  Reading a message (\<open>_SlDrvMsgRead\<close> of \<open>src/driver.c\<close>): the status in its header, then
  the body by class, into the event's own buffer, the buffers of a waiting receive, or the buffers of
  the command. A body that does not fit its buffer is a write outside of it, \<open>None\<close>.
\<close>

type_synonym msg_out = "nat \<times> u8 list option"
type_synonym read_result = "(int \<times> msg_out \<times> drv) option"

subsection \<open>Parts of the message\<close>

text \<open>Reading words only to drop them; the counter has 16 bits.\<close>

function dump_words :: "drvcfg \<Rightarrow> u16 \<Rightarrow> drv \<Rightarrow> int \<times> drv" where
  "dump_words C AlignedLengthRecv D =
     (if AlignedLengthRecv > 0
      then if length (g_rx D) < 4 then (IF_ERROR C, D)
           else dump_words C (AlignedLengthRecv - 4) (D\<lparr>g_rx := drop 4 (g_rx D)\<rparr>)
      else (0, D))"
  by pat_completeness auto
termination by (relation "measure (\<lambda>(C, n, D). length (g_rx D))") auto

declare dump_words.simps [simp del]

definition i16 :: "int \<Rightarrow> int" where "i16 x = sint (word_of_int x :: 16 word)"

text \<open>\<open>len\<close> bytes of payload into a buffer: whole words directly, the last one to three bytes
  through a word of their own.\<close>

definition read_payload :: "drvcfg \<Rightarrow> nat \<Rightarrow> u8 list \<Rightarrow> msg_out \<Rightarrow> drv \<Rightarrow>
    (u8 list \<Rightarrow> drv \<Rightarrow> read_result) \<Rightarrow> read_result" where
  "read_payload C len buf out D f =
     (let LengthToCopy = len mod 4; AlignedLengthRecv = len - LengthToCopy;
          tail = (\<lambda>buf D.
            if LengthToCopy > 0
            then NWP_IF_READ_CHECK C 4 D (\<lambda>TailBuffer D. do {
                   buf' \<leftarrow> write_at AlignedLengthRecv (take LengthToCopy TailBuffer) buf;
                   f buf' D }) out
            else f buf D)
      in if AlignedLengthRecv \<ge> 4
         then NWP_IF_READ_CHECK C AlignedLengthRecv D (\<lambda>bs D. do { buf' \<leftarrow> write_at 0 bs buf; tail buf' D }) out
         else tail buf D)"

subsection \<open>An event\<close>

definition event_socket :: "drvcfg \<Rightarrow> u16 \<Rightarrow> u8 list \<Rightarrow> u8" where
  "event_socket C OpCode payload =
     (if OpCode = opcode C ''SL_OPCODE_SOCKET_ACCEPTASYNCRESPONSE'' \<or>
         OpCode = opcode C ''SL_OPCODE_SOCKET_ACCEPTASYNCRESPONSE_V6'' \<or>
         OpCode = opcode C ''SL_OPCODE_SOCKET_CONNECTASYNCRESPONSE'' \<or>
         OpCode = opcode C ''SL_OPCODE_SOCKET_SOCKETCLOSEASYNCEVENT'' \<or>
         OpCode = opcode C ''SL_OPCODE_SOCKET_SOCKETASYNCEVENT''
      then arg_Sd C payload AND SL_BSD_SOCKET_ID_MASK C else SL_MAX_SOCKETS C)"

definition read_event :: "drvcfg \<Rightarrow> drvenv \<Rightarrow> u8 list \<Rightarrow> u16 \<Rightarrow> nat \<Rightarrow> drv \<Rightarrow> read_result" where
  "read_event C E hdr OpCode RespPayloadLen D0 =
     (let D1 = vcall (V_malloc (SL_ASYNC_MAX_MSG_LEN C)) D0
      in if \<not> malloc_ok E (g_calls D0) then Some (NO_MEMORY C, (0, None), D1)
         else do {
           buf0 \<leftarrow> write_at 0 hdr (replicate (SL_ASYNC_MAX_MSG_LEN C) 0);
           let aligned = ALIGN RespPayloadLen;
           let AlignedLengthRecv = (if aligned \<le> SL_ASYNC_MAX_PAYLOAD_LEN C then aligned
                                    else ALIGN (SL_ASYNC_MAX_PAYLOAD_LEN C));
           let rest = (\<lambda>buf outLen D.
             let dumped = (if aligned > SL_ASYNC_MAX_PAYLOAD_LEN C
                           then dump_words C (of_nat (aligned - SL_ASYNC_MAX_PAYLOAD_LEN C)) D else (0, D));
                 out = (outLen, Some buf)
             in if fst dumped \<noteq> 0 then Some (fst dumped, out, snd dumped)
                else do {
                  D2 \<leftarrow> SlDrvProtectionObjLockWaitForever (snd dumped);
                  (r, D3) \<leftarrow> SlDrvFindAndSetActiveObj C OpCode
                               (event_socket C OpCode (drop (SL_RESP_HDR_SIZE C) buf)) D2;
                  Some (0, out, SlDrvProtectionObjUnLock D3) });
           if RespPayloadLen > 0
           then NWP_IF_READ_CHECK C AlignedLengthRecv D1 (\<lambda>bs D. do {
                  buf \<leftarrow> write_at (SL_RESP_HDR_SIZE C) bs buf0;
                  rest buf (SL_RESP_HDR_SIZE C + AlignedLengthRecv) D }) (SL_RESP_HDR_SIZE C, Some buf0)
           else rest buf0 (SL_RESP_HDR_SIZE C) D1 })"

subsection \<open>Data for a receive\<close>

definition set_args :: "nat \<Rightarrow> args_data \<Rightarrow> drv \<Rightarrow> drv" where
  "set_args ptr a D = D\<lparr>g_RecvArgs := (g_RecvArgs D)(ptr := a)\<rparr>"

text \<open>The response to a receive nobody waits for, in builds without a select trigger: it belongs to
  the control socket and is read into a local buffer as large as the largest arguments.\<close>

definition read_control :: "drvcfg \<Rightarrow> nat \<Rightarrow> u8 list \<Rightarrow> drv \<Rightarrow> read_result" where
  "read_control C ExpArgSize args D0 =
     (let n = nat (arg_StatusOrLen C args); AlignedLengthRecv = n - n mod 4;
          data = (\<lambda>buffer D.
            if arg_StatusOrLen C args > 0 \<and> AlignedLengthRecv \<ge> 4
            then NWP_IF_READ_CHECK C AlignedLengthRecv D (\<lambda>bs D. do {
                   buffer' \<leftarrow> write_at ExpArgSize bs buffer;
                   Some (0, (0, None), SlDrvProtectionObjUnLock D) }) (0, None)
            else Some (0, (0, None), SlDrvProtectionObjUnLock D))
      in do {
        buffer \<leftarrow> write_at 0 args (replicate (RECVFROM_IPV6_ARGS_SIZE C) 0);
        if ExpArgSize > RECV_ARGS_SIZE C
        then NWP_IF_READ_CHECK C (ExpArgSize - RECV_ARGS_SIZE C) D0 (\<lambda>bs D. do {
               buffer' \<leftarrow> write_at (RECV_ARGS_SIZE C) bs buffer; data buffer' D }) (0, None)
        else data buffer D0 })"

text \<open>The response for the waiting receive; the object is signalled when everything is read.\<close>

definition read_waiting :: "drvcfg \<Rightarrow> nat \<Rightarrow> u8 list \<Rightarrow> drv \<Rightarrow> read_result" where
  "read_waiting C ExpArgSize args D0 = do {
     let idx = g_ActionIndex D0;
     ptr \<leftarrow> po_pRespArgs (g_ObjPool D0 ! idx);
     pArgs \<leftarrow> write_at 0 args (ad_pArgs (g_RecvArgs D0 ptr));
     let a = (g_RecvArgs D0 ptr)\<lparr>ad_pArgs := pArgs\<rparr>;
     let done = (\<lambda>a D. Some (0, (0, None), SlDrvProtectionObjUnLock (signal_obj idx (set_args ptr a D))));
     let data = (\<lambda>a D.
       if arg_StatusOrLen C args > 0
       then read_payload C (nat (arg_StatusOrLen C args)) (ad_pData a) (0, None) D
              (\<lambda>buf D. done (a\<lparr>ad_pData := buf\<rparr>) D)
       else done a D);
     if ExpArgSize > RECV_ARGS_SIZE C
     then NWP_IF_READ_CHECK C (ExpArgSize - RECV_ARGS_SIZE C) D0 (\<lambda>bs D. do {
            pArgs' \<leftarrow> write_at (RECV_ARGS_SIZE C) bs (ad_pArgs a);
            data (a\<lparr>ad_pArgs := pArgs'\<rparr>) D }) (0, None)
     else data a D0 }"

definition read_recv :: "drvcfg \<Rightarrow> u16 \<Rightarrow> drv \<Rightarrow> read_result" where
  "read_recv C OpCode D0 =
     (let ExpArgSize = (if OpCode = opcode C ''SL_OPCODE_SOCKET_RECVFROMASYNCRESPONSE''
                        then RECVFROM_IPV4_ARGS_SIZE C
                        else if OpCode = opcode C ''SL_OPCODE_SOCKET_RECVFROMASYNCRESPONSE_V6''
                        then RECVFROM_IPV6_ARGS_SIZE C else RECV_ARGS_SIZE C)
      in NWP_IF_READ_CHECK C (RECV_ARGS_SIZE C) D0 (\<lambda>args D.
        let sd = arg_Sd C args AND SL_BSD_SOCKET_ID_MASK C
        in if \<not> sd < SL_MAX_SOCKETS C then Some (SL_RET_CODE_PROTOCOL_ERROR C, (0, None), D)
           else do {
             D1 \<leftarrow> SlDrvProtectionObjLockWaitForever D;
             (r, D2) \<leftarrow> SlDrvFindAndSetActiveObj C OpCode sd D1;
             if \<not> slcb_SocketTrigger C \<and> r = SL_RET_OBJ_NOT_SET C \<and> arg_Sd C args = g_CtrlSockFD D2
             then read_control C ExpArgSize args D2
             else if r < 0
             then do {
               D3 \<leftarrow> SlDrvGlobalObjUnLock True (SlDrvProtectionObjUnLock D2);
               Some (SL_API_ABORTED C, (0, None), D3) }
             else read_waiting C ExpArgSize args D2 }) (0, None))"

subsection \<open>The response to a command\<close>

definition read_cmd :: "drvcfg \<Rightarrow> nat \<Rightarrow> drv \<Rightarrow> read_result" where
  "read_cmd C RespPayloadLen D0 = do {
     ctrl \<leftarrow> g_pCmdCtrl D0;
     desc \<leftarrow> g_pTxRxDescBuff D0;
     NWP_IF_READ_CHECK C (ALIGN (cc_RxDescLen ctrl)) D0 (\<lambda>bs D1. do {
       desc' \<leftarrow> write_at 0 bs desc;
       let D = D1\<lparr>g_pTxRxDescBuff := Some desc'\<rparr>;
       (case g_pCmdExt D of
          None \<Rightarrow> Some (0, (0, None), D)
        | Some e \<Rightarrow>
            (if ce_RxPayloadLen e = 0 then Some (0, (0, None), D)
             else
               let ActDataSize = i16 (int RespPayloadLen - int (cc_RxDescLen ctrl));
                   e1 = e\<lparr>ce_ActualRxPayloadLen := ActDataSize\<rparr>
               in if ActDataSize \<le> 0
                  then Some (0, (0, None), D\<lparr>g_pCmdExt := Some (e1\<lparr>ce_RxPayloadLen := 0\<rparr>)\<rparr>)
                  else
                    let n = nat (if ActDataSize > ce_RxPayloadLen e then ce_RxPayloadLen e else ActDataSize);
                        left = (if n mod 4 > 0 then ActDataSize - 4 else ActDataSize)
                    in read_payload C n (ce_RxPayload e) (0, None) D (\<lambda>buf D.
                         let D' = D\<lparr>g_pCmdExt := Some (e1\<lparr>ce_RxPayload := buf\<rparr>)\<rparr>
                         in if left > ce_RxPayloadLen e
                            then let k = nat (left + 3 - ce_RxPayloadLen e); (r, D'') = dump_words C (of_nat (k - k mod 4)) D'
                                 in Some (r, (0, None), D'')
                            else Some (0, (0, None), D')))) }) (0, None) }"

subsection \<open>The response to a select that joined another\<close>

definition read_select :: "drvcfg \<Rightarrow> drv \<Rightarrow> read_result" where
  "read_select C D0 =
     NWP_IF_READ_CHECK C (ALIGN (BASIC_RESPONSE_SIZE C)) D0 (\<lambda>bs D1.
       let D = D1\<lparr>g_SelectStatus := basic_status C bs\<rparr>
       in if g_SelectStatus D = 0 then Some (0, (0, None), D)
          else
            let D2 = fold (\<lambda>Idx D. if g_SelectEntry D ! Idx then signal_obj Idx D else D)
                       [0..<MAX_CONCURRENT_ACTIONS C] D
            in Some (0, (0, None), D2\<lparr>g_ActiveSelect := False, g_SelectStatus := 0, g_SelectSync := None,
                 g_CtrlSockFD := 0, g_SelectEntry := replicate (MAX_CONCURRENT_ACTIONS C) False\<rparr>)) (0, None)"

subsection \<open>The whole message\<close>

text \<open>The first result is the return value, then the length and the buffer of an event.\<close>

definition SlDrvMsgRead :: "drvcfg \<Rightarrow> drvenv \<Rightarrow> drv \<Rightarrow> read_result" where
  "SlDrvMsgRead C E D0 = do {
     (r, hdr, D1) \<leftarrow> SlDrvRxHdrRead C E (D0\<lparr>g_AsyncEvtHandler := None\<rparr>);
     if r = SL_API_ABORTED C
     then do {
       D2 \<leftarrow> SlDrvGlobalObjUnLock True D1;
       Some (SL_API_ABORTED C, (0, None),
         SlDrvHandleFatalError C (fatal_id C ''SL_DEVICE_EVENT_FATAL_SYNC_LOSS'') 0 0 D2) }
     else do {
       let OpCode = rsp_Opcode C hdr;
       let RespPayloadLen = unat (rsp_Len C hdr - of_nat (SL_RESP_SPEC_HDR_SIZE C));
       let D2 = D1\<lparr>g_TxPoolCnt := rsp_TxPoolCnt C hdr, g_SocketNonBlocking := rsp_SocketNonBlocking C hdr,
                  g_SocketTXFailure := rsp_SocketTXFailure C hdr, g_MinTxPayloadSize := rsp_MinMaxPayload C hdr,
                  g_status := SL_SET_DEVICE_STATUS C (rsp_DevStatus C hdr) (g_status D1)\<rparr>;
       let D3 = (if g_TxPoolCnt D2 > FLOW_CONT_MIN C then D2\<lparr>g_TxSync := True\<rparr> else D2);
       D4 \<leftarrow> SlDrvClassifyRxMsg C OpCode D3;
       (r, out, D5) \<leftarrow>
         (case g_RxMsgClass D4 of
            ASYNC_EVT_CLASS \<Rightarrow> read_event C E hdr OpCode RespPayloadLen D4
          | RECV_RESP_CLASS \<Rightarrow> read_recv C OpCode D4
          | CMD_RESP_CLASS \<Rightarrow> read_cmd C RespPayloadLen D4
          | MULTI_SELECT_RESP_CLASS \<Rightarrow> read_select C D4
          | DUMMY_MSG_CLASS \<Rightarrow> Some (0, (0, None), D4));
       Some (if r \<noteq> 0 then (r, out, D5) else (0, out, D5\<lparr>g_IrqMasked := False\<rparr>)) } }"

end
