(* ===== verification/DrvEvents.thy ===== *)
theory DrvEvents
  imports DrvRead
begin

text \<open>
  Events (\<open>src/driver.c\<close>, \<open>src/spawn.c\<close>): handing an event to its handler, keeping the
  events that arrive while a command runs, and the spawn task that reads and handles them. The
  handlers outside of the file are the parameter \<open>on_handler\<close>. A message is pending when the
  interrupt counter and the counter of read messages differ (\<open>_SL_PENDING_RX_MSG\<close>).
\<close>

subsection \<open>Handing an event over\<close>

definition OpcodeTranslateTable :: "(string \<times> string) list" where
  "OpcodeTranslateTable =
     [(''SL_OPCODE_WLAN_STA_ASYNCCONNECTEDRESPONSE'', ''SL_WLAN_EVENT_CONNECT''),
      (''SL_OPCODE_WLAN_P2PCL_ASYNCCONNECTEDRESPONSE'', ''SL_WLAN_EVENT_P2P_CONNECT''),
      (''SL_OPCODE_WLAN_STA_ASYNCDISCONNECTEDRESPONSE'', ''SL_WLAN_EVENT_DISCONNECT''),
      (''SL_OPCODE_WLAN_P2PCL_ASYNCDISCONNECTEDRESPONSE'', ''SL_WLAN_EVENT_P2P_DISCONNECT''),
      (''SL_OPCODE_WLAN_ASYNC_STA_ADDED'', ''SL_WLAN_EVENT_STA_ADDED''),
      (''SL_OPCODE_WLAN_ASYNC_P2PCL_ADDED'', ''SL_WLAN_EVENT_P2P_CLIENT_ADDED''),
      (''SL_OPCODE_WLAN_ASYNC_STA_REMOVED'', ''SL_WLAN_EVENT_STA_REMOVED''),
      (''SL_OPCODE_WLAN_ASYNC_P2PCL_REMOVED'', ''SL_WLAN_EVENT_P2P_CLIENT_REMOVED''),
      (''SL_OPCODE_WLAN_P2P_DEV_FOUND'', ''SL_WLAN_EVENT_P2P_DEVFOUND''),
      (''SL_OPCODE_WLAN_P2P_NEG_REQ_RECEIVED'', ''SL_WLAN_EVENT_P2P_REQUEST''),
      (''SL_OPCODE_WLAN_P2P_CONNECTION_FAILED'', ''SL_WLAN_EVENT_P2P_CONNECTFAIL''),
      (''SL_OPCODE_WLAN_PROVISIONING_STATUS_ASYNC_EVENT'', ''SL_WLAN_EVENT_PROVISIONING_STATUS''),
      (''SL_OPCODE_WLAN_PROVISIONING_PROFILE_ADDED_ASYNC_RESPONSE'', ''SL_WLAN_EVENT_PROVISIONING_PROFILE_ADDED''),
      (''SL_OPCODE_WLAN_RX_FILTER_ASYNC_RESPONSE'', ''SL_WLAN_EVENT_RXFILTER''),
      (''SL_OPCODE_WLAN_LINK_QUALITY_RESPONSE'', ''SL_WLAN_EVENT_LINK_QUALITY_TRIGGER''),
      (''SL_OPCODE_NETAPP_IPACQUIRED'', ''SL_NETAPP_EVENT_IPV4_ACQUIRED''),
      (''SL_OPCODE_NETAPP_IPACQUIRED_V6'', ''SL_NETAPP_EVENT_IPV6_ACQUIRED''),
      (''SL_OPCODE_NETAPP_IP_LEASED'', ''SL_NETAPP_EVENT_DHCPV4_LEASED''),
      (''SL_OPCODE_NETAPP_IP_RELEASED'', ''SL_NETAPP_EVENT_DHCPV4_RELEASED''),
      (''SL_OPCODE_NETAPP_IP_COLLISION'', ''SL_NETAPP_EVENT_IP_COLLISION''),
      (''SL_OPCODE_NETAPP_IPV4_LOST'', ''SL_NETAPP_EVENT_IPV4_LOST''),
      (''SL_OPCODE_NETAPP_DHCP_IPV4_ACQUIRE_TIMEOUT'', ''SL_NETAPP_EVENT_DHCP_IPV4_ACQUIRE_TIMEOUT''),
      (''SL_OPCODE_NETAPP_IPV6_LOST_V6'', ''SL_NETAPP_EVENT_IPV6_LOST''),
      (''SL_OPCODE_NETAPP_NO_IP_COLLISION_DETECTED'', ''SL_NETAPP_EVENT_NO_IPV4_COLLISION_DETECTED''),
      (''SL_OPCODE_NETAPP_NO_LOCAL_IP_COLLISION_DETECTED_V6'', ''SL_NETAPP_EVENT_NO_LOCAL_IPV6_COLLISION_DETECTED''),
      (''SL_OPCODE_NETAPP_NO_GLOBAL_IP_COLLISION_DETECTED_V6'', ''SL_NETAPP_EVENT_NO_GLOBAL_IPV6_COLLISION_DETECTED''),
      (''SL_OPCODE_SOCKET_TXFAILEDASYNCRESPONSE'', ''SL_SOCKET_TX_FAILED_EVENT''),
      (''SL_OPCODE_SOCKET_SOCKETASYNCEVENT'', ''SL_SOCKET_ASYNC_EVENT'')]"

definition call_handler :: "drvenv \<Rightarrow> string \<Rightarrow> u8 list \<Rightarrow> drv \<Rightarrow> drv option" where
  "call_handler E h bs D = on_handler E h bs (vcall (V_handler h bs) D)"

text \<open>The events that pass while provisioning runs.\<close>

definition provisioning_event :: "drvcfg \<Rightarrow> u16 \<Rightarrow> bool" where
  "provisioning_event C opc \<longleftrightarrow> opc \<in> opcode C ` {''SL_OPCODE_WLAN_PROVISIONING_STATUS_ASYNC_EVENT'',
     ''SL_OPCODE_DEVICE_RESET_REQUEST_ASYNC_EVENT'', ''SL_OPCODE_DEVICE_INITCOMPLETE'',
     ''SL_OPCODE_WLAN_PROVISIONING_PROFILE_ADDED_ASYNC_RESPONSE'', ''SL_OPCODE_NETAPP_REQUEST''}"

text \<open>An event of the device silo reaches its handler with a flag beside the buffer.\<close>

definition SlDrvAsyncEventGenericHandler :: "drvcfg \<Rightarrow> drvenv \<Rightarrow> u8 list \<Rightarrow> drv \<Rightarrow> drv option" where
  "SlDrvAsyncEventGenericHandler C E pAsyncBuffer D =
     (let opc = rsp_Opcode C pAsyncBuffer; st = g_status D
      in case g_AsyncEvtHandler D of
           None \<Rightarrow> Some D
         | Some h \<Rightarrow>
             (if (provisioning_active st \<or> provisioning_by_user st) \<and> \<not> provisioning_api_allowed st \<and>
                 \<not> provisioning_event C opc
              then Some D
              else case find (\<lambda>(name, ev). opcode C name = opc) OpcodeTranslateTable of
                     None \<Rightarrow> call_handler E h pAsyncBuffer D
                   | Some (name, ev) \<Rightarrow> do {
                       let loc = SL_RESP_HDR_SIZE C - 4;
                       buf \<leftarrow> write_at loc (le32 (ucast (event_of C ev))) pAsyncBuffer;
                       call_handler E h (drop loc buf) D }))"

subsection \<open>Events that arrive during a command\<close>

definition SlSpawnMsgListInsert :: "drvcfg \<Rightarrow> drvenv \<Rightarrow> nat \<Rightarrow> u8 list \<Rightarrow> drv \<Rightarrow> (int \<times> drv) option" where
  "SlSpawnMsgListInsert C E AsyncEventLen pAsyncBuf D0 = do {
     D \<leftarrow> SlDrvProtectionObjLockWaitForever D0;
     let D1 = vcall (V_malloc 0) D;
     if \<not> malloc_ok E (g_calls D)
     then Some (SL_RET_CODE_NO_FREE_ASYNC_BUFFERS_ERROR C, SlDrvProtectionObjUnLock D1)
     else
       let D2 = vcall (V_malloc AsyncEventLen) D1
       in if \<not> malloc_ok E (g_calls D1)
          then Some (SL_RET_CODE_NO_FREE_ASYNC_BUFFERS_ERROR C, SlDrvProtectionObjUnLock (vcall (V_free 0) D2))
          else do {
            bs \<leftarrow> read_at 0 AsyncEventLen pAsyncBuf;
            Some (0, SlDrvProtectionObjUnLock (D2\<lparr>g_spawnMsgList := g_spawnMsgList D2 @
              [\<lparr>si_ActionIndex = g_ActionIndex D2, si_AsyncHndlr = g_AsyncEvtHandler D2, si_Buffer = bs\<rparr>]\<rparr>)) } }"

definition SlSpawnMsgListGetCount :: "drv \<Rightarrow> (u16 \<times> drv) option" where
  "SlSpawnMsgListGetCount D0 = do {
     D \<leftarrow> SlDrvProtectionObjLockWaitForever D0;
     Some (of_nat (length (g_spawnMsgList D)), SlDrvProtectionObjUnLock D) }"

text \<open>The loop follows the list from the item it takes: what a handler appends is reached, unless
  the item taken was the last one. The rest of the list is remembered before the handler runs; if the
  handler has taken items of it, the loop follows a freed item.\<close>

partial_function (option) SlSpawnMsgListProcess :: "drvcfg \<Rightarrow> drvenv \<Rightarrow> drv \<Rightarrow> (int \<times> drv) option" where
  "SlSpawnMsgListProcess C E D0 =
     (case g_spawnMsgList D0 of
        [] \<Rightarrow> Some (0, D0)
      | it # rest \<Rightarrow> do {
          (r, D) \<leftarrow> SlDrvObjGlobalLockWaitForever C 0 D0;
          if r \<noteq> 0 then Some (r, D)
          else do {
            D1 \<leftarrow> SlDrvAsyncEventGenericHandler C E (si_Buffer it) (D\<lparr>g_ActionIndex := si_ActionIndex it,
                    g_AsyncEvtHandler := si_AsyncHndlr it, g_spawnMsgList := rest\<rparr>);
            D2 \<leftarrow> SlDrvGlobalObjUnLock False (vcall (V_free 0) (vcall (V_free (length (si_Buffer it))) D1));
            if rest = [] then Some (0, D2)
            else if take (length rest) (g_spawnMsgList D2) = rest then SlSpawnMsgListProcess C E D2
            else None } })"

declare SlSpawnMsgListProcess.simps [code]

definition SlFindAndReleasePendingCmd :: "drvcfg \<Rightarrow> drv \<Rightarrow> drv" where
  "SlFindAndReleasePendingCmd C D =
     (case po_pRespArgs (g_ObjPool D ! g_ActionIndex D) of
        None \<Rightarrow> D
      | Some ptr \<Rightarrow> signal_obj (g_ActionIndex D)
                      (vcall (V_resp_status ptr (SL_RET_CODE_NO_FREE_ASYNC_BUFFERS_ERROR C)) D))"

subsection \<open>The spawn task\<close>

definition PENDING_RX_MSG :: "drv \<Rightarrow> bool" where
  "PENDING_RX_MSG D \<longleftrightarrow> g_RxIrqCnt D \<noteq> g_RxDoneCnt D"

definition SlDrvMsgReadSpawnCtx :: "drvcfg \<Rightarrow> drvenv \<Rightarrow> drv \<Rightarrow> (int \<times> drv) option" where
  "SlDrvMsgReadSpawnCtx C E D0 = do {
     (r, D) \<leftarrow> SlDrvObjGlobalLockWaitForever C 0 D0;
     if r \<noteq> 0 then Some (r, D)
     else if \<not> PENDING_RX_MSG D then map_option (Pair 0) (SlDrvGlobalObjUnLock False D)
     else if device_started (g_status D) \<or> start_in_progress (g_status D)
     then do {
       (RetVal, (outMsgLen, pAsyncBuf), D1) \<leftarrow> SlDrvMsgRead C E D;
       if RetVal \<noteq> 0
       then if RetVal \<noteq> SL_API_ABORTED C
            then map_option (Pair (SL_API_ABORTED C)) (SlDrvGlobalObjUnLock False D1)
            else Some (SL_API_ABORTED C, D1)
       else do {
         let D2 = D1\<lparr>g_RxDoneCnt := g_RxDoneCnt D1 + 1\<rparr>;
         (case g_RxMsgClass D2 of
            ASYNC_EVT_CLASS \<Rightarrow>
              (case pAsyncBuf of
                 None \<Rightarrow> Some (SL_RET_CODE_PROTOCOL_ERROR C, D2)
               | Some buf \<Rightarrow> do {
                   D3 \<leftarrow> SlDrvAsyncEventGenericHandler C E buf D2;
                   map_option (Pair 0) (SlDrvGlobalObjUnLock False (vcall (V_free (length buf)) D3)) })
          | MULTI_SELECT_RESP_CLASS \<Rightarrow>
              map_option (Pair 0) (SlDrvGlobalObjUnLock False (D2\<lparr>g_SelectSync := map_option (\<lambda>_. True) (g_SelectSync D2)\<rparr>))
          | _ \<Rightarrow> map_option (Pair 0) (SlDrvGlobalObjUnLock False D2)) } }
     else Some (SL_RET_CODE_INTERFACE_CLOSED C, D) }"

partial_function (option) spawn_irq_loop :: "drvcfg \<Rightarrow> drvenv \<Rightarrow> drv \<Rightarrow> drv option" where
  "spawn_irq_loop C E D =
     (if g_IrqWriteCnt D \<noteq> g_IrqReadCnt D
      then do {
        (r, D1) \<leftarrow> SlDrvMsgReadSpawnCtx C E D;
        spawn_irq_loop C E (D1\<lparr>g_IrqReadCnt := g_IrqReadCnt D1 + 1\<rparr>) }
      else Some D)"

declare spawn_irq_loop.simps [code]

definition SlInternalSpawnWaitForEvent :: "drvcfg \<Rightarrow> drvenv \<Rightarrow> drv \<Rightarrow> drv option" where
  "SlInternalSpawnWaitForEvent C E D0 =
     (let (r, D) = SyncObjWait C E S_spawn D0
      in if r \<noteq> 0 then None
         else do {
           (r', D1) \<leftarrow> SlSpawnMsgListProcess C E D;
           spawn_irq_loop C E D1 })"

text \<open>The task's start; then it waits for events for ever.\<close>

definition spawn_task_start :: "drv \<Rightarrow> drv" where
  "spawn_task_start D = D\<lparr>g_SpawnSync := False, g_IrqWriteCnt := 0, g_IrqReadCnt := 0\<rparr>"

fun spawn_task_rounds :: "drvcfg \<Rightarrow> drvenv \<Rightarrow> nat \<Rightarrow> drv \<Rightarrow> drv option" where
  "spawn_task_rounds C E 0 D = Some D"
| "spawn_task_rounds C E (Suc n) D = Option.bind (SlInternalSpawnWaitForEvent C E D) (spawn_task_rounds C E n)"

definition SlInternalSpawnTaskEntry :: "drvcfg \<Rightarrow> drvenv \<Rightarrow> nat \<Rightarrow> drv \<Rightarrow> drv option" where
  "SlInternalSpawnTaskEntry C E rounds D = spawn_task_rounds C E rounds (spawn_task_start D)"

end
