(* ===== verification/DrvCmd.thy ===== *)
theory DrvCmd
  imports DrvEvents
begin

text \<open>
  Commands and data (\<open>src/driver.c\<close>): a command and the wait for its response, commands without
  a response, and the two data operations with their flow control. \<open>spawn\<close> says that the caller is
  the spawn task (\<open>_SlDrvIsSpawnOwnGlobalLock\<close>); a buffer that is the empty list is a NULL
  pointer.
\<close>

subsection \<open>Waiting for the response of a command\<close>

definition CmdCmpltTimeout :: "drvcfg \<Rightarrow> u16 \<Rightarrow> u32" where
  "CmdCmpltTimeout C cmdOpcode =
     (if cmdOpcode = opcode C ''SL_OPCODE_NVMEM_FILEOPEN'' \<or>
         cmdOpcode = opcode C ''SL_OPCODE_NVMEM_NVMEMFSPROGRAMMINGCOMMAND''
      then SL_DRIVER_TIMEOUT_LONG C * 10
      else if SL_OPCODE_SILO_FS C AND cmdOpcode \<noteq> 0 then SL_DRIVER_TIMEOUT_LONG C
      else SL_DRIVER_TIMEOUT_SHORT C)"

definition unlock_if :: "bool \<Rightarrow> drv \<Rightarrow> drv option" where
  "unlock_if b D = (if b then SlDrvGlobalObjUnLock True D else Some D)"

text \<open>What the loop does with a message it has read.\<close>

definition cmd_ctx_message :: "drvcfg \<Rightarrow> drvenv \<Rightarrow> nat \<Rightarrow> u8 list option \<Rightarrow> drv \<Rightarrow> drv option" where
  "cmd_ctx_message C E outMsgLen pAsyncBuf D =
     (case g_RxMsgClass D of
        CMD_RESP_CLASS \<Rightarrow> Some (D\<lparr>g_WaitForCmdResp := False, g_CmdSync := False\<rparr>)
      | ASYNC_EVT_CLASS \<Rightarrow> do {
          buf \<leftarrow> pAsyncBuf;
          (r, D1) \<leftarrow> SlSpawnMsgListInsert C E outMsgLen buf D;
          let D2 = (if r = SL_RET_CODE_NO_FREE_ASYNC_BUFFERS_ERROR C then SlFindAndReleasePendingCmd C D1 else D1);
          Some (vcall (V_free (length buf)) D2) }
      | MULTI_SELECT_RESP_CLASS \<Rightarrow> Some (D\<lparr>g_SelectSync := map_option (\<lambda>_. True) (g_SelectSync D)\<rparr>)
      | _ \<Rightarrow> Some D)"

text \<open>The loop; the second result says that it ended with the command's response.\<close>

partial_function (option) cmd_ctx_loop ::
    "drvcfg \<Rightarrow> drvenv \<Rightarrow> u16 \<Rightarrow> bool \<Rightarrow> drv \<Rightarrow> (int \<times> bool \<times> drv) option" where
  "cmd_ctx_loop C E cmdOpcode IsLockRequired D0 =
     (if \<not> g_WaitForCmdResp D0 then Some (0, True, D0)
      else if PENDING_RX_MSG D0
      then do {
        (RetVal, (outMsgLen, pAsyncBuf), D1) \<leftarrow> SlDrvMsgRead C E D0;
        if RetVal \<noteq> 0
        then do {
          D2 \<leftarrow> unlock_if (IsLockRequired \<and> RetVal \<noteq> SL_API_ABORTED C) (D1\<lparr>g_WaitForCmdResp := False\<rparr>);
          Some (SL_API_ABORTED C, False, D2) }
        else do {
          D2 \<leftarrow> cmd_ctx_message C E outMsgLen pAsyncBuf (D1\<lparr>g_RxDoneCnt := g_RxDoneCnt D1 + 1\<rparr>);
          cmd_ctx_loop C E cmdOpcode IsLockRequired D2 } }
      else
        let (RetVal, D1) = SyncObjWait C E S_cmd D0
        in if RetVal \<noteq> 0
           then do {
             D2 \<leftarrow> unlock_if IsLockRequired (D1\<lparr>g_WaitForCmdResp := False\<rparr>);
             Some (SL_API_ABORTED C, False,
               if device_started (g_status D2)
               then SlDrvHandleFatalError C (fatal_id C ''SL_DEVICE_EVENT_FATAL_NO_CMD_ACK'') (ucast cmdOpcode)
                      (CmdCmpltTimeout C cmdOpcode) D2
               else D2) }
           else cmd_ctx_loop C E cmdOpcode IsLockRequired D1)"

declare cmd_ctx_loop.simps [code]

definition SlDrvMsgReadCmdCtx :: "drvcfg \<Rightarrow> drvenv \<Rightarrow> u16 \<Rightarrow> bool \<Rightarrow> drv \<Rightarrow> (int \<times> drv) option" where
  "SlDrvMsgReadCmdCtx C E cmdOpcode IsLockRequired D0 = do {
     (r, done, D1) \<leftarrow> cmd_ctx_loop C E cmdOpcode IsLockRequired D0;
     if \<not> done then Some (r, D1)
     else do {
       (n, D2) \<leftarrow> SlSpawnMsgListGetCount D1;
       let D3 = (if n > 0 then SlInternalSpawn SL_SPAWN_FLAG_FROM_CMD_PROCESS D2 else D2);
       D4 \<leftarrow> unlock_if IsLockRequired D3;
       Some (0, if PENDING_RX_MSG D4 then SlInternalSpawn SL_SPAWN_FLAG_FROM_CMD_CTX D4 else D4) } }"

subsection \<open>Commands\<close>

definition cmd_flags :: "drvcfg \<Rightarrow> cmd_ctrl \<Rightarrow> u8 list option \<Rightarrow> u32 option" where
  "cmd_flags C ctrl desc = do {
     let opc = (push_bit 16 (ucast (cc_Opcode ctrl)) :: u32);
     let flags = GLOBAL_LOCK_FLAGS_UPDATE_API_IN_PROGRESS C;
     if cc_Opcode ctrl = opcode C ''SL_OPCODE_WLAN_PROVISIONING_COMMAND''
     then do {
       pParams \<leftarrow> desc;
       Some ((if prov_InactivityTimeoutSec C pParams = 0
              then flags OR GLOBAL_LOCK_FLAGS_PROVISIONING_STOP_API C else flags) OR opc) }
     else Some (flags OR opc) }"

definition SlDrvCmdOp ::
    "drvcfg \<Rightarrow> drvenv \<Rightarrow> cmd_ctrl \<Rightarrow> u8 list option \<Rightarrow> cmd_ext option \<Rightarrow> drv \<Rightarrow> (int \<times> drv) option" where
  "SlDrvCmdOp C E ctrl desc ext D0 = do {
     let IsLockRequired = \<not> (provisioning_in_progress (g_status D0) \<and>
                              cc_Opcode ctrl = opcode C ''SL_OPCODE_DEVICE_STOP_COMMAND'');
     (r, D1) \<leftarrow> (if IsLockRequired
                 then do { flags \<leftarrow> cmd_flags C ctrl desc; SlDrvObjGlobalLockWaitForever C flags D0 }
                 else Some (0, D0));
     if r \<noteq> 0 then Some (r, D1)
     else if restart_required (g_status D1)
     then map_option (Pair (SL_API_ABORTED C)) (unlock_if IsLockRequired D1)
     else do {
       (RetVal, D2) \<leftarrow> SlDrvMsgWrite C E ctrl ext desc (D1\<lparr>g_WaitForCmdResp := True\<rparr>);
       if RetVal = 0 then SlDrvMsgReadCmdCtx C E (cc_Opcode ctrl) IsLockRequired D2
       else map_option (Pair RetVal) (unlock_if IsLockRequired D2) } }"

definition SlDrvBasicCmd :: "drvcfg \<Rightarrow> drvenv \<Rightarrow> u16 \<Rightarrow> drv \<Rightarrow> (int \<times> drv) option" where
  "SlDrvBasicCmd C E Opcode D = do {
     (r, D1) \<leftarrow> SlDrvCmdOp C E \<lparr>cc_Opcode = Opcode, cc_TxDescLen = 0, cc_RxDescLen = BASIC_RESPONSE_SIZE C\<rparr>
                  (Some (replicate (BASIC_RESPONSE_SIZE C) 0)) None D;
     if r \<noteq> 0 then Some (r, D1)
     else do { msg \<leftarrow> g_pTxRxDescBuff D1; Some (basic_status C msg, D1) } }"

text \<open>The parameters of the command in progress, saved and restored.\<close>

definition restore_params :: "drv \<Rightarrow> drv \<Rightarrow> drv" where
  "restore_params old D = D\<lparr>g_pCmdCtrl := g_pCmdCtrl old, g_pTxRxDescBuff := g_pTxRxDescBuff old,
     g_pCmdExt := g_pCmdExt old, g_ActionIndex := g_ActionIndex old,
     g_AsyncEvtHandler := g_AsyncEvtHandler old, g_RxMsgClass := g_RxMsgClass old\<rparr>"

definition SlDrvCmdSend_noLock ::
    "drvcfg \<Rightarrow> drvenv \<Rightarrow> cmd_ctrl \<Rightarrow> u8 list option \<Rightarrow> cmd_ext option \<Rightarrow> drv \<Rightarrow> (int \<times> drv) option" where
  "SlDrvCmdSend_noLock C E ctrl desc ext D0 = do {
     (r, D1) \<leftarrow> SlDrvMsgWrite C E ctrl ext desc (D0\<lparr>g_WaitForCmdResp := False\<rparr>);
     Some (r, restore_params D0 (D1\<lparr>g_WaitForCmdResp := g_WaitForCmdResp D0\<rparr>)) }"

definition SlDrvCmdSend_noWait ::
    "drvcfg \<Rightarrow> drvenv \<Rightarrow> cmd_ctrl \<Rightarrow> u8 list option \<Rightarrow> cmd_ext option \<Rightarrow> drv \<Rightarrow> (int \<times> drv) option" where
  "SlDrvCmdSend_noWait C E ctrl desc ext D0 = do {
     (r, D1) \<leftarrow> SlDrvMsgWrite C E ctrl ext desc D0;
     Some (r, restore_params D0 D1) }"

definition SlDrvCmdSend ::
    "drvcfg \<Rightarrow> drvenv \<Rightarrow> cmd_ctrl \<Rightarrow> u8 list option \<Rightarrow> cmd_ext option \<Rightarrow> drv \<Rightarrow> (int \<times> drv) option" where
  "SlDrvCmdSend C E ctrl desc ext D0 = do {
     D \<leftarrow> SlDrvObjLockWaitForever_Global D0;
     (r, D1) \<leftarrow> SlDrvMsgWrite C E ctrl ext desc (D\<lparr>g_WaitForCmdResp := False\<rparr>);
     Some (r, D1\<lparr>g_GlobalLock := False\<rparr>) }"

subsection \<open>Waiting for an event and for the flow control\<close>

text \<open>The spawn task reads events itself until the sync object is signalled.\<close>

partial_function (option) spawn_wait ::
    "drvcfg \<Rightarrow> drvenv \<Rightarrow> sync_id \<Rightarrow> drv \<Rightarrow> drv option" where
  "spawn_wait C E s D0 = do {
     D1 \<leftarrow> SlInternalSpawnWaitForEvent C E D0;
     let (r, D2) = SyncObjWait_NO_WAIT C s D1;
     if r = 0 then Some D2 else spawn_wait C E s D2 }"

declare spawn_wait.simps [code]

partial_function (option) spawn_wait_timeout ::
    "drvcfg \<Rightarrow> drvenv \<Rightarrow> sync_id \<Rightarrow> u32 \<Rightarrow> timeout_params \<Rightarrow> drv \<Rightarrow> (bool \<times> drv) option" where
  "spawn_wait_timeout C E s Timeout p D0 =
     (let (expired, p', D1) = (if Timeout = 0 then (False, p, D0) else SlDrvIsTimeoutExpired C E p D0)
      in if expired then Some (False, D1)
         else do {
           D2 \<leftarrow> SlInternalSpawnWaitForEvent C E D1;
           let (r, D3) = SyncObjWait_NO_WAIT C s D2;
           if r = 0 then Some (True, D3) else spawn_wait_timeout C E s Timeout p' D3 })"

declare spawn_wait_timeout.simps [code]

definition SlDrvWaitForInternalAsyncEvent ::
    "drvcfg \<Rightarrow> drvenv \<Rightarrow> bool \<Rightarrow> nat \<Rightarrow> u32 \<Rightarrow> u16 \<Rightarrow> drv \<Rightarrow> (int \<times> drv) option" where
  "SlDrvWaitForInternalAsyncEvent C E spawn ObjIdx Timeout Opcode D0 =
     (if spawn
      then do {
        let (p, D1) = SlDrvStartMeasureTimeout E Timeout D0;
        (signalled, D2) \<leftarrow> spawn_wait_timeout C E (S_pool ObjIdx) Timeout p D1;
        Some (if signalled then (0, D2)
              else (SL_API_ABORTED C, SlDrvHandleFatalError C (fatal_id C ''SL_DEVICE_EVENT_FATAL_CMD_TIMEOUT'')
                      (ucast Opcode) Timeout D2)) }
      else if Timeout \<noteq> 0 then Some (SlDrvSyncObjWaitTimeout C E (S_pool ObjIdx) Timeout Opcode D0)
      else SlDrvSyncObjWaitForever C E (S_pool ObjIdx) D0)"

text \<open>The wait of the flow control.\<close>

definition flow_wait :: "drvcfg \<Rightarrow> drvenv \<Rightarrow> bool \<Rightarrow> drv \<Rightarrow> (int \<times> drv) option" where
  "flow_wait C E spawn D =
     (if spawn then map_option (Pair 0) (spawn_wait C E S_tx D)
      else let (r, D1) = SyncObjWait C E S_tx D
           in if r \<noteq> 0
              then Some (SL_API_ABORTED C,
                SlDrvHandleFatalError C (fatal_id C ''SL_DEVICE_EVENT_FATAL_DRIVER_ABORT'') 0 0 D1)
              else if restart_required (g_status D1) then Some (SL_API_ABORTED C, D1)
              else Some (0, D1))"

text \<open>A call of \<open>SlDrvWaitForPoolObj\<close> with its sleeps.\<close>

partial_function (option) pool_wait_done ::
    "drvcfg \<Rightarrow> drvenv \<Rightarrow> u8 \<Rightarrow> u8 \<Rightarrow> pool_wait \<times> drv \<Rightarrow> (int \<times> drv) option" where
  "pool_wait_done C E a sd w =
     (case w of
        (PW_return r, D) \<Rightarrow> Some (r, D)
      | (PW_sleep i, D) \<Rightarrow> do {
          w' \<leftarrow> SlDrvWaitForPoolObj_woken C a sd i (others E (g_calls D) (vcall (V_os ''sl_SyncObjWait'') D));
          pool_wait_done C E a sd w' })"

declare pool_wait_done.simps [code]

subsection \<open>Data operations\<close>

definition sd_bit :: "drvcfg \<Rightarrow> u8 \<Rightarrow> u16" where
  "sd_bit C Sd = push_bit (unat (Sd AND SL_BSD_SOCKET_ID_MASK C)) 1"

text \<open>Waiting for the global lock inside a data operation: other threads run until it is free.\<close>

definition data_global_lock :: "drvcfg \<Rightarrow> drvenv \<Rightarrow> drv \<Rightarrow> (int \<times> drv) option" where
  "data_global_lock C E D =
     SlDrvObjGlobalLockWaitForever C (GLOBAL_LOCK_FLAGS_UPDATE_API_IN_PROGRESS C) (others E (g_calls D) D)"

text \<open>Sending the request, from the global lock on; the object and the flow control's lock are held.
  Every early return leaves them held.\<close>

definition data_read_send ::
    "drvcfg \<Rightarrow> drvenv \<Rightarrow> cmd_ctrl \<Rightarrow> u8 list option \<Rightarrow> cmd_ext \<Rightarrow> drv \<Rightarrow> (int \<times> bool \<times> drv) option" where
  "data_read_send C E ctrl desc e D0 = do {
     (r, D1) \<leftarrow> data_global_lock C E D0;
     if r \<noteq> 0 then Some (r, False, D1)
     else if restart_required (g_status D1)
     then map_option (\<lambda>D. (SL_API_ABORTED C, False, D)) (SlDrvGlobalObjUnLock True D1)
     else if \<not> int (unat (g_TxPoolCnt D1)) > int (unat (FLOW_CONT_MIN C)) - 1
     then Some (SL_RET_CODE_PROTOCOL_ERROR C, False, D1)
     else do {
       (RetVal, D2) \<leftarrow> SlDrvMsgWrite C E ctrl (Some e) desc (D1\<lparr>g_TxPoolCnt := g_TxPoolCnt D1 - 1, g_TxLock := False\<rparr>);
       D3 \<leftarrow> SlDrvGlobalObjUnLock True D2;
       Some (RetVal, True, D3) } }"

definition SlDrvDataReadOp :: "drvcfg \<Rightarrow> drvenv \<Rightarrow> bool \<Rightarrow> nat \<Rightarrow> u8 \<Rightarrow> cmd_ctrl \<Rightarrow> u8 list option \<Rightarrow> cmd_ext \<Rightarrow>
    drv \<Rightarrow> (int \<times> drv) option" where
  "SlDrvDataReadOp C E spawn ptr Sd ctrl desc e D0 =
     (let sd = Sd AND SL_BSD_SOCKET_ID_MASK C
      in if ce_RxPayload e = [] then Some (SL_RET_CODE_INVALID_INPUT C, D0)
         else if ce_RxPayloadLen e = 0 then Some (SL_RET_CODE_PROTOCOL_ERROR C, D0)
         else if sd \<ge> SL_MAX_SOCKETS C then Some (SL_ERROR_BSD_EBADF C, D0)
         else do {
           w \<leftarrow> SlDrvWaitForPoolObj C spawn (RECV_ID C) sd D0;
           (ObjIdx, D1) \<leftarrow> pool_wait_done C E (RECV_ID C) sd w;
           if ObjIdx = int (MAX_CONCURRENT_ACTIONS C) then Some (SL_POOL_IS_EMPTY C, D1)
           else if ObjIdx = SL_RET_CODE_STOP_IN_PROGRESS C then Some (SL_RET_CODE_STOP_IN_PROGRESS C, D1)
           else do {
             D2 \<leftarrow> SlDrvProtectionObjLockWaitForever D1;
             let i = nat ObjIdx;
             D3 \<leftarrow> SlDrvObjLockWaitForever_Tx (SlDrvProtectionObjUnLock (set_obj i (\<lambda>ob. ob\<lparr>po_pRespArgs := Some ptr\<rparr>)
                     (D2\<lparr>g_RecvArgs := (g_RecvArgs D2)(ptr := \<lparr>ad_pArgs = (case desc of None \<Rightarrow> [] | Some b \<Rightarrow> b),
                                                           ad_pData = ce_RxPayload e\<rparr>)\<rparr>)));
             let D4 = D3\<lparr>g_TxSync := False\<rparr>;
             (r, D5) \<leftarrow> (if g_TxPoolCnt D4 \<le> FLOW_CONT_MIN C then flow_wait C E spawn D4 else Some (0, D4));
             if r \<noteq> 0 then Some (r, D5)
             else do {
               (RetVal, sent, D6) \<leftarrow> data_read_send C E ctrl desc e D5;
               if \<not> sent then Some (RetVal, D6)
               else do {
                 (RetVal', D7) \<leftarrow>
                   (if RetVal \<noteq> 0 then Some (RetVal, D6)
                    else if g_SocketNonBlocking D6 AND sd_bit C Sd \<noteq> 0
                    then SlDrvWaitForInternalAsyncEvent C E spawn i (SL_DRIVER_TIMEOUT_SHORT C)
                           (if cc_Opcode ctrl = opcode C ''SL_OPCODE_SOCKET_RECV''
                            then opcode C ''SL_OPCODE_SOCKET_RECVASYNCRESPONSE''
                            else opcode C ''SL_OPCODE_SOCKET_RECVFROMASYNCRESPONSE'') D6
                    else SlDrvWaitForInternalAsyncEvent C E spawn i 0 0 D6);
                 (r', D8) \<leftarrow> SlDrvReleasePoolObj C i D7;
                 Some (RetVal', D8) } } } })"

text \<open>The packets a write needs; a minimal payload of 0 is a division by zero. The length less one
  is divided as a signed number, towards zero.\<close>

definition allocTxPoolPkts :: "cmd_ext \<Rightarrow> drv \<Rightarrow> nat option" where
  "allocTxPoolPkts e D =
     (if g_MinTxPayloadSize D = 0 then None
      else if ce_TxPayload1Len e = 0 \<and> g_MinTxPayloadSize D = 1 then Some 0
      else Some (1 + (ce_TxPayload1Len e - 1) div unat (g_MinTxPayloadSize D)))"

text \<open>The loop of \<open>_SlDrvDataWriteOp\<close> over the flow control. The number of packets, or the value
  to return.\<close>

partial_function (option) data_write_flow ::
    "drvcfg \<Rightarrow> drvenv \<Rightarrow> bool \<Rightarrow> u8 \<Rightarrow> cmd_ext \<Rightarrow> drv \<Rightarrow> ((int + nat) \<times> drv) option" where
  "data_write_flow C E spawn Sd e D0 = do {
     D1 \<leftarrow> SlDrvObjLockWaitForever_Tx D0;
     let D2 = D1\<lparr>g_TxSync := False\<rparr>;
     pkts \<leftarrow> allocTxPoolPkts e D2;
     let free = (\<lambda>D. unat (g_TxPoolCnt D) > unat (FLOW_CONT_MIN C) + pkts);
     if g_SocketTXFailure D2 AND sd_bit C Sd \<noteq> 0
     then Some (Inl (SL_ERROR_BSD_SOC_ERROR C), D2\<lparr>g_TxLock := False\<rparr>)
     else if free D2 then Some (Inr pkts, D2)
     else if g_SocketNonBlocking D2 AND sd_bit C Sd \<noteq> 0
     then do {
       D3 \<leftarrow> (if spawn then SlInternalSpawnWaitForEvent C E D2 else Some D2);
       Some (Inl (SL_ERROR_BSD_EAGAIN C), D3\<lparr>g_TxLock := False\<rparr>) }
     else do {
       (r, D3) \<leftarrow> flow_wait C E spawn D2;
       if r \<noteq> 0 then Some (Inl r, D3)
       else if free D3 then Some (Inr pkts, D3)
       else data_write_flow C E spawn Sd e (D3\<lparr>g_TxLock := False\<rparr>) } }"

declare data_write_flow.simps [code]

definition SlDrvDataWriteOp ::
    "drvcfg \<Rightarrow> drvenv \<Rightarrow> bool \<Rightarrow> u8 \<Rightarrow> cmd_ctrl \<Rightarrow> u8 list option \<Rightarrow> cmd_ext \<Rightarrow> drv \<Rightarrow> (int \<times> drv) option" where
  "SlDrvDataWriteOp C E spawn Sd ctrl desc e D0 = do {
     (res, D1) \<leftarrow> data_write_flow C E spawn Sd e D0;
     (case res of
        Inl r \<Rightarrow> Some (r, D1)
      | Inr pkts \<Rightarrow> do {
          (r, D2) \<leftarrow> data_global_lock C E D1;
          if r \<noteq> 0 then Some (r, D2)
          else if restart_required (g_status D2)
          then map_option (Pair (SL_API_ABORTED C)) (SlDrvGlobalObjUnLock True D2)
          else if \<not> int (unat (g_TxPoolCnt D2)) > int (unat (FLOW_CONT_MIN C)) + int pkts - 1
          then Some (SL_RET_CODE_PROTOCOL_ERROR C, D2)
          else do {
            (RetVal, D3) \<leftarrow> SlDrvMsgWrite C E ctrl (Some e) desc
              (D2\<lparr>g_TxPoolCnt := g_TxPoolCnt D2 - of_nat pkts, g_TxLock := False\<rparr>);
            D4 \<leftarrow> SlDrvGlobalObjUnLock True D3;
            Some (RetVal, D4) } }) }"

end
