(* ===== verification/DrvMsgProps.thy ===== *)
theory DrvMsgProps
  imports DrvMsg DrvExample
begin

text \<open>
  What a message does: the fields a write leaves alone, the bytes it sends, and where the search for
  the sync pattern ends.
\<close>

subsection \<open>What a write leaves alone\<close>

lemma RET_CHECK_post:
  assumes "post m (\<lambda>(r, D). P D)" and "\<And>D. P D \<Longrightarrow> post (f D) (\<lambda>(r, D). P D)"
  shows "post (RET_CHECK m f) (\<lambda>(r, D). P D)"
  using assms by (cases m) (auto simp: RET_CHECK_def)

lemma NWP_IF_WRITE_post: "P (vcall (V_write (take len (drop off buf))) D) \<Longrightarrow>
    post (NWP_IF_WRITE C E buf off len D) (\<lambda>(r, D). P D)"
  by (simp add: NWP_IF_WRITE_def read_at_def)

lemma bind_post_any: "(\<And>x. post (f x) Q) \<Longrightarrow> post (Option.bind m f) Q"
  by (cases m) auto

text \<open>A part \<open>f\<close> of the control block that neither the trace of the calls nor the parameters of
  the command are in.\<close>

lemma SlDrvMsgWrite_frame:
  assumes "\<And>c D. f (vcall c D) = f D" and "\<And>D e. f (D\<lparr>g_pCmdExt := e\<rparr>) = f D"
    and "\<And>D a b e. f (D\<lparr>g_pCmdCtrl := a, g_pTxRxDescBuff := b, g_pCmdExt := e\<rparr>) = f D"
  shows "post (SlDrvMsgWrite C E ctrl ext desc D) (\<lambda>(r, D'). f D' = f D)"
proof -
  have payload: "post (write_payload C E e D1) (\<lambda>(r, D'). f D' = f D)" if "f D1 = f D" for e D1
    unfolding write_payload_def Let_def
    by (intro post_if RET_CHECK_post NWP_IF_WRITE_post bind_post_any) (use that assms in simp_all)
  show ?thesis
    unfolding SlDrvMsgWrite_def Let_def
    by (cases ext; cases desc; simp only: option.case option.map;
        intro RET_CHECK_post post_if NWP_IF_WRITE_post payload) (use assms in simp_all)
qed

subsection \<open>The bytes of a message\<close>

definition bytes_written :: "drv_call list \<Rightarrow> u8 list" where
  "bytes_written cs = concat (map (\<lambda>c. case c of V_write bs \<Rightarrow> bs | _ \<Rightarrow> []) (rev cs))"

lemma bytes_written_vcall [simp]: "bytes_written (g_calls (vcall (V_write bs) D)) = bytes_written (g_calls D) @ bs"
  by (simp add: bytes_written_def vcall_def)

lemma bytes_written_update: "g_calls (D\<lparr>g_pCmdExt := x\<rparr>) = g_calls D" by simp

text \<open>The code sends whole words: a buffer has room to read behind its last byte.\<close>

definition room :: "nat \<Rightarrow> 'a list \<Rightarrow> bool" where "room n buf \<longleftrightarrow> n = 0 \<or> n + 3 \<le> length buf"

lemma ALIGN_bounds: "n \<le> ALIGN n" "ALIGN n \<le> n + 3" "ALIGN n mod 4 = 0"
  unfolding ALIGN_def by presburger+

lemma NWP_write_ok:
  assumes "\<forall>cs. if_write_ok E cs" and "off + len \<le> length buf"
  shows "NWP_IF_WRITE C E buf off len D = Some (0, vcall (V_write (take len (drop off buf))) D)"
  using assms by (simp add: NWP_IF_WRITE_def read_at_def)

lemma RET_CHECK_ok: "RET_CHECK (Some (0, D)) f = f D"
  by (simp add: RET_CHECK_def)

text \<open>Payloads are sent as one sequence of bytes, filled up to a whole word.\<close>

definition filled :: "u8 list \<Rightarrow> u8 list \<Rightarrow> bool" where
  "filled bs xs \<longleftrightarrow> (\<exists>pad. xs = bs @ pad \<and> length pad < 4 \<and> length xs mod 4 = 0)"

lemma filled_take:
  assumes "n \<le> m" "m < n + 4" "m \<le> length buf" "(length xs + m) mod 4 = 0"
  shows "filled (xs @ take n buf) (xs @ take m buf)"
proof -
  have "take m buf = take n buf @ drop n (take m buf)"
    using append_take_drop_id [of n "take m buf"] assms(1) by (simp add: min_absorb1)
  then show ?thesis using assms unfolding filled_def by (intro exI [of _ "drop n (take m buf)"]) simp
qed

lemma joined_length:
  fixes n1 n2 a off m :: nat
  assumes off: "off = (if n1 mod 4 \<noteq> 0 then 4 - n1 mod 4 else 0)" and m: "m = (if n2 > off then off + a else off)"
    and a: "n2 - off \<le> a" "a \<le> n2 - off + 3" "a mod 4 = 0"
  shows "n2 \<le> m" "m < n2 + 4" "(n1 + m) mod 4 = 0" "off \<le> m"
proof -
  show "n2 \<le> m" "off \<le> m" using m a(1) by (auto split: if_splits)
  have o3: "off \<le> 3" using off by auto
  then show "m < n2 + 4" using m a(2) by (auto split: if_splits)
  have "(n1 + off) mod 4 = 0" using off by (auto split: if_splits) presburger
  then show "(n1 + m) mod 4 = 0" using m a(3) by (auto split: if_splits) presburger
qed

text \<open>The first payload ends inside a word: the word over the seam is put together from both.\<close>

lemma write_payload_seam:
  fixes e :: cmd_ext
  defines "n1 \<equiv> ce_TxPayload1Len e" and "n2 \<equiv> ce_TxPayload2Len e" and "P1 \<equiv> ce_TxPayload1 e" and "P2 \<equiv> ce_TxPayload2 e"
  defines "r \<equiv> n1 mod 4"
  defines "o4 \<equiv> 4 - r" and "l \<equiv> n1 - r"
  assumes ok: "\<forall>cs. if_write_ok E cs" and n: "0 < n1" "0 < n2" and r0: "r \<noteq> 0"
    and P1: "n1 \<le> length P1" and P2: "o4 \<le> length P2" "n2 > o4 \<longrightarrow> o4 + ALIGN (n2 - o4) \<le> length P2"
  shows "write_payload C E e D = Some (0,
    (if n2 > o4 then vcall (V_write (take (ALIGN (n2 - o4)) (drop o4 P2))) else id)
      (vcall (V_write (take r (drop l P1) @ take o4 P2))
        (vcall (V_write (take l P1)) (D\<lparr>g_pCmdExt := Some (e\<lparr>ce_TxPayload1Len := l\<rparr>)\<rparr>))))"
proof -
  have lr: "l + r = n1" "r < 4" "r + o4 = 4" by (simp_all add: l_def r_def o4_def)
  then have b: "l \<le> length P1" "l + r \<le> length P1" using P1 by linarith+
  have len: "length (take r (drop l P1)) = r" "length (take o4 P2) = o4" using b P2 by auto
  have four: "take 4 (take r (drop l P1) @ take o4 P2) = take r (drop l P1) @ take o4 P2" 
    by (rule take_all) (simp only: length_append len lr(3) order_refl)
  have "write_payload C E e D = RET_CHECK (Some (0, vcall (V_write (take l P1)) (D\<lparr>g_pCmdExt :=
      Some (e\<lparr>ce_TxPayload1Len := l\<rparr>)\<rparr>))) (\<lambda>D2. RET_CHECK (Some (0, vcall (V_write
      (take r (drop l P1) @ take o4 P2)) D2)) (\<lambda>D3. if n2 > o4
        then NWP_IF_WRITE C E P2 o4 (ALIGN (n2 - o4)) D3 else Some (0, D3)))"
    using n r0 b(1) len four P2(1) b(2)
    unfolding n1_def n2_def P1_def P2_def r_def o4_def l_def
    by (simp add: write_payload_def Let_def NWP_write_ok [OF ok] read_at_def)
  also have "\<dots> = Some (0, (if n2 > o4 then vcall (V_write (take (ALIGN (n2 - o4)) (drop o4 P2))) else id)
      (vcall (V_write (take r (drop l P1) @ take o4 P2)) (vcall (V_write (take l P1)) (D\<lparr>g_pCmdExt :=
      Some (e\<lparr>ce_TxPayload1Len := l\<rparr>)\<rparr>))))"
  proof (cases "n2 > o4")
    case True
    then show ?thesis by (simp only: RET_CHECK_ok NWP_write_ok [OF ok P2(2) [rule_format, OF True]] if_True)
  next
    case False
    then show ?thesis by (simp add: RET_CHECK_ok)
  qed
  finally show ?thesis .
qed

lemma write_payload_both:
  fixes e :: cmd_ext
  defines "n1 \<equiv> ce_TxPayload1Len e" and "n2 \<equiv> ce_TxPayload2Len e" and "P1 \<equiv> ce_TxPayload1 e" and "P2 \<equiv> ce_TxPayload2 e"
  defines "off \<equiv> if n1 mod 4 \<noteq> 0 then 4 - n1 mod 4 else 0"
  defines "m \<equiv> if n2 > off then off + ALIGN (n2 - off) else off"
  assumes ok: "\<forall>cs. if_write_ok E cs" and n: "0 < n1" "0 < n2" and P1: "n1 \<le> length P1"
    and P2: "m \<le> length P2" "off \<le> m"
  shows "\<exists>D'. write_payload C E e D = Some (0, D') \<and>
    bytes_written (g_calls D') = bytes_written (g_calls D) @ take n1 P1 @ take m P2"
proof (cases "n1 mod 4 = 0")
  case True
  then have "ALIGN n2 \<le> length P2" using P2(1) n(2) by (simp add: m_def off_def)
  then show ?thesis
    using n P1 True unfolding m_def off_def n1_def n2_def P1_def P2_def
    by (simp add: write_payload_def NWP_write_ok [OF ok] RET_CHECK_ok Let_def)
next
  case False
  define o4 l where "o4 = 4 - n1 mod 4" and "l = n1 - n1 mod 4"
  note defs = o4_def [symmetric] l_def [symmetric]
  have o: "off = o4" using False by (simp add: off_def o4_def)
  have P2': "o4 \<le> length P2" "n2 > o4 \<longrightarrow> o4 + ALIGN (n2 - o4) \<le> length P2" using P2 unfolding m_def o by (auto split: if_splits)
  have "l + n1 mod 4 = n1" by (simp add: l_def)
  then have split1: "take n1 P1 = take l P1 @ take (n1 mod 4) (drop l P1)" by (metis take_add)
  have split2: "take m P2 = take o4 P2 @ (if n2 > o4 then take (ALIGN (n2 - o4)) (drop o4 P2) else [])"
    unfolding m_def o by (cases "n2 > o4") (simp_all only: if_True if_False take_add append_Nil2)
  note run = write_payload_seam [of E e, folded n1_def n2_def P1_def P2_def, unfolded defs, OF ok n False P1 P2']
  show ?thesis unfolding run split1 split2 by (simp add: bytes_written_update)
qed

lemma write_payload_bytes:
  assumes ok: "\<forall>cs. if_write_ok E cs" and r1: "room (ce_TxPayload1Len e) (ce_TxPayload1 e)"
    and r2: "room (ce_TxPayload2Len e) (ce_TxPayload2 e)"
  shows "\<exists>D' xs. write_payload C E e D = Some (0, D') \<and> bytes_written (g_calls D') = bytes_written (g_calls D) @ xs \<and>
    filled (take (ce_TxPayload1Len e) (ce_TxPayload1 e) @ take (ce_TxPayload2Len e) (ce_TxPayload2 e)) xs"
proof -
  let ?n1 = "ce_TxPayload1Len e" and ?n2 = "ce_TxPayload2Len e"
  let ?P1 = "ce_TxPayload1 e" and ?P2 = "ce_TxPayload2 e"
  let ?r = "?n1 mod 4"
  let ?off = "if ?r \<noteq> 0 then 4 - ?r else 0"
  let ?m = "if ?n2 > ?off then ?off + ALIGN (?n2 - ?off) else ?off"
  consider "?n1 = 0" "?n2 = 0" | "?n1 = 0" "?n2 > 0" | "?n1 > 0" "?n2 = 0" | "?n1 > 0" "?n2 > 0" by linarith
  then show ?thesis
  proof cases
    case 1
    then show ?thesis by (auto simp: write_payload_def filled_def intro!: exI [of _ D])
  next
    case 2
    then have "ALIGN ?n2 \<le> length ?P2" using r2 ALIGN_bounds(2) [of ?n2] by (auto simp: room_def)
    then show ?thesis
      using 2 ALIGN_bounds [of ?n2] filled_take [of ?n2 "ALIGN ?n2" ?P2 "[]"]
      by (simp add: write_payload_def NWP_write_ok [OF ok])
  next
    case 3
    then have "ALIGN ?n1 \<le> length ?P1" using r1 ALIGN_bounds(2) [of ?n1] by (auto simp: room_def)
    then show ?thesis
      using 3 ALIGN_bounds [of ?n1] filled_take [of ?n1 "ALIGN ?n1" ?P1 "[]"]
      by (simp add: write_payload_def NWP_write_ok [OF ok])
  next
    case 4
    have l: "?n1 + 3 \<le> length ?P1" "?n2 + 3 \<le> length ?P2" using r1 r2 4 by (auto simp: room_def)
    note j = joined_length [OF refl refl ALIGN_bounds [of "?n2 - ?off"]]
    have m: "?n2 \<le> ?m" "?m < ?n2 + 4" "(?n1 + ?m) mod 4 = 0" "?off \<le> ?m" by (fact j)+
    then have ml: "?m \<le> length ?P2" using l by linarith
    have "\<exists>D'. write_payload C E e D = Some (0, D') \<and>
        bytes_written (g_calls D') = bytes_written (g_calls D) @ take ?n1 ?P1 @ take ?m ?P2"
      by (rule write_payload_both [OF ok 4(1,2) _ ml m(4)]) (use l in simp)
    then show ?thesis
      using filled_take [OF m(1,2) ml, of "take ?n1 ?P1"] m(3) l by auto
  qed
qed

text \<open>C35: The bytes of a command. When the interface takes every write, the network processor
  receives the sync pattern, opcode and length, the descriptor, a receive buffer that is to be sent,
  and then the two payloads as one sequence without a gap between them, filled up at its end to whole
  words, whatever the lengths of the two are.\<close>

theorem SlDrvMsgWrite_bytes:
  assumes ok: "\<forall>cs. if_write_ok E cs" and "length (H2N_SYNC_PATTERN_Short C) = 4"
    and "cc_TxDescLen ctrl mod 4 = 0" and "\<forall>buf. desc = Some buf \<longrightarrow> cc_TxDescLen ctrl \<le> length buf"
    and "room (ce_TxPayload1Len e) (ce_TxPayload1 e)" and "room (ce_TxPayload2Len e) (ce_TxPayload2 e)"
    and "room (nat (- ce_RxPayloadLen e)) (ce_RxPayload e)"
  shows "\<exists>D' xs. SlDrvMsgWrite C E ctrl (Some e) desc D = Some (0, D') \<and>
    bytes_written (g_calls D') = bytes_written (g_calls D) @ H2N_SYNC_PATTERN_Short C @ le16 (cc_Opcode ctrl) @
      le16 (of_nat (PROTOCOL_CALC_LEN C ctrl (Some e)) + of_nat (nat (- ce_RxPayloadLen e))) @
      (case desc of None \<Rightarrow> [] | Some buf \<Rightarrow> take (cc_TxDescLen ctrl) buf) @
      take (ALIGN (nat (- ce_RxPayloadLen e))) (ce_RxPayload e) @ xs \<and>
    filled (take (ce_TxPayload1Len e) (ce_TxPayload1 e) @ take (ce_TxPayload2Len e) (ce_TxPayload2 e)) xs"
proof -
  let ?n = "nat (- ce_RxPayloadLen e)"
  let ?e = "if ce_RxPayloadLen e < 0 then e\<lparr>ce_RxPayloadLen := - ce_RxPayloadLen e\<rparr> else e"
  let ?len = "of_nat (PROTOCOL_CALC_LEN C ctrl (Some e)) + of_nat ?n :: u16"
  let ?desc = "case desc of None \<Rightarrow> [] | Some buf \<Rightarrow> take (cc_TxDescLen ctrl) buf"
  have al: "ALIGN (cc_TxDescLen ctrl) = cc_TxDescLen ctrl"
    using assms(3) unfolding ALIGN_def by presburger
  have rx: "ALIGN ?n \<le> length (ce_RxPayload e) \<or> ?n = 0"
    using assms(7) ALIGN_bounds(2) [of ?n] by (auto simp: room_def)
  have al0: "ALIGN 0 = 0" by (simp add: ALIGN_def)
  have sent: "\<exists>D1. SlDrvMsgWrite C E ctrl (Some e) desc D = write_payload C E ?e D1 \<and> bytes_written (g_calls D1) =
    bytes_written (g_calls D) @ H2N_SYNC_PATTERN_Short C @ le16 (cc_Opcode ctrl) @ le16 ?len @ ?desc @
      take (ALIGN ?n) (ce_RxPayload e)"
  proof -
    note w = SlDrvMsgWrite_def Let_def NWP_write_ok [OF ok] RET_CHECK_ok le16_def assms(2,3) al al0
    have l: "?len = of_nat (PROTOCOL_CALC_LEN C ctrl (Some e)) + (if ce_RxPayloadLen e < 0
        then of_int (- ce_RxPayloadLen e) else 0)"
      by (simp add: of_nat_nat)
    show ?thesis
      unfolding l using assms(2,4) rx
      by (cases desc; cases "ce_RxPayloadLen e < 0"; cases "cc_TxDescLen ctrl = 0")
        (simp_all add: w, (rule exI, rule conjI, rule refl, simp)+)
  qed
  then obtain D1 where D1: "SlDrvMsgWrite C E ctrl (Some e) desc D = write_payload C E ?e D1"
    "bytes_written (g_calls D1) = bytes_written (g_calls D) @ H2N_SYNC_PATTERN_Short C @ le16 (cc_Opcode ctrl) @
      le16 ?len @ ?desc @ take (ALIGN ?n) (ce_RxPayload e)" by blast
  have "ce_TxPayload1Len ?e = ce_TxPayload1Len e" "ce_TxPayload1 ?e = ce_TxPayload1 e"
    "ce_TxPayload2Len ?e = ce_TxPayload2Len e" "ce_TxPayload2 ?e = ce_TxPayload2 e" by simp_all
  then show ?thesis using write_payload_bytes [OF ok, of ?e C D1] assms(5,6) D1 by auto
qed

definition example_two :: cmd_ext where
  "example_two = \<lparr>ce_TxPayload1 = [1, 0, 0, 0], ce_TxPayload1Len = 1, ce_TxPayload2 = [2, 3, 4, 5, 0, 0, 0],
     ce_TxPayload2Len = 4, ce_RxPayload = [], ce_RxPayloadLen = 0, ce_ActualRxPayloadLen = 0\<rparr>"

theorem SlDrvMsgWrite_bytes_witness:
  "\<exists>D' xs. SlDrvMsgWrite example_drvcfg example_drvenv \<lparr>cc_Opcode = 7, cc_TxDescLen = 0, cc_RxDescLen = 4\<rparr>
      (Some example_two) None example_drv = Some (0, D') \<and>
    bytes_written (g_calls D') = [0x21, 0x43, 0x34, 0x12, 7, 0, 8, 0] @ xs \<and> filled [1, 2, 3, 4, 5] xs"
  using SlDrvMsgWrite_bytes [of example_drvenv example_drvcfg "\<lparr>cc_Opcode = 7, cc_TxDescLen = 0, cc_RxDescLen = 4\<rparr>"
      None example_two example_drv]
  by (simp add: example_env_simps example_two_def room_def ALIGN_def bytes_written_def le16_def)
    (simp add: example_drvcfg_def)

end
