(* ===== verification/DrvLock.thy ===== *)
theory DrvLock
  imports DrvCmd DrvMsgProps
begin

text \<open>
  The locks of the data and command paths: what every step does to the global lock and the counter
  of APIs in progress, that a command gives the global lock back, and that the timeout of the flow
  control keeps its lock.
\<close>

subsection \<open>The global lock along the steps\<close>

text \<open>\<open>steady D\<close>: the lock and the counter are those of \<open>D\<close>; \<open>given\<close>: they are, or
  the lock has been given back on the way and the code says so.\<close>

definition steady :: "drv \<Rightarrow> drv \<Rightarrow> bool" where
  "steady D D' \<longleftrightarrow> g_GlobalLock D' = g_GlobalLock D \<and> g_ApiInProgressCnt D' = g_ApiInProgressCnt D"

definition given :: "drvcfg \<Rightarrow> drv \<Rightarrow> int \<Rightarrow> drv \<Rightarrow> bool" where
  "given C D r D' \<longleftrightarrow> (if r = SL_API_ABORTED C then \<not> g_GlobalLock D' else steady D D')"

definition codes_differ :: "drvcfg \<Rightarrow> bool" where
  "codes_differ C \<longleftrightarrow> SL_API_ABORTED C \<notin> {0, IF_ERROR C, NO_MEMORY C, SL_RET_CODE_PROTOCOL_ERROR C} \<and>
     SL_RET_CODE_PROVISIONING_IN_PROGRESS C \<noteq> 0"

lemma steady_refl [simp]: "steady D D" by (simp add: steady_def)

lemma steady_trans: "steady D1 D2 \<Longrightarrow> steady D2 D3 \<Longrightarrow> steady D1 D3" by (simp add: steady_def)

lemma steady_updates [simp]:
  "steady D (vcall c D') = steady D D'" "steady D (set_obj i f D') = steady D D'"
  "steady D (signal_obj i D') = steady D D'" "steady D (D'\<lparr>g_rx := x\<rparr>) = steady D D'"
  "steady D (D'\<lparr>g_ObjPool := p\<rparr>) = steady D D'" "steady D (D'\<lparr>g_calls := k\<rparr>) = steady D D'"
  "steady D (set_args ptr a D') = steady D D'" "steady D (SlDrvProtectionObjUnLock D') = steady D D'"
  "steady D (D'\<lparr>g_ProtectionLock := b\<rparr>) = steady D D'" "steady D (D'\<lparr>g_TxSeqNum := u\<rparr>) = steady D D'"
  "steady D (D'\<lparr>g_pCmdExt := e\<rparr>) = steady D D'" "steady D (D'\<lparr>g_pTxRxDescBuff := d\<rparr>) = steady D D'"
  "steady D (D'\<lparr>g_RxMsgClass := c', g_AsyncEvtHandler := h\<rparr>) = steady D D'"
  "steady D (D'\<lparr>g_AsyncEvtHandler := h\<rparr>) = steady D D'" "steady D (D'\<lparr>g_SelectStatus := st\<rparr>) = steady D D'"
  "steady D (D'\<lparr>g_IrqMasked := b\<rparr>) = steady D D'" "steady D (D'\<lparr>g_TxSync := b\<rparr>) = steady D D'"
  "steady D (D'\<lparr>g_ActionIndex := i\<rparr>) = steady D D'" "steady D (D'\<lparr>g_status := s\<rparr>) = steady D D'"
  "steady D (D'\<lparr>g_WaitForCmdResp := b\<rparr>) = steady D D'" "steady D (D'\<lparr>g_CmdSync := b\<rparr>) = steady D D'"
  "steady D (D'\<lparr>g_RxDoneCnt := u\<rparr>) = steady D D'" "steady D (D'\<lparr>g_SelectSync := o'\<rparr>) = steady D D'"
  "steady D (SlInternalSpawn fl D') = steady D D'" "steady D (D'\<lparr>g_RxMsgClass := c'\<rparr>) = steady D D'"
  "steady D (D'\<lparr>g_SpawnSync := b\<rparr>) = steady D D'" "steady D (D'\<lparr>g_spawnMsgList := l\<rparr>) = steady D D'"
  "steady D (D'\<lparr>g_TxPoolCnt := tp\<rparr>) = steady D D'" "steady D (D'\<lparr>g_MinTxPayloadSize := mp\<rparr>) = steady D D'"
  "steady D (D'\<lparr>g_SocketNonBlocking := nb\<rparr>) = steady D D'" "steady D (D'\<lparr>g_SocketTXFailure := nb\<rparr>) = steady D D'"
  by (simp_all add: steady_def vcall_def set_obj_def signal_obj_def set_args_def SlDrvProtectionObjUnLock_def
      SlInternalSpawn_def)

lemma steady_left [simp]: "steady (vcall c D) D' = steady D D'" "steady (D\<lparr>g_rx := x\<rparr>) D' = steady D D'"
  "steady (D\<lparr>g_ProtectionLock := b\<rparr>) D' = steady D D'" "steady (D\<lparr>g_WaitForCmdResp := b\<rparr>) D' = steady D D'"
  by (simp_all add: steady_def vcall_def)

lemma lock_post: "Q (D\<lparr>g_ProtectionLock := True\<rparr>) \<Longrightarrow> post (SlDrvProtectionObjLockWaitForever D) Q"
  by (simp add: SlDrvProtectionObjLockWaitForever_def)

lemma steady_fold: "(\<And>x D. steady D (f x D)) \<Longrightarrow> steady D (fold f xs D)"
  by (induction xs arbitrary: D) (auto intro: steady_trans)

lemma steady_HandleFatalError: "steady D (SlDrvHandleFatalError C e i1 i2 D)"
  using steady_fold [of signal_obj "D\<lparr>g_status := (g_status D)\<lparr>restart_required := True\<rparr>\<rparr>"]
  by (simp add: SlDrvHandleFatalError_def Let_def) (simp add: steady_def)

lemma steady_clock: "steady D (snd (snd (SlDrvIsTimeoutExpired C E p D)))"
  by (simp add: SlDrvIsTimeoutExpired_def slcb_GetTimestamp_def case_prod_beta)

subsection \<open>Writing and reading\<close>

lemma NWP_IF_WRITE_steady: "steady D D1 \<Longrightarrow> post (NWP_IF_WRITE C E buf off len D1) (\<lambda>(r, D'). steady D D')"
  by (rule NWP_IF_WRITE_post) simp

lemma SlDrvMsgWrite_steady:
  assumes "steady D D1" shows "post (SlDrvMsgWrite C E ctrl ext desc D1) (\<lambda>(r, D'). steady D D')"
proof -
  have "post (SlDrvMsgWrite C E ctrl ext desc D1)
      (\<lambda>(r, D'). (g_GlobalLock D', g_ApiInProgressCnt D') = (g_GlobalLock D1, g_ApiInProgressCnt D1))"
    by (rule SlDrvMsgWrite_frame) (simp_all add: vcall_def)
  then show ?thesis using assms by (auto simp: steady_def elim!: post_mono)
qed

lemma given_steady: "codes_differ C \<Longrightarrow> r \<in> {0, IF_ERROR C, NO_MEMORY C, SL_RET_CODE_PROTOCOL_ERROR C} \<Longrightarrow>
    steady D D' \<Longrightarrow> given C D r D'"
  by (auto simp: codes_differ_def given_def)

lemma READ_given:
  assumes "codes_differ C" and "steady D D1" and "\<And>bs D2. steady D D2 \<Longrightarrow> post (f bs D2) (\<lambda>(r, out, D'). given C D r D')"
  shows "post (NWP_IF_READ_CHECK C n D1 f out) (\<lambda>(r, out, D'). given C D r D')"
  using assms by (auto simp: NWP_IF_READ_CHECK_def intro: given_steady)

lemma dump_words_steady: "case dump_words C n D of (r, D') \<Rightarrow> r \<in> {0, IF_ERROR C} \<and> steady D D'"
proof (induction C n D rule: dump_words.induct)
  case (1 C n D)
  show ?case
    using 1 by (subst dump_words.simps) (auto split: prod.splits)
qed

lemma find_post:
  assumes "\<And>r D'. steady D1 D' \<Longrightarrow> Q (r, D')" shows "post (SlDrvFindAndSetActiveObj C opc sd D1) Q"
  using assms by (auto simp: SlDrvFindAndSetActiveObj_def steady_def intro!: post_any split: option.splits prod.splits)

lemma bind_post: "post m P \<Longrightarrow> (\<And>x. P x \<Longrightarrow> post (f x) Q) \<Longrightarrow> post (Option.bind m f) Q"
  by (cases m) auto

lemma write_bind_post: "(\<And>x. post (f x) Q) \<Longrightarrow> post (Option.bind (write_at off xs mem) f) Q"
  by (rule bind_post [OF post_any])

lemma read_payload_given:
  assumes "codes_differ C" and "steady D D1" and "\<And>buf D2. steady D D2 \<Longrightarrow> post (f buf D2) (\<lambda>(r, out, D'). given C D r D')"
  shows "post (read_payload C len buf out D1 f) (\<lambda>(r, out, D'). given C D r D')"
  unfolding read_payload_def Let_def
  using assms by (auto intro!: READ_given bind_post [OF post_any])

lemma read_event_given:
  assumes "codes_differ C" and "steady D D1"
  shows "post (read_event C E hdr opc n D1) (\<lambda>(r, out, D'). given C D r D')"
proof -
  have rest: "post (let dumped = (if b then dump_words C k D2 else (0, D2)); out = (m, Some buf)
      in if fst dumped \<noteq> 0 then Some (fst dumped, out, snd dumped)
         else do {
           D3 \<leftarrow> SlDrvProtectionObjLockWaitForever (snd dumped);
           (r, D4) \<leftarrow> SlDrvFindAndSetActiveObj C opc sd D3;
           Some (0, out, SlDrvProtectionObjUnLock D4) }) (\<lambda>(r, out, D'). given C D r D')"
    if "steady D D2" for b k D2 m buf sd
  proof -
    have d: "fst (if b then dump_words C k D2 else (0, D2)) \<in> {0, IF_ERROR C}"
      "steady D (snd (if b then dump_words C k D2 else (0, D2)))"
      using dump_words_steady [where C = C and n = k and D = D2] that by (auto intro: steady_trans)
    show ?thesis
      unfolding Let_def
      using d assms(1) by (auto intro!: lock_post find_post given_steady) (simp_all add: steady_def)
  qed
  show ?thesis
  proof (cases "malloc_ok E (g_calls D1)")
    case False
    then show ?thesis using assms by (simp add: read_event_def Let_def given_steady)
  next
    case True
    show ?thesis
    proof (cases "n > 0")
      case T: True
      show ?thesis
        unfolding read_event_def Let_def if_not_P [OF not_not [THEN iffD2, OF True]] if_P [OF T]
        by (intro write_bind_post READ_given rest [unfolded Let_def]) (use assms in auto)
    next
      case False
      show ?thesis
        unfolding read_event_def Let_def if_not_P [OF not_not [THEN iffD2, OF True]] if_not_P [OF False]
        by (intro write_bind_post rest [unfolded Let_def]) (use assms in auto)
    qed
  qed
qed

lemma given_0: "codes_differ C \<Longrightarrow> steady D D' \<Longrightarrow> given C D 0 D'"
  by (rule given_steady) auto

lemma post_option:
  "(e = None \<Longrightarrow> post a Q) \<Longrightarrow> (\<And>x. e = Some x \<Longrightarrow> post (b x) Q) \<Longrightarrow> post (case e of None \<Rightarrow> a | Some x \<Rightarrow> b x) Q"
  by (cases e) auto

lemma lock_bind_post:
  "(post (f (D1\<lparr>g_ProtectionLock := True\<rparr>)) Q) \<Longrightarrow> post (Option.bind (SlDrvProtectionObjLockWaitForever D1) f) Q"
  by (simp add: SlDrvProtectionObjLockWaitForever_def)

lemma find_bind_post:
  assumes "steady D D1" and "\<And>r D'. steady D D' \<Longrightarrow> post (f (r, D')) (\<lambda>(r, out, D'). given C D r D')"
  shows "post (Option.bind (SlDrvFindAndSetActiveObj C opc sd D1) f) (\<lambda>(r, out, D'). given C D r D')"
  by (rule bind_post [OF find_post [where Q = "\<lambda>(r, D'). steady D D'"]])
    (use assms in \<open>auto intro: steady_trans\<close>)

lemma unlock_bind_post:
  "(\<And>D1. \<not> g_GlobalLock D1 \<Longrightarrow> post (f D1) Q) \<Longrightarrow> post (Option.bind (SlDrvGlobalObjUnLock True D) f) Q"
  by (auto simp: SlDrvGlobalObjUnLock_def SlDrvUpdateApiInProgress_def SlDrvProtectionObjLockWaitForever_def
      SlDrvProtectionObjUnLock_def Let_def)

lemma pair_split_post: "post (f (fst x) (snd x)) Q \<Longrightarrow> post (case x of (a, b) \<Rightarrow> f a b) Q"
  by (simp add: case_prod_beta)

lemma read_control_given:
  assumes "codes_differ C" and "steady D D1"
  shows "post (read_control C k args D1) (\<lambda>(r, out, D'). given C D r D')"
  unfolding read_control_def Let_def
  by (intro write_bind_post post_if READ_given assms(1)) (use assms in \<open>auto intro: given_0\<close>)

lemma read_waiting_given:
  assumes "codes_differ C" and "steady D D1"
  shows "post (read_waiting C k args D1) (\<lambda>(r, out, D'). given C D r D')"
  unfolding read_waiting_def Let_def
  by (intro bind_post_any post_if READ_given read_payload_given assms(1))
    (use assms in \<open>auto intro: given_0\<close>)

lemma read_recv_given:
  assumes "codes_differ C" and "steady D D1"
  shows "post (read_recv C opc D1) (\<lambda>(r, out, D'). given C D r D')"
proof -
  have prot: "given C D (SL_RET_CODE_PROTOCOL_ERROR C) D'" if "steady D D'" for D'
    using that assms(1) by (intro given_steady) auto
  show ?thesis
    unfolding read_recv_def Let_def prod.case
    by (intro READ_given post_if lock_bind_post find_bind_post assms(1))
      (use assms in \<open>auto intro!: read_control_given read_waiting_given unlock_bind_post prot
        simp: given_def [of C D "SL_API_ABORTED C"] simp del: post_simps(3)\<close>)
qed

lemma read_cmd_given:
  assumes "codes_differ C" and "steady D D1"
  shows "post (read_cmd C n D1) (\<lambda>(r, out, D'). given C D r D')"
proof -
  have dump: "given C D (fst (dump_words C k D2)) (snd (dump_words C k D2))" if "steady D D2" for k D2
    using dump_words_steady [where C = C and n = k and D = D2] that assms(1)
    by (intro given_steady) (auto intro: steady_trans)
  show ?thesis
    unfolding read_cmd_def Let_def
    by (intro bind_post_any post_if post_option pair_split_post READ_given read_payload_given assms(1))
      (use assms in \<open>auto intro!: given_0 dump\<close>)
qed

lemma read_select_given:
  assumes "codes_differ C" and "steady D D1"
  shows "post (read_select C D1) (\<lambda>(r, out, D'). given C D r D')"
proof -
  have wake: "steady D (fold (\<lambda>Idx D. if g_SelectEntry D ! Idx then signal_obj Idx D else D) xs D2)"
    if "steady D D2" for xs D2
    using that by (induction xs arbitrary: D2) auto
  have set: "steady D (D2\<lparr>g_ActiveSelect := False, g_SelectStatus := 0, g_SelectSync := None,
      g_CtrlSockFD := 0, g_SelectEntry := es\<rparr>) = steady D D2" for D2 es
    by (simp add: steady_def)
  show ?thesis
    unfolding read_select_def Let_def
    by (intro READ_given post_if assms(1)) (use assms in \<open>auto intro!: given_0 wake simp: set\<close>)
qed

lemma IsTimeoutExpired_steady: "SlDrvIsTimeoutExpired C E p D = (b, p', D') \<Longrightarrow> steady D D'"
  using steady_clock [of D C E p] by simp

lemma skip_same_steady: "skip_same C E pBuf p D = (r, buf, p', D') \<Longrightarrow> steady D D'"
proof (induction C E pBuf p D rule: skip_same.induct)
  case (1 C E pBuf p D)
  obtain b q D2 where t: "SlDrvIsTimeoutExpired C E p (D\<lparr>g_rx := drop 4 (g_rx D)\<rparr>) = (b, q, D2)"
    by (metis prod_cases3)
  then have D2: "steady D D2" using IsTimeoutExpired_steady by fastforce
  show ?case
    using "1.prems" "1.IH" D2
    by (subst (asm) skip_same.simps) (auto simp: Let_def t split: if_splits intro: steady_trans)
qed

lemma search_sync_steady: "search_sync C E pBuf ts p D = (r, buf, D') \<Longrightarrow> steady D D'"
proof (induction C E pBuf ts p D rule: search_sync.induct)
  case (1 C E pBuf ts p D)
  show ?case
  proof (cases "find_sync C (g_TxSeqNum D) pBuf")
    case None
    obtain b q D2 where t: "SlDrvIsTimeoutExpired C E p (D\<lparr>g_rx := drop 4 (g_rx D)\<rparr>) = (b, q, D2)"
      by (metis prod_cases3)
    then have D2: "steady D D2" using IsTimeoutExpired_steady by fastforce
    have IH: "ts \<noteq> TIMEOUT_ONE_MORE_SHOT \<Longrightarrow> \<not> length (g_rx D) < 4 \<Longrightarrow>
        search_sync C E (drop 4 pBuf @ take 4 (g_rx D)) (if b then TIMEOUT_ONE_MORE_SHOT else ts) q D2 = (r, buf, D') \<Longrightarrow>
        steady D2 D'"
      using "1.IH" [OF refl refl _ refl refl _ refl, of b "(q, D2)" q D2] None t by simp
    show ?thesis
      using "1.prems" IH D2
      by (subst (asm) search_sync.simps) (auto simp: Let_def t None split: if_splits intro: steady_trans)
  next
    case (Some n)
    obtain b q D2 where t: "SlDrvIsTimeoutExpired C E p (D\<lparr>g_rx := drop n (g_rx D)\<rparr>) = (b, q, D2)"
      by (metis prod_cases3)
    then have D2: "steady D D2" using IsTimeoutExpired_steady by fastforce
    show ?thesis
      using "1.prems" D2
      by (subst (asm) search_sync.simps) (auto simp: Let_def t Some split: if_splits)
  qed
qed

lemma skip_double_steady: "skip_double C pBuf D = (r, buf, D') \<Longrightarrow> steady D D'"
proof (induction C pBuf D rule: skip_double.induct)
  case (1 C pBuf D)
  show ?case
    using "1.prems" "1.IH"
    by (subst (asm) skip_double.simps) (auto split: if_splits)
qed

lemma StartMeasureTimeout_steady: "SlDrvStartMeasureTimeout E t D = (p, D') \<Longrightarrow> steady D D'"
  by (auto simp: SlDrvStartMeasureTimeout_def slcb_GetTimestamp_def)

lemma post_pair: "(\<And>a b. x = (a, b) \<Longrightarrow> post (f a b) Q) \<Longrightarrow> post (case x of (a, b) \<Rightarrow> f a b) Q"
  by (cases x) simp

lemma post_pair_app:
  "(\<And>a b. x = (a, b) \<Longrightarrow> post (f a b z) Q) \<Longrightarrow> post ((case x of (a, b) \<Rightarrow> f a b) z) Q"
  by (cases x) simp

lemma READ_steady:
  assumes "steady D D1" and "\<And>bs D2. steady D D2 \<Longrightarrow> post (f bs D2) (\<lambda>(r, out, D'). steady D D')"
  shows "post (NWP_IF_READ_CHECK C n D1 f out) (\<lambda>(r, out, D'). steady D D')"
  using assms by (auto simp: NWP_IF_READ_CHECK_def)

lemma SlDrvRxHdrRead_steady:
  assumes "steady D D1" shows "post (SlDrvRxHdrRead C E D1) (\<lambda>(r, h, D'). steady D D')"
  unfolding SlDrvRxHdrRead_def Let_def
  by (intro bind_post [OF NWP_IF_WRITE_steady [OF assms]] post_pair post_if READ_steady)
    (auto simp: steady_def dest!: skip_same_steady search_sync_steady skip_double_steady
        StartMeasureTimeout_steady)

lemma SlDrvClassifyRxMsg_steady:
  assumes "steady D D1" shows "post (SlDrvClassifyRxMsg C opc D1) (\<lambda>D'. steady D D')"
  unfolding SlDrvClassifyRxMsg_def Let_def
  by (intro post_if bind_post_any) (use assms in simp_all)

lemma given_update [simp]: "given C D r (D'\<lparr>g_IrqMasked := b\<rparr>) = given C D r D'"
  by (simp add: given_def steady_def)

lemma SlDrvMsgRead_given:
  assumes "codes_differ C" and "steady D D1"
  shows "post (SlDrvMsgRead C E D1) (\<lambda>(r, out, D'). given C D r D')"
proof -
  have aborted: "given C D (SL_API_ABORTED C) (SlDrvHandleFatalError C e i j D2)" if "\<not> g_GlobalLock D2" for e i j D2
    using that steady_HandleFatalError [of D2 C e i j] by (simp add: given_def steady_def)
  have body: "post (case g_RxMsgClass D4 of
            ASYNC_EVT_CLASS \<Rightarrow> read_event C E hdr opc n D4
          | RECV_RESP_CLASS \<Rightarrow> read_recv C opc D4
          | CMD_RESP_CLASS \<Rightarrow> read_cmd C n D4
          | MULTI_SELECT_RESP_CLASS \<Rightarrow> read_select C D4
          | DUMMY_MSG_CLASS \<Rightarrow> Some (0, (0, None), D4)) (\<lambda>(r, out, D'). given C D r D')"
    if "steady D D4" for D4 hdr opc n
    using that assms(1)
    by (auto intro: read_event_given read_recv_given read_cmd_given read_select_given given_0 split: rx_class.split)
  have "steady D (D1\<lparr>g_AsyncEvtHandler := None\<rparr>)" using assms(2) by simp
  note hdr = SlDrvRxHdrRead_steady [OF this]
  show ?thesis
    unfolding SlDrvMsgRead_def Let_def
    by (intro bind_post [OF hdr] post_pair post_if unlock_bind_post bind_post [OF SlDrvClassifyRxMsg_steady]
        bind_post [OF body]) (auto intro!: aborted)
qed

subsection \<open>A command\<close>

text \<open>The other threads run while this one waits; they find the global lock taken and leave it and the
  counter alone.\<close>

definition others_steady :: "drvenv \<Rightarrow> bool" where
  "others_steady E \<longleftrightarrow> (\<forall>cs D. steady D (others E cs D))"

lemma set_sync_steady [simp]: "steady D (set_sync s b D') = steady D D'"
  by (cases s) simp_all

lemma SyncObjWait_steady:
  assumes "others_steady E" and "steady D D1" and "SyncObjWait C E s D1 = (r, D')" shows "steady D D'"
proof -
  have "steady D (others E cs (vcall c D1))" for cs c
  proof -
    have "steady (vcall c D1) (others E cs (vcall c D1))" using assms(1) unfolding others_steady_def by blast
    then show ?thesis using assms(2) by (auto intro: steady_trans)
  qed
  then show ?thesis
    using assms(2,3) by (auto simp: SyncObjWait_def SyncObjWait_NO_WAIT_def split: if_splits)
qed

lemma SlSpawnMsgListInsert_steady:
  assumes "steady D D1" shows "post (SlSpawnMsgListInsert C E n buf D1) (\<lambda>(r, D'). steady D D')"
  unfolding SlSpawnMsgListInsert_def Let_def
  by (intro lock_bind_post post_if bind_post_any) (use assms in simp_all)

lemma cmd_ctx_message_steady:
  assumes "steady D D1" shows "post (cmd_ctx_message C E n buf D1) (\<lambda>D'. steady D D')"
proof -
  have rel: "steady D (SlFindAndReleasePendingCmd C D2) = steady D D2" for D2
    by (simp add: SlFindAndReleasePendingCmd_def split: option.split)
  show ?thesis
  proof (cases "g_RxMsgClass D1 = ASYNC_EVT_CLASS")
    case True
    then show ?thesis
      by (cases buf) (auto simp: cmd_ctx_message_def rel split: prod.splits
          intro!: post_mono [OF SlSpawnMsgListInsert_steady [OF assms]])
  next
    case False
    then show ?thesis
      using assms by (cases "g_RxMsgClass D1") (simp_all add: cmd_ctx_message_def)
  qed
qed

lemma unlock_if_post: "(\<And>D1. \<not> g_GlobalLock D1 \<Longrightarrow> g_ApiInProgressCnt D1 = g_ApiInProgressCnt D - 1 \<Longrightarrow> Q D1) \<Longrightarrow>
    (\<not> b \<Longrightarrow> Q D) \<Longrightarrow> post (unlock_if b D) Q"
  by (auto simp: unlock_if_def SlDrvGlobalObjUnLock_def SlDrvUpdateApiInProgress_def
      SlDrvProtectionObjLockWaitForever_def SlDrvProtectionObjUnLock_def Let_def)

text \<open>The loop ends with the response and the lock held, or without it and the lock given back.\<close>

definition loop_end :: "drvcfg \<Rightarrow> drv \<Rightarrow> int \<times> bool \<times> drv \<Rightarrow> bool" where
  "loop_end C D = (\<lambda>(r, done, D'). if done then r = 0 \<and> steady D D' else r = SL_API_ABORTED C \<and> \<not> g_GlobalLock D')"

lemma cmd_ctx_loop_end:
  assumes "cmd_ctx_loop C E opc True D0 = Some res" and "codes_differ C" and "others_steady E" and "steady D D0"
  shows "loop_end C D res"
proof -
  let ?P = "\<lambda>C' E' opc' b D0 res. C' = C \<longrightarrow> E' = E \<longrightarrow> b \<longrightarrow> steady D D0 \<longrightarrow> loop_end C D res"
  have "?P C E opc True D0 res"
  proof (rule cmd_ctx_loop.raw_induct [of ?P, OF _ assms(1)], intro impI)
    fix loop C' E' o' b D1 res'
    assume IH: "\<And>C' E' o' b D2 y. loop C' E' o' b D2 = Some y \<Longrightarrow> ?P C' E' o' b D2 y"
      and eqs: "C' = C" "E' = E" b and st: "steady D D1"
      and body: "(if \<not> g_WaitForCmdResp D1 then Some (0, True, D1)
        else if PENDING_RX_MSG D1
        then do {
          (RetVal, (outMsgLen, pAsyncBuf), D1) \<leftarrow> SlDrvMsgRead C' E' D1;
          if RetVal \<noteq> 0
          then do {
            D2 \<leftarrow> unlock_if (b \<and> RetVal \<noteq> SL_API_ABORTED C') (D1\<lparr>g_WaitForCmdResp := False\<rparr>);
            Some (SL_API_ABORTED C', False, D2) }
          else do {
            D2 \<leftarrow> cmd_ctx_message C' E' outMsgLen pAsyncBuf (D1\<lparr>g_RxDoneCnt := g_RxDoneCnt D1 + 1\<rparr>);
            loop C' E' o' b D2 } }
        else
          let (RetVal, D1) = SyncObjWait C' E' S_cmd D1
          in if RetVal \<noteq> 0
             then do {
               D2 \<leftarrow> unlock_if b (D1\<lparr>g_WaitForCmdResp := False\<rparr>);
               Some (SL_API_ABORTED C', False,
                 if device_started (g_status D2)
                 then SlDrvHandleFatalError C' (fatal_id C' ''SL_DEVICE_EVENT_FATAL_NO_CMD_ACK'') (ucast o')
                        (CmdCmpltTimeout C' o') D2
                 else D2) }
             else loop C' E' o' b D1) = Some res'"
    have again: "post (loop C E o' b D2) (loop_end C D)" if "steady D D2" for D2
      using IH that eqs(3) by (auto simp: post_def)
    have fatal: "g_GlobalLock (SlDrvHandleFatalError C e i j D2) = g_GlobalLock D2" for e i j D2
      using steady_HandleFatalError [of D2 C e i j] by (simp add: steady_def)
    have ab: "SL_API_ABORTED C \<noteq> 0" using assms(2) by (auto simp: codes_differ_def)
    show "loop_end C D res'"
      by (rule postD [OF _ body [unfolded eqs]], unfold Let_def,
          intro post_if bind_post [OF SlDrvMsgRead_given [OF assms(2) st]] post_pair post_pair_app bind_post [OF unlock_if_post]
            bind_post [OF cmd_ctx_message_steady] again)
        (use st eqs(3) ab in \<open>auto simp: loop_end_def given_def fatal
            dest: SyncObjWait_steady [OF assms(3) st]\<close>)
  qed
  then show ?thesis using assms(4) by simp
qed

text \<open>The calls that the counter counts: not while the device starts, stops or runs provisioning.\<close>

definition api_counted :: "dev_status \<Rightarrow> bool" where
  "api_counted st \<longleftrightarrow> \<not> (start_in_progress st \<or> stop_in_progress st \<or> provisioning_in_progress st) \<and>
     (\<not> provisioning_active st \<or> provisioning_api_allowed st)"

lemma global_lock_effect:
  assumes "codes_differ C" and "(ucast (F AND GLOBAL_LOCK_FLAGS_UPDATE_API_IN_PROGRESS C) :: u8) \<noteq> 0"
    and "\<not> g_GlobalLock D"
  shows "post (SlDrvObjGlobalLockWaitForever C F D) (\<lambda>(r, D1).
    if r = 0 then g_ApiInProgressCnt D1 = g_ApiInProgressCnt D + (if api_counted (g_status D) then 1 else 0)
    else \<not> g_GlobalLock D1)"
  using assms
  by (auto simp: SlDrvObjGlobalLockWaitForever_def Let_def api_counted_def SlDrvGlobalObjUnLock_def
      drv_lock_simps codes_differ_def)

lemma cmd_flags_update:
  assumes "cmd_flags C ctrl desc = Some F"
  shows "F AND GLOBAL_LOCK_FLAGS_UPDATE_API_IN_PROGRESS C = GLOBAL_LOCK_FLAGS_UPDATE_API_IN_PROGRESS C"
proof -
  have absorb: "(u OR x) AND u = u" "((u OR y) OR x) AND u = u" for u x y :: u32
    by (auto intro!: bit_eqI simp: bit_simps)
  show ?thesis
    using assms by (auto simp: cmd_flags_def Let_def bind_Some_iff absorb split: if_splits)
qed

lemma SlDrvMsgReadCmdCtx_unlocks:
  assumes "codes_differ C" and "others_steady E" and "steady D D1"
  shows "post (SlDrvMsgReadCmdCtx C E opc True D1) (\<lambda>(r, D').
    \<not> g_GlobalLock D' \<and> (r = 0 \<longrightarrow> g_ApiInProgressCnt D' = g_ApiInProgressCnt D - 1))"
proof -
  have ab: "SL_API_ABORTED C \<noteq> 0" using assms(1) by (auto simp: codes_differ_def)
  have loop: "post (cmd_ctx_loop C E opc True D1) (loop_end C D)"
    using cmd_ctx_loop_end [OF _ assms] by (simp add: post_def)
  have count: "post (SlSpawnMsgListGetCount D2) (\<lambda>(n, D3). steady D D3)" if "steady D D2" for D2
    using that by (simp add: SlSpawnMsgListGetCount_def SlDrvProtectionObjLockWaitForever_def)
  have spawn: "g_GlobalLock (SlInternalSpawn f D2) = g_GlobalLock D2"
    "g_ApiInProgressCnt (SlInternalSpawn f D2) = g_ApiInProgressCnt D2" for f D2
    by (simp_all add: SlInternalSpawn_def)
  show ?thesis
    unfolding SlDrvMsgReadCmdCtx_def Let_def
    by (intro bind_post [OF loop] post_pair post_pair_app post_if bind_post [OF count] bind_post [OF unlock_if_post])
      (auto simp: loop_end_def ab spawn steady_def)
qed

text \<open>C33: A command gives the global lock back on every path on which it returns: refused, aborted
  because of a fatal error, failed while writing or reading, timed out or answered. Answered, it has
  counted itself out of the APIs in progress; a command that ran while the device was starting,
  stopping or in provisioning was never counted in, and leaves the counter one too low.\<close>

theorem cmd_releases_global_lock:
  assumes "codes_differ C" and "(ucast (GLOBAL_LOCK_FLAGS_UPDATE_API_IN_PROGRESS C) :: u8) \<noteq> 0"
    and "others_steady E" and "\<not> g_GlobalLock D"
    and "\<not> (provisioning_in_progress (g_status D) \<and> cc_Opcode ctrl = opcode C ''SL_OPCODE_DEVICE_STOP_COMMAND'')"
    and "SlDrvCmdOp C E ctrl desc ext D = Some (r, D')"
  shows "\<not> g_GlobalLock D' \<and>
    (r = 0 \<longrightarrow> g_ApiInProgressCnt D' = g_ApiInProgressCnt D - (if api_counted (g_status D) then 0 else 1))"
proof -
  have ab: "SL_API_ABORTED C \<noteq> 0" using assms(1) by (auto simp: codes_differ_def)
  have flags: "post (cmd_flags C ctrl desc) (\<lambda>F. (ucast (F AND GLOBAL_LOCK_FLAGS_UPDATE_API_IN_PROGRESS C) :: u8) \<noteq> 0)"
    using cmd_flags_update assms(2) by (fastforce simp: post_def)
  note lock = global_lock_effect [OF assms(1) _ assms(4)]
  have required: "(\<not> (provisioning_in_progress (g_status D) \<and>
      cc_Opcode ctrl = opcode C ''SL_OPCODE_DEVICE_STOP_COMMAND'')) = True"
    using assms(5) by simp
  have "post (SlDrvCmdOp C E ctrl desc ext D) (\<lambda>(r, D'). \<not> g_GlobalLock D' \<and>
    (r = 0 \<longrightarrow> g_ApiInProgressCnt D' = g_ApiInProgressCnt D - (if api_counted (g_status D) then 0 else 1)))"
    unfolding SlDrvCmdOp_def Let_def required if_True
    by (simp only: bind_assoc, intro bind_post [OF flags] bind_post [OF lock] post_pair post_if
        bind_post [OF SlDrvMsgWrite_steady [OF steady_refl]]
        post_mono [OF SlDrvMsgReadCmdCtx_unlocks [OF assms(1,3)]])
      (auto simp: ab intro!: unlock_if_post)
  then show ?thesis using assms(6) by (rule post_pairD)
qed

text \<open>A started device, and in its buffer the answer to a command with the opcode 7.\<close>

definition example_command :: drv where
  "example_command = example_drv\<lparr>g_status := no_status\<lparr>device_started := True\<rparr>, g_RxIrqCnt := 1,
     g_rx := [0xFC, 0xEE, 0xDD, 0xBB, 0x07, 0x80, 12, 0, 4, 0, 0, 2, 0, 0, 0, 0, 5, 0, 0, 0]\<rparr>"

definition example_ctrl :: cmd_ctrl where
  "example_ctrl = \<lparr>cc_Opcode = 7, cc_TxDescLen = 0, cc_RxDescLen = 4\<rparr>"

theorem cmd_releases_global_lock_witness:
  "\<exists>D'. SlDrvCmdOp example_drvcfg example_drvenv example_ctrl (Some [0, 0, 0, 0]) None example_command = Some (0, D') \<and>
     \<not> g_GlobalLock D' \<and> g_ApiInProgressCnt D' = 0"
proof -
  let ?run = "SlDrvCmdOp example_drvcfg example_drvenv example_ctrl (Some [0, 0, 0, 0]) None example_command"
  have "map_option fst ?run = Some 0" by code_simp
  then obtain D' where run: "?run = Some (0, D')" by auto
  have "\<not> g_GlobalLock D' \<and> (0 = (0::int) \<longrightarrow> g_ApiInProgressCnt D' =
      g_ApiInProgressCnt example_command - (if api_counted (g_status example_command) then 0 else 1))"
    by (rule cmd_releases_global_lock [OF _ _ _ _ _ run])
      (simp_all add: codes_differ_def others_steady_def example_drvcfg_def example_command_def example_env_simps)
  then show ?thesis
    using run by (simp add: example_command_def api_counted_def example_env_simps)
qed

end
