(* ===== verification/DrvFlow.thy ===== *)
theory DrvFlow
  imports DrvLock
begin

text \<open>
  Sending data under the flow control: what a write may take, and what happens when the network
  processor returns no buffers in time.
\<close>

subsection \<open>A write within its credit\<close>

text \<open>The driver is up, nothing waits, and the socket has not failed.\<close>

definition may_send :: "drvcfg \<Rightarrow> u8 \<Rightarrow> drv \<Rightarrow> bool" where
  "may_send C Sd D \<longleftrightarrow> \<not> g_TxLock D \<and> g_MinTxPayloadSize D \<noteq> 0 \<and> g_SocketTXFailure D AND sd_bit C Sd = 0"

text \<open>Buffers short, the socket blocking.\<close>

definition must_wait :: "drvcfg \<Rightarrow> u8 \<Rightarrow> cmd_ext \<Rightarrow> drv \<Rightarrow> bool" where
  "must_wait C Sd e D \<longleftrightarrow> g_SocketNonBlocking D AND sd_bit C Sd = 0 \<and>
     (\<forall>pkts. allocTxPoolPkts e D = Some pkts \<longrightarrow> unat (g_TxPoolCnt D) \<le> unat (FLOW_CONT_MIN C) + pkts)"

text \<open>While this thread waits, no buffer comes back and nobody gives its lock back.\<close>

definition no_credit :: "drvenv \<Rightarrow> bool" where
  "no_credit E \<longleftrightarrow> (\<forall>cs D. (\<not> g_TxSync D \<longrightarrow> \<not> g_TxSync (others E cs D)) \<and> (g_TxLock D \<longrightarrow> g_TxLock (others E cs D)))"

lemma allocTxPoolPkts_update [simp]:
  "allocTxPoolPkts e (D\<lparr>g_TxLock := b\<rparr>) = allocTxPoolPkts e D" "allocTxPoolPkts e (D\<lparr>g_TxSync := b\<rparr>) = allocTxPoolPkts e D"
  by (simp_all add: allocTxPoolPkts_def)

lemma HandleFatalError_Tx:
  "g_TxLock (SlDrvHandleFatalError C i a b D) = g_TxLock D" "restart_required (g_status (SlDrvHandleFatalError C i a b D))"
proof -
  have "g_TxLock (fold signal_obj xs X) = g_TxLock X" "g_status (fold signal_obj xs X) = g_status X" for xs X
    by (induction xs arbitrary: X) (simp_all add: signal_obj_def set_obj_def)
  then show "g_TxLock (SlDrvHandleFatalError C i a b D) = g_TxLock D"
    "restart_required (g_status (SlDrvHandleFatalError C i a b D))"
    by (simp_all add: SlDrvHandleFatalError_def Let_def vcall_def)
qed

text \<open>C40: The bounded wait of the flow control does not prevent the deadlock it is there for. A
  write that gets no buffer in time reports a fatal error and returns an abort with the flow control's
  lock in its hand; every later write on any socket then blocks for ever on that lock.\<close>

theorem flow_timeout_keeps_lock:
  assumes "may_send C Sd D" and "must_wait C Sd e D" and "no_credit E"
    and "SL_OS_ERROR C \<noteq> 0" and "SL_API_ABORTED C \<noteq> 0"
  shows "\<exists>D'. SlDrvDataWriteOp C E False Sd ctrl desc e D = Some (SL_API_ABORTED C, D') \<and>
    restart_required (g_status D') \<and>
    (\<forall>E' spawn Sd' ctrl' desc' e'. SlDrvDataWriteOp C E' spawn Sd' ctrl' desc' e' D' = None)"
proof -
  let ?D = "D\<lparr>g_TxLock := True, g_TxSync := False\<rparr>"
  obtain pkts where pkts: "allocTxPoolPkts e D = Some pkts"
    using assms(1) by (cases "allocTxPoolPkts e D") (auto simp: may_send_def allocTxPoolPkts_def split: if_splits)
  let ?W = "others E (g_calls D) (vcall (V_os ''sl_SyncObjWait'') ?D)"
  have W: "\<not> g_TxSync ?W" "g_TxLock ?W"
    using assms(3) by (simp_all add: no_credit_def vcall_def)
  have "data_write_flow C E False Sd e D =
      Some (Inl (SL_API_ABORTED C), SlDrvHandleFatalError C (fatal_id C ''SL_DEVICE_EVENT_FATAL_DRIVER_ABORT'') 0 0 ?W)"
    using assms(1,2,4,5) pkts W
    by (subst data_write_flow.simps)
      (simp add: Let_def may_send_def must_wait_def flow_wait_def SlDrvObjLockWaitForever_Tx_def SyncObjWait_def
        SyncObjWait_NO_WAIT_def)
  then show ?thesis
    using W HandleFatalError_Tx
    by (simp add: SlDrvDataWriteOp_def data_write_flow.simps SlDrvObjLockWaitForever_Tx_def)
qed

definition example_ext :: cmd_ext where
  "example_ext = \<lparr>ce_TxPayload1 = [1, 2, 3, 4], ce_TxPayload1Len = 4, ce_TxPayload2 = [], ce_TxPayload2Len = 0,
     ce_RxPayload = [], ce_RxPayloadLen = 0, ce_ActualRxPayloadLen = 0\<rparr>"

definition example_short :: drv where
  "example_short = example_drv\<lparr>g_MinTxPayloadSize := 1536, g_TxPoolCnt := 1\<rparr>"

lemma example_may_send: "may_send example_drvcfg 0 example_short" "allocTxPoolPkts example_ext example_short = Some 1"
  by (simp_all add: may_send_def allocTxPoolPkts_def example_short_def example_drv_def example_ext_def)

theorem flow_timeout_keeps_lock_witness:
  "\<exists>D'. SlDrvDataWriteOp example_drvcfg example_drvenv False 0 example_ctrl None example_ext example_short =
      Some (-2005, D') \<and> restart_required (g_status D') \<and>
    (\<forall>E' spawn Sd' ctrl' desc' e'. SlDrvDataWriteOp example_drvcfg E' spawn Sd' ctrl' desc' e' D' = None)"
proof -
  have "must_wait example_drvcfg 0 example_ext example_short"
    using example_may_send(2) by (simp add: must_wait_def) (simp add: example_short_def example_drv_def)
  then show ?thesis
    using flow_timeout_keeps_lock [OF example_may_send(1), of example_ext example_drvenv example_ctrl None]
    by (simp add: no_credit_def example_drvenv_def)
qed
















end
