(* ===== verification/DrvSilent.thy ===== *)
theory DrvSilent
  imports DrvLock
begin

text \<open>
  A command that the network processor never answers still returns.
\<close>



subsection \<open>A write of a command always returns\<close>

definition returns :: "'a option \<Rightarrow> bool" where "returns m \<longleftrightarrow> m \<noteq> None"

lemma returns_simps [simp]: "returns (Some x)" "\<not> returns None"
  "returns (if b then m else m') \<longleftrightarrow> (if b then returns m else returns m')"
  by (simp_all add: returns_def)






subsection \<open>The wait for the response\<close>







end
