(* ===== verification/DrvSync.thy ===== *)
theory DrvSync
  imports DrvMsg DrvTimeout
begin

text \<open>
  The search for the sync pattern of a response (\<open>_SlDrvRxHdrRead\<close>): it skips the idle words
  of the line, finds the first pattern whatever its alignment, and reads exactly the header after it;
  unless its timeout expires first.
\<close>

subsection \<open>The polls of the clock\<close>

lemma vcall_sel [simp]: "g_rx (vcall c D) = g_rx D" "g_TxSeqNum (vcall c D) = g_TxSeqNum D"
  by (simp_all add: vcall_def)

text \<open>The clock was read \<open>j\<close> times since the calls \<open>cs\<close>; what \<open>p\<close> has measured is of
  an earlier poll.\<close>

definition polled :: "drvcfg \<Rightarrow> drvenv \<Rightarrow> drv_call list \<Rightarrow> (nat \<Rightarrow> nat) \<Rightarrow> nat \<Rightarrow> nat \<Rightarrow> timeout_params \<Rightarrow> drv \<Rightarrow> bool" where
  "polled C E cs e units j p D \<longleftrightarrow> g_calls D = replicate j V_tick @ cs \<and>
     (\<exists>e0 \<le> e j. measured (unat (SL_TIMESTAMP_TICKS_IN_10_MILLISECONDS C)) units (get_timestamp E cs) e0 p)"

lemma polled_rx [simp]: "polled C E cs e u j p (D\<lparr>g_rx := x\<rparr>) = polled C E cs e u j p D"
  by (simp add: polled_def)






subsection \<open>Idle words\<close>




subsection \<open>The first pattern\<close>










end
