(* ===== verification/DrvReadProps.thy ===== *)
theory DrvReadProps
  imports DrvRead DrvMsgProps
begin

text \<open>
  The response to a command: what reaches the caller's buffers and what is left on the line.
\<close>

subsection \<open>Reading whole words\<close>

lemma ALIGN_split: "ALIGN n = n - n mod 4 + (if n mod 4 = 0 then 0 else 4)"
  unfolding ALIGN_def by presburger

lemma write_at_append: "k \<le> length xs \<Longrightarrow> k + length ys \<le> length buf \<Longrightarrow>
    write_at k ys (take k xs @ drop k buf) = Some (take k xs @ ys @ drop (k + length ys) buf)"
  by (simp add: write_at_def add.commute)

lemma read_payload_parts:
  assumes n: "n mod 4 = t" "n - n mod 4 = k" "k + t = n" and "t < 4" and buf: "n \<le> length buf"
    and rx: "k + (if t = 0 then 0 else 4) \<le> length (g_rx D)" and k: "k = 0 \<or> k \<ge> 4"
  shows "read_payload C n buf out D f =
    f (take n (g_rx D) @ drop n buf) (D\<lparr>g_rx := drop (k + (if t = 0 then 0 else 4)) (g_rx D)\<rparr>)"
proof -
  have head: "write_at 0 (take k (g_rx D)) buf = Some (take k (g_rx D) @ drop k buf)"
    using rx buf n(3) by (simp add: write_at_def min_absorb2)
  have len: "length (take t (drop k (g_rx D))) = t" using rx assms(4) by (auto split: if_splits)
  have all: "take k (g_rx D) @ take t (drop k (g_rx D)) = take n (g_rx D)" unfolding n(3) [symmetric] by (simp add: take_add)
  have "k \<le> length (g_rx D)" using rx by simp
  from write_at_append [OF this, of "take t (drop k (g_rx D))" buf]
  have fill: "write_at k (take t (drop k (g_rx D))) (take k (g_rx D) @ drop k buf) = Some (take n (g_rx D) @ drop n buf)"
    unfolding len using buf n(3) all by (simp flip: append_assoc)
  show ?thesis
    using k rx assms(4) head fill n(3)
    by (cases "t = 0"; cases "k = 0")
      (auto simp: read_payload_def NWP_IF_READ_CHECK_def Let_def n(1) n(2) [unfolded n(1)] min_absorb1 add.commute)
qed

lemma read_payload_run:
  assumes "n \<le> length buf" and "ALIGN n \<le> length (g_rx D)"
  shows "read_payload C n buf out D f = f (take n (g_rx D) @ drop n buf) (D\<lparr>g_rx := drop (ALIGN n) (g_rx D)\<rparr>)"
proof -
  have "n - n mod 4 = 0 \<or> n - n mod 4 \<ge> 4" by presburger
  from read_payload_parts [OF refl refl _ _ assms(1) _ this]
  show ?thesis using assms(2) unfolding ALIGN_split by simp
qed

lemma dump_words_run:
  assumes "k mod 4 = 0" and "k < 2 ^ 16" and "k \<le> length (g_rx D)"
  shows "dump_words C (of_nat k) D = (0, D\<lparr>g_rx := drop k (g_rx D)\<rparr>)"
  using assms
proof (induction k arbitrary: D rule: less_induct)
  case (less k)
  show ?case
  proof (cases "k = 0")
    case True
    then show ?thesis by (subst dump_words.simps) simp
  next
    case False
    then have k: "k \<ge> 4" using less.prems(1) by presburger
    have pos: "(of_nat k :: u16) > 0"
      using less.prems(2) False by (simp add: word_less_nat_alt unsigned_of_nat take_bit_nat_eq_self)
    have sub: "(of_nat k :: u16) - 4 = of_nat (k - 4)" using k by (simp add: of_nat_diff)
    let ?D = "D\<lparr>g_rx := drop 4 (g_rx D)\<rparr>"
    have m: "k - 4 < k" "(k - 4) mod 4 = 0" "k - 4 < 2 ^ 16" "k - 4 \<le> length (g_rx ?D)"
      using less.prems k by (simp_all, presburger)
    have long: "\<not> length (g_rx D) < 4" using less.prems(3) k by linarith
    have "drop (k - 4) (g_rx ?D) = drop k (g_rx D)" using k by simp
    then have "dump_words C (of_nat (k - 4)) ?D = (0, D\<lparr>g_rx := drop k (g_rx D)\<rparr>)"
      unfolding less.IH [OF m] by simp
    then show ?thesis
      unfolding dump_words.simps [of C "of_nat k" D] if_P [OF pos] if_not_P [OF long] sub .
  qed
qed

subsection \<open>The response to a command\<close>

lemma i16_small: "a < 2 ^ 15 \<Longrightarrow> i16 (int a) = int a"
  using int_word_sint [where 'a = 16, of "int a"] by (simp add: i16_def)

text \<open>What the code drops after it has filled a buffer that is too small, in terms of the two lengths
  modulo 4.\<close>

lemma dropped_words_mod:
  fixes s t d :: nat
  assumes "s = 0 \<or> s = 1 \<or> s = 2 \<or> s = 3" "t = 0 \<or> t = 1 \<or> t = 2 \<or> t = 3" "t < 4 * d + s"
    and k: "k = (if t > 0 then 4 * d + s - 1 - t else 4 * d + s + 3)"
  shows "(if t = 0 then 0 else 4) + (if (if t > 0 then 4 * d + s - 4 > t else 4 * d + s > t) then k - k mod 4 else 0) =
    4 * d + (if s = 0 then 0 else 4) - (if (s + 3) mod 4 < t then 4 else 0)"
proof (cases d)
  case 0
  then show ?thesis using assms by (elim disjE) simp_all
next
  case (Suc c)
  have m: "(4 * c + x) mod 4 = x mod 4" for x by presburger
  have e: "4 * Suc c + s - 1 - t = 4 * c + (3 + s - t)" "4 * Suc c + s + 3 = 4 * c + (7 + s)" "4 * Suc c + s - 4 = 4 * c + s"
    using assms(2) by auto
  show ?thesis unfolding k Suc e m using assms(1,2) by (elim disjE) (simp_all, presburger+)
qed

lemma dropped_words:
  fixes a r k :: nat
  assumes "r < a" and k: "k = (if r mod 4 > 0 then a - 1 - r else a + 3 - r)"
    and lost: "lost = (if (a - 1) mod 4 < r mod 4 then 4 else (0::nat))"
  shows "ALIGN r + (if (if r mod 4 > 0 then a - 4 > r else a > r) then k - k mod 4 else 0) = ALIGN a - lost"
    and "lost \<le> ALIGN a"
proof -
  obtain p s where a: "a = 4 * p + s" "s < 4" by (metis mult_div_mod_eq mod_less_divisor zero_less_numeral)
  obtain q t where r: "r = 4 * q + t" "t < 4" by (metis mult_div_mod_eq mod_less_divisor zero_less_numeral)
  have st: "s = 0 \<or> s = 1 \<or> s = 2 \<or> s = 3" "t = 0 \<or> t = 1 \<or> t = 2 \<or> t = 3" using a r by auto
  have "q \<le> p" using assms(1) a r by linarith
  then obtain d where d: "p = q + d" by (rule less_eqE)
  have lt: "t < 4 * d + s" using assms(1) a r d by simp
  have rt: "r mod 4 = t" using r by simp
  have "a - 1 + 4 = 4 * (q + d) + (s + 3)" using a d lt by simp
  then have am: "(a - 1) mod 4 = (s + 3) mod 4" by (metis mod_add_self2 mod_mult_self4)
  have A: "ALIGN r = 4 * q + (if t = 0 then 0 else 4)" "ALIGN a = 4 * q + (4 * d + (if s = 0 then 0 else 4))"
  proof -
    have "ALIGN (4 * x + y) = 4 * x + (if y = 0 then 0 else 4)" if "y < 4" for x y
      using that by (auto simp: ALIGN_split)
    from this [OF r(2)] this [OF a(2), of p] show "ALIGN r = 4 * q + (if t = 0 then 0 else 4)"
      "ALIGN a = 4 * q + (4 * d + (if s = 0 then 0 else 4))" using a(1) r(1) d by simp_all
  qed
  have k': "k = (if t > 0 then 4 * d + s - 1 - t else 4 * d + s + 3)"
    using k a r d rt by simp
  have big: "(a - 4 > r) = (4 * d + s - 4 > t)" "(a > r) = (4 * d + s > t)" using a r d by linarith+
  have "lost \<le> 4 * d + (if s = 0 then 0 else 4)" using am lost lt st by (auto split: if_splits)
  note lost_le = this
  have lost': "lost = (if (s + 3) mod 4 < t then 4 else 0)" using lost am rt by simp
  show "lost \<le> ALIGN a" unfolding A by (rule le_trans [OF lost_le]) simp
  have cancel: "4 * q + x + z = 4 * q + y - l" if "x + z = y - l" "l \<le> y" for x y z l :: nat
    using that by simp
  show "ALIGN r + (if (if r mod 4 > 0 then a - 4 > r else a > r) then k - k mod 4 else 0) = ALIGN a - lost"
    unfolding A rt big by (rule cancel [OF _ lost_le]) (use dropped_words_mod [OF st lt k'] in \<open>simp only: lost'\<close>)
qed

text \<open>The driver after a response: \<open>d\<close> bytes in the descriptor buffer, \<open>n\<close> of the payload's
  \<open>a\<close> bytes in the caller's buffer, \<open>m\<close> bytes taken from the line.\<close>

definition response_in :: "nat \<Rightarrow> u8 list \<Rightarrow> cmd_ext \<Rightarrow> nat \<Rightarrow> nat \<Rightarrow> nat \<Rightarrow> drv \<Rightarrow> drv" where
  "response_in d desc e a n m D = D\<lparr>g_pTxRxDescBuff := Some (take d (g_rx D) @ drop d desc),
     g_rx := drop m (g_rx D),
     g_pCmdExt := Some (e\<lparr>ce_ActualRxPayloadLen := int a,
       ce_RxPayload := take n (drop d (g_rx D)) @ drop n (ce_RxPayload e)\<rparr>)\<rparr>"

text \<open>\<open>read_cmd\<close> fills the buffers, and then drops what it takes for the rest.\<close>

lemma read_cmd_run:
  assumes ctrl: "g_pCmdCtrl D = Some ctrl" and desc: "g_pTxRxDescBuff D = Some desc" "ALIGN (cc_RxDescLen ctrl) \<le> length desc"
    and ext: "g_pCmdExt D = Some e" "ce_RxPayloadLen e = int r" "0 < r" "r \<le> length (ce_RxPayload e)"
    and a: "0 < a" "a < 2 ^ 15" and rx: "ALIGN (cc_RxDescLen ctrl) + ALIGN a \<le> length (g_rx D)"
  defines "d \<equiv> ALIGN (cc_RxDescLen ctrl)" and "n \<equiv> min a r"
  defines "left \<equiv> if n mod 4 > 0 then int a - 4 else int a"
  defines "D2 \<equiv> response_in d desc e a n (d + ALIGN n) D"
  shows "read_cmd C (cc_RxDescLen ctrl + a) D =
    (if left > int r
     then case dump_words C (of_nat (nat (left + 3 - int r) - nat (left + 3 - int r) mod 4)) D2 of
       (x, D'') \<Rightarrow> Some (x, (0, None), D'')
     else Some (0, (0, None), D2))"
proof -
  let ?rest = "drop d (g_rx D)"
  let ?D1 = "D\<lparr>g_rx := ?rest, g_pTxRxDescBuff := Some (take d (g_rx D) @ drop d desc)\<rparr>"
  have wd: "write_at 0 (take d (g_rx D)) desc = Some (take d (g_rx D) @ drop d desc)"
    using desc rx by (simp add: write_at_def min_absorb2 d_def)
  have act: "i16 (int (cc_RxDescLen ctrl + a) - int (cc_RxDescLen ctrl)) = int a" using i16_small [OF a(2)] by simp
  have n: "nat (if int a > int r then int r else int a) = n" by (auto simp: n_def)
  have "ALIGN n \<le> ALIGN a" unfolding ALIGN_def n_def by (simp add: div_le_mono)
  then have pay: "n \<le> length (ce_RxPayload e)" "ALIGN n \<le> length ?rest" using ext rx by (auto simp: n_def d_def)
  have d: "d \<le> length (g_rx D)" using rx by (simp add: d_def)
  have g: "g_rx ?D1 = ?rest" by simp
  have ge: "g_pCmdExt (D\<lparr>g_rx := x, g_pTxRxDescBuff := y\<rparr>) = Some e" for x y by (simp add: ext)
  have pos: "int r \<noteq> 0" "\<not> int a \<le> 0" using a(1) ext(3) by simp_all
  note pr = read_payload_run [OF pay(1), where D = ?D1, unfolded g, OF pay(2)]
  show ?thesis
    unfolding read_cmd_def ctrl desc(1) Option.bind.bind_lunit NWP_IF_READ_CHECK_def d_def [symmetric] if_P [OF d] wd
      Let_def ge option.case ext(2) if_not_P [OF pos(1)] act if_not_P [OF pos(2)] n pr
    by (simp add: D2_def response_in_def left_def add.commute)
qed

text \<open>What is left on the line in the end.\<close>

lemma read_cmd_end:
  assumes ctrl: "g_pCmdCtrl D = Some ctrl" and desc: "g_pTxRxDescBuff D = Some desc" "ALIGN (cc_RxDescLen ctrl) \<le> length desc"
    and ext: "g_pCmdExt D = Some e" "ce_RxPayloadLen e = int r" "0 < r" "r \<le> length (ce_RxPayload e)"
    and a: "0 < a" "a < 2 ^ 15" and rx: "ALIGN (cc_RxDescLen ctrl) + ALIGN a \<le> length (g_rx D)"
  defines "d \<equiv> ALIGN (cc_RxDescLen ctrl)" and "n \<equiv> min a r"
    and "lost \<equiv> if r < a \<and> (a - 1) mod 4 < r mod 4 then 4 else (0::nat)"
  shows "read_cmd C (cc_RxDescLen ctrl + a) D =
    Some (0, (0, None), response_in d desc e a n (d + (ALIGN a - lost)) D)"
proof (cases "a \<le> r")
  case True
  then show ?thesis
    unfolding read_cmd_run [OF ctrl desc ext a rx] by (simp add: d_def n_def lost_def min_absorb1)
next
  case False
  let ?D2 = "response_in d desc e a n (d + ALIGN n) D"
  let ?left = "if n mod 4 > 0 then int a - 4 else int a"
  obtain k b where k: "k = (if r mod 4 > 0 then a - 1 - r else a + 3 - r)"
    and b: "b = (if r mod 4 > 0 then a - 4 > r else a > r)" by blast
  have n: "n = r" and lost: "lost = (if (a - 1) mod 4 < r mod 4 then 4 else 0)"
    using False by (simp_all add: n_def lost_def)
  have left: "(?left > int r) = b" "b \<Longrightarrow> nat (?left + 3 - int r) = k" unfolding n k b by auto
  have sum: "ALIGN n + (if b then k - k mod 4 else 0) = ALIGN a - lost"
    unfolding lost b n using dropped_words(1) [OF _ k refl] False by simp
  note run = read_cmd_run [OF ctrl desc ext a rx, folded d_def n_def, unfolded left(1)]
  show ?thesis
  proof (cases b)
    case b: True
    have w: "(k - k mod 4) mod 4 = 0" by presburger
    have "k < 2 ^ 16" unfolding k using a(2) by simp linarith
    then have w2: "k - k mod 4 < 2 ^ 16" by simp
    have w3: "k - k mod 4 \<le> length (g_rx ?D2)" using sum rx b by (simp add: response_in_def d_def)
    have g: "?D2\<lparr>g_rx := drop (k - k mod 4) (g_rx ?D2)\<rparr> = response_in d desc e a n (d + (ALIGN n + (k - k mod 4))) D"
      by (simp add: response_in_def ac_simps)
    show ?thesis
      unfolding run if_P [OF b] left(2) [OF b] dump_words_run [OF w w2 w3] g using sum b by simp
  next
    case False
    then show ?thesis unfolding run using sum by simp
  qed
qed

text \<open>C37: The response to a command. Its descriptor and its payload reach the caller's buffers and
  nothing is written behind them: a longer payload is cut at the length of the buffer, and the length
  it has is reported. The rest is dropped so that the next message starts where it should, except that
  one word of it stays on the line when the last word of the buffer is not full and the payload ends
  short enough in its own last word.\<close>

theorem read_cmd_response:
  assumes ctrl: "g_pCmdCtrl D = Some ctrl" and desc: "g_pTxRxDescBuff D = Some desc" "ALIGN (cc_RxDescLen ctrl) \<le> length desc"
    and ext: "g_pCmdExt D = Some e" "ce_RxPayloadLen e = int r" "0 < r" "r \<le> length (ce_RxPayload e)"
    and a: "0 < a" "a < 2 ^ 15" and rx: "ALIGN (cc_RxDescLen ctrl) + ALIGN a \<le> length (g_rx D)"
  shows "\<exists>D' e'. read_cmd C (cc_RxDescLen ctrl + a) D = Some (0, (0, None), D') \<and>
    g_pTxRxDescBuff D' = Some (take (ALIGN (cc_RxDescLen ctrl)) (g_rx D) @ drop (ALIGN (cc_RxDescLen ctrl)) desc) \<and>
    g_pCmdExt D' = Some e' \<and> ce_ActualRxPayloadLen e' = int a \<and>
    ce_RxPayload e' = take (min a r) (drop (ALIGN (cc_RxDescLen ctrl)) (g_rx D)) @ drop (min a r) (ce_RxPayload e) \<and>
    g_rx D' = drop (ALIGN (cc_RxDescLen ctrl) + (ALIGN a - (if r < a \<and> (a - 1) mod 4 < r mod 4 then 4 else 0))) (g_rx D)"
  unfolding read_cmd_end [OF ctrl desc ext a rx] by (simp add: response_in_def)

text \<open>A buffer of five bytes and a payload of thirteen: the last word stays on the line.\<close>

definition example_short_buffer :: drv where
  "example_short_buffer = example_drv\<lparr>g_pCmdCtrl := Some \<lparr>cc_Opcode = 7, cc_TxDescLen = 0, cc_RxDescLen = 4\<rparr>,
     g_pTxRxDescBuff := Some [0, 0, 0, 0], g_pCmdExt := Some \<lparr>ce_TxPayload1 = [], ce_TxPayload1Len = 0,
       ce_TxPayload2 = [], ce_TxPayload2Len = 0, ce_RxPayload = [0, 0, 0, 0, 0], ce_RxPayloadLen = 5,
       ce_ActualRxPayloadLen = 0\<rparr>,
     g_rx := [9, 9, 9, 9, 1, 2, 3, 4, 5, 6, 7, 8, 9, 10, 11, 12, 13, 0, 0, 0]\<rparr>"

theorem read_cmd_response_witness:
  "\<exists>D' e'. read_cmd example_drvcfg 17 example_short_buffer = Some (0, (0, None), D') \<and>
     g_pCmdExt D' = Some e' \<and> ce_RxPayload e' = [1, 2, 3, 4, 5] \<and> g_rx D' = [13, 0, 0, 0]"
  using read_cmd_response [of example_short_buffer "\<lparr>cc_Opcode = 7, cc_TxDescLen = 0, cc_RxDescLen = 4\<rparr>" "[0, 0, 0, 0]"
      _ 5 13 example_drvcfg]
  by (simp add: example_short_buffer_def ALIGN_def) blast

end
