(* ===== verification/DrvSpawn.thy ===== *)
theory DrvSpawn
  imports DrvEvents DrvExample
begin

text \<open>
  The events that arrive while a command runs: they are kept in a list, and the spawn task hands them
  to their handlers in the order they came.
\<close>

subsection \<open>What a handler gets\<close>

text \<open>The calls of event handlers, in order, and the call an event leads to in the device status
  \<open>st\<close>: none without a handler or while provisioning holds it back; an event with a translation
  is passed as its number and the message behind the header.\<close>

definition handled :: "drv_call list \<Rightarrow> (string \<times> u8 list) list" where
  "handled cs = List.map_filter (\<lambda>c. case c of V_handler h bs \<Rightarrow> Some (h, bs) | _ \<Rightarrow> None) (rev cs)"




lemma handled_simps [simp]:
  "handled (V_handler h bs # cs) = handled cs @ [(h, bs)]" "handled (V_free n # cs) = handled cs"
  "handled (V_malloc n # cs) = handled cs"
  by (simp_all add: handled_def List.map_filter_def)

text \<open>The lock is granted to the spawn task.\<close>

definition granted :: "drvcfg \<Rightarrow> dev_status \<Rightarrow> bool" where
  "granted C st \<longleftrightarrow> \<not> restart_required st \<and>
     (start_in_progress st \<or> stop_in_progress st \<or> provisioning_in_progress st \<or> SlDrvDriverIsApiAllowed C 0 st = 0)"

lemma lock_granted:
  assumes "granted C (g_status D)" and "\<not> g_GlobalLock D"
  shows "SlDrvObjGlobalLockWaitForever C 0 D =
    Some (0, D\<lparr>g_GlobalLockCntRequested := g_GlobalLockCntRequested D + 1, g_GlobalLock := True\<rparr>)"
  using assms by (auto simp: SlDrvObjGlobalLockWaitForever_def Let_def granted_def)






subsection \<open>A message that nobody may read\<close>

text \<open>A message that is pending while the device is neither started nor starting makes the spawn
  task return with the global lock in its hand. Nothing in the driver gives it back: every later
  command, and the spawn task's next round, waits for it for ever.\<close>

theorem interface_closed_keeps_lock:
  assumes "granted C (g_status D)" and "\<not> g_GlobalLock D" and "PENDING_RX_MSG D"
    and "\<not> device_started (g_status D)" and "\<not> start_in_progress (g_status D)"
  shows "\<exists>D'. SlDrvMsgReadSpawnCtx C E D = Some (SL_RET_CODE_INTERFACE_CLOSED C, D') \<and> g_GlobalLock D' \<and>
    (\<forall>F. SlDrvObjGlobalLockWaitForever C F D' = None) \<and> SlDrvMsgReadSpawnCtx C E D' = None"
proof -
  let ?D = "D\<lparr>g_GlobalLockCntRequested := g_GlobalLockCntRequested D + 1, g_GlobalLock := True\<rparr>"
  have "\<not> restart_required (g_status D)" using assms(1) by (simp add: granted_def)
  then have blocked: "SlDrvObjGlobalLockWaitForever C F ?D = None" for F
    by (simp add: SlDrvObjGlobalLockWaitForever_def Let_def)
  have "SlDrvMsgReadSpawnCtx C E D = Some (SL_RET_CODE_INTERFACE_CLOSED C, ?D)"
    using assms(3-) by (simp add: SlDrvMsgReadSpawnCtx_def lock_granted [OF assms(1,2)] PENDING_RX_MSG_def)
  moreover have "SlDrvMsgReadSpawnCtx C E ?D = None" by (simp add: SlDrvMsgReadSpawnCtx_def blocked)
  ultimately show ?thesis using blocked by (intro exI [of _ ?D]) simp
qed

text \<open>The device is being stopped and is down already.\<close>

definition example_stopping :: drv where
  "example_stopping = example_drv\<lparr>g_status := no_status\<lparr>stop_in_progress := True\<rparr>, g_RxIrqCnt := 1\<rparr>"

theorem interface_closed_keeps_lock_witness:
  "\<exists>D'. SlDrvMsgReadSpawnCtx example_drvcfg example_drvenv example_stopping = Some (-2020, D') \<and>
     SlDrvMsgReadSpawnCtx example_drvcfg example_drvenv D' = None"
proof -
  have "granted example_drvcfg (g_status example_stopping)" "\<not> g_GlobalLock example_stopping"
    "PENDING_RX_MSG example_stopping" "\<not> device_started (g_status example_stopping)"
    "\<not> start_in_progress (g_status example_stopping)" "SL_RET_CODE_INTERFACE_CLOSED example_drvcfg = -2020"
    by (simp_all add: granted_def example_stopping_def example_drv_def no_status_def PENDING_RX_MSG_def example_drvcfg_def)
  with interface_closed_keeps_lock show ?thesis by fastforce
qed

end
