(* ===== verification/DrvPropagate.thy ===== *)
theory DrvPropagate
  imports DrvTypes
begin

text \<open>
  The event functions of the driver's silos: an event is offered to the handlers of the external
  libraries in the order of their numbers, until one of them blocks it; what no library has blocked goes
  to the application's handler.
\<close>

subsection \<open>Registered handlers\<close>

datatype SlEventPropogationStatus = EVENT_PROPAGATION_CONTINUE | EVENT_PROPAGATION_BLOCK

text \<open>A handler acts on the state \<open>'s\<close> of the whole system and may not return. The handlers for one
  kind of event are macros: \<open>SlExtLib1...EventHandler\<close> to \<open>SlExtLib5...EventHandler\<close> and the
  \<open>slcb_...Hdlr\<close> of the application, each of which may be undefined.\<close>

type_synonym ('e, 's) callback = "'e \<Rightarrow> 's \<Rightarrow> (SlEventPropogationStatus \<times> 's) option"

record ('e, 's) registered =
  ext_lib1 :: "('e, 's) callback option"
  ext_lib2 :: "('e, 's) callback option"
  ext_lib3 :: "('e, 's) callback option"
  ext_lib4 :: "('e, 's) callback option"
  ext_lib5 :: "('e, 's) callback option"
  slcb :: "('e \<Rightarrow> 's \<Rightarrow> 's option) option"

definition callbacks :: "('e, 's) registered \<Rightarrow> ('e, 's) callback list" where
  "callbacks R = List.map_filter (\<lambda>c. c) [ext_lib1 R, ext_lib2 R, ext_lib3 R, ext_lib4 R, ext_lib5 R]"

text \<open>The loop over the table, and what follows it. The result of the loop says whether the event
  function has returned from inside it.\<close>

fun callback_loop :: "('e, 's) callback list \<Rightarrow> 'e \<Rightarrow> 's \<Rightarrow> (bool \<times> 's) option" where
  "callback_loop [] ev s = Some (False, s)"
| "callback_loop (cb # cbs) ev s =
     (case cb ev s of
        None \<Rightarrow> None
      | Some (EVENT_PROPAGATION_BLOCK, s') \<Rightarrow> Some (True, s')
      | Some (EVENT_PROPAGATION_CONTINUE, s') \<Rightarrow> callback_loop cbs ev s')"

definition propagate ::
    "('e, 's) callback list \<Rightarrow> ('e \<Rightarrow> 's \<Rightarrow> 's option) option \<Rightarrow> 'e \<Rightarrow> 's \<Rightarrow> 's option" where
  "propagate cbs app ev s =
     (case callback_loop cbs ev s of
        None \<Rightarrow> None
      | Some (True, s') \<Rightarrow> Some s'
      | Some (False, s') \<Rightarrow> (case app of None \<Rightarrow> Some s' | Some h \<Rightarrow> h ev s'))"

subsection \<open>The event functions\<close>

text \<open>One per kind of event. The handlers of the HTTP server and of NetApp requests get the event and
  the place of the response.\<close>

record ('dev, 'wl, 'na, 'he, 'hr, 'so, 'fa, 'rq, 'rs, 's) handlers =
  general :: "('dev, 's) registered"
  wlan :: "('wl, 's) registered"
  netapp :: "('na, 's) registered"
  httpserver :: "('he \<times> 'hr, 's) registered"
  sock :: "('so, 's) registered"
  fatal_error :: "('fa, 's) registered"
  netapp_request :: "('rq \<times> 'rs, 's) registered"

text \<open>The tables of the handlers that are defined.\<close>

definition general_callbacks ::
    "('dev, 'wl, 'na, 'he, 'hr, 'so, 'fa, 'rq, 'rs, 's) handlers \<Rightarrow> ('dev, 's) callback list" where
  "general_callbacks H = callbacks (general H)"

definition wlan_callbacks ::
    "('dev, 'wl, 'na, 'he, 'hr, 'so, 'fa, 'rq, 'rs, 's) handlers \<Rightarrow> ('wl, 's) callback list" where
  "wlan_callbacks H = callbacks (wlan H)"

definition netApp_callbacks ::
    "('dev, 'wl, 'na, 'he, 'hr, 'so, 'fa, 'rq, 'rs, 's) handlers \<Rightarrow> ('na, 's) callback list" where
  "netApp_callbacks H = callbacks (netapp H)"

definition httpServer_callbacks ::
    "('dev, 'wl, 'na, 'he, 'hr, 'so, 'fa, 'rq, 'rs, 's) handlers \<Rightarrow> ('he \<times> 'hr, 's) callback list" where
  "httpServer_callbacks H = callbacks (httpserver H)"

definition sock_callbacks ::
    "('dev, 'wl, 'na, 'he, 'hr, 'so, 'fa, 'rq, 'rs, 's) handlers \<Rightarrow> ('so, 's) callback list" where
  "sock_callbacks H = callbacks (sock H)"

definition fatal_error_callbacks ::
    "('dev, 'wl, 'na, 'he, 'hr, 'so, 'fa, 'rq, 'rs, 's) handlers \<Rightarrow> ('fa, 's) callback list" where
  "fatal_error_callbacks H = callbacks (fatal_error H)"

definition netapp_request_callbacks ::
    "('dev, 'wl, 'na, 'he, 'hr, 'so, 'fa, 'rq, 'rs, 's) handlers \<Rightarrow> ('rq \<times> 'rs, 's) callback list" where
  "netapp_request_callbacks H = callbacks (netapp_request H)"

definition SlDrvHandleGeneralEvents ::
    "('dev, 'wl, 'na, 'he, 'hr, 'so, 'fa, 'rq, 'rs, 's) handlers \<Rightarrow> 'dev \<Rightarrow> 's \<Rightarrow> 's option" where
  "SlDrvHandleGeneralEvents H slGeneralEvent = propagate (general_callbacks H) (slcb (general H)) slGeneralEvent"

definition SlDrvHandleWlanEvents ::
    "('dev, 'wl, 'na, 'he, 'hr, 'so, 'fa, 'rq, 'rs, 's) handlers \<Rightarrow> 'wl \<Rightarrow> 's \<Rightarrow> 's option" where
  "SlDrvHandleWlanEvents H slWlanEvent = propagate (wlan_callbacks H) (slcb (wlan H)) slWlanEvent"

definition SlDrvHandleNetAppEvents ::
    "('dev, 'wl, 'na, 'he, 'hr, 'so, 'fa, 'rq, 'rs, 's) handlers \<Rightarrow> 'na \<Rightarrow> 's \<Rightarrow> 's option" where
  "SlDrvHandleNetAppEvents H slNetAppEvent = propagate (netApp_callbacks H) (slcb (netapp H)) slNetAppEvent"

definition SlDrvHandleHttpServerEvents ::
    "('dev, 'wl, 'na, 'he, 'hr, 'so, 'fa, 'rq, 'rs, 's) handlers \<Rightarrow> 'he \<Rightarrow> 'hr \<Rightarrow> 's \<Rightarrow> 's option" where
  "SlDrvHandleHttpServerEvents H slHttpServerEvent slHttpServerResponse =
     propagate (httpServer_callbacks H) (slcb (httpserver H)) (slHttpServerEvent, slHttpServerResponse)"

definition SlDrvHandleSockEvents ::
    "('dev, 'wl, 'na, 'he, 'hr, 'so, 'fa, 'rq, 'rs, 's) handlers \<Rightarrow> 'so \<Rightarrow> 's \<Rightarrow> 's option" where
  "SlDrvHandleSockEvents H slSockEvent = propagate (sock_callbacks H) (slcb (sock H)) slSockEvent"

definition SlDrvHandleFatalErrorEvents ::
    "('dev, 'wl, 'na, 'he, 'hr, 'so, 'fa, 'rq, 'rs, 's) handlers \<Rightarrow> 'fa \<Rightarrow> 's \<Rightarrow> 's option" where
  "SlDrvHandleFatalErrorEvents H slFatalErrorEvent = propagate (fatal_error_callbacks H) (slcb (fatal_error H)) slFatalErrorEvent"

definition SlDrvHandleNetAppRequestEvents ::
    "('dev, 'wl, 'na, 'he, 'hr, 'so, 'fa, 'rq, 'rs, 's) handlers \<Rightarrow> 'rq \<Rightarrow> 'rs \<Rightarrow> 's \<Rightarrow> 's option" where
  "SlDrvHandleNetAppRequestEvents H pNetAppRequest pNetAppResponse =
     propagate (netapp_request_callbacks H) (slcb (netapp_request H)) (pNetAppRequest, pNetAppResponse)"

definition SlDrvDispatchHttpServerEvents ::
    "('dev, 'wl, 'na, 'he, 'hr, 'so, 'fa, 'rq, 'rs, 's) handlers \<Rightarrow> 'he \<Rightarrow> 'hr \<Rightarrow> 's \<Rightarrow> 's option" where
  "SlDrvDispatchHttpServerEvents H slHttpServerEvent slHttpServerResponse =
     SlDrvHandleHttpServerEvents H slHttpServerEvent slHttpServerResponse"

definition SlDrvDispatchNetAppRequestEvents ::
    "('dev, 'wl, 'na, 'he, 'hr, 'so, 'fa, 'rq, 'rs, 's) handlers \<Rightarrow> 'rq \<Rightarrow> 'rs \<Rightarrow> 's \<Rightarrow> 's option" where
  "SlDrvDispatchNetAppRequestEvents H slNetAppRequestEvent slNetAppResponse =
     SlDrvHandleNetAppRequestEvents H slNetAppRequestEvent slNetAppResponse"

subsection \<open>Who sees an event\<close>

text \<open>\<open>passes cbs ev s s'\<close>: all of \<open>cbs\<close> get the event, in order, and let it through.
  \<open>blocks cbs ev s s'\<close>: those in front of one let it through, and that one blocks it.\<close>

inductive passes :: "('e, 's) callback list \<Rightarrow> 'e \<Rightarrow> 's \<Rightarrow> 's \<Rightarrow> bool" where
  none: "passes [] ev s s"
| cont: "cb ev s = Some (EVENT_PROPAGATION_CONTINUE, s1) \<Longrightarrow> passes cbs ev s1 s2 \<Longrightarrow> passes (cb # cbs) ev s s2"

inductive_simps passes_simps [simp]: "passes [] ev s s'" "passes (cb # cbs) ev s s'"

lemma callback_loop_False: "callback_loop cbs ev s = Some (False, s') \<longleftrightarrow> passes cbs ev s s'"
  by (induction cbs arbitrary: s) (auto split: option.splits SlEventPropogationStatus.splits)

definition blocks :: "('e, 's) callback list \<Rightarrow> 'e \<Rightarrow> 's \<Rightarrow> 's \<Rightarrow> bool" where
  "blocks cbs ev s s' \<longleftrightarrow> (\<exists>pre cb post s1. cbs = pre @ cb # post \<and> passes pre ev s s1 \<and>
     cb ev s1 = Some (EVENT_PROPAGATION_BLOCK, s'))"

lemma blocks_Nil [simp]: "\<not> blocks [] ev s s'"
  by (simp add: blocks_def)

lemma blocks_Cons [simp]:
  "blocks (cb # cbs) ev s s' \<longleftrightarrow> cb ev s = Some (EVENT_PROPAGATION_BLOCK, s') \<or>
     (\<exists>s1. cb ev s = Some (EVENT_PROPAGATION_CONTINUE, s1) \<and> blocks cbs ev s1 s')" (is "?L \<longleftrightarrow> ?A \<or> ?B")
proof
  assume ?L
  then obtain pre c post s1 where *: "cb # cbs = pre @ c # post" "passes pre ev s s1"
    "c ev s1 = Some (EVENT_PROPAGATION_BLOCK, s')"
    unfolding blocks_def by blast
  then show "?A \<or> ?B" unfolding blocks_def by (cases pre) auto
next
  assume "?A \<or> ?B"
  then show ?L
  proof
    assume ?A
    then show ?L unfolding blocks_def by (metis append_Nil passes.none)
  next
    assume ?B
    then show ?L unfolding blocks_def by (metis append_Cons passes.cont)
  qed
qed

lemma callback_loop_True: "callback_loop cbs ev s = Some (True, s') \<longleftrightarrow> blocks cbs ev s s'"
  by (induction cbs arbitrary: s) (auto split: option.splits SlEventPropogationStatus.splits)

text \<open>What an event function promises: either all libraries let the event through and the application
  has it last, or the first library that blocks it is the last to see it.\<close>

definition delivers :: "('e, 's) registered \<Rightarrow> 'e \<Rightarrow> 's \<Rightarrow> 's \<Rightarrow> bool" where
  "delivers R ev s s' \<longleftrightarrow>
     (\<exists>s1. passes (callbacks R) ev s s1 \<and> (case slcb R of None \<Rightarrow> Some s1 | Some h \<Rightarrow> h ev s1) = Some s') \<or>
     blocks (callbacks R) ev s s'"

lemma delivers_loop:
  "delivers R ev s s' \<longleftrightarrow>
     (\<exists>s1. callback_loop (callbacks R) ev s = Some (False, s1) \<and>
        (case slcb R of None \<Rightarrow> Some s1 | Some h \<Rightarrow> h ev s1) = Some s') \<or>
     callback_loop (callbacks R) ev s = Some (True, s')"
  by (simp only: delivers_def callback_loop_False callback_loop_True)

lemma propagate_delivers: "propagate (callbacks R) (slcb R) ev s = Some s' \<longleftrightarrow> delivers R ev s s'"
  unfolding delivers_loop propagate_def by (auto split: option.splits bool.splits)

text \<open>Each of the seven event functions, and the two dispatch functions, offers an event to the
  registered external libraries in the order of their numbers and stops at the first that answers
  \<open>EVENT_PROPAGATION_BLOCK\<close>, without calling the application; if all let it through, the
  application's handler gets it last, in the state they have left. They return exactly in these
  cases.\<close>

theorem event_propagation:
  "(SlDrvHandleGeneralEvents H dev s = Some s' \<longleftrightarrow> delivers (general H) dev s s') \<and>
   (SlDrvHandleWlanEvents H wl s = Some s' \<longleftrightarrow> delivers (wlan H) wl s s') \<and>
   (SlDrvHandleNetAppEvents H na s = Some s' \<longleftrightarrow> delivers (netapp H) na s s') \<and>
   (SlDrvHandleSockEvents H so s = Some s' \<longleftrightarrow> delivers (sock H) so s s') \<and>
   (SlDrvHandleFatalErrorEvents H fa s = Some s' \<longleftrightarrow> delivers (fatal_error H) fa s s') \<and>
   (SlDrvDispatchHttpServerEvents H he hr s = Some s' \<longleftrightarrow> delivers (httpserver H) (he, hr) s s') \<and>
   (SlDrvDispatchNetAppRequestEvents H rq rs s = Some s' \<longleftrightarrow> delivers (netapp_request H) (rq, rs) s s')"
  unfolding SlDrvHandleGeneralEvents_def SlDrvHandleWlanEvents_def SlDrvHandleNetAppEvents_def
    SlDrvHandleSockEvents_def SlDrvHandleFatalErrorEvents_def SlDrvDispatchHttpServerEvents_def
    SlDrvHandleHttpServerEvents_def SlDrvDispatchNetAppRequestEvents_def SlDrvHandleNetAppRequestEvents_def
    general_callbacks_def wlan_callbacks_def netApp_callbacks_def httpServer_callbacks_def
    sock_callbacks_def fatal_error_callbacks_def netapp_request_callbacks_def
  by (intro conjI propagate_delivers)

end
