(* ===== verification/DrvRoute.thy ===== *)
theory DrvRoute
  imports DrvPoolProps
begin

text \<open>
  Which caller an event belongs to: the walk along the active list is a walk along its elements, the
  opcode losing its IPv6 bit on the way; and in the states the pool reaches, the walk ends at the owner
  of the event's socket.
\<close>

subsection \<open>The walk along the active list\<close>

definition table_index :: "drvcfg \<Rightarrow> pool_obj \<Rightarrow> int" where
  "table_index C ob = uint (po_ActionID ob) - uint (MAX_SOCKET_ENUM_IDX C)"

definition in_table :: "drvcfg \<Rightarrow> pool_obj \<Rightarrow> bool" where
  "in_table C ob \<longleftrightarrow> 0 \<le> table_index C ob \<and> table_index C ob < int (length (SlActionLookupTable C))"

definition waits_recv :: "drvcfg \<Rightarrow> u16 \<Rightarrow> u8 \<Rightarrow> pool_obj \<Rightarrow> bool" where
  "waits_recv C opc Sd ob \<longleftrightarrow> po_ActionID ob = RECV_ID C \<and> Sd = po_AdditionalData ob \<and> is_recv_opcode C opc"

definition waits_event :: "drvcfg \<Rightarrow> u16 \<Rightarrow> u8 \<Rightarrow> pool_obj \<Rightarrow> bool" where
  "waits_event C opc Sd ob \<longleftrightarrow> in_table C ob \<and> fst (SlActionLookupTable C ! nat (table_index C ob)) = opc \<and>
     (Sd = sd_of C ob \<and> SL_MAX_SOCKETS C > Sd \<or> SL_MAX_SOCKETS C = sd_of C ob)"

text \<open>The opcode as one object sees it: the bit of the IPv6 opcodes is cleared for an object with the
  family bit, and stays cleared for the objects behind it.\<close>

definition sees :: "drvcfg \<Rightarrow> pool_obj \<Rightarrow> u16 \<Rightarrow> u16" where
  "sees C ob opc = (if po_AdditionalData ob AND SL_NETAPP_FAMILY_MASK C \<noteq> 0 then opc AND NOT (SL_OPCODE_IPV6 C) else opc)"

definition seen_after :: "drvcfg \<Rightarrow> pool_obj list \<Rightarrow> nat list \<Rightarrow> u16 \<Rightarrow> u16" where
  "seen_after C p xs opc = (if \<exists>j \<in> set xs. po_AdditionalData (p ! j) AND SL_NETAPP_FAMILY_MASK C \<noteq> 0
     then opc AND NOT (SL_OPCODE_IPV6 C) else opc)"

lemma seen_after_Nil [simp]: "seen_after C p [] opc = opc"
  by (simp add: seen_after_def)

lemma seen_after_snoc: "seen_after C p (xs @ [i]) opc = sees C (p ! i) (seen_after C p xs opc)"
  by (auto simp: seen_after_def sees_def bit_eq_iff bit_simps)

definition table_handler :: "drvcfg \<Rightarrow> pool_obj \<Rightarrow> string" where
  "table_handler C ob = snd (SlActionLookupTable C ! nat (table_index C ob))"

fun walk :: "drvcfg \<Rightarrow> u8 \<Rightarrow> pool_obj list \<Rightarrow> u16 \<Rightarrow> nat list \<Rightarrow> (nat \<times> string option) option option" where
  "walk C Sd p opc [] = Some None"
| "walk C Sd p opc (i # is) =
    (let o1 = sees C (p ! i) opc
     in if waits_recv C o1 Sd (p ! i) then Some (Some (i, None))
        else if \<not> in_table C (p ! i) then None
        else if waits_event C o1 Sd (p ! i) then Some (Some (i, Some (table_handler C (p ! i))))
        else walk C Sd p o1 is)"

lemma find_active_walk:
  "chain (MAX_CONCURRENT_ACTIONS C) p idx xs \<Longrightarrow> find_active C Sd p opc idx = walk C Sd p opc xs"
proof (induction xs arbitrary: idx opc)
  case Nil
  then show ?case by (subst find_active.simps) simp
next
  case (Cons x xs)
  then have x: "idx = x" "x < MAX_CONCURRENT_ACTIONS C" by simp_all
  have IH: "find_active C Sd p o1 (po_NextIndex (p ! x)) = walk C Sd p o1 xs" for o1 using Cons by simp
  show ?case
    unfolding x(1)
    by (subst find_active.simps)
      (auto simp add: x(2) IH Let_def waits_recv_def waits_event_def in_table_def sees_def [symmetric] table_handler_def
        table_index_def [symmetric])
qed

text \<open>Objects that wait for neither form of the event do not end the walk.\<close>

definition passes_by :: "drvcfg \<Rightarrow> u16 \<Rightarrow> u8 \<Rightarrow> pool_obj \<Rightarrow> bool" where
  "passes_by C opc Sd ob \<longleftrightarrow> in_table C ob \<and> (\<forall>o1 \<in> {opc, opc AND NOT (SL_OPCODE_IPV6 C)}.
     \<not> waits_recv C o1 Sd ob \<and> \<not> waits_event C o1 Sd ob)"

lemma walk_front:
  "\<forall>j \<in> set front. passes_by C opc Sd (p ! j) \<Longrightarrow> o1 \<in> {opc, opc AND NOT (SL_OPCODE_IPV6 C)} \<Longrightarrow>
    \<exists>o2. o2 = fold (\<lambda>j. sees C (p ! j)) front o1 \<and> walk C Sd p o1 (front @ xs) = walk C Sd p o2 xs"
proof (induction front arbitrary: o1)
  case (Cons j front)
  have "sees C (p ! j) o1 \<in> {opc, opc AND NOT (SL_OPCODE_IPV6 C)}"
    using Cons.prems(2) by (auto simp: sees_def bit_eq_iff bit_simps)
  from Cons.IH [OF _ this] Cons.prems(1) this show ?case by (auto simp: passes_by_def Let_def)
qed simp

lemma fold_sees: "fold (\<lambda>j. sees C (p ! j)) xs opc = seen_after C p xs opc"
  by (induction xs rule: rev_induct) (simp_all add: seen_after_snoc)

subsection \<open>The owner of the socket\<close>

definition set_active :: "nat \<Rightarrow> string option \<Rightarrow> drv \<Rightarrow> drv" where
  "set_active i h D = D\<lparr>g_ActionIndex := i,
     g_AsyncEvtHandler := (case h of None \<Rightarrow> g_AsyncEvtHandler D | Some _ \<Rightarrow> h)\<rparr>"

lemma owner_of_socket_unique:
  assumes ok: "pool_ok C D fs as ps ws hs" and "i \<in> set as" and "j \<in> set as"
    and "po_AdditionalData (g_ObjPool D ! i) = sd" and "po_AdditionalData (g_ObjPool D ! j) = sd"
    and "sd < SL_MAX_SOCKETS C"
  shows "j = i"
proof -
  have "slot C (g_ObjPool D ! j) = slot C (g_ObjPool D ! i)" "\<not> multi C (g_ObjPool D ! j)"
    using assms(4-6) by (simp_all add: slot_def multi_def)
  with pool_okD(11) [OF ok] assms(2,3) show ?thesis unfolding active_ok_def by blast
qed

lemma owner_sd_of:
  assumes "cfg_ok C" and ok: "pool_ok C D fs as ps ws hs" and "j \<in> set as"
  shows "sd_of C (g_ObjPool D ! j) = po_AdditionalData (g_ObjPool D ! j)"
proof -
  have "ids_ok C (po_ActionID (g_ObjPool D ! j)) (po_AdditionalData (g_ObjPool D ! j))"
    using pool_okD(10) [OF ok] assms(3) unfolding objs_ok_def by blast
  then show ?thesis by (simp add: sd_of_ok [OF assms(1)] ids_ok_def)
qed

text \<open>The callers of the driver mark an action for IPv6 by the family bit in the object they own.\<close>

definition mark_family :: "drvcfg \<Rightarrow> nat set \<Rightarrow> drv \<Rightarrow> drv" where
  "mark_family C F D = D\<lparr>g_ObjPool := map (\<lambda>i. if i \<in> F
     then (g_ObjPool D ! i)\<lparr>po_AdditionalData := po_AdditionalData (g_ObjPool D ! i) OR SL_NETAPP_FAMILY_MASK C\<rparr>
     else g_ObjPool D ! i) [0..<length (g_ObjPool D)]\<rparr>"

lemma mark_family_simps [simp]:
  "g_ActivePoolIdx (mark_family C F D) = g_ActivePoolIdx D" "length (g_ObjPool (mark_family C F D)) = length (g_ObjPool D)"
  "i < length (g_ObjPool D) \<Longrightarrow> g_ObjPool (mark_family C F D) ! i =
    (if i \<in> F then (g_ObjPool D ! i)\<lparr>po_AdditionalData := po_AdditionalData (g_ObjPool D ! i) OR SL_NETAPP_FAMILY_MASK C\<rparr>
     else g_ObjPool D ! i)"
  by (simp_all add: mark_family_def)

lemma chain_mark_family:
  assumes "length (g_ObjPool D) = n" and "chain n (g_ObjPool D) k xs"
  shows "chain n (g_ObjPool (mark_family C F D)) k xs"
  using assms(2) by (induction xs arbitrary: k) (simp_all add: assms(1))

lemma sd_of_mark_family:
  assumes "i < length (g_ObjPool D)" and "SL_NETAPP_FAMILY_MASK C AND SL_BSD_SOCKET_ID_MASK C = 0"
  shows "sd_of C (g_ObjPool (mark_family C F D) ! i) = sd_of C (g_ObjPool D ! i)"
  using assms by (simp add: sd_of_def word_ao_dist)

text \<open>An action of another socket passes the event by.\<close>

lemma other_passes_by:
  assumes "in_table C ob" and "sd_of C ob \<noteq> sd" and "sd AND SL_BSD_SOCKET_ID_MASK C = sd"
    and "SL_MAX_SOCKETS C = sd_of C ob \<longrightarrow>
      fst (SlActionLookupTable C ! nat (table_index C ob)) \<notin> {opc, opc AND NOT (SL_OPCODE_IPV6 C)}"
  shows "passes_by C opc sd ob"
  using assms by (auto simp: passes_by_def waits_recv_def waits_event_def sd_of_def)

text \<open>C30: An event finds the caller that waits for it. In every state the pool reaches, and whichever
  owners have marked their actions for IPv6 by the family bit, an event that belongs to a socket is given
  to the owner of that socket and to no other object, whenever the owner waits for it: the opcode that
  counts has lost its IPv6 bit exactly when the owner or an action in front of it in the active list is
  marked. A receive keeps the handler unset, any other action gets its handler from the table. The actions
  in front of the owner must be in the lookup table, and those among them that have no socket must wait
  for other events; what is behind it does not matter. The family bit must not be one of the bits of
  the socket number.\<close>

theorem event_reaches_owner:
  assumes "pool_start C E s" and "steps (pool_step C) s t"
    and m: "SL_NETAPP_FAMILY_MASK C AND SL_BSD_SOCKET_ID_MASK C = 0"
    and c: "chain (MAX_CONCURRENT_ACTIONS C) (g_ObjPool (ps_drv t)) (g_ActivePoolIdx (ps_drv t)) (front @ i # rest)"
    and D: "D = mark_family C F (ps_drv t)"
    and i: "sd_of C (g_ObjPool D ! i) = sd" "sd < SL_MAX_SOCKETS C"
    and o1: "o1 = seen_after C (g_ObjPool D) (front @ [i]) opc"
    and w: "waits_recv C o1 sd (g_ObjPool D ! i) \<or> waits_event C o1 sd (g_ObjPool D ! i)"
    and others: "\<forall>j \<in> set front. in_table C (g_ObjPool D ! j) \<and> (SL_MAX_SOCKETS C = sd_of C (g_ObjPool D ! j) \<longrightarrow>
      fst (SlActionLookupTable C ! nat (table_index C (g_ObjPool D ! j))) \<notin> {opc, opc AND NOT (SL_OPCODE_IPV6 C)})"
  shows "SlDrvFindAndSetActiveObj C opc sd D = Some (0, set_active i
      (if waits_recv C o1 sd (g_ObjPool D ! i) then None else Some (table_handler C (g_ObjPool D ! i))) D) \<and>
    i \<in> ps_own t \<and> (\<forall>j \<in> ps_own t. sd_of C (g_ObjPool D ! j) = sd \<longrightarrow> j = i)"
proof -
  from assms(1,2) obtain fs as ps ws where ok: "pool_sys_ok C t fs as ps ws" by (rule pool_reachable_ok)
  note S = pool_sys_okD [OF ok] and P = pool_okD [OF pool_sys_okD(2) [OF ok]]
  have as: "as = front @ i # rest" by (rule chain_unique [OF P(3) c])
  have len: "j < length (g_ObjPool (ps_drv t))" if "j \<in> set as" for j
    using P(1) P(3) that by (metis chain_below)
  have sd: "sd_of C (g_ObjPool D ! j) = po_AdditionalData (g_ObjPool (ps_drv t) ! j)" if "j \<in> set as" for j
    unfolding D using sd_of_mark_family [OF len [OF that] m] owner_sd_of [OF S(1,2) that] by simp
  have iown: "i \<in> set as" by (simp add: as)
  have only: "j = i" if "j \<in> set as" "sd_of C (g_ObjPool D ! j) = sd" for j
    using owner_of_socket_unique [OF S(2) iown that(1) _ _ i(2)] that(2) i(1) sd [OF that(1)] sd [OF iown] by simp
  have mask: "sd AND SL_BSD_SOCKET_ID_MASK C = sd" using S(1) i(2) by (simp add: cfg_ok_def)
  have front: "\<forall>j \<in> set front. passes_by C opc sd (g_ObjPool D ! j)"
  proof
    fix j assume j: "j \<in> set front"
    have "j \<noteq> i" using P(5) j by (auto simp: as)
    then have "sd_of C (g_ObjPool D ! j) \<noteq> sd" using only [of j] j by (auto simp: as)
    then show "passes_by C opc sd (g_ObjPool D ! j)" using others j by (blast intro: other_passes_by [OF _ _ mask])
  qed
  have "find_active C sd (g_ObjPool D) opc (g_ActivePoolIdx D) =
      walk C sd (g_ObjPool D) (seen_after C (g_ObjPool D) front opc) (i # rest)"
    using find_active_walk [OF chain_mark_family [OF P(1) c], where Sd = sd and opc = opc] walk_front [OF front, of opc "i # rest"]
    by (simp add: D fold_sees)
  moreover have "in_table C (g_ObjPool D ! i)" if "\<not> waits_recv C o1 sd (g_ObjPool D ! i)"
    using w that unfolding waits_event_def by blast
  ultimately show ?thesis
    using w only iown S(5)
    by (auto simp: SlDrvFindAndSetActiveObj_def set_active_def o1 seen_after_snoc Let_def)
qed

text \<open>An accept for IPv6 on socket 3 behind a resolution of a host name.\<close>

definition example_d3 :: drv where
  "example_d3 = snd (the (SlDrvWaitForPoolObj example_drvcfg False 16 3 example_up))"

definition example_d4 :: drv where
  "example_d4 = snd (the (SlDrvWaitForPoolObj example_drvcfg False 19 16 example_d3))"

definition example_pair :: pool_sys where
  "example_pair = \<lparr>ps_drv = example_d4, ps_wait = (\<lambda>_. None), ps_own = {0, 1}\<rparr>"

lemma example_d3: "SlDrvWaitForPoolObj example_drvcfg False 16 3 example_up = Some (PW_return 0, example_d3)"
  "g_ObjPool example_d3 = [ex_obj 4 16 3, ex_obj 2 0 16, ex_obj 3 0 16, ex_obj 4 0 16]"
  "g_FreePoolIdx example_d3 = 1" "g_ActivePoolIdx example_d3 = 0" "g_PendingPoolIdx example_d3 = 4"
  "g_ActiveActionsBitmap example_d3 = 8" "\<not> g_ProtectionLock example_d3" "g_status example_d3 = no_status"
  by (simp_all add: example_d3_def example_pool_simps)

lemma example_d4: "SlDrvWaitForPoolObj example_drvcfg False 19 16 example_d3 = Some (PW_return 1, example_d4)"
  "g_ObjPool example_d4 = [ex_obj 4 16 3, ex_obj 0 19 16, ex_obj 3 0 16, ex_obj 4 0 16]"
  "g_ActivePoolIdx example_d4 = 1"
  by (simp_all add: example_d4_def example_d3 MULTI_SELECT_MASK_def example_pool_simps)

lemma example_pair_reachable: "steps (pool_step example_drvcfg) example_sys example_pair"
proof -
  let ?s1 = "\<lparr>ps_drv = example_d3, ps_wait = (\<lambda>_. None), ps_own = {0}\<rparr>"
  have "ids_ok example_drvcfg 16 3" "ids_ok example_drvcfg 19 16" by (simp_all add: ids_ok_def)
  note ids = this
  have "pool_step example_drvcfg example_sys ?s1"
    using pool_step.ps_call [OF ids(1), of False example_sys] example_d3(1)
    by (simp add: after_wait_def example_sys_def)
  moreover have "pool_step example_drvcfg ?s1 example_pair"
    using pool_step.ps_call [OF ids(2), of False ?s1] example_d4(1)
    by (simp add: after_wait_def example_pair_def insert_commute)
  ultimately show ?thesis by (blast intro: steps_step)
qed

theorem event_reaches_owner_witness:
  "let opc = opcode example_drvcfg ''SL_OPCODE_SOCKET_ACCEPTASYNCRESPONSE'' OR SL_OPCODE_IPV6 example_drvcfg;
     D = mark_family example_drvcfg {0} (ps_drv example_pair)
   in SlDrvFindAndSetActiveObj example_drvcfg opc 3 D = Some (0, set_active 0 (Some ''_SlSocketHandleAsync_Accept'') D)"
proof -
  let ?C = example_drvcfg
  let ?D = "mark_family ?C {0} (ps_drv example_pair)"
  let ?opc = "opcode ?C ''SL_OPCODE_SOCKET_ACCEPTASYNCRESPONSE'' OR SL_OPCODE_IPV6 ?C"
  have cs: "SL_NETAPP_FAMILY_MASK ?C = 0x80" "SL_OPCODE_IPV6 ?C = 0x200" "MAX_SOCKET_ENUM_IDX ?C = 16"
    by (simp_all add: example_drvcfg_def)
  have pool: "g_ObjPool ?D = [ex_obj 4 16 0x83, ex_obj 0 19 16, ex_obj 3 0 16, ex_obj 4 0 16]"
    by (simp add: mark_family_def example_pair_def example_d4 ex_obj_def cs upt_rec)
  have chain: "chain (MAX_CONCURRENT_ACTIONS ?C) (g_ObjPool (ps_drv example_pair)) (g_ActivePoolIdx (ps_drv example_pair)) ([1] @ 0 # [])"
    by (simp add: example_pair_def example_d4 ex_obj_def)
  have ops: "opcode ?C ''SL_OPCODE_SOCKET_ACCEPTASYNCRESPONSE'' = 36"
    "opcode ?C ''SL_OPCODE_NETAPP_DNSGETHOSTBYNAMEASYNCRESPONSE'' = 46"
    by (simp_all add: example_drvcfg_def)
  show ?thesis
    using event_reaches_owner [OF example_pool_start example_pair_reachable _ chain refl _ _ refl, where sd = 3 and opc = ?opc and F = "{0}"]
    by (simp add: pool ops Let_def ex_obj_def sd_of_def seen_after_def waits_event_def waits_recv_def in_table_def table_index_def
      table_handler_def cs SlActionLookupTable_def)
qed

text \<open>The condition on the other actions is needed: the table has no entry for a receive, so a receive
  on another socket in front of the owner makes the walk read beside the table.\<close>

lemma receive_in_front_off_table:
  assumes "chain (MAX_CONCURRENT_ACTIONS C) (g_ObjPool D) (g_ActivePoolIdx D) (j # xs)"
    and "po_ActionID (g_ObjPool D ! j) = RECV_ID C" and "\<not> in_table C (g_ObjPool D ! j)"
    and "po_AdditionalData (g_ObjPool D ! j) \<noteq> sd"
  shows "SlDrvFindAndSetActiveObj C opc sd D = None"
  using find_active_walk [OF assms(1), of sd opc] assms(3,4)
  by (simp add: waits_recv_def SlDrvFindAndSetActiveObj_def Let_def)

end
