(* ===== verification/DrvStop.thy ===== *)
theory DrvStop
  imports DrvPoolProps
begin

text \<open>
  Stopping the device: every caller that owns or waits for a pool object is woken, and the sync object
  of every object is deleted exactly once, either at once or by the caller that leaves.
\<close>

subsection \<open>The three walks\<close>

text \<open>\<open>resync f n D D'\<close>: the sync object of each object has changed by \<open>f\<close>, \<open>n\<close> of them
  have been deleted; the rest of the pool is as it was.\<close>

definition resync :: "(nat \<Rightarrow> bool option \<Rightarrow> bool option) \<Rightarrow> nat \<Rightarrow> drv \<Rightarrow> drv \<Rightarrow> bool" where
  "resync f n D D' \<longleftrightarrow> (\<exists>p cs. D' = D\<lparr>g_ObjPool := p, g_calls := cs,
       g_NumOfDeletedSyncObj := g_NumOfDeletedSyncObj D + of_nat n\<rparr> \<and> length p = length (g_ObjPool D) \<and>
     (\<forall>i < length p. po_NextIndex (p ! i) = po_NextIndex (g_ObjPool D ! i) \<and>
        po_pRespArgs (p ! i) = po_pRespArgs (g_ObjPool D ! i) \<and> po_sync (p ! i) = f i (po_sync (g_ObjPool D ! i))))"

lemma resync_refl: "resync (\<lambda>i x. x) 0 D D"
  unfolding resync_def by (intro exI [of _ "g_ObjPool D"] exI [of _ "g_calls D"]) simp

lemma resync_trans:
  assumes "resync f n D D1" and "resync g m D1 D2"
  shows "resync (\<lambda>i x. g i (f i x)) (n + m) D D2"
proof -
  obtain p cs where 1: "D1 = D\<lparr>g_ObjPool := p, g_calls := cs,
       g_NumOfDeletedSyncObj := g_NumOfDeletedSyncObj D + of_nat n\<rparr>" "length p = length (g_ObjPool D)"
     "\<forall>i < length p. po_NextIndex (p ! i) = po_NextIndex (g_ObjPool D ! i) \<and>
        po_pRespArgs (p ! i) = po_pRespArgs (g_ObjPool D ! i) \<and> po_sync (p ! i) = f i (po_sync (g_ObjPool D ! i))"
    using assms(1) unfolding resync_def by (elim exE conjE)
  obtain q cs' where 2: "D2 = D1\<lparr>g_ObjPool := q, g_calls := cs',
       g_NumOfDeletedSyncObj := g_NumOfDeletedSyncObj D1 + of_nat m\<rparr>" "length q = length (g_ObjPool D1)"
     "\<forall>i < length q. po_NextIndex (q ! i) = po_NextIndex (g_ObjPool D1 ! i) \<and>
        po_pRespArgs (q ! i) = po_pRespArgs (g_ObjPool D1 ! i) \<and> po_sync (q ! i) = g i (po_sync (g_ObjPool D1 ! i))"
    using assms(2) unfolding resync_def by (elim exE conjE)
  have "D2 = D\<lparr>g_ObjPool := q, g_calls := cs',
      g_NumOfDeletedSyncObj := g_NumOfDeletedSyncObj D + of_nat (n + m)\<rparr>"
    unfolding 2(1) 1(1) by (simp add: add.assoc)
  moreover have "length q = length (g_ObjPool D)" using 1(1,2) 2(2) by simp
  moreover have "po_NextIndex (q ! i) = po_NextIndex (g_ObjPool D ! i) \<and>
      po_pRespArgs (q ! i) = po_pRespArgs (g_ObjPool D ! i) \<and> po_sync (q ! i) = g i (f i (po_sync (g_ObjPool D ! i)))"
    if "i < length q" for i
    using 1(3) 2(3) that 1(1,2) 2(2) by simp
  ultimately show ?thesis unfolding resync_def by blast
qed

lemma resync_cong:
  assumes "resync f n D D'" and "\<And>i x. i < length (g_ObjPool D) \<Longrightarrow> f i x = g i x"
  shows "resync g n D D'"
proof -
  obtain p cs where 1: "D' = D\<lparr>g_ObjPool := p, g_calls := cs,
       g_NumOfDeletedSyncObj := g_NumOfDeletedSyncObj D + of_nat n\<rparr>" "length p = length (g_ObjPool D)"
     "\<forall>i < length p. po_NextIndex (p ! i) = po_NextIndex (g_ObjPool D ! i) \<and>
        po_pRespArgs (p ! i) = po_pRespArgs (g_ObjPool D ! i) \<and> po_sync (p ! i) = f i (po_sync (g_ObjPool D ! i))"
    using assms(1) unfolding resync_def by (elim exE conjE)
  then show ?thesis unfolding resync_def
    using assms(2) by (intro exI [of _ p] exI [of _ cs]) simp
qed

lemma resyncD:
  assumes "resync f n D D'"
  shows "length (g_ObjPool D') = length (g_ObjPool D)"
    and "\<And>i. i < length (g_ObjPool D) \<Longrightarrow> po_NextIndex (g_ObjPool D' ! i) = po_NextIndex (g_ObjPool D ! i)"
    and "\<And>i. i < length (g_ObjPool D) \<Longrightarrow> po_pRespArgs (g_ObjPool D' ! i) = po_pRespArgs (g_ObjPool D ! i)"
    and "\<And>i. i < length (g_ObjPool D) \<Longrightarrow> po_sync (g_ObjPool D' ! i) = f i (po_sync (g_ObjPool D ! i))"
    and "g_FreePoolIdx D' = g_FreePoolIdx D" "g_PendingPoolIdx D' = g_PendingPoolIdx D"
    and "g_status D' = g_status D" "g_ProtectionLock D' = g_ProtectionLock D" "g_TriggerObjIdx D' = g_TriggerObjIdx D"
    and "g_NumOfDeletedSyncObj D' = g_NumOfDeletedSyncObj D + of_nat n"
  using assms unfolding resync_def by auto

lemma chain_resync:
  assumes "resync f n D D'" and "length (g_ObjPool D) = N"
  shows "chain N (g_ObjPool D') i xs \<longleftrightarrow> chain N (g_ObjPool D) i xs"
proof -
  have "chain N (g_ObjPool D') i xs = chain N (g_ObjPool D) i xs" if "\<forall>x \<in> set xs. x < N"
    using that assms by (intro chain_cong) (auto dest: resyncD(2) [OF assms(1)])
  moreover have "\<forall>x \<in> set xs. x < N" if "chain N q i xs" for q using chain_below [OF that] by blast
  ultimately show ?thesis by blast
qed

definition sig :: "nat set \<Rightarrow> nat \<Rightarrow> bool option \<Rightarrow> bool option" where
  "sig S i x = (if i \<in> S then map_option (\<lambda>_. True) x else x)"

definition del :: "nat set \<Rightarrow> nat \<Rightarrow> bool option \<Rightarrow> bool option" where
  "del S i x = (if i \<in> S then None else x)"

lemma resync_signal: "i < length (g_ObjPool D) \<Longrightarrow> resync (sig {i}) 0 D ((signal_obj i D)\<lparr>g_calls := cs\<rparr>)"
  unfolding resync_def
  by (intro exI [of _ "g_ObjPool (signal_obj i D)"] exI [of _ cs])
    (auto simp: signal_obj_def set_obj_def sig_def nth_list_update)

lemma resync_delete:
  "i < length (g_ObjPool D) \<Longrightarrow> resync (del {i}) 1 D
    ((set_obj i (\<lambda>ob. ob\<lparr>po_sync := None\<rparr>) D)\<lparr>g_NumOfDeletedSyncObj := g_NumOfDeletedSyncObj D + 1\<rparr>)"
  unfolding resync_def
  by (intro exI [of _ "g_ObjPool (set_obj i (\<lambda>ob. ob\<lparr>po_sync := None\<rparr>) D)"] exI [of _ "g_calls D"])
    (auto simp: set_obj_def del_def nth_list_update)

lemma stop_active_chain:
  assumes "chain (MAX_CONCURRENT_ACTIONS C) (g_ObjPool D) idx xs"
    and "length (g_ObjPool D) = MAX_CONCURRENT_ACTIONS C" and "\<forall>i \<in> set xs. po_pRespArgs (g_ObjPool D ! i) \<noteq> None"
  shows "\<exists>D'. stop_active C idx D = Some D' \<and> resync (sig (set xs)) 0 D D'"
  using assms
proof (induction xs arbitrary: idx D)
  case Nil
  then show ?case using resync_cong [OF resync_refl, of D "sig {}"]
    by (subst stop_active.simps) (simp add: sig_def)
next
  case (Cons x xs)
  then have x: "idx = x" "x < MAX_CONCURRENT_ACTIONS C" by simp_all
  obtain ptr where ptr: "po_pRespArgs (g_ObjPool D ! x) = Some ptr" using Cons.prems(3) by auto
  let ?D = "signal_obj x (vcall (V_resp_status ptr (SL_RET_CODE_STOP_IN_PROGRESS C)) D)"
  have "?D = (signal_obj x D)\<lparr>g_calls := V_resp_status ptr (SL_RET_CODE_STOP_IN_PROGRESS C) # g_calls D\<rparr>"
    by (simp add: signal_obj_def set_obj_def vcall_def)
  then have R: "resync (sig {x}) 0 D ?D" using resync_signal [of x D] x Cons.prems(2) by simp
  note RD = resyncD [OF R]
  have "chain (MAX_CONCURRENT_ACTIONS C) (g_ObjPool ?D) (po_NextIndex (g_ObjPool D ! x)) xs"
    using chain_resync [OF R Cons.prems(2)] Cons.prems(1) by simp
  moreover have "\<forall>i \<in> set xs. po_pRespArgs (g_ObjPool ?D ! i) \<noteq> None"
  proof
    fix i assume i: "i \<in> set xs"
    then have "i < length (g_ObjPool D)" using chain_below [OF Cons.prems(1), of i] Cons.prems(2) by simp
    then show "po_pRespArgs (g_ObjPool ?D ! i) \<noteq> None" using RD(3) Cons.prems(3) i by simp
  qed
  ultimately obtain D' where D': "stop_active C (po_NextIndex (g_ObjPool D ! x)) ?D = Some D'"
    "resync (sig (set xs)) 0 ?D D'"
    using Cons.IH [of ?D] RD(1) Cons.prems(2) by auto
  have "resync (sig (set (x # xs))) 0 D D'"
    using resync_cong [OF resync_trans [OF R D'(2)], of "sig (set (x # xs))"]
    by (simp add: sig_def option.map_comp comp_def)
  moreover have "stop_active C idx D = Some D'"
    using D'(1) x ptr by (subst stop_active.simps) simp
  ultimately show ?case by blast
qed

lemma stop_pending_chain:
  assumes "chain (MAX_CONCURRENT_ACTIONS C) (g_ObjPool D) idx xs" and "length (g_ObjPool D) = MAX_CONCURRENT_ACTIONS C"
  shows "\<exists>D'. stop_pending C idx D = Some D' \<and> resync (sig (set xs)) 0 D D'"
  using assms
proof (induction xs arbitrary: idx D)
  case Nil
  then show ?case using resync_cong [OF resync_refl, of D "sig {}"]
    by (subst stop_pending.simps) (simp add: sig_def)
next
  case (Cons x xs)
  then have x: "idx = x" "x < MAX_CONCURRENT_ACTIONS C" by simp_all
  have R: "resync (sig {x}) 0 D (signal_obj x D)"
    using resync_signal [of x D "g_calls (signal_obj x D)"] x Cons.prems(2) by simp
  have "chain (MAX_CONCURRENT_ACTIONS C) (g_ObjPool (signal_obj x D)) (po_NextIndex (g_ObjPool D ! x)) xs"
    using chain_resync [OF R Cons.prems(2)] Cons.prems(1) by simp
  then obtain D' where D': "stop_pending C (po_NextIndex (g_ObjPool D ! x)) (signal_obj x D) = Some D'"
    "resync (sig (set xs)) 0 (signal_obj x D) D'"
    using Cons.IH [of "signal_obj x D"] resyncD(1) [OF R] Cons.prems(2) by auto
  have "resync (sig (set (x # xs))) 0 D D'"
    using resync_cong [OF resync_trans [OF R D'(2)], of "sig (set (x # xs))"]
    by (simp add: sig_def option.map_comp comp_def)
  moreover have "stop_pending C idx D = Some D'"
    using D'(1) x by (subst stop_pending.simps) simp
  ultimately show ?case by blast
qed

lemma stop_free_chain:
  assumes "chain (MAX_CONCURRENT_ACTIONS C) (g_ObjPool D) idx xs" and "length (g_ObjPool D) = MAX_CONCURRENT_ACTIONS C"
    and "distinct xs" and "\<forall>i \<in> set xs. po_sync (g_ObjPool D ! i) \<noteq> None"
  shows "\<exists>D'. stop_free C idx D = Some (0, D') \<and> resync (del (set xs)) (length xs) D D'"
  using assms
proof (induction xs arbitrary: idx D)
  case Nil
  then show ?case using resync_cong [OF resync_refl, of D "del {}"]
    by (subst stop_free.simps) (simp add: del_def)
next
  case (Cons x xs)
  then have x: "idx = x" "x < MAX_CONCURRENT_ACTIONS C" "x \<notin> set xs" by simp_all
  let ?D = "(set_obj x (\<lambda>ob. ob\<lparr>po_sync := None\<rparr>) D)\<lparr>g_NumOfDeletedSyncObj := g_NumOfDeletedSyncObj D + 1\<rparr>"
  have R: "resync (del {x}) 1 D ?D" using resync_delete [of x D] x Cons.prems(2) by simp
  note RD = resyncD [OF R]
  have "chain (MAX_CONCURRENT_ACTIONS C) (g_ObjPool ?D) (po_NextIndex (g_ObjPool D ! x)) xs"
    using chain_resync [OF R Cons.prems(2)] Cons.prems(1) by simp
  moreover have "\<forall>i \<in> set xs. po_sync (g_ObjPool ?D ! i) \<noteq> None"
  proof
    fix i assume i: "i \<in> set xs"
    then have "i < length (g_ObjPool D)" "i \<noteq> x"
      using chain_below [OF Cons.prems(1), of i] Cons.prems(2) x(3) by auto
    then show "po_sync (g_ObjPool ?D ! i) \<noteq> None" using RD(4) Cons.prems(4) i by (simp add: del_def)
  qed
  ultimately obtain D' where D': "stop_free C (po_NextIndex (g_ObjPool D ! x)) ?D = Some (0, D')"
    "resync (del (set xs)) (length xs) ?D D'"
    using Cons.IH [of ?D] RD(1) Cons.prems(2,3) by auto
  have "resync (del (set (x # xs))) (length (x # xs)) D D'"
    using resync_cong [OF resync_trans [OF R D'(2)], of "del (set (x # xs))"] by (simp add: del_def)
  moreover have "stop_free C idx D = Some (0, D')"
  proof -
    have "po_NextIndex (g_ObjPool (set_obj x (\<lambda>ob. ob\<lparr>po_sync := None\<rparr>) D) ! x) = po_NextIndex (g_ObjPool D ! x)"
      using x Cons.prems(2) by (simp add: set_obj_def)
    then show ?thesis using D'(1) x Cons.prems(4)
      by (subst stop_free.simps) (auto simp: delete_sync_def set_obj_def)
  qed
  ultimately show ?case by blast
qed

text \<open>Both walks together signal exactly the objects that are not free; a woken sleeper already has
  its signal.\<close>

lemma signalled_sync:
  assumes ok: "pool_ok C D fs as ps ws {}" and i: "i < MAX_CONCURRENT_ACTIONS C"
  shows "sig (set ps) i (sig (set as) i (po_sync (g_ObjPool D ! i))) = Some (i \<notin> set fs)"
proof -
  note P = pool_okD [OF ok]
  have "i \<in> set (fs @ as @ ps) \<union> ws" using i P(9) by (metis Un_empty_right lessThan_iff)
  then consider "i \<in> set fs" | "i \<in> set as" "i \<notin> set fs" | "i \<in> set ps" "i \<notin> set fs" "i \<notin> set as"
    | "i \<in> ws" "i \<notin> set fs" "i \<notin> set as" "i \<notin> set ps"
    by (cases "i \<in> set fs"; cases "i \<in> set as"; cases "i \<in> set ps") auto
  then show ?thesis
  proof cases
    case 1
    then have "i \<notin> set as" "i \<notin> set ps" using P(5) by auto
    then show ?thesis using 1 P(10) by (simp add: sig_def objs_ok_def)
  next
    case 2
    then have "po_sync (g_ObjPool D ! i) \<noteq> None" using P(10) by (simp add: objs_ok_def)
    then show ?thesis using 2 by (auto simp: sig_def)
  qed (use P(10) in \<open>simp_all add: sig_def objs_ok_def\<close>)
qed

lemma release_all:
  assumes ok: "pool_ok C D0 fs as ps ws {}" and "\<not> g_ProtectionLock D0"
    and resp: "\<forall>i \<in> set as. po_pRespArgs (g_ObjPool D0 ! i) \<noteq> None"
    and trig: "\<not> slcb_SocketTrigger C \<or> g_TriggerObjIdx D0 = MAX_CONCURRENT_ACTIONS C"
  shows "\<exists>D. SlDrvReleaseAllActivePendingPoolObj C D0 = Some (0, D) \<and> \<not> g_ProtectionLock D \<and>
    g_status D = g_status D0 \<and> length (g_ObjPool D) = MAX_CONCURRENT_ACTIONS C \<and>
    g_NumOfDeletedSyncObj D = g_NumOfDeletedSyncObj D0 + of_nat (length fs) \<and>
    (\<forall>i < MAX_CONCURRENT_ACTIONS C. po_sync (g_ObjPool D ! i) = (if i \<in> set fs then None else Some True))"
proof -
  let ?N = "MAX_CONCURRENT_ACTIONS C"
  note P = pool_okD [OF ok]
  let ?D1 = "D0\<lparr>g_ProtectionLock := True\<rparr>"
  have len: "length (g_ObjPool ?D1) = ?N" using P(1) by simp
  obtain D2 where D2: "stop_active C (g_ActivePoolIdx ?D1) ?D1 = Some D2" "resync (sig (set as)) 0 ?D1 D2"
    using stop_active_chain [of C ?D1 "g_ActivePoolIdx ?D1" as] P(1,3) resp by auto
  obtain D3 where D3: "stop_pending C (g_PendingPoolIdx D2) D2 = Some D3" "resync (sig (set ps)) 0 D2 D3"
    using stop_pending_chain [of C D2 "g_PendingPoolIdx D2" ps] P(4) chain_resync [OF D2(2) len]
      resyncD(1,6) [OF D2(2)] len by auto
  note R = resync_trans [OF D2(2) D3(2)]
  have sync: "po_sync (g_ObjPool D3 ! i) = Some (i \<notin> set fs)" if "i < ?N" for i
    using resyncD(4) [OF R, of i] signalled_sync [OF ok that] that len by simp
  have fs: "\<forall>i \<in> set fs. po_sync (g_ObjPool D3 ! i) \<noteq> None"
    using sync chain_below [OF P(2)] by blast
  obtain D4 where D4: "stop_free C (g_FreePoolIdx D3) D3 = Some (0, D4)" "resync (del (set fs)) (length fs) D3 D4"
    using stop_free_chain [of C D3 "g_FreePoolIdx D3" fs] P(2,5) chain_resync [OF R len]
      resyncD(1,5) [OF R] len fs by auto
  note R4 = resyncD [OF resync_trans [OF R D4(2)]]
  have "SlDrvReleaseAllActivePendingPoolObj C D0 = Some (0, SlDrvProtectionObjUnLock D4)"
    using assms(2) trig D2(1) D3(1) D4(1) R4(9)
    by (auto simp: SlDrvReleaseAllActivePendingPoolObj_def SlDrvProtectionObjLockWaitForever_def Let_def)
  moreover have "po_sync (g_ObjPool D4 ! i) = (if i \<in> set fs then None else Some True)" if "i < ?N" for i
    using sync [OF that] resyncD(4) [OF D4(2), of i] resyncD(1) [OF R] len that by (simp add: del_def)
  ultimately show ?thesis using R4(1,7,10) len by (auto simp: SlDrvProtectionObjUnLock_def)
qed

subsection \<open>The callers leave\<close>

text \<open>What the callers do after that: an owner may take its signal, and releases its object; a sleeper
  wakes and returns.\<close>

inductive stop_step :: "drvcfg \<Rightarrow> pool_sys \<Rightarrow> pool_sys \<Rightarrow> bool" for C where
  st_release: "i \<in> ps_own s \<Longrightarrow> SlDrvReleasePoolObj C i (ps_drv s) = Some (r, D) \<Longrightarrow>
    stop_step C s (s\<lparr>ps_drv := D, ps_own := ps_own s - {i}\<rparr>)"
| st_wait: "i \<in> ps_own s \<Longrightarrow> SyncObjWait_NO_WAIT C (S_pool i) (ps_drv s) = (0, D) \<Longrightarrow>
    stop_step C s (s\<lparr>ps_drv := D\<rparr>)"
| st_woken: "ps_wait s i = Some (a, sd) \<Longrightarrow> SlDrvWaitForPoolObj_woken C a sd i (ps_drv s) = Some (w, D) \<Longrightarrow>
    stop_step C s (s\<lparr>ps_drv := D, ps_wait := (ps_wait s)(i := None)\<rparr>)"

definition remaining :: "pool_sys \<Rightarrow> nat set" where
  "remaining s = ps_own s \<union> dom (ps_wait s)"

text \<open>The objects that still have a sync object are those of the callers that have not left, and
  the deleted ones have been counted.\<close>

definition stop_ok :: "drvcfg \<Rightarrow> u8 \<Rightarrow> pool_sys \<Rightarrow> bool" where
  "stop_ok C k s \<longleftrightarrow> length (g_ObjPool (ps_drv s)) = MAX_CONCURRENT_ACTIONS C \<and> \<not> g_ProtectionLock (ps_drv s) \<and>
     stop_in_progress (g_status (ps_drv s)) \<and> ps_own s \<inter> dom (ps_wait s) = {} \<and>
     remaining s \<subseteq> {..<MAX_CONCURRENT_ACTIONS C} \<and>
     (\<forall>i < MAX_CONCURRENT_ACTIONS C. po_sync (g_ObjPool (ps_drv s) ! i) \<noteq> None \<longleftrightarrow> i \<in> remaining s) \<and>
     (\<forall>i \<in> dom (ps_wait s). po_sync (g_ObjPool (ps_drv s) ! i) = Some True) \<and>
     g_NumOfDeletedSyncObj (ps_drv s) + of_nat (card (remaining s)) = k"

definition deleted :: "nat \<Rightarrow> drv \<Rightarrow> drv" where
  "deleted i D = (set_obj i (\<lambda>ob. ob\<lparr>po_sync := None\<rparr>) D)\<lparr>g_NumOfDeletedSyncObj := g_NumOfDeletedSyncObj D + 1\<rparr>"

lemma unlock_noop: "\<not> g_ProtectionLock D \<Longrightarrow> D\<lparr>g_ProtectionLock := False\<rparr> = D"
  by (cases D) simp

lemma stop_okD:
  assumes "stop_ok C k s"
  shows "length (g_ObjPool (ps_drv s)) = MAX_CONCURRENT_ACTIONS C" and "\<not> g_ProtectionLock (ps_drv s)"
    and "stop_in_progress (g_status (ps_drv s))" and "ps_own s \<inter> dom (ps_wait s) = {}"
    and "remaining s \<subseteq> {..<MAX_CONCURRENT_ACTIONS C}"
    and "\<And>i. i < MAX_CONCURRENT_ACTIONS C \<Longrightarrow> po_sync (g_ObjPool (ps_drv s) ! i) \<noteq> None \<longleftrightarrow> i \<in> remaining s"
    and "\<And>i. i \<in> dom (ps_wait s) \<Longrightarrow> po_sync (g_ObjPool (ps_drv s) ! i) = Some True"
    and "g_NumOfDeletedSyncObj (ps_drv s) + of_nat (card (remaining s)) = k"
  using assms unfolding stop_ok_def by blast+

lemma deleted_unlock:
  "\<not> g_ProtectionLock D \<Longrightarrow> (deleted i D)\<lparr>g_ProtectionLock := False\<rparr> = deleted i D"
  by (intro unlock_noop) (simp add: deleted_def set_obj_def)

lemma stop_ok_release:
  assumes "stop_ok C k s" and "i \<in> ps_own s"
  shows "SlDrvReleasePoolObj C i (ps_drv s) = Some (0, deleted i (ps_drv s))"
proof -
  note S = stop_okD [OF assms(1)]
  have "i < MAX_CONCURRENT_ACTIONS C" "i \<in> remaining s" using S(5) assms(2) by (auto simp: remaining_def)
  then obtain b where n: "po_sync (g_ObjPool (ps_drv s) ! i) = Some b" using S(6) by auto
  show ?thesis
    using deleted_unlock [OF S(2), of i] S(2,3) n
    by (simp add: SlDrvReleasePoolObj_def delete_sync_def drv_lock_simps deleted_def set_obj_def)
qed

lemma stop_ok_woken:
  assumes "stop_ok C k s" and "ps_wait s i = Some (a, sd)"
  shows "SlDrvWaitForPoolObj_woken C a sd i (ps_drv s) =
    Some (PW_return (SL_RET_CODE_STOP_IN_PROGRESS C), deleted i (ps_drv s))"
proof -
  note S = stop_okD [OF assms(1)]
  have d: "i \<in> dom (ps_wait s)" using assms(2) by blast
  then have n: "i < length (g_ObjPool (ps_drv s))" using S(1,5) by (auto simp: remaining_def)
  show ?thesis
    using deleted_unlock [OF S(2), of i] S(2,3) S(7) [OF d] n
    by (simp add: SlDrvWaitForPoolObj_woken_def delete_sync_def drv_lock_simps deleted_def set_obj_def Let_def)
qed

lemma stop_ok_leave:
  assumes ok: "stop_ok C k s" and i: "i \<in> remaining s"
    and u: "ps_drv u = deleted i (ps_drv s)" "ps_own u = ps_own s - {i}" "ps_wait u = (ps_wait s)(i := None)"
  shows "stop_ok C k u"
proof -
  note S = stop_okD [OF ok]
  have iN: "i < MAX_CONCURRENT_ACTIONS C" using S(5) i by auto
  have r: "remaining u = remaining s - {i}" using u by (auto simp: remaining_def)
  have fin: "finite (remaining s)" using S(5) finite_subset by blast
  have p: "g_ObjPool (ps_drv u) = (g_ObjPool (ps_drv s))[i := (g_ObjPool (ps_drv s) ! i)\<lparr>po_sync := None\<rparr>]"
    "g_NumOfDeletedSyncObj (ps_drv u) = g_NumOfDeletedSyncObj (ps_drv s) + 1"
    "g_status (ps_drv u) = g_status (ps_drv s)" "g_ProtectionLock (ps_drv u) = g_ProtectionLock (ps_drv s)"
    using u(1) by (simp_all add: deleted_def set_obj_def)
  have "card (remaining s) = Suc (card (remaining u))" using card_Suc_Diff1 [OF fin i] r by simp
  then have "g_NumOfDeletedSyncObj (ps_drv u) + of_nat (card (remaining u)) = k"
    using S(8) p(2) by (simp add: add.assoc)
  moreover have "po_sync (g_ObjPool (ps_drv u) ! j) \<noteq> None \<longleftrightarrow> j \<in> remaining u" if "j < MAX_CONCURRENT_ACTIONS C" for j
    using S(6) [OF that] S(1) iN r by (cases "j = i") (simp_all add: p(1))
  moreover have "po_sync (g_ObjPool (ps_drv u) ! j) = Some True" if "j \<in> dom (ps_wait u)" for j
  proof -
    have "j \<noteq> i" "j \<in> dom (ps_wait s)" using that u(3) by (auto split: if_splits)
    then show ?thesis using S(7) by (simp add: p(1))
  qed
  moreover have "ps_own u \<inter> dom (ps_wait u) = {}" using S(4) u(2,3) by auto
  moreover have "remaining u \<subseteq> {..<MAX_CONCURRENT_ACTIONS C}" using S(5) r by auto
  ultimately show ?thesis using S(1-3) unfolding stop_ok_def by (simp add: p)
qed

lemma stop_ok_took_signal:
  assumes ok: "stop_ok C k s" and i: "i \<in> ps_own s"
  shows "stop_ok C k (s\<lparr>ps_drv := set_obj i (\<lambda>ob. ob\<lparr>po_sync := Some False\<rparr>) (ps_drv s)\<rparr>)" (is "stop_ok C k ?u")
proof -
  note S = stop_okD [OF ok]
  have r: "remaining ?u = remaining s" by (simp add: remaining_def)
  have iN: "i < MAX_CONCURRENT_ACTIONS C" "i \<in> remaining s" using S(5) i by (auto simp: remaining_def)
  have p: "g_ObjPool (ps_drv ?u) = (g_ObjPool (ps_drv s))[i := (g_ObjPool (ps_drv s) ! i)\<lparr>po_sync := Some False\<rparr>]"
    by (simp add: set_obj_def)
  have "po_sync (g_ObjPool (ps_drv ?u) ! j) \<noteq> None \<longleftrightarrow> j \<in> remaining ?u" if "j < MAX_CONCURRENT_ACTIONS C" for j
    using S(6) [OF that] S(1) iN unfolding p r by (cases "j = i") simp_all
  moreover have "po_sync (g_ObjPool (ps_drv ?u) ! j) = Some True" if "j \<in> dom (ps_wait ?u)" for j
  proof -
    have "j \<noteq> i" using that S(4) i by auto
    then show ?thesis using S(7) [of j] that unfolding p by simp
  qed
  ultimately show ?thesis using S(1-5,8) unfolding stop_ok_def r by (simp add: set_obj_def)
qed

lemma stop_ok_step: "stop_step C s u \<Longrightarrow> stop_ok C k s \<Longrightarrow> stop_ok C k u"
proof (induction rule: stop_step.induct)
  case (st_release i s r D)
  have "ps_wait s i = None" using stop_okD(4) [OF st_release(3)] st_release(1) by auto
  then have "(ps_wait s)(i := None) = ps_wait s" by (simp add: fun_upd_idem)
  then show ?case
    using stop_ok_release [OF st_release(3,1)] st_release(1,2)
    by (intro stop_ok_leave [where i = i, OF st_release(3)]) (simp_all add: remaining_def)
next
  case (st_wait i s D)
  have "D = ps_drv s \<or> D = set_obj i (\<lambda>ob. ob\<lparr>po_sync := Some False\<rparr>) (ps_drv s)"
    using st_wait(2) by (auto simp: SyncObjWait_NO_WAIT_def split: if_splits)
  then show ?case using st_wait(3) stop_ok_took_signal [OF st_wait(3,1)] by auto
next
  case (st_woken s i a sd w D)
  have "i \<in> dom (ps_wait s)" using st_woken(1) by blast
  then have "i \<notin> ps_own s" "i \<in> remaining s" using stop_okD(4) [OF st_woken(3)] by (auto simp: remaining_def)
  then show ?case
    using stop_ok_woken [OF st_woken(3,1)] st_woken(2)
    by (intro stop_ok_leave [where i = i, OF st_woken(3)]) simp_all
qed

interpretation stop_sys: transition_system "stop_ok C k" "stop_step C" "stop_ok C k"
  by unfold_locales (auto intro: stop_ok_step)

lemma stop_starts:
  assumes ok: "pool_sys_ok C t fs as ps ws"
    and D: "\<not> g_ProtectionLock D" "stop_in_progress (g_status D)" "length (g_ObjPool D) = MAX_CONCURRENT_ACTIONS C"
      "g_NumOfDeletedSyncObj D = n + of_nat (length fs)"
      "\<forall>i < MAX_CONCURRENT_ACTIONS C. po_sync (g_ObjPool D ! i) = (if i \<in> set fs then None else Some True)"
  shows "stop_ok C (n + of_nat (MAX_CONCURRENT_ACTIONS C)) (t\<lparr>ps_drv := D\<rparr>)"
proof -
  let ?N = "MAX_CONCURRENT_ACTIONS C" and ?u = "t\<lparr>ps_drv := D\<rparr>"
  note S = pool_sys_okD [OF ok]
  note P = pool_okD [OF S(2)]
  have r: "remaining ?u = set as \<union> set ps \<union> ws" using S(5,6) by (auto simp: remaining_def)
  have all: "{..<?N} = set fs \<union> remaining ?u" unfolding r P(9) [symmetric] by auto
  have disj: "set fs \<inter> remaining ?u = {}" unfolding r using P(5,6) by auto
  have sub: "remaining ?u \<subseteq> {..<?N}" using all by blast
  have "card (set fs) + card (remaining ?u) = ?N"
    using card_Un_disjoint [OF _ _ disj] all finite_subset [OF sub] by (metis card_lessThan finite_lessThan List.finite_set)
  then have "length fs + card (remaining ?u) = ?N" using P(5) by (simp add: distinct_card)
  then have "n + of_nat (length fs) + of_nat (card (remaining ?u)) = n + of_nat ?N"
    by (metis add.assoc of_nat_add)
  moreover have "po_sync (g_ObjPool D ! i) \<noteq> None \<longleftrightarrow> i \<in> remaining ?u" if "i < ?N" for i
    using D(5) that all disj by (cases "i \<in> set fs") auto
  moreover have "po_sync (g_ObjPool D ! i) = Some True" if "i \<in> dom (ps_wait t)" for i
  proof -
    have "i \<in> remaining ?u" using that by (simp add: remaining_def)
    then have "i < ?N" "i \<notin> set fs" using sub disj by auto
    then show ?thesis using D(5) by simp
  qed
  moreover have "ps_own t \<inter> dom (ps_wait t) = {}" unfolding S(5,6) using P(5,6) by auto
  ultimately show ?thesis using D(1-4) sub unfolding stop_ok_def by simp
qed

text \<open>C31: Stopping the device frees everybody and deletes every sync object exactly once. In any state the
  pool reaches, when a stop begins and the owners have set their response pointers,
  \<open>_SlDrvReleaseAllActivePendingPoolObj\<close> returns 0. From then on, in whatever order the callers go
  on, every owner's release succeeds and every sleeper returns with the code for a stop; and once all
  of them have left, no object has a sync object any more, and the counter has gone up by the size of
  the pool.\<close>

theorem stop_deletes_every_object:
  assumes "pool_start C E s" and "steps (pool_step C) s t" and "stop_in_progress st"
    and "\<forall>i \<in> ps_own t. po_pRespArgs (g_ObjPool (ps_drv t) ! i) \<noteq> None"
    and "\<not> slcb_SocketTrigger C \<or> g_TriggerObjIdx (ps_drv t) = MAX_CONCURRENT_ACTIONS C"
  shows "\<exists>D. SlDrvReleaseAllActivePendingPoolObj C ((ps_drv t)\<lparr>g_status := st\<rparr>) = Some (0, D) \<and>
    (\<forall>u. steps (stop_step C) (t\<lparr>ps_drv := D\<rparr>) u \<longrightarrow>
      (\<forall>i \<in> ps_own u. \<exists>D'. SlDrvReleasePoolObj C i (ps_drv u) = Some (0, D')) \<and>
      (\<forall>i a sd. ps_wait u i = Some (a, sd) \<longrightarrow> (\<exists>D'. SlDrvWaitForPoolObj_woken C a sd i (ps_drv u) =
         Some (PW_return (SL_RET_CODE_STOP_IN_PROGRESS C), D'))) \<and>
      (ps_own u = {} \<and> ps_wait u = Map.empty \<longrightarrow>
        (\<forall>ob \<in> set (g_ObjPool (ps_drv u)). po_sync ob = None) \<and>
        g_NumOfDeletedSyncObj (ps_drv u) = g_NumOfDeletedSyncObj (ps_drv t) + of_nat (MAX_CONCURRENT_ACTIONS C)))"
proof -
  from assms(1,2) obtain fs as ps ws where ok: "pool_sys_ok C t fs as ps ws" by (rule pool_reachable_ok)
  note S = pool_sys_okD [OF ok]
  let ?D0 = "(ps_drv t)\<lparr>g_status := st\<rparr>" and ?k = "g_NumOfDeletedSyncObj (ps_drv t) + of_nat (MAX_CONCURRENT_ACTIONS C)"
  have "pool_ok C ?D0 fs as ps ws {}" using S(2) by (simp add: pool_ok_def)
  with release_all [of C ?D0 fs as ps ws] S(3,5) assms(4,5) obtain D where
    D: "SlDrvReleaseAllActivePendingPoolObj C ?D0 = Some (0, D)" "\<not> g_ProtectionLock D" "g_status D = st"
      "length (g_ObjPool D) = MAX_CONCURRENT_ACTIONS C"
      "g_NumOfDeletedSyncObj D = g_NumOfDeletedSyncObj (ps_drv t) + of_nat (length fs)"
      "\<forall>i < MAX_CONCURRENT_ACTIONS C. po_sync (g_ObjPool D ! i) = (if i \<in> set fs then None else Some True)"
    by auto
  have start: "stop_ok C ?k (t\<lparr>ps_drv := D\<rparr>)"
    using stop_starts [OF ok D(2) _ D(4-6)] D(3) assms(3) by simp
  have inv: "stop_ok C ?k u" if "steps (stop_step C) (t\<lparr>ps_drv := D\<rparr>) u" for u
    using stop_sys.reachable_inv [OF start that] .
  have "(\<forall>ob \<in> set (g_ObjPool (ps_drv u)). po_sync ob = None) \<and> g_NumOfDeletedSyncObj (ps_drv u) = ?k"
    if "stop_ok C ?k u" "ps_own u = {}" "ps_wait u = Map.empty" for u
  proof -
    note U = stop_okD [OF that(1)]
    have r: "remaining u = {}" using that(2,3) by (simp add: remaining_def)
    show ?thesis using U(1,6,8) unfolding r by (auto simp: in_set_conv_nth)
  qed
  then show ?thesis
    using D(1) inv stop_ok_release stop_ok_woken by blast
qed

text \<open>The example: the owner has set its response pointer when the stop begins.\<close>

definition example_stop :: pool_sys where
  "example_stop = example_busy\<lparr>ps_drv := set_obj 0 (\<lambda>ob. ob\<lparr>po_pRespArgs := Some 7\<rparr>) (ps_drv example_busy)\<rparr>"

lemma example_stop_reachable: "steps (pool_step example_drvcfg) example_sys example_stop"
  unfolding example_stop_def
  by (rule steps_step [OF example_busy_reachable ps_set_args]) (simp add: example_busy_def)

theorem stop_deletes_every_object_witness:
  "\<exists>D D1. SlDrvReleaseAllActivePendingPoolObj example_drvcfg
       ((ps_drv example_stop)\<lparr>g_status := no_status\<lparr>stop_in_progress := True\<rparr>\<rparr>) = Some (0, D) \<and>
     SlDrvReleasePoolObj example_drvcfg 0 D = Some (0, D1)"
proof -
  have "\<forall>i \<in> ps_own example_stop. po_pRespArgs (g_ObjPool (ps_drv example_stop) ! i) \<noteq> None"
    by (simp add: example_stop_def example_busy_def set_obj_def example_d2)
  with stop_deletes_every_object [OF example_pool_start example_stop_reachable,
      where st = "no_status\<lparr>stop_in_progress := True\<rparr>"] obtain D where
    D: "SlDrvReleaseAllActivePendingPoolObj example_drvcfg
       ((ps_drv example_stop)\<lparr>g_status := no_status\<lparr>stop_in_progress := True\<rparr>\<rparr>) = Some (0, D)"
    "\<forall>u. steps (stop_step example_drvcfg) (example_stop\<lparr>ps_drv := D\<rparr>) u \<longrightarrow>
      (\<forall>i \<in> ps_own u. \<exists>D'. SlDrvReleasePoolObj example_drvcfg i (ps_drv u) = Some (0, D'))" by auto
  have "0 \<in> ps_own example_stop" by (simp add: example_stop_def example_busy_def)
  with D(2) obtain D1 where "SlDrvReleasePoolObj example_drvcfg 0 D = Some (0, D1)"
    using steps_refl [of "stop_step example_drvcfg" "example_stop\<lparr>ps_drv := D\<rparr>"] by fastforce
  with D(1) show ?thesis by blast
qed

end
