(* ===== verification/Spec2Isabelle.thy ===== *)
theory Spec2Isabelle
  imports WifiTimer WifiProps3 WlanScenarios NetProps
    DrvPoolProps DrvTimeout DrvFlow DrvSilent DrvSync DrvReadProps DrvSpawn
    DrvPropagate DrvRoute DrvStop
begin

text \<open>
  A model of the WiFi stack of this repository, and the properties that make it correct.

  \<^bold>\<open>The program.\<close> Three layers sit on the SimpleLink SDK of a CC3220SF, and the repository
  holds the SDK's host driver as a fourth part. The connection
  manager \<open>src/slwificonn.c\<close> runs a thread that takes events from a queue and drives a state
  machine with eight states: it starts and stops the network processor, connects, waits for an
  address, runs provisioning, and backs off after fatal errors. The WLAN device
  \<open>src/drivers/network/wlan/cc3220sf/cc3220sf.c\<close> has a thread and a queue of its own; it
  starts the connection manager, listens to SimpleLink's events beside it, keeps 22 status bits, and
  serves firmware updates and HTTP requests. The network layer \<open>src/drivers/network/netdevice.c\<close>
  and its API \<open>network.c\<close> run the device's thread through a table of operations, pass its
  events to listeners and answer the application's questions. The host driver \<open>src/driver.c\<close>
  turns each SimpleLink call into a message to the network processor and waits for its answer: under one
  global lock it writes a command, reads messages until the response is there, keeps the events that come
  between in a list, and hands them to the spawn task of \<open>src/spawn.c\<close>; callers that wait for an
  event each take an object of a pool.

  \<^bold>\<open>The theories.\<close>
  \<^item> \<open>Prelude\<close>: what a step that may not return establishes (\<open>post\<close>), sequences of
    steps and invariants over them (locale \<open>transition_system\<close>), copies into a buffer.
  \<^item> \<open>MsgQueue\<close>: POSIX message queues and their contract (locale \<open>bounded_fifo\<close>).
  \<^item> \<open>WifiTypes\<close>, \<open>WifiOps\<close>, \<open>WifiSM\<close>, \<open>WifiApi\<close>: the connection
    manager from its context up to its API, event handlers and thread, in the order of the file.
    \<open>WifiInv\<close> shows what each operation keeps, \<open>WifiSystem\<close> that every handler moves
    along the automaton \<open>sm_next\<close>, and that the invariant \<open>mod_inv\<close> holds on all runs.
    \<open>WifiProps\<close>, \<open>WifiProps2\<close>, \<open>WifiProps3\<close>, \<open>WifiTimer\<close> hold its properties.
  \<^item> \<open>WlanTypes\<close>, \<open>WlanDev\<close>: the WLAN device; \<open>WlanInv\<close>, \<open>WlanProps\<close>,
    \<open>WlanScenarios\<close>: its invariant, the automaton \<open>cc_next\<close>, and its properties.
  \<^item> \<open>NetDevice\<close>, \<open>NetProps\<close>: the network layer with its threads and its API; the contract of a device
    as the locale \<open>netdev\<close>, interpreted on the WLAN device.
  \<^item> \<open>DrvTypes\<close>, \<open>DrvCtl\<close>: the driver's control block, its locks, the device status, fatal
    errors and the measuring of time. \<open>DrvPool\<close>: the object pool; \<open>DrvPoolInv\<close> its chains
    (the objects form a free, an active and a pending list without sharing), \<open>DrvPoolOps\<close> that each
    operation keeps them, \<open>DrvPoolSys\<close> the system of its callers, \<open>DrvPoolProps\<close> its properties,
    \<open>DrvRoute\<close> which caller an event finds, \<open>DrvStop\<close> what a stop of the device leaves.
  \<^item> \<open>DrvMsg\<close>, \<open>DrvRead\<close>, \<open>DrvEvents\<close>, \<open>DrvCmd\<close>: writing a message and
    reading a header, reading a message, the events and the spawn task, commands and data operations.
    \<open>DrvMsgProps\<close> shows what is on the wire, \<open>DrvSync\<close> what the search for the sync pattern finds,
    \<open>DrvReadProps\<close> what a response leaves, \<open>DrvLock\<close> and \<open>DrvSilent\<close> that a command gives
    the global lock back, answered or not, \<open>DrvFlow\<close> the flow control of data, \<open>DrvSpawn\<close> the
    order of events, \<open>DrvPropagate\<close> the event functions that offer an event to the registered handlers,
    \<open>DrvTimeout\<close> the wait loops; \<open>DrvExample\<close> holds the concrete driver the
    witnesses run on.

  \<^bold>\<open>Conventions.\<close> Integers keep their width (\<open>u8\<close>, \<open>u16\<close>, \<open>u32\<close>);
  results of SDK calls are \<open>int\<close>. A function that may block, fail an assertion, call through a
  NULL pointer or leave a buffer returns an option, and \<open>None\<close> is that it does not return
  properly. Each SDK call whose result matters is a function of the history of all calls before it
  (records \<open>sdk\<close> and \<open>devenv\<close>), so it may answer differently every time; nothing is
  assumed about it except where a theorem says so. Where a function releases its lock or sleeps, the
  other threads act: that is a parameter too (\<open>interference\<close>, \<open>others\<close>), about which the
  reachability theorems assume only that it consists of calls of the modelled operations
  (\<open>interf_api\<close>, \<open>others_ok\<close>). Loops that may not end are \<open>partial_function (option)\<close>.
  No fuel is used anywhere: that a loop returns is a theorem of its own.

  \<^bold>\<open>Conventions of the driver.\<close> The numbers of the SDK's headers, which are not part of the
  repository, are fields of the record \<open>drvcfg\<close>; the interface, the porting layer and the event
  handlers are fields of \<open>drvenv\<close>. A lock is a bit and is not recursive: taking it twice is
  \<open>None\<close>. \<open>_SL_PENDING_RX_MSG\<close> holds when the two counters of the interrupt handler differ;
  an empty event list is the NULL pointer. The model is of the build with dynamic memory
  (\<open>SL_MEMORY_MGMT_DYNAMIC\<close>) and threads.

  \<^bold>\<open>Not modelled.\<close> Logging; the constant tables of \<open>wlannet.c\<close>; the disabled statistics state of the device (\<open>#if 0\<close>);
  fields no code reads; the driver's branches for static memory and for a single thread.
\<close>

end
